(* ===== verification/JsPrelude.thy ===== *)
theory JsPrelude
  imports Complex_Main
begin

text \<open>
  The vocabulary every other theory of the library uses: JavaScript strings, nullable values,
  the array and set operations the frontend calls, and the lemma collections.

  A JavaScript string is a list of UTF-16 code units, each a natural number below 65536, so
  that \<open>length\<close> counts what \<open>.length\<close> counts and the Arabic texts of the interface
  can be written down.  ASCII literals are written \<open>js ''...''\<close>.  A value that may be
  \<open>null\<close> or \<open>undefined\<close> is an option where the code treats the two alike (\<open>==
  null\<close>, \<open>??\<close>, truthiness) and a \<open>field\<close> where it does not (a key that is left out
  of a request body against a key sent as \<open>null\<close>).
\<close>

named_theorems nullable_simps "evaluation rules for nullable values"

section \<open>Strings\<close>

type_synonym jstring = "nat list"

definition js :: "string \<Rightarrow> jstring" where
  "js s = map of_char s"

lemma js_Nil [simp]: "js [] = []"
  by (simp add: js_def)

lemma js_append: "js (s @ t) = js s @ js t"
  by (simp add: js_def)

lemma js_eq_Nil_iff [simp]: "js s = [] \<longleftrightarrow> s = []"
  by (simp add: js_def)

lemma length_js [simp]: "length (js s) = length s"
  by (simp add: js_def)

text \<open>WhiteSpace and LineTerminator of ECMAScript: what \<open>trim\<close> strips and \<open>\s\<close> matches.\<close>

definition is_space :: "nat \<Rightarrow> bool" where
  "is_space c \<longleftrightarrow> c = 32 \<or> (9 \<le> c \<and> c \<le> 13) \<or> c = 160 \<or> c = 5760 \<or> (8192 \<le> c \<and> c \<le> 8202)
     \<or> c = 8232 \<or> c = 8233 \<or> c = 8239 \<or> c = 8287 \<or> c = 12288 \<or> c = 65279"

definition is_digit :: "nat \<Rightarrow> bool" where
  "is_digit c \<longleftrightarrow> 48 \<le> c \<and> c \<le> 57"

definition is_alpha :: "nat \<Rightarrow> bool" where
  "is_alpha c \<longleftrightarrow> (65 \<le> c \<and> c \<le> 90) \<or> (97 \<le> c \<and> c \<le> 122)"

definition is_hex_digit :: "nat \<Rightarrow> bool" where
  "is_hex_digit c \<longleftrightarrow> is_digit c \<or> (65 \<le> c \<and> c \<le> 70) \<or> (97 \<le> c \<and> c \<le> 102)"

definition trim_start :: "jstring \<Rightarrow> jstring" where
  "trim_start s = dropWhile is_space s"

definition trim_end :: "jstring \<Rightarrow> jstring" where
  "trim_end s = rev (dropWhile is_space (rev s))"

definition trim :: "jstring \<Rightarrow> jstring" where
  "trim s = trim_end (trim_start s)"

text \<open>Lower-casing restricted to the ASCII letters; the comparisons that use it are against
  ASCII words none of whose letters is the image of a non-ASCII letter.\<close>

definition ascii_lower :: "jstring \<Rightarrow> jstring" where
  "ascii_lower s = map (\<lambda>c. if 65 \<le> c \<and> c \<le> 90 then c + 32 else c) s"

definition ascii_upper :: "jstring \<Rightarrow> jstring" where
  "ascii_upper s = map (\<lambda>c. if 97 \<le> c \<and> c \<le> 122 then c - 32 else c) s"

fun starts_with :: "'a list \<Rightarrow> 'a list \<Rightarrow> bool" where
  "starts_with [] s = True"
| "starts_with (p # ps) [] = False"
| "starts_with (p # ps) (c # cs) = (p = c \<and> starts_with ps cs)"

fun includes_sub :: "'a list \<Rightarrow> 'a list \<Rightarrow> bool" where
  "includes_sub q [] = (q = [])"
| "includes_sub q (c # cs) = (starts_with q (c # cs) \<or> includes_sub q cs)"

fun join :: "'a list \<Rightarrow> 'a list list \<Rightarrow> 'a list" where
  "join sep [] = []"
| "join sep [x] = x"
| "join sep (x # y # ys) = x @ sep @ join sep (y # ys)"

text \<open>\<open>s.split(c)\<close> for a separator of one code unit.\<close>

fun split_on :: "'a \<Rightarrow> 'a list \<Rightarrow> 'a list list" where
  "split_on c [] = [[]]"
| "split_on c (x # xs) =
     (if x = c then [] # split_on c xs
      else (case split_on c xs of [] \<Rightarrow> [[x]] | y # ys \<Rightarrow> (x # y) # ys))"

text \<open>\<open>String(n)\<close> of a natural number.\<close>

fun decimal :: "nat \<Rightarrow> jstring" where
  "decimal n = (if n < 10 then [48 + n] else decimal (n div 10) @ [48 + n mod 10])"

declare decimal.simps [simp del]

lemma is_digit_add: "m < 10 \<Longrightarrow> is_digit (48 + m)"
  by (simp add: is_digit_def)

lemma decimal_digits: "decimal n \<noteq> [] \<and> list_all is_digit (decimal n)"
proof (induction n rule: decimal.induct)
  case (1 n)
  show ?case
  proof (cases "n < 10")
    case True
    then show ?thesis by (simp add: decimal.simps [of n] is_digit_add)
  next
    case False
    then show ?thesis using 1 by (simp add: decimal.simps [of n] is_digit_add)
  qed
qed

lemma starts_with_iff: "starts_with p s \<longleftrightarrow> (\<exists>r. s = p @ r)"
  by (induction p s rule: starts_with.induct) auto

lemma starts_with_append [simp]: "starts_with p (p @ s)"
  by (simp add: starts_with_iff)

lemma includes_sub_iff: "includes_sub q s \<longleftrightarrow> (\<exists>a b. s = a @ q @ b)"
proof (induction s)
  case Nil
  then show ?case by auto
next
  case (Cons c cs)
  show ?case
  proof
    assume "includes_sub q (c # cs)"
    then show "\<exists>a b. c # cs = a @ q @ b"
      by (auto simp: starts_with_iff Cons.IH) (metis append_Nil, metis append_Cons)
  next
    assume "\<exists>a b. c # cs = a @ q @ b"
    then obtain a b where ab: "c # cs = a @ q @ b" by blast
    show "includes_sub q (c # cs)"
    proof (cases a)
      case Nil
      with ab have "starts_with q (c # cs)" by (auto simp: starts_with_iff)
      then show ?thesis by simp
    next
      case (Cons d ds)
      with ab have "cs = ds @ q @ b" by simp
      then show ?thesis using Cons.IH by auto
    qed
  qed
qed

lemma split_on_neq_Nil [simp]: "split_on c s \<noteq> []"
  by (induction s) (auto split: list.splits)

lemma split_on_no_sep: "c \<notin> set s \<Longrightarrow> split_on c s = [s]"
  by (induction s) auto

lemma split_on_append: "c \<notin> set p \<Longrightarrow> split_on c (p @ c # s) = p # split_on c s"
  by (induction p) auto

lemma split_on_pieces: "p \<in> set (split_on c s) \<Longrightarrow> c \<notin> set p"
proof (induction s arbitrary: p)
  case Nil
  then show ?case by simp
next
  case (Cons x xs)
  obtain y ys where ys: "split_on c xs = y # ys" by (cases "split_on c xs") auto
  with Cons.IH have "c \<notin> set y" and "\<And>q. q \<in> set ys \<Longrightarrow> c \<notin> set q" by auto
  with Cons.prems ys show ?case by (auto split: if_splits)
qed

text \<open>Splitting undoes joining when no piece holds the separator, and joining undoes splitting.\<close>

lemma split_on_join:
  "xs \<noteq> [] \<Longrightarrow> \<forall>x \<in> set xs. c \<notin> set x \<Longrightarrow> split_on c (join [c] xs) = xs"
  by (induction "[c]" xs rule: join.induct) (auto simp: split_on_no_sep split_on_append)

lemma join_split_on: "join [c] (split_on c s) = s"
proof (induction s)
  case Nil
  then show ?case by simp
next
  case (Cons x xs)
  obtain y ys where "split_on c xs = y # ys" by (cases "split_on c xs") auto
  with Cons show ?case by (cases ys) auto
qed

lemma trim_end_append_nonspace: "\<not> is_space c \<Longrightarrow> trim_end (s @ [c]) = s @ [c]"
  by (simp add: trim_end_def)

lemma trim_start_hd: "trim_start s = c # cs \<Longrightarrow> \<not> is_space c"
  unfolding trim_start_def by (metis dropWhile_eq_Cons_conv)

lemma trim_start_idem [simp]: "trim_start (trim_start s) = trim_start s"
  by (simp add: trim_start_def)

lemma trim_end_idem [simp]: "trim_end (trim_end s) = trim_end s"
  by (simp add: trim_end_def)

lemma trim_end_Cons_nonspace: "\<not> is_space c \<Longrightarrow> trim_end (c # s) = c # trim_end s"
  by (simp add: trim_end_def dropWhile_append)

lemma trim_eq_Nil_iff: "trim s = [] \<longleftrightarrow> (\<forall>c \<in> set s. is_space c)"
proof (cases "trim_start s")
  case Nil
  then show ?thesis
    unfolding trim_def by (simp add: trim_end_def) (simp add: trim_start_def dropWhile_eq_Nil_conv)
next
  case (Cons c cs)
  then have nsp: "\<not> is_space c" by (rule trim_start_hd)
  have "c \<in> set s"
    using Cons set_dropWhileD [of c is_space s] by (simp add: trim_start_def)
  with nsp Cons show ?thesis by (auto simp: trim_def trim_end_Cons_nonspace)
qed

lemma trim_idem [simp]: "trim (trim s) = trim s"
proof (cases "trim_start s")
  case Nil
  then have t: "trim s = []" by (simp add: trim_def trim_end_def)
  have "trim [] = []" by (simp add: trim_def trim_end_def trim_start_def)
  then show ?thesis by (simp only: t)
next
  case (Cons c cs)
  then have nsp: "\<not> is_space c" by (rule trim_start_hd)
  with Cons have "trim s = c # trim_end cs"
    by (simp add: trim_def trim_end_Cons_nonspace)
  moreover from nsp have "trim (c # trim_end cs) = c # trim_end cs"
    by (simp add: trim_def trim_start_def trim_end_Cons_nonspace)
  ultimately show ?thesis by simp
qed

lemma trim_no_space: "\<forall>c \<in> set s. \<not> is_space c \<Longrightarrow> trim s = s"
proof -
  assume "\<forall>c \<in> set s. \<not> is_space c"
  then have "dropWhile is_space s = s" and "dropWhile is_space (rev s) = rev s"
    by (cases s, simp_all) (cases "rev s"; auto simp: dropWhile_eq_self_iff rev_eq_Cons_iff)
  then show ?thesis by (simp add: trim_def trim_start_def trim_end_def)
qed

section \<open>Nullable values\<close>

text \<open>\<open>Boolean(s)\<close> of a string that may be missing.\<close>

definition truthy :: "jstring option \<Rightarrow> bool" where
  [nullable_simps]: "truthy v = (case v of None \<Rightarrow> False | Some s \<Rightarrow> s \<noteq> [])"

text \<open>\<open>a ?? b\<close>, with a nullable and with a present right-hand side.\<close>

definition nullish :: "'a option \<Rightarrow> 'a option \<Rightarrow> 'a option" where
  [nullable_simps]: "nullish a b = (case a of None \<Rightarrow> b | Some x \<Rightarrow> Some x)"

definition or_default :: "'a option \<Rightarrow> 'a \<Rightarrow> 'a" where
  [nullable_simps]: "or_default a d = (case a of None \<Rightarrow> d | Some x \<Rightarrow> x)"

text \<open>\<open>s || undefined\<close>: a falsy string becomes a missing one.\<close>

definition truthy_or_none :: "jstring option \<Rightarrow> jstring option" where
  [nullable_simps]: "truthy_or_none v = (if truthy v then v else None)"

datatype 'a field = Absent | NullValue | Given 'a

lemma truthy_Some [simp]: "truthy (Some s) \<longleftrightarrow> s \<noteq> []"
  by (simp add: truthy_def)

lemma truthy_None [simp]: "\<not> truthy None"
  by (simp add: truthy_def)

lemma nullish_Some [simp]: "nullish (Some x) b = Some x"
  by (simp add: nullish_def)

lemma nullish_None [simp]: "nullish None b = b"
  by (simp add: nullish_def)

lemma or_default_Some [simp]: "or_default (Some x) d = x"
  by (simp add: or_default_def)

lemma or_default_None [simp]: "or_default None d = d"
  by (simp add: or_default_def)

section \<open>Arrays and sets\<close>

text \<open>\<open>Array.from(new Set(xs))\<close>: the first occurrence of each element, in order.\<close>

fun unique_from :: "'a list \<Rightarrow> 'a list \<Rightarrow> 'a list" where
  "unique_from seen [] = []"
| "unique_from seen (x # xs) =
     (if x \<in> set seen then unique_from seen xs else x # unique_from (x # seen) xs)"

definition unique :: "'a list \<Rightarrow> 'a list" where
  "unique xs = unique_from [] xs"

text \<open>\<open>xs.slice(a, b)\<close> for indices that are not negative.\<close>

definition slice :: "nat \<Rightarrow> nat \<Rightarrow> 'a list \<Rightarrow> 'a list" where
  "slice a b xs = take (b - a) (drop a xs)"

text \<open>\<open>xs.findIndex(p)\<close>, with \<open>None\<close> for the result -1.\<close>

fun find_index :: "('a \<Rightarrow> bool) \<Rightarrow> 'a list \<Rightarrow> nat option" where
  "find_index p [] = None"
| "find_index p (x # xs) = (if p x then Some 0 else map_option Suc (find_index p xs))"

lemma unique_from_cong: "set seen = set seen' \<Longrightarrow> unique_from seen xs = unique_from seen' xs"
proof (induction xs arbitrary: seen seen')
  case (Cons x xs)
  from Cons.prems have "set (x # seen) = set (x # seen')" by simp
  from Cons.IH [OF this] Cons.IH [OF Cons.prems] Cons.prems show ?case by simp
qed simp

lemma set_unique_from: "set (unique_from seen xs) = set xs - set seen"
  by (induction seen xs rule: unique_from.induct) auto

lemma set_unique [simp]: "set (unique xs) = set xs"
  by (simp add: unique_def set_unique_from)

lemma distinct_unique_from: "distinct (unique_from seen xs)"
  by (induction seen xs rule: unique_from.induct) (auto simp: set_unique_from)

lemma distinct_unique [simp]: "distinct (unique xs)"
  by (simp add: unique_def distinct_unique_from)

lemma unique_from_distinct:
  "distinct xs \<Longrightarrow> set xs \<inter> set seen = {} \<Longrightarrow> unique_from seen xs = xs"
  by (induction seen xs rule: unique_from.induct) auto

lemma unique_of_distinct [simp]: "distinct xs \<Longrightarrow> unique xs = xs"
  by (simp add: unique_def unique_from_distinct)

lemma unique_Nil [simp]: "unique [] = []"
  by (simp add: unique_def)

lemma set_slice_subset: "set (slice a b xs) \<subseteq> set xs"
  unfolding slice_def by (meson order_trans set_drop_subset set_take_subset)

lemma length_slice: "length (slice a b xs) = min (b - a) (length xs - a)"
  by (simp add: slice_def min.commute)

lemma find_index_Some:
  "find_index p xs = Some i \<Longrightarrow> i < length xs \<and> p (xs ! i) \<and> (\<forall>j < i. \<not> p (xs ! j))"
  by (induction xs arbitrary: i) (auto split: if_splits simp: less_Suc_eq_0_disj nth_Cons')

lemma find_index_None: "find_index p xs = None \<longleftrightarrow> (\<forall>x \<in> set xs. \<not> p x)"
  by (induction xs) auto

lemma find_Some_prop: "List.find p xs = Some x \<Longrightarrow> p x \<and> x \<in> set xs"
  by (induction xs) (auto split: if_splits)

text \<open>Updating one place of a list.\<close>

lemma list_all_update: "list_all P xs \<Longrightarrow> P x \<Longrightarrow> list_all P (xs[i := x])"
  by (auto simp: list_all_iff dest: set_update_subset_insert [THEN subsetD])

lemma filter_update_split:
  assumes "i < length xs"
  shows "length (filter P (xs[i := x])) + (if P (xs ! i) then 1 else 0) =
    length (filter P xs) + (if P x then 1 else 0)"
proof -
  have "xs[i := x] = take i xs @ x # drop (Suc i) xs" using assms by (rule upd_conv_take_nth_drop)
  moreover have "length (filter P xs) = length (filter P (take i xs @ xs ! i # drop (Suc i) xs))"
    using assms by (simp flip: id_take_nth_drop)
  ultimately show ?thesis by simp
qed

lemma sum_list_update_split:
  fixes f :: "'a \<Rightarrow> nat"
  assumes "i < length xs"
  shows "sum_list (map f (xs[i := x])) + f (xs ! i) = sum_list (map f xs) + f x"
proof -
  have "xs[i := x] = take i xs @ x # drop (Suc i) xs" using assms by (rule upd_conv_take_nth_drop)
  moreover have "sum_list (map f xs) = sum_list (map f (take i xs @ xs ! i # drop (Suc i) xs))"
    using assms by (simp flip: id_take_nth_drop)
  ultimately show ?thesis by simp
qed

end
