(* ===== verification/JsNumber.thy ===== *)
theory JsNumber
  imports JsPrelude "HOL-Library.Multiset"
begin

text \<open>
  JavaScript numbers.  A number is \<open>NaN\<close>, an infinity or a finite value, and a finite
  value is kept as an exact rational: the rounding of binary64 arithmetic is not modelled, the
  overflow to an infinity when a literal is read is.  The theory holds the comparison and
  subtraction operators the code applies to numbers, \<open>Number(string)\<close> (StringToNumber of
  ECMAScript), \<open>Number.parseInt(string, 10)\<close>, \<open>Math.round\<close>, and
  \<open>Array.prototype.sort\<close> with a comparator, which is stable and reads \<open>NaN\<close> as 0.
\<close>

section \<open>Values and operators\<close>

datatype jsnum = NaN | PInf | NInf | Num rat

definition is_finite :: "jsnum \<Rightarrow> bool" where
  "is_finite v = (case v of Num _ \<Rightarrow> True | _ \<Rightarrow> False)"

fun num_minus :: "jsnum \<Rightarrow> jsnum \<Rightarrow> jsnum" where
  "num_minus (Num a) (Num b) = Num (a - b)"
| "num_minus NaN b = NaN"
| "num_minus a NaN = NaN"
| "num_minus PInf PInf = NaN"
| "num_minus PInf b = PInf"
| "num_minus NInf NInf = NaN"
| "num_minus NInf b = NInf"
| "num_minus (Num a) PInf = NInf"
| "num_minus (Num a) NInf = PInf"

fun num_less :: "jsnum \<Rightarrow> jsnum \<Rightarrow> bool" where
  "num_less (Num a) (Num b) = (a < b)"
| "num_less NaN b = False"
| "num_less a NaN = False"
| "num_less a NInf = False"
| "num_less NInf b = True"
| "num_less PInf b = False"
| "num_less (Num a) PInf = True"

fun num_ge :: "jsnum \<Rightarrow> jsnum \<Rightarrow> bool" where
  "num_ge (Num a) (Num b) = (b \<le> a)"
| "num_ge NaN b = False"
| "num_ge a NaN = False"
| "num_ge PInf b = True"
| "num_ge a NInf = True"
| "num_ge (Num a) PInf = False"
| "num_ge NInf b = False"

lemma is_finite_Num [simp]: "is_finite (Num q)"
  by (simp add: is_finite_def)

lemma is_finite_iff: "is_finite v \<longleftrightarrow> (\<exists>q. v = Num q)"
  by (cases v) (auto simp: is_finite_def)

text \<open>\<open>Math.round\<close>: the nearest integer, halves upwards.\<close>

definition math_round :: "rat \<Rightarrow> int" where
  "math_round q = \<lfloor>q + 1 / 2\<rfloor>"

lemma math_round_mono: "a \<le> b \<Longrightarrow> math_round a \<le> math_round b"
  unfolding math_round_def by (rule floor_mono) simp

lemma math_round_of_int [simp]: "math_round (of_int n) = n"
proof -
  have "\<lfloor>(of_int n :: rat) + 1 / 2\<rfloor> = n" by (rule floor_unique) simp_all
  then show ?thesis by (simp add: math_round_def)
qed

lemma math_round_ge: "of_int n \<le> q \<Longrightarrow> n \<le> math_round q"
  using math_round_mono [of "of_int n" q] by simp

lemma math_round_le: "q \<le> of_int n \<Longrightarrow> math_round q \<le> n"
  using math_round_mono [of q "of_int n"] by simp

section \<open>Reading numbers\<close>

definition digits_value :: "nat \<Rightarrow> (nat \<Rightarrow> nat) \<Rightarrow> jstring \<Rightarrow> nat" where
  "digits_value base dig s = foldl (\<lambda>acc c. acc * base + dig c) 0 s"

definition dec_digit :: "nat \<Rightarrow> nat" where
  "dec_digit c = c - 48"

definition hex_digit_value :: "nat \<Rightarrow> nat" where
  "hex_digit_value c =
     (if is_digit c then c - 48 else if 97 \<le> c then c - 87 else c - 55)"

text \<open>The optional sign of a decimal literal: 43 is \<open>+\<close>, 45 is \<open>-\<close>.\<close>

definition split_sign :: "jstring \<Rightarrow> bool \<times> jstring" where
  "split_sign s = (case s of
       [] \<Rightarrow> (False, [])
     | c # cs \<Rightarrow> if c = 45 then (True, cs) else if c = 43 then (False, cs) else (False, s))"

text \<open>\<open>Number.parseInt(s, 10)\<close>: leading white space, a sign, then as many digits as there are.\<close>

definition parse_int :: "jstring \<Rightarrow> int option" where
  "parse_int s =
     (let (neg, rest) = split_sign (trim_start s);
          ds = takeWhile is_digit rest;
          v = int (digits_value 10 dec_digit ds)
      in if ds = [] then None else Some (if neg then - v else v))"

text \<open>A finite literal at or above this bound is read as an infinity in binary64.\<close>

definition double_limit :: rat where
  "double_limit = 2 ^ 1024 - 2 ^ 970"

definition read_finite :: "rat \<Rightarrow> jsnum" where
  "read_finite q =
     (if double_limit \<le> q then PInf else if q \<le> - double_limit then NInf else Num q)"

definition scale10 :: "rat \<Rightarrow> int \<Rightarrow> rat" where
  "scale10 m e = (if 0 \<le> e then m * 10 ^ nat e else m / 10 ^ nat (- e))"

text \<open>The exponent part: nothing, or \<open>e\<close>/\<open>E\<close>, an optional sign and at least one digit.\<close>

definition parse_exponent :: "jstring \<Rightarrow> int option" where
  "parse_exponent s = (case s of
       [] \<Rightarrow> Some 0
     | c # cs \<Rightarrow>
         (if c = 101 \<or> c = 69 then
            (let (neg, ds) = split_sign cs
             in if ds \<noteq> [] \<and> list_all is_digit ds
                then Some (let v = int (digits_value 10 dec_digit ds) in if neg then - v else v)
                else None)
          else None))"

text \<open>An unsigned decimal literal: digits, an optional point with digits, an exponent; at least
  one digit before or after the point.\<close>

definition parse_unsigned_decimal :: "jstring \<Rightarrow> rat option" where
  "parse_unsigned_decimal s =
     (let ip = takeWhile is_digit s;
          r1 = dropWhile is_digit s;
          (fp, r2) = (case r1 of
                        c # cs \<Rightarrow> if c = 46 then (takeWhile is_digit cs, dropWhile is_digit cs)
                                   else ([], r1)
                      | [] \<Rightarrow> ([], []))
      in if ip = [] \<and> fp = [] then None
         else (case parse_exponent r2 of
                 None \<Rightarrow> None
               | Some e \<Rightarrow>
                   Some (scale10 (of_nat (digits_value 10 dec_digit (ip @ fp)))
                                 (e - int (length fp)))))"

definition parse_radix :: "nat \<Rightarrow> (nat \<Rightarrow> bool) \<Rightarrow> jstring \<Rightarrow> jsnum" where
  "parse_radix base ok ds =
     (if ds \<noteq> [] \<and> list_all ok ds
      then read_finite (of_nat (digits_value base hex_digit_value ds)) else NaN)"

definition parse_decimal :: "jstring \<Rightarrow> jsnum" where
  "parse_decimal t =
     (let (neg, u) = split_sign t
      in if u = js ''Infinity'' then (if neg then NInf else PInf)
         else (case parse_unsigned_decimal u of
                 None \<Rightarrow> NaN
               | Some q \<Rightarrow> read_finite (if neg then - q else q)))"

text \<open>\<open>Number(s)\<close>: white space around the literal is ignored, the empty literal is 0, a
  prefix \<open>0x\<close>, \<open>0o\<close> or \<open>0b\<close> selects another radix and takes no sign.\<close>

definition string_to_number :: "jstring \<Rightarrow> jsnum" where
  "string_to_number s =
     (let t = trim s in
      if t = [] then Num 0
      else if starts_with (js ''0x'') t \<or> starts_with (js ''0X'') t
        then parse_radix 16 is_hex_digit (drop 2 t)
      else if starts_with (js ''0o'') t \<or> starts_with (js ''0O'') t
        then parse_radix 8 (\<lambda>c. 48 \<le> c \<and> c \<le> 55) (drop 2 t)
      else if starts_with (js ''0b'') t \<or> starts_with (js ''0B'') t
        then parse_radix 2 (\<lambda>c. c = 48 \<or> c = 49) (drop 2 t)
      else parse_decimal t)"

section \<open>Sorting\<close>

text \<open>The value of a comparator counts as positive only when it is; \<open>NaN\<close> is read as 0.\<close>

definition num_positive :: "jsnum \<Rightarrow> bool" where
  "num_positive v = num_less (Num 0) v"

fun insert_by :: "('a \<Rightarrow> 'a \<Rightarrow> jsnum) \<Rightarrow> 'a \<Rightarrow> 'a list \<Rightarrow> 'a list" where
  "insert_by cmp x [] = [x]"
| "insert_by cmp x (y # ys) =
     (if num_positive (cmp x y) then y # insert_by cmp x ys else x # y # ys)"

definition sort_by :: "('a \<Rightarrow> 'a \<Rightarrow> jsnum) \<Rightarrow> 'a list \<Rightarrow> 'a list" where
  "sort_by cmp xs = foldr (insert_by cmp) xs []"

lemma mset_insert_by: "mset (insert_by cmp x ys) = add_mset x (mset ys)"
  by (induction ys) auto

lemma mset_sort_by: "mset (sort_by cmp xs) = mset xs"
  by (induction xs) (auto simp: sort_by_def mset_insert_by)

lemma set_sort_by [simp]: "set (sort_by cmp xs) = set xs"
  by (metis mset_sort_by set_mset_mset)

lemma length_sort_by [simp]: "length (sort_by cmp xs) = length xs"
  by (metis mset_sort_by size_mset)

lemma distinct_sort_by [simp]: "distinct (sort_by cmp xs) = distinct xs"
  by (metis mset_sort_by mset_eq_imp_distinct_iff)

text \<open>
  The contract of a comparator: on the elements of interest its sign is that of the difference
  of a key.  Then the sort is the library's stable sort by that key.
\<close>

locale keyed_comparator =
  fixes cmp :: "'a \<Rightarrow> 'a \<Rightarrow> jsnum"
    and key :: "'a \<Rightarrow> 'k::linorder"
    and ok :: "'a \<Rightarrow> bool"
  assumes positive_iff: "ok x \<Longrightarrow> ok y \<Longrightarrow> num_positive (cmp x y) \<longleftrightarrow> key y < key x"
begin

lemma insert_by_eq:
  "ok x \<Longrightarrow> list_all ok ys \<Longrightarrow> insert_by cmp x ys = insort_key key x ys"
  by (induction ys) (auto simp: positive_iff not_less)

lemma sort_by_eq: "list_all ok xs \<Longrightarrow> sort_by cmp xs = sort_key key xs"
proof (induction xs)
  case Nil
  then show ?case by (simp add: sort_by_def)
next
  case (Cons x xs)
  then have "list_all ok (sort_key key xs)" by (auto simp: list_all_iff)
  with Cons show ?case by (simp add: sort_by_def insert_by_eq)
qed

lemma sort_by_sorted: "list_all ok xs \<Longrightarrow> sorted (map key (sort_by cmp xs))"
  by (simp add: sort_by_eq)

lemma sort_by_stable:
  "list_all ok xs \<Longrightarrow>
     filter (\<lambda>x. key x = k) (sort_by cmp xs) = filter (\<lambda>x. key x = k) xs"
  by (simp add: sort_by_eq sort_key_stable)

end

text \<open>The two comparators the code writes by subtraction.\<close>

lemma num_positive_minus: "num_positive (num_minus (Num a) (Num b)) \<longleftrightarrow> b < a"
  by (simp add: num_positive_def)

end
