(* ===== verification/Host.thy ===== *)
theory Host
  imports JsNumber
begin

text \<open>
  What the frontend asks of the machine it runs on: the clock and the time zone, the parsing of
  dates, and lower-casing in the user's locale.  \<open>Date.parse\<close> is modelled for the date-time
  string format of ECMAScript; a string that is not in that format is handed to
  \<open>parse_other\<close>, since its meaning is the engine's.  Times are milliseconds since 1970 UTC.
\<close>

record host =
  now :: int
  utc_offset :: "int \<Rightarrow> int"
  utc_of_local :: "int \<Rightarrow> int"
  parse_other :: "jstring \<Rightarrow> jsnum"
  lower :: "jstring \<Rightarrow> jstring"
  format_day :: "int \<Rightarrow> jstring"
  format_time :: "int \<Rightarrow> jstring"

section \<open>Calendar\<close>

definition leap_year :: "int \<Rightarrow> bool" where
  "leap_year y \<longleftrightarrow> y mod 4 = 0 \<and> (y mod 100 \<noteq> 0 \<or> y mod 400 = 0)"

definition days_in_month :: "int \<Rightarrow> int \<Rightarrow> int" where
  "days_in_month y m =
     (if m = 2 then (if leap_year y then 29 else 28)
      else if m \<in> {4, 6, 9, 11} then 30 else 31)"

text \<open>Days before the first of January of a year, counted from 1970.\<close>

definition day_from_year :: "int \<Rightarrow> int" where
  "day_from_year y =
     365 * (y - 1970) + (y - 1969) div 4 - (y - 1901) div 100 + (y - 1601) div 400"

fun days_before_month :: "int \<Rightarrow> nat \<Rightarrow> int" where
  "days_before_month y 0 = 0"
| "days_before_month y (Suc m) = days_before_month y m + days_in_month y (int m + 1)"

definition day_number :: "int \<Rightarrow> int \<Rightarrow> int \<Rightarrow> int" where
  "day_number y m d = day_from_year y + days_before_month y (nat (m - 1)) + d - 1"

definition ms_per_day :: int where
  "ms_per_day = 86400000"

lemma day_from_year_samples:
  "day_from_year 1900 = -25567" "day_from_year 2000 = 10957" "day_from_year 2025 = 20089"
  by (simp_all add: day_from_year_def)

section \<open>The date-time string format\<close>

definition digits :: "nat \<Rightarrow> jstring \<Rightarrow> (int \<times> jstring) option" where
  "digits n s =
     (let ds = take n s in
      if length ds = n \<and> list_all is_digit ds
      then Some (int (foldl (\<lambda>acc c. acc * 10 + (c - 48)) 0 ds), drop n s) else None)"

definition expect :: "nat \<Rightarrow> jstring \<Rightarrow> jstring option" where
  "expect c s = (case s of x # xs \<Rightarrow> if x = c then Some xs else None | [] \<Rightarrow> None)"

text \<open>The zone: \<open>Z\<close>, an offset, or nothing (local time for a date with a time).\<close>

datatype zone = Utc | Offset int | LocalZone

definition parse_zone :: "jstring \<Rightarrow> zone option" where
  "parse_zone s = (case s of
     [] \<Rightarrow> Some LocalZone
   | c # r \<Rightarrow>
       if c = 90 then (if r = [] then Some Utc else None)
       else if c = 43 \<or> c = 45 then
         Option.bind (digits 2 r) (\<lambda>(hh, r1).
         Option.bind (expect 58 r1) (\<lambda>r2.
         Option.bind (digits 2 r2) (\<lambda>(mm, r3).
           if r3 = [] \<and> hh < 24 \<and> mm < 60
           then Some (Offset ((if c = 45 then -1 else 1) * (hh * 60 + mm) * 60000)) else None)))
       else None)"

definition parse_seconds :: "jstring \<Rightarrow> (int \<times> jstring) option" where
  "parse_seconds s = (case expect 58 s of
     None \<Rightarrow> Some (0, s)
   | Some r \<Rightarrow>
       Option.bind (digits 2 r) (\<lambda>(sec, r1).
         (case expect 46 r1 of
            None \<Rightarrow> Some (sec * 1000, r1)
          | Some r2 \<Rightarrow>
              Option.bind (digits 3 r2) (\<lambda>(ms, r3). Some (sec * 1000 + ms, r3)))))"

text \<open>Milliseconds into the day, and the zone.\<close>

definition parse_time :: "jstring \<Rightarrow> (int \<times> zone) option" where
  "parse_time s =
     Option.bind (digits 2 s) (\<lambda>(hh, r1).
     Option.bind (expect 58 r1) (\<lambda>r2.
     Option.bind (digits 2 r2) (\<lambda>(mm, r3).
     Option.bind (parse_seconds r3) (\<lambda>(ms, r4).
     Option.bind (parse_zone r4) (\<lambda>z.
       let t = (hh * 60 + mm) * 60000 + ms in
       if (hh < 24 \<and> mm < 60 \<and> ms < 60000) \<or> (hh = 24 \<and> mm = 0 \<and> ms = 0)
       then Some (t, z) else None)))))"

text \<open>A year, a month, a day and what follows; a date without a time is in UTC.\<close>

definition on_date :: "int \<Rightarrow> int \<Rightarrow> int \<Rightarrow> jstring \<Rightarrow> (int \<times> zone) option" where
  "on_date y m d rest =
     (if 1 \<le> m \<and> m \<le> 12 \<and> 1 \<le> d \<and> d \<le> days_in_month y m
      then let base = day_number y m d * ms_per_day in
        (if rest = [] then Some (base, Utc)
         else Option.bind (expect 84 rest) (\<lambda>r.
              Option.bind (parse_time r) (\<lambda>(t, z). Some (base + t, z))))
      else None)"

definition parse_iso :: "jstring \<Rightarrow> (int \<times> zone) option" where
  "parse_iso s =
     Option.bind (digits 4 s) (\<lambda>(y, r1).
       (case expect 45 r1 of
          None \<Rightarrow> on_date y 1 1 r1
        | Some r2 \<Rightarrow>
            Option.bind (digits 2 r2) (\<lambda>(m, r3).
              (case expect 45 r3 of
                 None \<Rightarrow> on_date y m 1 r3
               | Some r4 \<Rightarrow> Option.bind (digits 2 r4) (\<lambda>(d, r5). on_date y m d r5)))))"

definition date_parse :: "host \<Rightarrow> jstring \<Rightarrow> jsnum" where
  "date_parse h s = (case parse_iso s of
     Some (t, Utc) \<Rightarrow> Num (of_int t)
   | Some (t, Offset ms) \<Rightarrow> Num (of_int (t - ms))
   | Some (t, LocalZone) \<Rightarrow> Num (of_int (utc_of_local h t))
   | None \<Rightarrow> parse_other h s)"

section \<open>Local days\<close>

text \<open>\<open>getFullYear\<close>, \<open>getMonth\<close> and \<open>getDate\<close> together are the number of the local day: two
  valid dates agree on all three exactly when they are in the same local day, and an invalid
  date, whose fields are NaN, agrees with none.\<close>

definition local_time :: "host \<Rightarrow> int \<Rightarrow> int" where
  "local_time h t = t + utc_offset h t"

definition local_day :: "host \<Rightarrow> int \<Rightarrow> int" where
  "local_day h t = local_time h t div ms_per_day"

definition same_local_day :: "host \<Rightarrow> jsnum \<Rightarrow> jsnum \<Rightarrow> bool" where
  "same_local_day h a b = (case (a, b) of
     (Num x, Num y) \<Rightarrow> local_day h \<lfloor>x\<rfloor> = local_day h \<lfloor>y\<rfloor>
   | _ \<Rightarrow> False)"

text \<open>The local calendar moved by whole days or set to a time of the day.\<close>

definition add_local_ms :: "host \<Rightarrow> int \<Rightarrow> int \<Rightarrow> int" where
  "add_local_ms h d t = utc_of_local h (local_time h t + d)"

definition at_local_hour :: "host \<Rightarrow> int \<Rightarrow> int \<Rightarrow> int" where
  "at_local_hour h hour t = utc_of_local h (local_day h t * ms_per_day + hour * 3600000)"

text \<open>A host in UTC, for evaluation.\<close>

definition utc_host :: "int \<Rightarrow> host" where
  "utc_host t =
     \<lparr>now = t, utc_offset = (\<lambda>_. 0), utc_of_local = (\<lambda>l. l), parse_other = (\<lambda>_. NaN),
      lower = ascii_lower, format_day = (\<lambda>_. []), format_time = (\<lambda>_. [])\<rparr>"

lemma date_parse_epoch: "date_parse (utc_host 0) (js ''1970-01-01'') = Num 0"
  by code_simp

lemma date_parse_sample:
  "date_parse (utc_host 0) (js ''2024-02-29T12:00:00+02:00'') = Num 1709200800000"
  by code_simp

end
