(* ===== verification/Reducers.thy ===== *)
theory Reducers
  imports JsPrelude
begin

text \<open>
  The interfaces that several components share, each a locale with the laws a provider owes
  and the lemmas a client gets: a state machine with an invariant and guarded actions (the
  React hooks that keep their state with \<open>setState\<close> updaters), a log that only grows, a
  reader that is fed a stream in chunks, and the selection of rows in a table.
\<close>

section \<open>State machines\<close>

fun run :: "('s \<Rightarrow> 'a \<Rightarrow> 's) \<Rightarrow> 's \<Rightarrow> 'a list \<Rightarrow> 's" where
  "run step s [] = s"
| "run step s (a # as) = run step (step s a) as"

text \<open>Every action of the list is admissible in the state in which it is taken.\<close>

fun admissible :: "('s \<Rightarrow> 'a \<Rightarrow> 's) \<Rightarrow> ('s \<Rightarrow> 'a \<Rightarrow> bool) \<Rightarrow> 's \<Rightarrow> 'a list \<Rightarrow> bool" where
  "admissible step ok s [] = True"
| "admissible step ok s (a # as) = (ok s a \<and> admissible step ok (step s a) as)"

lemma run_append: "run step s (as @ bs) = run step (run step s as) bs"
  by (induction as arbitrary: s) auto

lemma admissible_append:
  "admissible step ok s (as @ bs) \<longleftrightarrow>
     admissible step ok s as \<and> admissible step ok (run step s as) bs"
  by (induction as arbitrary: s) auto

lemma admissible_always: "admissible step (\<lambda>_. P) s as \<longleftrightarrow> list_all P as"
  by (induction as arbitrary: s) auto

lemma admissible_True [simp]: "admissible step (\<lambda>_ _. True) s as"
  by (induction as arbitrary: s) auto

locale state_machine =
  fixes step :: "'s \<Rightarrow> 'a \<Rightarrow> 's"
    and ok :: "'s \<Rightarrow> 'a \<Rightarrow> bool"
    and inv :: "'s \<Rightarrow> bool"
  assumes step_inv: "inv s \<Longrightarrow> ok s a \<Longrightarrow> inv (step s a)"
begin

lemma run_inv: "inv s \<Longrightarrow> admissible step ok s as \<Longrightarrow> inv (run step s as)"
  by (induction as arbitrary: s) (auto intro: step_inv)

lemma every_prefix_inv:
  "inv s \<Longrightarrow> admissible step ok s (as @ bs) \<Longrightarrow> inv (run step s as)"
  by (simp add: admissible_append run_inv)

end

text \<open>A machine whose log is only ever appended to.\<close>

locale growing_log =
  fixes step :: "'s \<Rightarrow> 'a \<Rightarrow> 's"
    and keeps :: "'a \<Rightarrow> bool"
    and log :: "'s \<Rightarrow> 'e list"
  assumes step_log: "keeps a \<Longrightarrow> \<exists>new. log (step s a) = log s @ new"
begin

lemma run_log: "\<forall>a \<in> set as. keeps a \<Longrightarrow> \<exists>new. log (run step s as) = log s @ new"
proof (induction as arbitrary: s)
  case Nil
  then show ?case by simp
next
  case (Cons a as)
  then obtain new1 where "log (step s a) = log s @ new1" using step_log by fastforce
  moreover from Cons obtain new2 where "log (run step (step s a) as) = log (step s a) @ new2"
    by fastforce
  ultimately show ?case by simp
qed

end

section \<open>Readers of a stream\<close>

text \<open>A machine that emits a list of outputs for each input, run over a list of inputs.\<close>

fun mealy :: "('s \<Rightarrow> 'i \<Rightarrow> 's \<times> 'o list) \<Rightarrow> 's \<Rightarrow> 'i list \<Rightarrow> 's \<times> 'o list" where
  "mealy f s [] = (s, [])"
| "mealy f s (x # xs) =
     (let (s1, out1) = f s x; (s2, out2) = mealy f s1 xs in (s2, out1 @ out2))"

lemma mealy_append:
  "mealy f s (xs @ ys) =
     (let (s1, out1) = mealy f s xs; (s2, out2) = mealy f s1 ys in (s2, out1 @ out2))"
  by (induction xs arbitrary: s) (auto simp: Let_def split: prod.splits)

text \<open>
  A reader takes whole chunks; its specification takes one item at a time.  The laws say that
  one chunk does what its items do.
\<close>

locale chunked_reader =
  fixes on_chunk :: "'s \<Rightarrow> 'i list \<Rightarrow> 's \<times> 'o list"
    and item :: "'t \<Rightarrow> 'i \<Rightarrow> 't \<times> 'o list"
    and abs :: "'s \<Rightarrow> 't"
    and inv :: "'s \<Rightarrow> bool"
  assumes chunk_inv: "inv s \<Longrightarrow> inv (fst (on_chunk s c))"
    and chunk_refines:
      "inv s \<Longrightarrow> mealy item (abs s) c = (abs (fst (on_chunk s c)), snd (on_chunk s c))"
begin

lemma chunks_refine:
  "inv s \<Longrightarrow> mealy item (abs s) (concat cs) =
     (abs (fst (mealy on_chunk s cs)), snd (mealy on_chunk s cs))"
proof (induction cs arbitrary: s)
  case Nil
  then show ?case by simp
next
  case (Cons c cs)
  obtain s1 out1 where s1: "on_chunk s c = (s1, out1)" by (cases "on_chunk s c") auto
  with Cons.prems have "inv s1" and "mealy item (abs s) c = (abs s1, out1)"
    using chunk_inv [of s c] chunk_refines [of s c] by auto
  with Cons.IH [of s1] s1 show ?case
    by (simp add: mealy_append Let_def split: prod.splits)
qed

lemma chunks_inv: "inv s \<Longrightarrow> inv (fst (mealy on_chunk s cs))"
proof (induction cs arbitrary: s)
  case Nil
  then show ?case by simp
next
  case (Cons c cs)
  obtain s1 out1 where s1: "on_chunk s c = (s1, out1)" by (cases "on_chunk s c") auto
  with Cons.prems have "inv s1" using chunk_inv [of s c] by simp
  with Cons.IH [of s1] s1 show ?case by (auto simp: Let_def split: prod.splits)
qed

lemma chunking_irrelevant:
  "inv s \<Longrightarrow> concat cs = concat ds \<Longrightarrow>
     snd (mealy on_chunk s cs) = snd (mealy on_chunk s ds)"
  using chunks_refine [of s cs] chunks_refine [of s ds] by simp

end

text \<open>A second machine that takes what the first emits.\<close>

definition pipe ::
  "('s \<Rightarrow> 'i \<Rightarrow> 's \<times> 'o list) \<Rightarrow> ('m \<Rightarrow> 'o \<Rightarrow> 'm \<times> 'p list) \<Rightarrow> 's \<times> 'm \<Rightarrow> 'i
     \<Rightarrow> ('s \<times> 'm) \<times> 'p list" where
  "pipe f g sm x =
     (let (s', os) = f (fst sm) x; (m', ps) = mealy g (snd sm) os in ((s', m'), ps))"

lemma mealy_pipe:
  "mealy (pipe f g) (s, m) xs =
     (let (s', os) = mealy f s xs; (m', ps) = mealy g m os in ((s', m'), ps))"
proof (induction xs arbitrary: s m)
  case Nil
  then show ?case by simp
next
  case (Cons x xs)
  then show ?case by (simp add: pipe_def mealy_append Let_def split: prod.splits)
qed

locale piped_reader = chunked_reader on_chunk item abs inv
  for on_chunk :: "'s \<Rightarrow> 'i list \<Rightarrow> 's \<times> 'o list"
    and item :: "'t \<Rightarrow> 'i \<Rightarrow> 't \<times> 'o list"
    and abs :: "'s \<Rightarrow> 't"
    and inv :: "'s \<Rightarrow> bool" +
  fixes post :: "'m \<Rightarrow> 'o \<Rightarrow> 'm \<times> 'p list"
begin

sublocale piped: chunked_reader "pipe on_chunk post" "pipe item post"
  "\<lambda>sm. (abs (fst sm), snd sm)" "\<lambda>sm. inv (fst sm)"
proof
  fix sm :: "'s \<times> 'm" and c
  assume inv: "inv (fst sm)"
  show "inv (fst (fst (pipe on_chunk post sm c)))"
    using chunk_inv [OF inv, of c] by (auto simp: pipe_def Let_def split: prod.splits)
  show "mealy (pipe item post) (abs (fst sm), snd sm) c =
      ((abs (fst (fst (pipe on_chunk post sm c))), snd (fst (pipe on_chunk post sm c))),
       snd (pipe on_chunk post sm c))"
    using chunk_refines [OF inv, of c]
    by (simp add: mealy_pipe) (simp add: pipe_def Let_def split: prod.splits)
qed

end

section \<open>Row selection\<close>

text \<open>
  What the tables of the product, discovery and publishing screens ask of their selection
  hooks: toggling one row, and dropping the rows that are gone.
\<close>

locale row_selection =
  fixes toggle :: "'id \<Rightarrow> 'id list \<Rightarrow> 'id list"
    and prune :: "'id list \<Rightarrow> 'id list \<Rightarrow> 'id list"
  assumes toggle_set:
      "set (toggle i sel) = (if i \<in> set sel then set sel - {i} else insert i (set sel))"
    and toggle_distinct: "distinct sel \<Longrightarrow> distinct (toggle i sel)"
    and prune_set: "set (prune valid sel) = set sel \<inter> set valid"
    and prune_distinct: "distinct sel \<Longrightarrow> distinct (prune valid sel)"
begin

lemma toggle_toggle_set: "set (toggle i (toggle i sel)) = set sel"
  by (auto simp: toggle_set)

lemma toggle_other: "i \<noteq> j \<Longrightarrow> j \<in> set (toggle i sel) \<longleftrightarrow> j \<in> set sel"
  by (simp add: toggle_set)

lemma prune_valid: "set (prune valid sel) \<subseteq> set valid"
  by (simp add: prune_set)

lemma toggle_in_valid:
  "set sel \<subseteq> set valid \<Longrightarrow> i \<in> set valid \<Longrightarrow> set (toggle i sel) \<subseteq> set valid"
  by (auto simp: toggle_set)

end

end
