(* ===== verification/Session.thy ===== *)
theory Session
  imports Reducers
begin

text \<open>
  \<open>frontend/src/services/session.ts\<close>: the tokens and the active workspace in
  \<open>sessionStorage\<close>, the marker cookie the middleware looks at, and the listeners that are
  told when the workspace changes.  The storage and the cookie jar are maps from keys to values;
  a listener is a number and each notification is appended to a log.  Code that touches
  \<open>window\<close> where there is none throws; such operations return \<open>None\<close> there.
\<close>

definition ACCESS_TOKEN_KEY :: jstring where
  "ACCESS_TOKEN_KEY = js ''affiliate_access_token''"

definition REFRESH_TOKEN_KEY :: jstring where
  "REFRESH_TOKEN_KEY = js ''affiliate_refresh_token''"

definition ACTIVE_WORKSPACE_KEY :: jstring where
  "ACTIVE_WORKSPACE_KEY = js ''affiliate_active_workspace_id''"

definition SESSION_COOKIE :: jstring where
  "SESSION_COOKIE = ACCESS_TOKEN_KEY"

text \<open>A cookie keeps its value and whether it was set with \<open>Secure\<close>.\<close>

record cookie =
  ck_value :: jstring
  ck_secure :: bool

record browser =
  has_window :: bool
  is_https :: bool
  storage :: "jstring \<rightharpoonup> jstring"
  cookies :: "jstring \<rightharpoonup> cookie"
  workspaceListeners :: "nat list"
  notified :: "nat list"

definition notifyWorkspaceListeners :: "browser \<Rightarrow> browser" where
  "notifyWorkspaceListeners b = b\<lparr>notified := notified b @ workspaceListeners b\<rparr>"

definition getItem :: "jstring \<Rightarrow> browser \<Rightarrow> jstring option" where
  "getItem k b = (if has_window b then storage b k else None)"

definition getAccessToken :: "browser \<Rightarrow> jstring option" where
  "getAccessToken b = getItem ACCESS_TOKEN_KEY b"

definition getRefreshToken :: "browser \<Rightarrow> jstring option" where
  "getRefreshToken b = getItem REFRESH_TOKEN_KEY b"

definition session_getActiveWorkspaceId :: "browser \<Rightarrow> jstring option" where
  "session_getActiveWorkspaceId b = getItem ACTIVE_WORKSPACE_KEY b"

definition setAccessToken :: "jstring \<Rightarrow> browser \<Rightarrow> browser option" where
  "setAccessToken token b =
     (if has_window b
      then Some (b\<lparr>storage := (storage b)(ACCESS_TOKEN_KEY \<mapsto> token),
                   cookies := (cookies b)(ACCESS_TOKEN_KEY \<mapsto>
                     \<lparr>ck_value = js ''1'', ck_secure = is_https b\<rparr>)\<rparr>)
      else None)"

definition setRefreshToken :: "jstring \<Rightarrow> browser \<Rightarrow> browser option" where
  "setRefreshToken token b =
     (if has_window b
      then Some (b\<lparr>storage := (storage b)(REFRESH_TOKEN_KEY \<mapsto> token)\<rparr>)
      else None)"

definition setTokens :: "jstring \<Rightarrow> jstring \<Rightarrow> browser \<Rightarrow> browser option" where
  "setTokens accessToken refreshToken b =
     Option.bind (setAccessToken accessToken b) (setRefreshToken refreshToken)"

definition session_setActiveWorkspaceId :: "jstring \<Rightarrow> browser \<Rightarrow> browser" where
  "session_setActiveWorkspaceId workspaceId b =
     (if has_window b
      then notifyWorkspaceListeners
             (b\<lparr>storage := (storage b)(ACTIVE_WORKSPACE_KEY \<mapsto> workspaceId)\<rparr>)
      else b)"

definition session_clearActiveWorkspaceId :: "browser \<Rightarrow> browser" where
  "session_clearActiveWorkspaceId b =
     notifyWorkspaceListeners
       (if has_window b then b\<lparr>storage := (storage b)(ACTIVE_WORKSPACE_KEY := None)\<rparr> else b)"

definition subscribeWorkspace :: "nat \<Rightarrow> browser \<Rightarrow> browser" where
  "subscribeWorkspace listener b =
     (if listener \<in> set (workspaceListeners b) then b
      else b\<lparr>workspaceListeners := workspaceListeners b @ [listener]\<rparr>)"

definition unsubscribeWorkspace :: "nat \<Rightarrow> browser \<Rightarrow> browser" where
  "unsubscribeWorkspace listener b =
     b\<lparr>workspaceListeners := removeAll listener (workspaceListeners b)\<rparr>"

text \<open>The cookie is written with \<open>Max-Age=0\<close>, which deletes it.\<close>

definition clear_session :: "browser \<Rightarrow> browser" where
  "clear_session b =
     notifyWorkspaceListeners
       (if has_window b
        then b\<lparr>storage := (storage b)(ACCESS_TOKEN_KEY := None, REFRESH_TOKEN_KEY := None,
                 ACTIVE_WORKSPACE_KEY := None),
               cookies := (cookies b)(ACCESS_TOKEN_KEY := None)\<rparr>
        else b)"

section \<open>What the operations do to what is read back\<close>

lemma session_keys_distinct [simp]:
  "ACCESS_TOKEN_KEY \<noteq> REFRESH_TOKEN_KEY" "REFRESH_TOKEN_KEY \<noteq> ACCESS_TOKEN_KEY"
  "ACCESS_TOKEN_KEY \<noteq> ACTIVE_WORKSPACE_KEY" "ACTIVE_WORKSPACE_KEY \<noteq> ACCESS_TOKEN_KEY"
  "REFRESH_TOKEN_KEY \<noteq> ACTIVE_WORKSPACE_KEY" "ACTIVE_WORKSPACE_KEY \<noteq> REFRESH_TOKEN_KEY"
  by (simp_all add: ACCESS_TOKEN_KEY_def REFRESH_TOKEN_KEY_def ACTIVE_WORKSPACE_KEY_def js_def)

lemmas session_reads = getAccessToken_def getRefreshToken_def session_getActiveWorkspaceId_def
  getItem_def

lemmas session_writes = setAccessToken_def setRefreshToken_def setTokens_def
  session_setActiveWorkspaceId_def session_clearActiveWorkspaceId_def clear_session_def
  notifyWorkspaceListeners_def

lemma setTokens_defined: "(\<exists>b'. setTokens a r b = Some b') \<longleftrightarrow> has_window b"
  by (simp add: session_writes)

lemma setTokens_reads:
  assumes "setTokens a r b = Some b'"
  shows "getAccessToken b' = Some a" "getRefreshToken b' = Some r"
    "session_getActiveWorkspaceId b' = session_getActiveWorkspaceId b"
    "has_window b' = has_window b"
  using assms by (auto simp: session_reads session_writes split: if_splits)

lemma clear_session_reads [simp]:
  "getAccessToken (clear_session b) = None"
  "getRefreshToken (clear_session b) = None"
  "session_getActiveWorkspaceId (clear_session b) = None"
  "has_window (clear_session b) = has_window b"
  by (auto simp: session_reads session_writes)

lemma setActive_reads:
  "has_window b \<Longrightarrow> session_getActiveWorkspaceId (session_setActiveWorkspaceId w b) = Some w"
  "getAccessToken (session_setActiveWorkspaceId w b) = getAccessToken b"
  "getRefreshToken (session_setActiveWorkspaceId w b) = getRefreshToken b"
  "has_window (session_setActiveWorkspaceId w b) = has_window b"
  by (auto simp: session_reads session_writes)

lemma clearActive_reads:
  "session_getActiveWorkspaceId (session_clearActiveWorkspaceId b) = None"
  "getAccessToken (session_clearActiveWorkspaceId b) = getAccessToken b"
  "getRefreshToken (session_clearActiveWorkspaceId b) = getRefreshToken b"
  "has_window (session_clearActiveWorkspaceId b) = has_window b"
  by (auto simp: session_reads session_writes)

text \<open>The marker cookie is there exactly when there is an access token, so the middleware, which
  only sees the cookie, and the client agree.\<close>

definition cookie_agrees :: "browser \<Rightarrow> bool" where
  "cookie_agrees b \<longleftrightarrow>
     (storage b ACCESS_TOKEN_KEY = None \<longleftrightarrow> cookies b SESSION_COOKIE = None)"

lemma setTokens_cookie: "setTokens a r b = Some b' \<Longrightarrow> cookie_agrees b'"
  by (auto simp: session_writes cookie_agrees_def SESSION_COOKIE_def split: if_splits)

lemma clear_session_cookie: "cookie_agrees b \<Longrightarrow> cookie_agrees (clear_session b)"
  by (auto simp: session_writes cookie_agrees_def SESSION_COOKIE_def)

lemma setActive_cookie: "cookie_agrees b \<Longrightarrow> cookie_agrees (session_setActiveWorkspaceId w b)"
  by (auto simp: session_writes cookie_agrees_def SESSION_COOKIE_def)

lemma clearActive_cookie: "cookie_agrees b \<Longrightarrow> cookie_agrees (session_clearActiveWorkspaceId b)"
  by (auto simp: session_writes cookie_agrees_def SESSION_COOKIE_def)

section \<open>Reading after writing\<close>

text \<open>What a page does with the session, in any order.\<close>

datatype session_action =
  SetTokens jstring jstring
| SetWorkspace jstring
| ClearWorkspace
| Subscribe nat
| Unsubscribe nat
| ClearSession

definition session_step :: "browser \<Rightarrow> session_action \<Rightarrow> browser" where
  "session_step b a = (case a of
     SetTokens acc ref \<Rightarrow> (case setTokens acc ref b of None \<Rightarrow> b | Some b' \<Rightarrow> b')
   | SetWorkspace w \<Rightarrow> session_setActiveWorkspaceId w b
   | ClearWorkspace \<Rightarrow> session_clearActiveWorkspaceId b
   | Subscribe l \<Rightarrow> subscribeWorkspace l b
   | Unsubscribe l \<Rightarrow> unsubscribeWorkspace l b
   | ClearSession \<Rightarrow> clear_session b)"

lemma session_step_cookie: "cookie_agrees b \<Longrightarrow> cookie_agrees (session_step b a)"
  by (cases a)
    (auto simp: session_step_def setActive_cookie clearActive_cookie clear_session_cookie
      dest: setTokens_cookie split: option.splits,
     auto simp: cookie_agrees_def subscribeWorkspace_def unsubscribeWorkspace_def)

lemma session_step_listeners:
  "distinct (workspaceListeners b) \<Longrightarrow> distinct (workspaceListeners (session_step b a))"
  by (cases a)
    (auto simp: session_step_def session_writes subscribeWorkspace_def unsubscribeWorkspace_def
      distinct_removeAll split: option.splits)

lemma session_step_log: "\<exists>new. notified (session_step b a) = notified b @ new"
  by (cases a)
    (auto simp: session_step_def session_writes subscribeWorkspace_def unsubscribeWorkspace_def
      split: option.splits)

interpretation session_machine: state_machine session_step "\<lambda>_ _. True"
  "\<lambda>b. cookie_agrees b \<and> distinct (workspaceListeners b)"
  by unfold_locales (simp add: session_step_cookie session_step_listeners)

interpretation session_log: growing_log session_step "\<lambda>_. True" notified
  by unfold_locales (rule session_step_log)

definition fresh_browser :: "bool \<Rightarrow> browser" where
  "fresh_browser https =
     \<lparr>has_window = True, is_https = https, storage = Map.empty, cookies = Map.empty,
      workspaceListeners = [], notified = []\<rparr>"

text \<open>Whatever a page does with the session, and in whatever order, the marker cookie the
  middleware tests is present exactly when \<open>sessionStorage\<close> holds an access token, and no
  listener is registered twice.\<close>

theorem session_cookie_consistent:
  "let b = run session_step (fresh_browser https) actions
   in cookie_agrees b \<and> distinct (workspaceListeners b)"
  unfolding Let_def
  by (rule session_machine.run_inv)
    (simp_all add: fresh_browser_def cookie_agrees_def)

end
