(* ===== verification/Workspace.thy ===== *)
theory Workspace
  imports Session
begin

text \<open>
  \<open>frontend/src/lib/workspace.ts\<close> and \<open>lib/workspace-query-sync.tsx\<close>: which values are
  workspace ids, which workspace is active, which request paths and query keys belong to one
  workspace, and the cache purge on a switch.  The pathname that \<open>new URL\<close> gives is a
  parameter (\<open>None\<close> where the constructor throws), as is the environment's default id.
\<close>

section \<open>Workspace ids\<close>

definition uuid_shape :: "nat list" where
  "uuid_shape = [8, 13, 18, 23]"

text \<open>\<open>UUID_RE\<close>: 36 characters, hyphens at four places, hexadecimal digits elsewhere.\<close>

definition UUID_RE :: "jstring \<Rightarrow> bool" where
  "UUID_RE s \<longleftrightarrow> length s = 36 \<and>
     list_all (\<lambda>i. if i \<in> set uuid_shape then s ! i = 45 else is_hex_digit (s ! i)) [0..<36]"

text \<open>The argument is \<open>unknown\<close> in the source: \<open>None\<close> stands for everything that is not a
  string.\<close>

definition isUsableWorkspaceId :: "jstring option \<Rightarrow> bool" where
  "isUsableWorkspaceId value = (case value of
     None \<Rightarrow> False
   | Some v \<Rightarrow>
       (let trimmed = trim v in
        if trimmed = [] then False
        else let lowered = ascii_lower trimmed in
          if lowered = js ''undefined'' \<or> lowered = js ''null'' then False
          else UUID_RE trimmed))"

definition normalizeWorkspaceId :: "jstring option \<Rightarrow> jstring option" where
  "normalizeWorkspaceId value =
     (if \<not> isUsableWorkspaceId value then None else map_option trim value)"

definition getActiveWorkspaceId :: "jstring option \<Rightarrow> browser \<Rightarrow> jstring option" where
  "getActiveWorkspaceId env_default b =
     (case normalizeWorkspaceId (session_getActiveWorkspaceId b) of
        Some stored \<Rightarrow> Some stored
      | None \<Rightarrow> normalizeWorkspaceId env_default)"

definition setActiveWorkspaceId :: "jstring \<Rightarrow> browser \<Rightarrow> browser" where
  "setActiveWorkspaceId workspaceId b =
     (case normalizeWorkspaceId (Some workspaceId) of
        None \<Rightarrow> session_clearActiveWorkspaceId b
      | Some normalized \<Rightarrow> session_setActiveWorkspaceId normalized b)"

definition clearActiveWorkspaceId :: "browser \<Rightarrow> browser" where
  "clearActiveWorkspaceId b = session_clearActiveWorkspaceId b"

definition applyDefaultWorkspaceFromUser :: "jstring option \<Rightarrow> browser \<Rightarrow> browser" where
  "applyDefaultWorkspaceFromUser default_workspace_id b =
     (case normalizeWorkspaceId default_workspace_id of
        None \<Rightarrow> b
      | Some wid \<Rightarrow> setActiveWorkspaceId wid b)"

lemma uuid_length: "UUID_RE s \<Longrightarrow> length s = 36"
  by (simp add: UUID_RE_def)

lemma uuid_char:
  assumes "UUID_RE s" "c \<in> set s"
  shows "c = 45 \<or> is_hex_digit c"
proof -
  from assms obtain i where "i < 36" "c = s ! i"
    by (metis in_set_conv_nth uuid_length)
  then show ?thesis
    using assms(1) by (auto simp: UUID_RE_def list_all_iff split: if_splits)
qed

lemma uuid_trim: "UUID_RE s \<Longrightarrow> trim s = s"
  by (rule trim_no_space)
    (auto dest: uuid_char simp: is_space_def is_hex_digit_def is_digit_def)

text \<open>The checks for the words undefined and null change nothing: neither is a UUID.\<close>

lemma usable_iff: "isUsableWorkspaceId (Some v) \<longleftrightarrow> UUID_RE (trim v)"
proof -
  have "ascii_lower (trim v) = w \<Longrightarrow> length w \<noteq> 36 \<Longrightarrow> \<not> UUID_RE (trim v)" for w
    by (auto simp: ascii_lower_def dest: uuid_length)
  from this [of "js ''undefined''"] this [of "js ''null''"] show ?thesis
    by (auto simp: isUsableWorkspaceId_def Let_def UUID_RE_def)
qed

lemma usable_None [simp]: "\<not> isUsableWorkspaceId None"
  by (simp add: isUsableWorkspaceId_def)

lemma normalize_Some_iff:
  "normalizeWorkspaceId v = Some w \<longleftrightarrow> (\<exists>s. v = Some s \<and> w = trim s \<and> UUID_RE w)"
  by (cases v) (auto simp: normalizeWorkspaceId_def usable_iff)

lemma normalize_uuid: "UUID_RE w \<Longrightarrow> normalizeWorkspaceId (Some w) = Some w"
  by (simp add: normalize_Some_iff uuid_trim)

lemma normalize_idem:
  "normalizeWorkspaceId v = Some w \<Longrightarrow> normalizeWorkspaceId (Some w) = Some w"
  by (auto simp: normalize_Some_iff)

text \<open>\<open>normalizeWorkspaceId\<close> only ever returns a canonical 36-character UUID, and it
  returns one exactly when the value with its outer white space removed has that form; a value
  it returned is its own normal form.\<close>

theorem normalizeWorkspaceId_correct:
  "(case normalizeWorkspaceId v of
      None \<Rightarrow> (case v of None \<Rightarrow> True | Some s \<Rightarrow> \<not> UUID_RE (trim s))
    | Some w \<Rightarrow> UUID_RE w \<and> length w = 36 \<and> normalizeWorkspaceId (Some w) = Some w
                \<and> map_option trim v = Some w)"
proof (cases "normalizeWorkspaceId v")
  case None
  then show ?thesis by (cases v) (auto simp: normalizeWorkspaceId_def usable_iff split: if_splits)
next
  case (Some w)
  then obtain t where "v = Some t" "w = trim t" "UUID_RE w" by (auto simp: normalize_Some_iff)
  with Some show ?thesis by (simp add: normalize_uuid uuid_length)
qed

section \<open>The active workspace\<close>

lemma get_after_set:
  assumes "has_window b"
  shows "getActiveWorkspaceId env (setActiveWorkspaceId v b) =
    (case normalizeWorkspaceId (Some v) of
       Some w \<Rightarrow> Some w
     | None \<Rightarrow> normalizeWorkspaceId env)"
  using assms
  by (auto simp: setActiveWorkspaceId_def getActiveWorkspaceId_def setActive_reads
      clearActive_reads normalize_idem normalizeWorkspaceId_def [of None] split: option.splits)

lemma set_keeps_window [simp]: "has_window (setActiveWorkspaceId v b) = has_window b"
  by (auto simp: setActiveWorkspaceId_def setActive_reads clearActive_reads split: option.splits)

text \<open>After \<open>setActiveWorkspaceId\<close> the active workspace is the id that was set when it is a
  usable id, and the environment's default when it is not; the tokens are left alone, and
  \<open>applyDefaultWorkspaceFromUser\<close> never removes a workspace that was set.\<close>

theorem active_workspace_after_set:
  assumes "has_window b"
  shows "getActiveWorkspaceId env (setActiveWorkspaceId v b) =
      nullish (normalizeWorkspaceId (Some v)) (normalizeWorkspaceId env)"
    and "getAccessToken (setActiveWorkspaceId v b) = getAccessToken b"
    and "getRefreshToken (setActiveWorkspaceId v b) = getRefreshToken b"
    and "getActiveWorkspaceId env (applyDefaultWorkspaceFromUser d b) =
      nullish (normalizeWorkspaceId d) (getActiveWorkspaceId env b)"
proof -
  show "getActiveWorkspaceId env (setActiveWorkspaceId v b) =
      nullish (normalizeWorkspaceId (Some v)) (normalizeWorkspaceId env)"
    using assms by (simp add: get_after_set nullish_def split: option.splits)
  show "getAccessToken (setActiveWorkspaceId v b) = getAccessToken b"
    and "getRefreshToken (setActiveWorkspaceId v b) = getRefreshToken b"
    by (simp_all add: setActiveWorkspaceId_def setActive_reads clearActive_reads
        split: option.splits)
  show "getActiveWorkspaceId env (applyDefaultWorkspaceFromUser d b) =
      nullish (normalizeWorkspaceId d) (getActiveWorkspaceId env b)"
    using assms
    by (auto simp: applyDefaultWorkspaceFromUser_def get_after_set normalize_idem nullish_def
        split: option.splits)
qed

lemma sample_uuid: "UUID_RE (js ''123e4567-e89b-12d3-a456-426614174000'')"
  by (simp add: UUID_RE_def uuid_shape_def js_def is_hex_digit_def is_digit_def
      upt_rec [of 0] upt_rec [of "Suc 0"] numeral_2_eq_2 [symmetric] upt_rec_numeral)

lemma active_workspace_after_set_witness:
  "getActiveWorkspaceId None
     (setActiveWorkspaceId (js ''123e4567-e89b-12d3-a456-426614174000'') (fresh_browser True)) =
   Some (js ''123e4567-e89b-12d3-a456-426614174000'')"
  using active_workspace_after_set(1) [of "fresh_browser True" None
      "js ''123e4567-e89b-12d3-a456-426614174000''"]
  by (simp add: fresh_browser_def normalize_uuid [OF sample_uuid])

section \<open>Tenant paths\<close>

definition WORKSPACE_HEADER :: jstring where
  "WORKSPACE_HEADER = js ''X-Workspace-Id''"

definition WORKSPACE_SCOPED_QUERY_ROOTS :: "jstring list" where
  "WORKSPACE_SCOPED_QUERY_ROOTS =
     [js ''queue'', js ''channels'', js ''facebook'', js ''dashboard'', js ''workspace-settings'']"

definition WORKSPACE_SCOPED_PREFIXES :: "jstring list" where
  "WORKSPACE_SCOPED_PREFIXES =
     [js ''/queues'', js ''/channels'', js ''/facebook'', js ''/dashboard'',
      js ''/workspace-settings'']"

text \<open>\<open>s.replace(/\/+$/, "")\<close>.\<close>

definition strip_trailing_slashes :: "jstring \<Rightarrow> jstring" where
  "strip_trailing_slashes s = rev (dropWhile (\<lambda>c. c = 47) (rev s))"

definition requestPathname :: "(jstring \<Rightarrow> jstring option) \<Rightarrow> jstring option \<Rightarrow> jstring" where
  "requestPathname url_pathname url = (case url of
     None \<Rightarrow> []
   | Some u \<Rightarrow>
       if u = [] then []
       else (case url_pathname u of
               Some pathname \<Rightarrow>
                 (let p = strip_trailing_slashes pathname in if p = [] then js ''/'' else p)
             | None \<Rightarrow>
                 (let p = strip_trailing_slashes u in if p = [] then u else p)))"

definition isWorkspaceScopedPath :: "(jstring \<Rightarrow> jstring option) \<Rightarrow> jstring option \<Rightarrow> bool" where
  "isWorkspaceScopedPath url_pathname url =
     (let path = requestPathname url_pathname url;
          normalized = (if starts_with (js ''/api/v1/'') path
                        then drop (length (js ''/api/v1'')) path else path)
      in list_ex (\<lambda>prefix. normalized = prefix \<or> starts_with (prefix @ js ''/'') normalized)
           WORKSPACE_SCOPED_PREFIXES)"

text \<open>The first segment of a path.\<close>

definition first_segment :: "jstring \<Rightarrow> jstring option" where
  "first_segment path = (case split_on 47 path of [] # seg # _ \<Rightarrow> Some seg | _ \<Rightarrow> None)"

definition api_relative :: "jstring \<Rightarrow> jstring" where
  "api_relative path =
     (if starts_with (js ''/api/v1/'') path then drop 7 path else path)"

definition tenant_segments :: "jstring list" where
  "tenant_segments =
     [js ''queues'', js ''channels'', js ''facebook'', js ''dashboard'', js ''workspace-settings'']"

lemma prefix_iff_first_segment:
  assumes "47 \<notin> set seg"
  shows "path = 47 # seg \<or> starts_with (47 # seg @ [47]) path \<longleftrightarrow> first_segment path = Some seg"
proof
  assume "path = 47 # seg \<or> starts_with (47 # seg @ [47]) path"
  then show "first_segment path = Some seg"
    using assms by (auto simp: first_segment_def starts_with_iff split_on_no_sep split_on_append)
next
  assume r: "first_segment path = Some seg"
  then obtain rest where rest: "split_on 47 path = [] # seg # rest"
    by (auto simp: first_segment_def split: list.splits)
  then have "path = join [47] ([] # seg # rest)"
    by (metis join_split_on)
  then show "path = 47 # seg \<or> starts_with (47 # seg @ [47]) path"
    by (cases rest) (auto simp: starts_with_iff)
qed

lemma tenant_segments_no_slash: "\<forall>seg \<in> set tenant_segments. 47 \<notin> set seg"
  by (simp add: tenant_segments_def js_def)

lemma prefixes_are_segments: "WORKSPACE_SCOPED_PREFIXES = map ((#) 47) tenant_segments"
  by (simp add: WORKSPACE_SCOPED_PREFIXES_def tenant_segments_def js_def)

text \<open>The workspace header is required exactly on the paths whose first segment, after the
  optional \<open>/api/v1\<close>, is one of the five tenant collections: whole segments are compared, so
  \<open>/queues-archive\<close> is global while \<open>/queues/7/failures\<close> is not.\<close>

theorem workspace_scoped_iff_first_segment:
  "isWorkspaceScopedPath url_pathname url \<longleftrightarrow>
     (\<exists>seg \<in> set tenant_segments.
        first_segment (api_relative (requestPathname url_pathname url)) = Some seg)"
proof -
  have slash: "js ''/'' = [47]" by (simp add: js_def)
  have "normalized = 47 # seg \<or> starts_with ((47 # seg) @ js ''/'') normalized \<longleftrightarrow>
      first_segment normalized = Some seg" if "seg \<in> set tenant_segments" for seg normalized
    using prefix_iff_first_segment [of seg normalized] tenant_segments_no_slash that
    by (simp add: slash)
  then show ?thesis
    by (auto simp: isWorkspaceScopedPath_def Let_def prefixes_are_segments list_ex_iff
        api_relative_def eval_nat_numeral)
qed

section \<open>Tenant query keys\<close>

text \<open>A part of a query key: a string, or some other value.\<close>

datatype key_part = KeyText jstring | KeyValue "(jstring \<times> jstring) list" | KeyNull

type_synonym query_key = "key_part list"

definition workspaceScopedQueryKey :: "jstring \<Rightarrow> jstring \<Rightarrow> key_part list \<Rightarrow> query_key" where
  "workspaceScopedQueryKey rt workspaceId rest = KeyText rt # KeyText workspaceId # rest"

definition isWorkspaceScopedQueryKey :: "query_key \<Rightarrow> bool" where
  "isWorkspaceScopedQueryKey queryKey = (case queryKey of
     KeyText rt # _ \<Rightarrow> rt \<in> set WORKSPACE_SCOPED_QUERY_ROOTS
   | _ \<Rightarrow> False)"

text \<open>The query cache: keys with their data.\<close>

type_synonym 'd query_cache = "(query_key \<times> 'd) list"

definition removeWorkspaceScopedQueries :: "'d query_cache \<Rightarrow> 'd query_cache" where
  "removeWorkspaceScopedQueries queryClient =
     filter (\<lambda>(queryKey, _). \<not> isWorkspaceScopedQueryKey queryKey) queryClient"

text \<open>\<open>WorkspaceQuerySync\<close>: the effect that runs when the active workspace has changed.\<close>

record 'd tenant_view =
  tv_workspace :: "jstring option"
  previousRef :: "jstring option"
  tv_cache :: "'d query_cache"

definition workspace_sync_effect :: "'d tenant_view \<Rightarrow> 'd tenant_view" where
  "workspace_sync_effect v =
     (let previous = previousRef v;
          v' = v\<lparr>previousRef := tv_workspace v\<rparr>
      in if previous \<noteq> None \<and> previous \<noteq> tv_workspace v
         then v'\<lparr>tv_cache := removeWorkspaceScopedQueries (tv_cache v)\<rparr>
         else v')"

text \<open>What happens to the cache: the workspace changes and the effect runs; a query of the
  active workspace, or a global one, is answered.\<close>

datatype 'd tenant_action =
  SwitchWorkspace "jstring option"
| TenantAnswer jstring "key_part list" 'd
| GlobalAnswer query_key 'd

definition tenant_step :: "'d tenant_view \<Rightarrow> 'd tenant_action \<Rightarrow> 'd tenant_view" where
  "tenant_step v a = (case a of
     SwitchWorkspace w \<Rightarrow> workspace_sync_effect (v\<lparr>tv_workspace := w\<rparr>)
   | TenantAnswer rt rest d \<Rightarrow>
       (case tv_workspace v of
          None \<Rightarrow> v
        | Some w \<Rightarrow> v\<lparr>tv_cache := (workspaceScopedQueryKey rt w rest, d) # tv_cache v\<rparr>)
   | GlobalAnswer k d \<Rightarrow> v\<lparr>tv_cache := (k, d) # tv_cache v\<rparr>)"

fun tenant_ok :: "'d tenant_view \<Rightarrow> 'd tenant_action \<Rightarrow> bool" where
  "tenant_ok v (GlobalAnswer k d) = (\<not> isWorkspaceScopedQueryKey k)"
| "tenant_ok v _ = True"

text \<open>Every tenant entry of the cache carries the id of the workspace that is active.\<close>

definition key_of_workspace :: "jstring option \<Rightarrow> query_key \<Rightarrow> bool" where
  "key_of_workspace w k \<longleftrightarrow>
     (isWorkspaceScopedQueryKey k \<longrightarrow>
       (case (w, k) of (Some ws, _ # KeyText kw # _) \<Rightarrow> kw = ws | _ \<Rightarrow> False))"

definition cache_isolated :: "'d tenant_view \<Rightarrow> bool" where
  "cache_isolated v \<longleftrightarrow>
     previousRef v = tv_workspace v \<and>
     list_all (\<lambda>(k, _). key_of_workspace (tv_workspace v) k) (tv_cache v)"

lemma removed_keys: "(k, d) \<in> set (removeWorkspaceScopedQueries c) \<longleftrightarrow>
    (k, d) \<in> set c \<and> \<not> isWorkspaceScopedQueryKey k"
  by (auto simp: removeWorkspaceScopedQueries_def)

lemma tenant_step_isolated:
  assumes "cache_isolated v" "tenant_ok v a"
  shows "cache_isolated (tenant_step v a)"
proof (cases a)
  case (SwitchWorkspace w)
  show ?thesis
  proof (cases "previousRef v = None \<or> previousRef v = w")
    case True
    then have "list_all (\<lambda>(k, _). key_of_workspace w k) (tv_cache v)"
      using assms(1) by (fastforce simp: cache_isolated_def list_all_iff key_of_workspace_def)
    then show ?thesis
      using True
      by (auto simp: SwitchWorkspace tenant_step_def workspace_sync_effect_def Let_def
          cache_isolated_def)
  next
    case False
    then show ?thesis
      by (auto simp: SwitchWorkspace tenant_step_def workspace_sync_effect_def Let_def
          cache_isolated_def list_all_iff removed_keys key_of_workspace_def)
  qed
next
  case (TenantAnswer rt rest d)
  then show ?thesis
    using assms(1)
    by (auto simp: tenant_step_def cache_isolated_def key_of_workspace_def
        workspaceScopedQueryKey_def split: option.splits)
next
  case (GlobalAnswer k d)
  then show ?thesis
    using assms by (auto simp: tenant_step_def cache_isolated_def key_of_workspace_def)
qed

interpretation tenant: state_machine tenant_step tenant_ok cache_isolated
  by unfold_locales (rule tenant_step_isolated)

definition empty_view :: "'d tenant_view" where
  "empty_view = \<lparr>tv_workspace = None, previousRef = None, tv_cache = []\<rparr>"



end
