(* ===== verification/QueueModel.thy ===== *)
theory QueueModel
  imports Host Workspace
begin

text \<open>
  The data of the publishing queue (\<open>frontend/src/features/queue/types/api.ts\<close>,
  \<open>types/events.ts\<close>) and the pure functions over it (\<open>lib/operations.ts\<close>,
  \<open>lib/retry.ts\<close>).  \<open>null\<close> and \<open>undefined\<close> are one value where the code treats them alike.
\<close>

section \<open>types/api.ts\<close>

datatype QueueStatus = Draft | Queued | Scheduled | Published | StatusFailed

definition QUEUE_STATUSES :: "QueueStatus list" where
  "QUEUE_STATUSES = [Draft, Queued, Scheduled, Published, StatusFailed]"

fun status_text :: "QueueStatus \<Rightarrow> jstring" where
  "status_text Draft = js ''draft''"
| "status_text Queued = js ''queued''"
| "status_text Scheduled = js ''scheduled''"
| "status_text Published = js ''published''"
| "status_text StatusFailed = js ''failed''"

record QueuePublishAttempt =
  attempt_number :: int
  att_status :: jstring
  att_provider :: jstring
  att_occurred_at :: jstring
  error_code :: "jstring option"
  error_message :: "jstring option"
  provider_chat_id :: "jstring option"
  provider_message_id :: "int option"

record QueueItem =
  q_id :: jstring
  q_title :: "jstring option"
  q_content :: jstring
  q_status :: QueueStatus
  q_scheduled_at :: "jstring option"
  q_published_at :: "jstring option"
  q_channel_id :: "jstring option"
  q_product_id :: "jstring option"
  q_image_url :: "jstring option"
  q_button_text :: "jstring option"
  q_button_url :: "jstring option"
  q_telegram_message_id :: "int option"
  q_created_at :: jstring
  q_updated_at :: jstring
  last_attempt :: "QueuePublishAttempt option"
  failure_reason :: "jstring option"
  retry_count :: "int option"

record QueueListResponse =
  ql_items :: "QueueItem list"
  ql_total :: nat
  ql_skip :: nat
  ql_limit :: nat

text \<open>The body of a create or an update request: a key may be left out or sent as \<open>null\<close>.\<close>

record QueueUpdate =
  u_title :: "jstring field"
  u_content :: "jstring field"
  u_status :: "QueueStatus field"
  u_scheduled_at :: "jstring field"
  u_channel_id :: "jstring field"
  u_product_id :: "jstring field"
  u_image_url :: "jstring field"
  u_button_text :: "jstring field"
  u_button_url :: "jstring field"

definition no_update :: QueueUpdate where
  "no_update =
     \<lparr>u_title = Absent, u_content = Absent, u_status = Absent, u_scheduled_at = Absent,
      u_channel_id = Absent, u_product_id = Absent, u_image_url = Absent,
      u_button_text = Absent, u_button_url = Absent\<rparr>"

datatype QueueHealthStatus =
  HReady | HMissingSchedule | HMissingChannel | HPublishing | HPublished | HError

datatype QueueWorkspaceSort = Newest | Oldest | ScheduleAsc | ScheduleDesc | ByStatus

datatype QueueTableDensity = Comfortable | Compact

record QueuePublishFailure =
  fl_message :: jstring
  fl_occurredAt :: jstring

section \<open>types/events.ts\<close>

datatype QueueEventName =
  STATUS_CHANGED | DELETED | ATTEMPT_STARTED | ATTEMPT_SUCCEEDED | ATTEMPT_FAILED

fun event_name_text :: "QueueEventName \<Rightarrow> jstring" where
  "event_name_text STATUS_CHANGED = js ''queue.status_changed''"
| "event_name_text DELETED = js ''queue.deleted''"
| "event_name_text ATTEMPT_STARTED = js ''queue.attempt_started''"
| "event_name_text ATTEMPT_SUCCEEDED = js ''queue.attempt_succeeded''"
| "event_name_text ATTEMPT_FAILED = js ''queue.attempt_failed''"

definition QUEUE_EVENT_NAMES :: "QueueEventName list" where
  "QUEUE_EVENT_NAMES =
     [STATUS_CHANGED, DELETED, ATTEMPT_STARTED, ATTEMPT_SUCCEEDED, ATTEMPT_FAILED]"

definition QUEUE_EVENT_ENVELOPE_VERSION :: int where
  "QUEUE_EVENT_ENVELOPE_VERSION = 1"

text \<open>A value of unchecked JSON: missing or null, a string, or something else with its
  \<open>String(...)\<close>.\<close>

datatype raw_value = RawNull | RawText jstring | RawOther jstring

definition raw_text :: "raw_value \<Rightarrow> jstring option" where
  "raw_text v = (case v of RawText s \<Rightarrow> Some s | _ \<Rightarrow> None)"

record QueueEventEnvelope =
  ev_event :: raw_value
  ev_version :: int
  ev_id :: jstring
  ev_occurred_at :: jstring
  ev_workspace_id :: raw_value
  ev_queue_id :: raw_value

definition event_name_of :: "jstring \<Rightarrow> QueueEventName option" where
  "event_name_of value = List.find (\<lambda>n. event_name_text n = value) QUEUE_EVENT_NAMES"

definition isQueueEventName :: "jstring \<Rightarrow> bool" where
  "isQueueEventName value = (value \<in> set (map event_name_text QUEUE_EVENT_NAMES))"

lemma isQueueEventName_iff: "isQueueEventName v \<longleftrightarrow> event_name_of v \<noteq> None"
  unfolding isQueueEventName_def event_name_of_def
  by (auto simp: find_None_iff)

section \<open>operations.ts\<close>

definition publish_failed_text :: jstring where
  "publish_failed_text =
    [1601, 1588, 1604, 32, 1575, 1604, 1606, 1588, 1585]"

definition failureFromQueueItem :: "QueueItem \<Rightarrow> QueuePublishFailure option" where
  "failureFromQueueItem item =
     (let attempt = last_attempt item;
          from_reason = (if truthy (failure_reason item)
             then Some \<lparr>fl_message = the (failure_reason item),
                        fl_occurredAt = or_default (map_option att_occurred_at attempt)
                                          (q_updated_at item)\<rparr>
             else None)
      in (case attempt of
            Some a \<Rightarrow>
              if att_status a = js ''failed''
              then Some \<lparr>fl_message = or_default (nullish (failure_reason item) (error_message a))
                                        publish_failed_text,
                         fl_occurredAt = att_occurred_at a\<rparr>
              else from_reason
          | None \<Rightarrow> from_reason))"

definition resolveQueueFailure ::
  "QueueItem \<Rightarrow> QueuePublishFailure option \<Rightarrow> QueuePublishFailure option" where
  "resolveQueueFailure item clientFallback = nullish (failureFromQueueItem item) clientFallback"

definition getQueueHealth ::
  "QueueItem \<Rightarrow> bool \<Rightarrow> QueuePublishFailure option \<Rightarrow> QueueHealthStatus" where
  "getQueueHealth item publishing failure =
     (if q_status item = Published then HPublished
      else if q_status item = StatusFailed then HError
      else if publishing then HPublishing
      else if failure \<noteq> None then HError
      else if \<not> truthy (q_channel_id item) then HMissingChannel
      else if q_status item = Draft \<or> (q_status item = Scheduled \<and> \<not> truthy (q_scheduled_at item))
      then HMissingSchedule
      else HReady)"

definition isToday :: "host \<Rightarrow> jstring option \<Rightarrow> bool" where
  "isToday h value =
     (if \<not> truthy value then False
      else same_local_day h (date_parse h (the value)) (Num (of_int (now h))))"

record queue_stats =
  st_queued :: nat
  st_scheduled :: nat
  st_publishing :: nat
  st_publishedToday :: nat
  st_failedToday :: nat

text \<open>The body of the counting loop.\<close>

definition count_failed_today ::
  "host \<Rightarrow> (jstring \<rightharpoonup> QueuePublishFailure) \<Rightarrow> nat \<Rightarrow> QueueItem \<Rightarrow> nat" where
  "count_failed_today h clientFailures failedToday item =
     (let failure = resolveQueueFailure item (clientFailures (q_id item));
          failedAt = (if q_status item = StatusFailed
            then Some (or_default (map_option fl_occurredAt failure) (q_updated_at item))
            else map_option fl_occurredAt failure)
      in if (q_status item = StatusFailed \<or> failure \<noteq> None) \<and> isToday h failedAt
         then failedToday + 1 else failedToday)"

definition getQueueOperationalStats ::
  "host \<Rightarrow> QueueItem list \<Rightarrow> jstring set \<Rightarrow> (jstring \<rightharpoonup> QueuePublishFailure) \<Rightarrow> queue_stats" where
  "getQueueOperationalStats h items publishingIds clientFailures =
     \<lparr>st_queued = length (filter (\<lambda>item. q_status item = Queued) items),
      st_scheduled = length (filter (\<lambda>item. q_status item = Scheduled) items),
      st_publishing = card publishingIds,
      st_publishedToday =
        length (filter (\<lambda>item. q_status item = Published \<and> isToday h (q_published_at item)) items),
      st_failedToday = foldl (count_failed_today h clientFailures) 0 items\<rparr>"

definition not_scheduled_text :: jstring where
  "not_scheduled_text =
    [1594, 1610, 1585, 32, 1605, 1580, 1583, 1608, 1604]"

definition today_text :: jstring where
  "today_text =
    [1575, 1604, 1610, 1608, 1605]"

definition tomorrow_text :: jstring where
  "tomorrow_text =
    [1594, 1583, 1611, 1575]"

text \<open>\<open>None\<close>: the formatter throws a \<open>RangeError\<close> for an invalid date.\<close>

definition formatQueueSchedule :: "host \<Rightarrow> QueueItem \<Rightarrow> (jstring \<times> jstring option) option" where
  "formatQueueSchedule h item =
     (let value = nullish (q_scheduled_at item) (q_published_at item) in
      if \<not> truthy value then Some (not_scheduled_text, None)
      else
        let date = date_parse h (the value);
            today = Num (of_int (now h));
            tomorrow = Num (of_int (add_local_ms h ms_per_day (now h)))
        in (case date of
              Num d \<Rightarrow>
                Some (if same_local_day h date today then today_text
                      else if same_local_day h date tomorrow then tomorrow_text
                      else format_day h \<lfloor>d\<rfloor>,
                      Some (format_time h \<lfloor>d\<rfloor>))
            | _ \<Rightarrow> None))"

datatype schedule_preset = PresetHour | PresetTomorrowMorning | PresetTomorrowEvening

definition getSchedulePreset :: "host \<Rightarrow> schedule_preset \<Rightarrow> int" where
  "getSchedulePreset h preset =
     (let date = now h in
      if preset = PresetHour then add_local_ms h 3600000 date
      else at_local_hour h (if preset = PresetTomorrowMorning then 9 else 18)
             (add_local_ms h ms_per_day date))"

definition attempt_started_text :: jstring where
  "attempt_started_text =
    [1576, 1583, 1571]"

definition attempt_succeeded_text :: jstring where
  "attempt_succeeded_text =
    [1606, 1580, 1581]"

definition attempt_failed_text :: jstring where
  "attempt_failed_text =
    [1601, 1588, 1604]"

definition ATTEMPT_STATUS_LABELS :: "jstring \<rightharpoonup> jstring" where
  "ATTEMPT_STATUS_LABELS = map_of
     [(js ''started'', attempt_started_text), (js ''succeeded'', attempt_succeeded_text),
      (js ''failed'', attempt_failed_text)]"

definition formatAttemptStatus :: "jstring \<Rightarrow> jstring" where
  "formatAttemptStatus status = or_default (ATTEMPT_STATUS_LABELS status) status"

section \<open>retry.ts\<close>

definition nextStatusAfterFailedRetry :: "host \<Rightarrow> QueueItem \<Rightarrow> QueueUpdate" where
  "nextStatusAfterFailedRetry h item =
     (if truthy (q_scheduled_at item) \<and>
         num_less (Num (of_int (now h))) (date_parse h (the (q_scheduled_at item)))
      then no_update\<lparr>u_status := Given Scheduled,
                     u_scheduled_at := Given (the (q_scheduled_at item))\<rparr>
      else no_update\<lparr>u_status := Given Queued\<rparr>)"

section \<open>Lemmas\<close>

lemma count_failed_foldl:
  "foldl (count_failed_today h cf) n items =
     n + length (filter (\<lambda>item. count_failed_today h cf 0 item = 1) items)"
  by (induction items arbitrary: n) (auto simp: count_failed_today_def Let_def)

text \<open>An item is shown as ready exactly when it is neither published nor failed nor being
  published, has no known failure, has a channel, and is queued or scheduled with a time; the
  published and failed states win over everything else, and a running publication over every
  complaint about the item.\<close>

theorem getQueueHealth_correct:
  "(getQueueHealth item publishing failure = HReady \<longleftrightarrow>
      \<not> publishing \<and> failure = None \<and> truthy (q_channel_id item) \<and>
      (q_status item = Queued \<or> q_status item = Scheduled \<and> truthy (q_scheduled_at item))) \<and>
   (getQueueHealth item publishing failure = HPublished \<longleftrightarrow> q_status item = Published) \<and>
   (getQueueHealth item publishing failure = HError \<longleftrightarrow>
      q_status item = StatusFailed \<or>
      \<not> publishing \<and> failure \<noteq> None \<and> q_status item \<noteq> Published) \<and>
   (getQueueHealth item publishing failure = HPublishing \<longleftrightarrow>
      publishing \<and> q_status item \<notin> {Published, StatusFailed})"
  by (cases "q_status item") (auto simp: getQueueHealth_def)

text \<open>The operational figures count items: the loop behind \<open>failedToday\<close> counts exactly the
  items that are failed (or carry a failure) with a failure time in the current local day, and
  the three status figures together never exceed the number of items.\<close>

theorem queue_stats_count_items:
  "let s = getQueueOperationalStats h items ids cf
   in st_failedToday s =
        length (filter (\<lambda>item.
          case resolveQueueFailure item (cf (q_id item)) of
            Some f \<Rightarrow> isToday h (Some (fl_occurredAt f))
          | None \<Rightarrow> q_status item = StatusFailed \<and> isToday h (Some (q_updated_at item))) items) \<and>
      st_queued s + st_scheduled s + st_publishedToday s \<le> length items \<and>
      st_failedToday s \<le> length items"
proof -
  have each: "count_failed_today h cf 0 item = 1 \<longleftrightarrow>
      (case resolveQueueFailure item (cf (q_id item)) of
         Some f \<Rightarrow> isToday h (Some (fl_occurredAt f))
       | None \<Rightarrow> q_status item = StatusFailed \<and> isToday h (Some (q_updated_at item)))" for item
    by (auto simp: count_failed_today_def Let_def split: option.splits)
  have sum: "length (filter (\<lambda>item. q_status item = Queued) items) +
      length (filter (\<lambda>item. q_status item = Scheduled) items) +
      length (filter (\<lambda>item. q_status item = Published \<and> P item) items) \<le> length items" for P
    by (induction items) auto
  show ?thesis
    using sum [of "\<lambda>item. isToday h (q_published_at item)"]
    by (simp add: getQueueOperationalStats_def Let_def count_failed_foldl each [unfolded One_nat_def])
qed

text \<open>Retrying a failed item never asks the server to schedule it in the past: it is scheduled
  again exactly when its own time is still ahead, at that very time, and queued otherwise; no
  other field is sent.\<close>

theorem nextStatusAfterFailedRetry_correct:
  "nextStatusAfterFailedRetry h item \<in>
     {no_update\<lparr>u_status := Given Queued\<rparr>,
      no_update\<lparr>u_status := Given Scheduled, u_scheduled_at := Given (the (q_scheduled_at item))\<rparr>} \<and>
   (u_status (nextStatusAfterFailedRetry h item) = Given Scheduled \<longleftrightarrow>
      truthy (q_scheduled_at item) \<and>
      num_less (Num (of_int (now h))) (date_parse h (the (q_scheduled_at item))))"
  by (simp add: nextStatusAfterFailedRetry_def no_update_def)

end
