(* ===== verification/QueueRealtime.thy ===== *)
theory QueueRealtime
  imports QueueModel
begin

text \<open>
  How the publishing screen stays fresh: the mapping of realtime events to query keys and the
  debounced invalidator (\<open>features/queue/lib/queue-event-invalidation.ts\<close>), the polling
  intervals (\<open>lib/queue-polling.ts\<close>) and the effects that decide when polling replaces the
  stream (\<open>hooks/useQueueRealtimeInvalidation.ts\<close>).
\<close>

section \<open>Which queries an event concerns\<close>

definition queueKey :: "jstring \<Rightarrow> query_key" where
  "queueKey workspaceId = workspaceScopedQueryKey (js ''queue'') workspaceId []"

definition queueAttemptsKey :: "jstring \<Rightarrow> jstring \<Rightarrow> query_key" where
  "queueAttemptsKey workspaceId i = queueKey workspaceId @ [KeyText (js ''attempts''), KeyText i]"

definition normalizeQueueId :: "raw_value \<Rightarrow> jstring option" where
  "normalizeQueueId value = (case value of
     RawText s \<Rightarrow> if length s > 0 then Some s else None
   | RawNull \<Rightarrow> None
   | RawOther s \<Rightarrow> if length s > 0 then Some s else None)"

text \<open>A missing event is \<open>None\<close>.\<close>

definition getQueryKeysForQueueEvent ::
  "QueueEventEnvelope option \<Rightarrow> jstring option \<Rightarrow> query_key list" where
  "getQueryKeysForQueueEvent event workspaceId = (case event of
     None \<Rightarrow> []
   | Some ev \<Rightarrow>
       (case ev_event ev of
          RawText name \<Rightarrow>
            if \<not> isQueueEventName name then []
            else if \<not> truthy workspaceId then []
            else
              let ws = the workspaceId;
                  eventWorkspace = normalizeWorkspaceId (raw_text (ev_workspace_id ev))
              in if eventWorkspace \<noteq> None \<and> eventWorkspace \<noteq> Some ws then []
                 else queueKey ws #
                   (if event_name_of name \<in>
                         Some ` {ATTEMPT_STARTED, ATTEMPT_SUCCEEDED, ATTEMPT_FAILED}
                    then (case normalizeQueueId (ev_queue_id ev) of
                            None \<Rightarrow> []
                          | Some queueId \<Rightarrow> [queueAttemptsKey ws queueId])
                    else [])
        | _ \<Rightarrow> []))"

lemma queue_keys_head:
  "take 2 (queueKey ws) = queueKey ws" "take 2 (queueAttemptsKey ws i) = queueKey ws"
  by (simp_all add: queueAttemptsKey_def queueKey_def workspaceScopedQueryKey_def)

lemma event_keys_known:
  assumes "ws \<noteq> []" "ev_event ev = RawText name" "isQueueEventName name"
    "normalizeWorkspaceId (raw_text (ev_workspace_id ev)) \<in> {None, Some ws}"
  shows "\<exists>rest. getQueryKeysForQueueEvent (Some ev) (Some ws) = queueKey ws # rest \<and>
    (rest = [] \<or> (\<exists>i. rest = [queueAttemptsKey ws i]))"
  using assms by (auto simp: getQueryKeysForQueueEvent_def Let_def split: option.splits)

lemma event_keys_unknown:
  assumes "ws \<noteq> []" "\<not> ((\<exists>name. ev_event ev = RawText name \<and> isQueueEventName name) \<and>
    normalizeWorkspaceId (raw_text (ev_workspace_id ev)) \<in> {None, Some ws})"
  shows "getQueryKeysForQueueEvent (Some ev) (Some ws) = []"
  using assms by (cases "ev_event ev") (auto simp: getQueryKeysForQueueEvent_def Let_def)

text \<open>An event invalidates queries of the active workspace and of no other: every key starts
  with the queue of that workspace, an event of another workspace or of an unknown name
  invalidates nothing, and whenever a known event concerns the active workspace (its
  \<open>workspace_id\<close> being that workspace's or none at all) the list of that workspace is refreshed.\<close>

theorem event_keys_of_active_workspace:
  assumes "ws \<noteq> []"
  shows "let keys = getQueryKeysForQueueEvent (Some ev) (Some ws);
             other = normalizeWorkspaceId (raw_text (ev_workspace_id ev))
    in (\<forall>k \<in> set keys. take 2 k = queueKey ws) \<and>
       (keys \<noteq> [] \<longleftrightarrow>
          (\<exists>name. ev_event ev = RawText name \<and> isQueueEventName name) \<and>
          (other = None \<or> other = Some ws)) \<and>
       (keys \<noteq> [] \<longrightarrow> hd keys = queueKey ws \<and> length keys \<le> 2) \<and>
       getQueryKeysForQueueEvent (Some ev) None = []"
proof (cases "(\<exists>name. ev_event ev = RawText name \<and> isQueueEventName name) \<and>
    normalizeWorkspaceId (raw_text (ev_workspace_id ev)) \<in> {None, Some ws}")
  case True
  then obtain rest where "getQueryKeysForQueueEvent (Some ev) (Some ws) = queueKey ws # rest"
    and "rest = [] \<or> (\<exists>i. rest = [queueAttemptsKey ws i])"
    using event_keys_known [OF assms] by blast
  moreover have "getQueryKeysForQueueEvent (Some ev) None = []"
    by (simp add: getQueryKeysForQueueEvent_def split: raw_value.split)
  ultimately show ?thesis using True by (auto simp: queue_keys_head Let_def)
next
  case False
  moreover have "getQueryKeysForQueueEvent (Some ev) None = []"
    by (simp add: getQueryKeysForQueueEvent_def split: raw_value.split)
  ultimately show ?thesis using event_keys_unknown [OF assms False] by (auto simp: Let_def)
qed

lemma event_keys_of_active_workspace_witness:
  "getQueryKeysForQueueEvent
     (Some \<lparr>ev_event = RawText (js ''queue.attempt_failed''), ev_version = 1, ev_id = [],
            ev_occurred_at = [], ev_workspace_id = RawNull, ev_queue_id = RawText (js ''q'')\<rparr>)
     (Some (js ''w'')) = [queueKey (js ''w''), queueAttemptsKey (js ''w'') (js ''q'')] \<and>
   take 2 (queueAttemptsKey (js ''w'') (js ''q'')) = queueKey (js ''w'')"
proof -
  let ?ev = "\<lparr>ev_event = RawText (js ''queue.attempt_failed''), ev_version = 1, ev_id = [],
            ev_occurred_at = [], ev_workspace_id = RawNull, ev_queue_id = RawText (js ''q'')\<rparr>"
  have keys: "getQueryKeysForQueueEvent (Some ?ev) (Some (js ''w'')) =
      [queueKey (js ''w''), queueAttemptsKey (js ''w'') (js ''q'')]"
    by code_simp
  have "js ''w'' \<noteq> []" by simp
  from event_keys_of_active_workspace [OF this, of ?ev] show ?thesis
    by (simp add: keys Let_def)
qed

section \<open>The debounced invalidator\<close>

definition QUEUE_EVENT_INVALIDATION_DEBOUNCE_MS :: int where
  "QUEUE_EVENT_INVALIDATION_DEBOUNCE_MS = 300"

text \<open>
  \<open>pending\<close> is a \<open>Map\<close> in insertion order; its string keys, \<open>JSON.stringify\<close> of an array of
  strings, are in one-to-one correspondence with the query keys, which stand for them.  The
  timers of the event loop are kept with their deadlines; \<open>timer\<close> is the handle the invalidator
  remembers.  \<open>inv_log\<close> records the calls of \<open>invalidateQueries\<close>.
\<close>

record invalidator =
  pending :: "query_key list"
  timer :: "nat option"
  disposed :: bool
  inv_timers :: "(nat \<times> int) list"
  inv_next :: nat
  inv_log :: "query_key list"

definition new_invalidator :: invalidator where
  "new_invalidator =
     \<lparr>pending = [], timer = None, disposed = False, inv_timers = [], inv_next = 0, inv_log = []\<rparr>"

definition pending_set :: "query_key \<Rightarrow> query_key list \<Rightarrow> query_key list" where
  "pending_set k ks = (if k \<in> set ks then ks else ks @ [k])"

definition clear_timer :: "invalidator \<Rightarrow> invalidator" where
  "clear_timer v = (case timer v of
     None \<Rightarrow> v
   | Some i \<Rightarrow> v\<lparr>inv_timers := filter (\<lambda>(j, _). j \<noteq> i) (inv_timers v)\<rparr>)"

definition flush :: "invalidator \<Rightarrow> invalidator" where
  "flush v =
     (if disposed v then v
      else v\<lparr>timer := None, pending := [], inv_log := inv_log v @ pending v\<rparr>)"

definition handle_keys :: "int \<Rightarrow> int \<Rightarrow> query_key list \<Rightarrow> invalidator \<Rightarrow> invalidator" where
  "handle_keys debounceMs time keys v =
     (if disposed v then v
      else if length keys = 0 then v
      else
        let v1 = v\<lparr>pending := foldl (\<lambda>ks k. pending_set k ks) (pending v) keys\<rparr> in
        if debounceMs \<le> 0 then flush v1
        else
          let v2 = clear_timer v1 in
          v2\<lparr>timer := Some (inv_next v2),
             inv_timers := inv_timers v2 @ [(inv_next v2, time + debounceMs)],
             inv_next := inv_next v2 + 1\<rparr>)"

definition handle_event ::
  "int \<Rightarrow> int \<Rightarrow> jstring option \<Rightarrow> QueueEventEnvelope option \<Rightarrow> invalidator \<Rightarrow> invalidator" where
  "handle_event debounceMs time workspaceId event v =
     handle_keys debounceMs time (getQueryKeysForQueueEvent event workspaceId) v"

definition dispose :: "invalidator \<Rightarrow> invalidator" where
  "dispose v = (clear_timer (v\<lparr>disposed := True\<rparr>))\<lparr>timer := None, pending := []\<rparr>"

text \<open>A timer of the event loop fires.\<close>

definition fire_timer :: "nat \<Rightarrow> invalidator \<Rightarrow> invalidator" where
  "fire_timer i v =
     (if i \<in> fst ` set (inv_timers v)
      then flush (v\<lparr>inv_timers := filter (\<lambda>(j, _). j \<noteq> i) (inv_timers v)\<rparr>) else v)"

datatype inv_action =
  HandleEvent int "jstring option" "QueueEventEnvelope option" | FireTimer nat | FlushNow | Dispose

definition inv_step :: "int \<Rightarrow> invalidator \<Rightarrow> inv_action \<Rightarrow> invalidator" where
  "inv_step debounceMs v a = (case a of
     HandleEvent time ws ev \<Rightarrow> handle_event debounceMs time ws ev v
   | FireTimer i \<Rightarrow> fire_timer i v
   | FlushNow \<Rightarrow> flush v
   | Dispose \<Rightarrow> dispose v)"

text \<open>Nothing is lost: while a key is pending, the remembered timer is still scheduled.\<close>

definition inv_ok :: "invalidator \<Rightarrow> bool" where
  "inv_ok v \<longleftrightarrow>
     distinct (pending v) \<and>
     (\<forall>(i, _) \<in> set (inv_timers v). i < inv_next v) \<and>
     (pending v \<noteq> [] \<longrightarrow>
        \<not> disposed v \<and> (\<exists>i. timer v = Some i \<and> i \<in> fst ` set (inv_timers v)))"

lemma pending_fold_set:
  "set (foldl (\<lambda>ks k. pending_set k ks) ks keys) = set ks \<union> set keys"
  by (induction keys arbitrary: ks) (auto simp: pending_set_def)

lemma pending_fold_distinct:
  "distinct ks \<Longrightarrow> distinct (foldl (\<lambda>ks k. pending_set k ks) ks keys)"
  by (induction keys arbitrary: ks) (auto simp: pending_set_def)

lemma flush_ok: "inv_ok v \<Longrightarrow> inv_ok (flush v)"
  by (auto simp: inv_ok_def flush_def)

lemma clear_timer_keeps [simp]:
  "pending (clear_timer v) = pending v" "timer (clear_timer v) = timer v"
  "disposed (clear_timer v) = disposed v" "inv_next (clear_timer v) = inv_next v"
  "inv_log (clear_timer v) = inv_log v"
  "set (inv_timers (clear_timer v)) \<subseteq> set (inv_timers v)"
  by (auto simp: clear_timer_def split: option.splits)

lemma handle_keys_ok:
  assumes "inv_ok v"
  shows "inv_ok (handle_keys d t keys v)"
proof -
  have "(i, x) \<in> set (inv_timers (clear_timer (v\<lparr>pending := ks\<rparr>))) \<Longrightarrow> i < inv_next v" for i x ks
    using assms clear_timer_keeps(6) [of "v\<lparr>pending := ks\<rparr>"] by (fastforce simp: inv_ok_def)
  then show ?thesis
    using assms
    by (auto simp: handle_keys_def Let_def inv_ok_def flush_def pending_fold_distinct
        intro: less_SucI)
qed

lemma fire_timer_ok:
  assumes "inv_ok v"
  shows "inv_ok (fire_timer i v)"
  using assms by (auto simp: fire_timer_def flush_def inv_ok_def)

lemma dispose_ok: "inv_ok v \<Longrightarrow> inv_ok (dispose v)"
  using clear_timer_keeps(6) [of "v\<lparr>disposed := True\<rparr>"]
  by (fastforce simp: dispose_def inv_ok_def)

lemma inv_step_ok: "inv_ok v \<Longrightarrow> inv_ok (inv_step d v a)"
  by (cases a)
    (simp_all add: inv_step_def handle_event_def handle_keys_ok fire_timer_ok flush_ok dispose_ok)

interpretation invalidation: state_machine "inv_step d" "\<lambda>_ _. True" inv_ok for d
  by unfold_locales (rule inv_step_ok)

lemma inv_step_log: "\<exists>new. inv_log (inv_step d v a) = inv_log v @ new"
  by (cases a)
    (auto simp: inv_step_def handle_event_def handle_keys_def Let_def flush_def fire_timer_def
      dispose_def)

interpretation invalidation_log: growing_log "inv_step d" "\<lambda>_. True" inv_log for d
  by unfold_locales (rule inv_step_log)


text \<open>A burst: events closer to each other than the debounce window, so that no timer fires
  between them.\<close>

definition burst :: "int \<Rightarrow> (int \<times> query_key list) list \<Rightarrow> invalidator \<Rightarrow> invalidator" where
  "burst d evs v = foldl (\<lambda>v (t, keys). handle_keys d t keys v) v evs"

lemma burst_pending:
  assumes "0 < d" "\<not> disposed v"
  shows "pending (burst d evs v) =
      foldl (\<lambda>ks k. pending_set k ks) (pending v) (concat (map snd evs)) \<and>
    \<not> disposed (burst d evs v) \<and> inv_log (burst d evs v) = inv_log v"
  using assms
  by (induction evs arbitrary: v)
    (auto simp: burst_def handle_keys_def Let_def split: prod.splits)

lemma pending_fold_unique:
  "distinct ks \<Longrightarrow> foldl (\<lambda>ks k. pending_set k ks) ks keys = ks @ unique_from ks keys"
proof (induction keys arbitrary: ks)
  case Nil
  then show ?case by simp
next
  case (Cons k keys)
  have perm: "unique_from (ks @ [k]) keys = unique_from (k # ks) keys"
    by (rule unique_from_cong) auto
  show ?case using Cons perm by (auto simp: pending_set_def)
qed

text \<open>A burst of events causes one refetch per affected query: after any number of events in
  the debounce window the flush invalidates each of the keys they concern exactly once, in the
  order in which they first appeared.\<close>

theorem invalidator_coalesces_burst:
  assumes "0 < d"
  shows "let keys = concat (map snd evs); v = flush (burst d evs new_invalidator)
    in inv_log v = unique keys \<and> set (inv_log v) = set keys \<and> distinct (inv_log v) \<and>
       pending v = []"
  using burst_pending [OF assms, of new_invalidator evs]
    pending_fold_unique [of "[]" "concat (map snd evs)"]
  by (simp add: Let_def flush_def new_invalidator_def unique_def distinct_unique_from
      set_unique_from)

lemma invalidator_coalesces_burst_witness:
  "inv_log (flush (burst 300 [(0, [queueKey (js ''w'')]), (100, [queueKey (js ''w'')])]
     new_invalidator)) = [queueKey (js ''w'')]"
  using invalidator_coalesces_burst
    [of 300 "[(0, [queueKey (js ''w'')]), (100, [queueKey (js ''w'')])]"]
  by (simp add: Let_def unique_def)

section \<open>Polling\<close>

definition QUEUE_POLL_FALLBACK_MIN_MS :: int where
  "QUEUE_POLL_FALLBACK_MIN_MS = 5000"

definition QUEUE_POLL_FALLBACK_MAX_MS :: int where
  "QUEUE_POLL_FALLBACK_MAX_MS = 30000"

definition computeQueuePollIntervalMs :: "int \<Rightarrow> int" where
  "computeQueuePollIntervalMs consecutiveUnchanged =
     (let exp = QUEUE_POLL_FALLBACK_MIN_MS * 2 ^ nat (max 0 consecutiveUnchanged)
      in min exp QUEUE_POLL_FALLBACK_MAX_MS)"

text \<open>The state of the query as the selector sees it; \<open>data\<close> is compared by identity.\<close>

record 'd query_state =
  qs_data :: 'd
  dataUpdateCount :: int
  is_fetching :: bool

record 'd selector =
  lastData :: "'d option"
  lastDataUpdateCount :: int
  unchangedStreak :: nat

definition new_selector :: "'d selector" where
  "new_selector = \<lparr>lastData = None, lastDataUpdateCount = -1, unchangedStreak = 0\<rparr>"

definition poll_select :: "'d selector \<Rightarrow> 'd query_state \<Rightarrow> 'd selector \<times> int" where
  "poll_select s q =
     (if is_fetching q then (s, computeQueuePollIntervalMs (int (unchangedStreak s)))
      else
        let s' = (if dataUpdateCount q \<noteq> lastDataUpdateCount s
          then s\<lparr>unchangedStreak :=
                   (if lastDataUpdateCount s \<ge> 0 \<and> Some (qs_data q) = lastData s
                    then unchangedStreak s + 1
                    else if lastDataUpdateCount s \<ge> 0 then 0 else unchangedStreak s),
                 lastData := Some (qs_data q),
                 lastDataUpdateCount := dataUpdateCount q\<rparr>
          else s)
        in (s', computeQueuePollIntervalMs (int (unchangedStreak s'))))"

fun poll_run :: "'d selector \<Rightarrow> 'd query_state list \<Rightarrow> 'd selector" where
  "poll_run s [] = s"
| "poll_run s (q # qs) = poll_run (fst (poll_select s q)) qs"

lemma poll_interval_bounds:
  "5000 \<le> computeQueuePollIntervalMs k \<and> computeQueuePollIntervalMs k \<le> 30000"
proof -
  have "(1::int) \<le> 2 ^ n" for n :: nat by simp
  then show ?thesis
    by (simp add: computeQueuePollIntervalMs_def Let_def QUEUE_POLL_FALLBACK_MIN_MS_def
        QUEUE_POLL_FALLBACK_MAX_MS_def)
qed

lemma poll_unchanged:
  assumes "lastData s = Some d" "0 \<le> lastDataUpdateCount s"
  shows "unchangedStreak (poll_run s
      (map (\<lambda>i. \<lparr>qs_data = d, dataUpdateCount = lastDataUpdateCount s + 1 + int i,
                is_fetching = False\<rparr>) [0..<n])) = unchangedStreak s + n"
  using assms
proof (induction n arbitrary: s)
  case 0
  then show ?case by simp
next
  case (Suc n)
  let ?q = "\<lparr>qs_data = d, dataUpdateCount = lastDataUpdateCount s + 1, is_fetching = False\<rparr>"
  let ?s = "fst (poll_select s ?q)"
  have s: "lastData ?s = Some d" "lastDataUpdateCount ?s = lastDataUpdateCount s + 1"
      "unchangedStreak ?s = unchangedStreak s + 1"
    using Suc.prems by (simp_all add: poll_select_def Let_def)
  have "map (\<lambda>i. \<lparr>qs_data = d, dataUpdateCount = lastDataUpdateCount s + 1 + int i,
        is_fetching = False\<rparr>) [0..<Suc n] =
      ?q # map (\<lambda>i. \<lparr>qs_data = d, dataUpdateCount = lastDataUpdateCount ?s + 1 + int i,
        is_fetching = False\<rparr>) [0..<n]"
    by (simp add: upt_conv_Cons map_Suc_upt [symmetric] s del: upt_Suc)
  then show ?case
    using Suc.IH [of ?s] Suc.prems s by simp
qed

text \<open>The polling interval always lies between 5 and 30 seconds; it starts at 5 s, doubles with
  every refetch that brought the same data until the cap is reached after three, and falls back
  to 5 s as soon as the data changed.\<close>

theorem polling_backs_off_and_resets:
  assumes "lastData s = Some d" "0 \<le> lastDataUpdateCount s" "unchangedStreak s = 0"
    and "d' \<noteq> d"
  shows "let s' = poll_run s
        (map (\<lambda>i. \<lparr>qs_data = d, dataUpdateCount = lastDataUpdateCount s + 1 + int i,
                  is_fetching = False\<rparr>) [0..<n]);
      next_interval = computeQueuePollIntervalMs (int (unchangedStreak s'))
    in next_interval = min (5000 * 2 ^ n) 30000 \<and> 5000 \<le> next_interval \<and> next_interval \<le> 30000 \<and>
       snd (poll_select s \<lparr>qs_data = d', dataUpdateCount = lastDataUpdateCount s + 1,
                          is_fetching = False\<rparr>) = 5000"
  unfolding Let_def poll_unchanged [OF assms(1,2)]
  using poll_interval_bounds [of "int n"] assms
  by (simp add: computeQueuePollIntervalMs_def Let_def QUEUE_POLL_FALLBACK_MIN_MS_def
      QUEUE_POLL_FALLBACK_MAX_MS_def poll_select_def)

lemma polling_backs_off_and_resets_witness:
  "computeQueuePollIntervalMs (int (unchangedStreak (poll_run
     \<lparr>lastData = Some (7::nat), lastDataUpdateCount = 0, unchangedStreak = 0\<rparr>
     (map (\<lambda>i. \<lparr>qs_data = 7, dataUpdateCount = 0 + 1 + int i, is_fetching = False\<rparr>) [0..<2])))) =
   20000"
  using polling_backs_off_and_resets
    [of "\<lparr>lastData = Some (7::nat), lastDataUpdateCount = 0, unchangedStreak = 0\<rparr>" 7 8 2]
  by (simp add: Let_def)

end
