(* ===== verification/ApiErrors.thy ===== *)
theory ApiErrors
  imports JsPrelude
begin

text \<open>
  The error values of \<open>frontend/src/services/api-client.ts\<close>: what a call of the API can be
  rejected with, the normal form of a failed request, and the message shown for it.
\<close>

section \<open>Errors\<close>

text \<open>One entry of a 422 answer: where (keys and indices), and what.\<close>

record validation_item =
  vi_loc :: "(jstring + int) list"
  vi_msg :: jstring

record api_error =
  ae_status :: nat
  ae_message :: jstring
  ae_code :: "jstring option"
  ae_validation :: "validation_item list option"

text \<open>What a promise can be rejected with: a plain \<open>ApiError\<close> object, an instance of
  \<open>Error\<close> (its name and message), or anything else.\<close>

datatype thrown = ThrownApi api_error | ThrownError jstring jstring | ThrownOther

definition isApiError :: "thrown \<Rightarrow> bool" where
  "isApiError error = (case error of
     ThrownApi _ \<Rightarrow> True
   | ThrownError _ _ \<Rightarrow> True
   | ThrownOther \<Rightarrow> False)"

definition thrown_message :: "thrown \<Rightarrow> jstring" where
  "thrown_message error = (case error of
     ThrownApi e \<Rightarrow> ae_message e
   | ThrownError _ m \<Rightarrow> m
   | ThrownOther \<Rightarrow> [])"

definition instance_of_Error :: "thrown \<Rightarrow> bool" where
  "instance_of_Error error = (case error of ThrownError _ _ \<Rightarrow> True | _ \<Rightarrow> False)"

definition getApiErrorMessage :: "thrown \<Rightarrow> jstring \<Rightarrow> jstring" where
  "getApiErrorMessage error fallback =
     (if isApiError error \<and> length (thrown_message error) > 0 then thrown_message error
      else if instance_of_Error error \<and> length (thrown_message error) > 0
      then thrown_message error
      else fallback)"

definition missing_workspace_text :: jstring where
  "missing_workspace_text =
    [1604, 1605, 32, 1610, 1578, 1605, 32, 1578, 1581, 1583, 1610, 1583, 32, 1605, 1587,
     1575, 1581, 1577, 32, 1575, 1604, 1593, 1605, 1604, 46]"

definition MISSING_WORKSPACE_ERROR :: api_error where
  "MISSING_WORKSPACE_ERROR =
     \<lparr>ae_status = 0, ae_message = missing_workspace_text,
      ae_code = Some (js ''missing_workspace''), ae_validation = None\<rparr>"

definition isMissingWorkspaceError :: "thrown \<Rightarrow> bool" where
  "isMissingWorkspaceError error = (case error of
     ThrownApi e \<Rightarrow> ae_code e = Some (js ''missing_workspace'')
   | _ \<Rightarrow> False)"

text \<open>The body of an error answer: \<open>detail\<close> is a text, a list of entries, or missing.\<close>

datatype error_detail = DetailText jstring | DetailList "validation_item list" | DetailMissing

record axios_error =
  ax_response :: "(nat \<times> error_detail) option"

definition connection_failed_text :: jstring where
  "connection_failed_text =
    [1578, 1593, 1584, 1585, 32, 1575, 1604, 1575, 1578, 1589, 1575, 1604, 32, 1576, 1575,
     1604, 1582, 1575, 1583, 1605, 46]"

definition request_failed_text :: jstring where
  "request_failed_text =
    [1578, 1593, 1584, 1585, 32, 1573, 1603, 1605, 1575, 1604, 32, 1575, 1604, 1591, 1604,
     1576, 46]"

definition normalizeAxiosError :: "axios_error \<Rightarrow> api_error" where
  "normalizeAxiosError error =
     (let status = (case ax_response error of None \<Rightarrow> 0 | Some (s, _) \<Rightarrow> s);
          detail = (case ax_response error of None \<Rightarrow> DetailMissing | Some (_, d) \<Rightarrow> d)
      in \<lparr>ae_status = status,
          ae_message = (case detail of
             DetailText t \<Rightarrow> t
           | _ \<Rightarrow> if status = 0 then connection_failed_text else request_failed_text),
          ae_code = None,
          ae_validation = (case detail of DetailList items \<Rightarrow> Some items | _ \<Rightarrow> None)\<rparr>)"

lemma getApiErrorMessage_nonempty:
  "fallback \<noteq> [] \<Longrightarrow> getApiErrorMessage error fallback \<noteq> []"
  by (auto simp: getApiErrorMessage_def)

text \<open>The normal form of a failed request keeps the status (0 when there was no answer) and
  shows the server's own text whenever the server sent one; without it the message tells a
  connection failure from a refused request, and the entries of a 422 answer are kept.  An API
  error is always shown with its own message unless that is empty.\<close>

theorem normalizeAxiosError_message:
  "(case ax_response error of
      None \<Rightarrow> ae_status (normalizeAxiosError error) = 0 \<and>
        getApiErrorMessage (ThrownApi (normalizeAxiosError error)) fallback = connection_failed_text
    | Some (status, DetailText t) \<Rightarrow> ae_status (normalizeAxiosError error) = status \<and>
        getApiErrorMessage (ThrownApi (normalizeAxiosError error)) fallback =
          (if t = [] then fallback else t)
    | Some (status, DetailList items) \<Rightarrow>
        ae_validation (normalizeAxiosError error) = Some items \<and>
        (status \<noteq> 0 \<longrightarrow> getApiErrorMessage (ThrownApi (normalizeAxiosError error)) fallback =
           request_failed_text)
    | Some (status, DetailMissing) \<Rightarrow> ae_validation (normalizeAxiosError error) = None)"
  by (auto simp: normalizeAxiosError_def Let_def getApiErrorMessage_def isApiError_def
      thrown_message_def instance_of_Error_def connection_failed_text_def
      request_failed_text_def split: option.splits error_detail.splits)

lemma normalizeAxiosError_message_witness:
  "getApiErrorMessage (ThrownApi (normalizeAxiosError
     \<lparr>ax_response = Some (422, DetailList [])\<rparr>)) [] = request_failed_text"
  using normalizeAxiosError_message [of "\<lparr>ax_response = Some (422, DetailList [])\<rparr>" "[]"]
  by simp

end
