(* ===== verification/QueueHooks.thy ===== *)
theory QueueHooks
  imports QueueRealtime ApiErrors
begin

text \<open>
  The hooks of \<open>frontend/src/features/queue/hooks/useQueue.ts\<close>: the bounded pool of requests,
  the enrichment of list items with attempt summaries, publishing a batch, and the state of the
  table (search, filters, sort, pages, selection).
\<close>

section \<open>mapWithConcurrency\<close>

text \<open>
  A worker takes the next index and waits for the mapper; when the mapper settles, it takes the
  next one.  \<open>po_running\<close> are the indices the workers wait for.  A rejection ends its worker and
  rejects the whole call, while the other workers go on.
\<close>

record 'r pool =
  nextIndex :: nat
  po_running :: "nat list"
  po_results :: "nat \<rightharpoonup> 'r"
  po_rejected :: bool

definition pool_start :: "nat \<Rightarrow> nat \<Rightarrow> 'r pool" where
  "pool_start n concurrency =
     (let workers = min concurrency n in
      \<lparr>nextIndex = workers, po_running = [0..<workers], po_results = Map.empty,
       po_rejected = False\<rparr>)"

datatype 'r settled = Resolved 'r | Rejected

definition pool_step :: "nat \<Rightarrow> 'r pool \<Rightarrow> nat \<times> 'r settled \<Rightarrow> 'r pool" where
  "pool_step n p a =
     (let (i, outcome) = a in
      if i \<notin> set (po_running p) then p
      else (case outcome of
        Rejected \<Rightarrow> p\<lparr>po_running := remove1 i (po_running p), po_rejected := True\<rparr>
      | Resolved r \<Rightarrow>
          let p' = p\<lparr>po_running := remove1 i (po_running p),
                     po_results := (po_results p)(i \<mapsto> r)\<rparr>
          in if nextIndex p' < n
             then p'\<lparr>po_running := po_running p' @ [nextIndex p'], nextIndex := nextIndex p' + 1\<rparr>
             else p'))"

text \<open>Every index below \<open>nextIndex\<close> has been handed out once: it is running, done or rejected.\<close>

definition pool_inv :: "nat \<Rightarrow> nat \<Rightarrow> (nat \<Rightarrow> 'r) \<Rightarrow> 'r pool \<Rightarrow> bool" where
  "pool_inv n c f p \<longleftrightarrow>
     distinct (po_running p) \<and> length (po_running p) \<le> min c n \<and> nextIndex p \<le> n \<and>
     set (po_running p) \<subseteq> {..<nextIndex p} \<and> dom (po_results p) \<subseteq> {..<nextIndex p} \<and>
     dom (po_results p) \<inter> set (po_running p) = {} \<and>
     (\<forall>i \<in> dom (po_results p). po_results p i = Some (f i)) \<and>
     (\<not> po_rejected p \<longrightarrow>
        set (po_running p) \<union> dom (po_results p) = {..<nextIndex p} \<and>
        (nextIndex p < n \<longrightarrow> length (po_running p) = min c n))"

text \<open>The mapper answers the request for item \<open>i\<close> with \<open>f i\<close>, or rejects.\<close>

definition pool_ok :: "(nat \<Rightarrow> 'r) \<Rightarrow> 'r pool \<Rightarrow> nat \<times> 'r settled \<Rightarrow> bool" where
  "pool_ok f p a = (case snd a of Resolved r \<Rightarrow> r = f (fst a) | Rejected \<Rightarrow> True)"

lemma pool_start_inv: "pool_inv n c f (pool_start n c)"
  by (auto simp: pool_inv_def pool_start_def Let_def)

lemma pool_inv_D:
  assumes "pool_inv n c f p"
  shows "distinct (po_running p)" "length (po_running p) \<le> min c n" "nextIndex p \<le> n"
    "set (po_running p) \<subseteq> {..<nextIndex p}" "dom (po_results p) \<subseteq> {..<nextIndex p}"
    "dom (po_results p) \<inter> set (po_running p) = {}"
    "\<forall>i \<in> dom (po_results p). po_results p i = Some (f i)"
    "\<not> po_rejected p \<Longrightarrow> set (po_running p) \<union> dom (po_results p) = {..<nextIndex p}"
    "\<not> po_rejected p \<Longrightarrow> nextIndex p < n \<Longrightarrow> length (po_running p) = min c n"
  using assms by (simp_all add: pool_inv_def)

lemma running_removed:
  assumes "distinct xs" "i \<in> set xs"
  shows "set (remove1 i xs) = set xs - {i}" "Suc (length (remove1 i xs)) = length xs"
    "distinct (remove1 i xs)"
  using assms by (simp_all add: set_remove1_eq length_remove1) (cases xs, simp_all)

text \<open>A worker's item settles; the worker stops.\<close>

lemma pool_inv_stop:
  assumes inv: "pool_inv n c f p" and i: "i \<in> set (po_running p)"
    and results: "rs = po_results p \<and> rej \<or>
      rs = (po_results p)(i \<mapsto> f i) \<and> rej = po_rejected p \<and> nextIndex p = n"
  shows "pool_inv n c f
    (p\<lparr>po_running := remove1 i (po_running p), po_results := rs, po_rejected := rej\<rparr>)"
proof -
  note D = pool_inv_D [OF inv] and R = running_removed [OF pool_inv_D(1) [OF inv] i]
  have dom: "dom rs = dom (po_results p) \<or> dom rs = insert i (dom (po_results p))"
    using results by (elim disjE conjE) (simp_all only: dom_fun_upd option.simps if_False simp_thms)
  have in_range: "i < nextIndex p" using D(4) i by auto
  have vals: "\<forall>j \<in> dom rs. rs j = Some (f j)"
    using results D(7) by (fastforce simp: dom_def split: if_splits)
  have sub: "dom rs \<subseteq> {..<nextIndex p}" using dom D(5) in_range by (elim disjE) simp_all
  have disj: "dom rs \<inter> set (remove1 i (po_running p)) = {}" using dom D(6) R(1) by blast
  have cover: "set (remove1 i (po_running p)) \<union> dom rs = {..<nextIndex p}" if "\<not> rej"
  proof -
    have "rs = (po_results p)(i \<mapsto> f i)" "\<not> po_rejected p" using results that by auto
    then have "dom rs = insert i (dom (po_results p))"
      and "set (po_running p) \<union> dom (po_results p) = {..<nextIndex p}" using D(8) by auto
    then show ?thesis using R(1) i by auto
  qed
  have full: "nextIndex p < n \<longrightarrow> rej" using results by auto
  show ?thesis
    unfolding pool_inv_def using D(2-4) R vals sub disj cover full by (auto intro: subset_trans)
qed

text \<open>A worker's item is mapped; the worker takes the next one.\<close>

lemma pool_inv_next:
  assumes inv: "pool_inv n c f p" and i: "i \<in> set (po_running p)" and more: "nextIndex p < n"
  shows "pool_inv n c f
    (p\<lparr>po_results := (po_results p)(i \<mapsto> f i),
       po_running := remove1 i (po_running p) @ [nextIndex p], nextIndex := nextIndex p + 1\<rparr>)"
proof -
  note D = pool_inv_D [OF inv] and R = running_removed [OF pool_inv_D(1) [OF inv] i]
  have new: "nextIndex p \<notin> set (po_running p)" "nextIndex p \<notin> dom (po_results p)"
    using D(4,5) by auto
  have in_range: "i < nextIndex p" using D(4) i by auto
  let ?run = "remove1 i (po_running p) @ [nextIndex p]"
  let ?rs = "(po_results p)(i \<mapsto> f i)"
  have 1: "distinct ?run" using R new by simp
  have 2: "length ?run = length (po_running p)" using R(2) by simp
  have 3: "set ?run \<subseteq> {..<nextIndex p + 1}" using D(4) R(1) by auto
  have 4: "dom ?rs \<subseteq> {..<nextIndex p + 1}" using D(5) in_range by auto
  have 5: "dom ?rs \<inter> set ?run = {}" using D(6) R(1) new in_range by auto
  have 6: "\<forall>j \<in> dom ?rs. ?rs j = Some (f j)" using D(7) by auto
  have 7: "set ?run \<union> dom ?rs = {..<nextIndex p + 1}" if "\<not> po_rejected p"
  proof -
    have "set ?run \<union> dom ?rs = insert (nextIndex p) (set (po_running p) \<union> dom (po_results p))"
      using R(1) i by auto
    then show ?thesis using D(8) [OF that] by (simp add: lessThan_Suc)
  qed
  show ?thesis
    unfolding pool_inv_def using 1 2 3 4 5 6 7 D(2) D(9) more by simp
qed

lemma pool_step_inv:
  assumes inv: "pool_inv n c f p" and ok: "pool_ok f p a"
  shows "pool_inv n c f (pool_step n p a)"
proof (cases "fst a \<in> set (po_running p)")
  case False
  then show ?thesis using assms by (cases a) (simp add: pool_step_def)
next
  case True
  obtain i outcome where a: "a = (i, outcome)" by (cases a)
  with True have i: "i \<in> set (po_running p)" by simp
  show ?thesis
  proof (cases outcome)
    case Rejected
    then show ?thesis
      using pool_inv_stop [OF inv i, of "po_results p" True] i by (simp add: pool_step_def a)
  next
    case (Resolved r)
    then have r: "r = f i" using ok a by (simp add: pool_ok_def)
    show ?thesis
    proof (cases "nextIndex p < n")
      case True
      then show ?thesis
        using pool_inv_next [OF inv i True] i by (simp add: pool_step_def a Resolved r Let_def)
    next
      case False
      then have "nextIndex p = n" using pool_inv_D(3) [OF inv] by simp
      then show ?thesis
        using pool_inv_stop [OF inv i, of "(po_results p)(i \<mapsto> f i)" "po_rejected p"] i
        by (simp add: pool_step_def a Resolved r Let_def)
    qed
  qed
qed

interpretation pool: state_machine "pool_step n" "pool_ok f" "pool_inv n c f" for n c f
  by unfold_locales (rule pool_step_inv)

text \<open>C28: \<open>mapWithConcurrency\<close> never has more than \<open>concurrency\<close> requests in flight, whatever the
  order in which they are answered; and when no worker is waiting any more and none was
  rejected, every item has been mapped, with its result at its own place.\<close>

theorem mapWithConcurrency_correct:
  assumes "admissible (pool_step n) (pool_ok f) (pool_start n c) answers" "0 < c"
  shows "let p = run (pool_step n) (pool_start n c) answers
    in length (po_running p) \<le> c \<and>
       (po_running p = [] \<and> \<not> po_rejected p \<longrightarrow>
          map (po_results p) [0..<n] = map (\<lambda>i. Some (f i)) [0..<n])"
proof -
  have inv: "pool_inv n c f (run (pool_step n) (pool_start n c) answers)"
    by (rule pool.run_inv [OF pool_start_inv assms(1)])
  then show ?thesis
    using assms(2) by (auto simp: pool_inv_def Let_def)
qed

lemma mapWithConcurrency_correct_witness:
  "let p = run (pool_step 3) (pool_start 3 2)
     [(1, Resolved (10::nat)), (0, Resolved 0), (2, Resolved 20)]
   in length (po_running p) \<le> 2 \<and> map (po_results p) [0..<3] = [Some 0, Some 10, Some 20]"
proof -
  let ?as = "[(1, Resolved (10::nat)), (0, Resolved 0), (2, Resolved 20)]"
  have "admissible (pool_step 3) (pool_ok (\<lambda>i. 10 * i)) (pool_start 3 2) ?as" by code_simp
  note c = mapWithConcurrency_correct [OF this]
  have "po_running (run (pool_step 3) (pool_start 3 2) ?as) = [] \<and>
      \<not> po_rejected (run (pool_step 3) (pool_start 3 2) ?as)" by code_simp
  with c show ?thesis by (simp add: Let_def upt_rec [of 0] upt_rec [of "Suc 0"]
      upt_rec [of 2] numeral_2_eq_2 numeral_3_eq_3)
qed

section \<open>useQueueAttemptSummaryEnrichment\<close>

record attempt_summary =
  sm_last_attempt :: "QueuePublishAttempt option"
  sm_failure_reason :: "jstring option"
  sm_retry_count :: int

definition summary_of :: "QueueItem \<Rightarrow> attempt_summary" where
  "summary_of detail =
     \<lparr>sm_last_attempt = last_attempt detail, sm_failure_reason = failure_reason detail,
      sm_retry_count = or_default (retry_count detail) 0\<rparr>"

record enrichment =
  generationRef :: nat
  summariesById :: "jstring \<rightharpoonup> attempt_summary"
  enriching :: bool
  current_targets :: "jstring list"
  live_run :: bool

definition fresh_enrichment :: enrichment where
  "fresh_enrichment =
     \<lparr>generationRef = 0, summariesById = Map.empty, enriching = False, current_targets = [],
      live_run = False\<rparr>"

definition enrichment_targets :: "QueueItem list \<Rightarrow> jstring list" where
  "enrichment_targets items = map q_id (filter (\<lambda>item. q_status item \<noteq> Published) items)"

text \<open>The effect runs when the fingerprint of the list changes; an answer belongs to the run (its
  generation) that asked for it; a run ends when its pool is done.  The cleanup cancels the run.\<close>

datatype enrich_action =
  ListChanged "QueueItem list"
| DetailAnswered nat jstring QueueItem
| DetailFailed nat jstring
| RunFinished nat
| Unmount

definition enrich_step :: "enrichment \<Rightarrow> enrich_action \<Rightarrow> enrichment" where
  "enrich_step s a = (case a of
     ListChanged items \<Rightarrow>
       (let targets = enrichment_targets items in
        s\<lparr>generationRef := generationRef s + 1, summariesById := Map.empty,
          enriching := targets \<noteq> [], current_targets := targets, live_run := targets \<noteq> []\<rparr>)
   | DetailAnswered generation i detail \<Rightarrow>
       if \<not> live_run s \<or> generationRef s \<noteq> generation then s
       else s\<lparr>summariesById := (summariesById s)(i \<mapsto> summary_of detail)\<rparr>
   | DetailFailed generation i \<Rightarrow> s
   | RunFinished generation \<Rightarrow>
       if live_run s \<and> generationRef s = generation then s\<lparr>enriching := False\<rparr> else s
   | Unmount \<Rightarrow> s\<lparr>live_run := False\<rparr>)"

definition enrichedItems :: "QueueItem list \<Rightarrow> enrichment \<Rightarrow> QueueItem list" where
  "enrichedItems items s =
     map (\<lambda>item. case summariesById s (q_id item) of
            Some summary \<Rightarrow>
              item\<lparr>last_attempt := sm_last_attempt summary,
                   failure_reason := sm_failure_reason summary,
                   retry_count := Some (sm_retry_count summary)\<rparr>
          | None \<Rightarrow> item) items"

text \<open>A run only asks for the details of its own targets.\<close>

fun enrich_ok :: "enrichment \<Rightarrow> enrich_action \<Rightarrow> bool" where
  "enrich_ok s (DetailAnswered generation i detail) =
     (generation = generationRef s \<longrightarrow> i \<in> set (current_targets s))"
| "enrich_ok s _ = True"

definition enrich_inv :: "enrichment \<Rightarrow> bool" where
  "enrich_inv s \<longleftrightarrow> dom (summariesById s) \<subseteq> set (current_targets s)"

lemma enrich_step_inv: "enrich_inv s \<Longrightarrow> enrich_ok s a \<Longrightarrow> enrich_inv (enrich_step s a)"
  by (cases a) (auto simp: enrich_step_def enrich_inv_def Let_def)

interpretation enrich: state_machine enrich_step enrich_ok enrich_inv
  by unfold_locales (rule enrich_step_inv)

lemma enrich_list_changed:
  "generationRef (enrich_step s (ListChanged items)) = Suc (generationRef s)"
  "summariesById (enrich_step s (ListChanged items)) = Map.empty"
  by (simp_all add: enrich_step_def Let_def)

text \<open>Enrichment never shows stale data: whatever answers arrive late, after the list has changed
  only answers of the current generation are taken, so every summary belongs to an unpublished
  item of the list now shown; enriching keeps the list's length, order, ids and everything but
  the three summary fields.\<close>

theorem enrichment_not_stale:
  assumes "admissible enrich_step enrich_ok (enrich_step fresh_enrichment (ListChanged items)) acts"
    and "\<forall>a \<in> set acts. \<forall>items'. a \<noteq> ListChanged items'"
  shows "let s = run enrich_step (enrich_step fresh_enrichment (ListChanged items)) acts
    in dom (summariesById s) \<subseteq> set (enrichment_targets items) \<and>
       map q_id (enrichedItems items s) = map q_id items \<and>
       map q_status (enrichedItems items s) = map q_status items \<and>
       (\<forall>generation i detail. generation \<noteq> generationRef s \<longrightarrow>
          enrich_step s (DetailAnswered generation i detail) = s)"
proof -
  let ?s0 = "enrich_step fresh_enrichment (ListChanged items)"
  have s0: "enrich_inv ?s0" "current_targets ?s0 = enrichment_targets items"
    by (simp_all add: enrich_inv_def enrich_step_def Let_def)
  have keep: "current_targets (run enrich_step s as) = current_targets s"
    if "\<forall>a \<in> set as. \<forall>items'. a \<noteq> ListChanged items'" for s as
    using that by (induction as arbitrary: s) (auto simp: enrich_step_def split: enrich_action.splits)
  have "enrich_inv (run enrich_step ?s0 acts)" by (rule enrich.run_inv [OF s0(1) assms(1)])
  then have "dom (summariesById (run enrich_step ?s0 acts)) \<subseteq> set (enrichment_targets items)"
    using keep [OF assms(2)] s0(2) by (simp add: enrich_inv_def)
  moreover have "map q_id (enrichedItems items s) = map q_id items"
    and "map q_status (enrichedItems items s) = map q_status items" for s
    by (auto simp: enrichedItems_def split: option.splits)
  moreover have "generation \<noteq> generationRef s \<Longrightarrow> enrich_step s (DetailAnswered generation i detail) = s"
    for s generation i detail by (simp add: enrich_step_def)
  ultimately show ?thesis by (simp add: Let_def)
qed

definition sample_detail :: QueueItem where
  "sample_detail =
     \<lparr>q_id = js ''a'', q_title = None, q_content = js ''text'', q_status = Queued,
      q_scheduled_at = None, q_published_at = None, q_channel_id = None, q_product_id = None,
      q_image_url = None, q_button_text = None, q_button_url = None, q_telegram_message_id = None,
      q_created_at = [], q_updated_at = [], last_attempt = None,
      failure_reason = Some (js ''no chat''), retry_count = None\<rparr>"

lemma enrichment_not_stale_witness:
  "let s = run enrich_step (enrich_step fresh_enrichment (ListChanged [sample_detail]))
       [DetailAnswered 1 (js ''a'') sample_detail, RunFinished 1]
   in dom (summariesById s) \<subseteq> {js ''a''} \<and>
      map failure_reason (enrichedItems [sample_detail] s) = [Some (js ''no chat'')] \<and>
      enrich_step s (DetailAnswered 0 (js ''a'') sample_detail) = s"
proof -
  let ?s0 = "enrich_step fresh_enrichment (ListChanged [sample_detail])"
  let ?as = "[DetailAnswered 1 (js ''a'') sample_detail, RunFinished 1]"
  have ok: "admissible enrich_step enrich_ok ?s0 ?as" by code_simp
  have t: "set (enrichment_targets [sample_detail]) = {js ''a''}"
    by (simp add: enrichment_targets_def sample_detail_def)
  have g: "generationRef (run enrich_step ?s0 ?as) = 1" by code_simp
  have f: "map failure_reason (enrichedItems [sample_detail] (run enrich_step ?s0 ?as)) =
      [Some (js ''no chat'')]" by code_simp
  from enrichment_not_stale [OF ok] t g f show ?thesis by (simp add: Let_def)
qed

end
