(* ===== verification/QueueTable.thy ===== *)
theory QueueTable
  imports QueueRealtime ApiErrors
begin

text \<open>
  The second half of \<open>frontend/src/features/queue/hooks/useQueue.ts\<close>: publishing a batch of
  items one after the other (\<open>useQueuePublishingOperations\<close>) and the state of the table
  (\<open>useQueueWorkspaceState\<close>).  What the server answers to each publication is an argument.
\<close>

section \<open>useQueuePublishingOperations\<close>

definition cannot_publish_text :: jstring where
  "cannot_publish_text =
    [1578, 1593, 1584, 1585, 32, 1575, 1604, 1606, 1588, 1585, 46]"

definition hook_error_message :: "thrown \<Rightarrow> jstring \<Rightarrow> jstring" where
  "hook_error_message error fallback =
     (if isApiError error \<and> length (thrown_message error) > 0 then thrown_message error
      else fallback)"

definition isConflictError :: "thrown \<Rightarrow> bool" where
  "isConflictError error = (case error of ThrownApi e \<Rightarrow> ae_status e = 409 | _ \<Rightarrow> False)"

record PublishBatchResult =
  pb_published :: nat
  pb_failed :: nat
  pb_conflicts :: nat
  conflictMessage :: "jstring option"
  failureMessage :: "jstring option"

record publishing =
  publishingIds :: "jstring list"
  failures :: "jstring \<rightharpoonup> QueuePublishFailure"
  pub_invalidated :: "query_key list"

text \<open>The answer to one publication: success, or what was thrown and the time it was noticed.\<close>

type_synonym publish_answer = "(thrown \<times> jstring) option"

definition clearFailure :: "jstring \<Rightarrow> publishing \<Rightarrow> publishing" where
  "clearFailure i s =
     (if failures s i = None then s else s\<lparr>failures := (failures s)(i := None)\<rparr>)"

definition publish_success :: "jstring option \<Rightarrow> jstring \<Rightarrow> publishing \<Rightarrow> publishing" where
  "publish_success ws i s =
     (let s1 = clearFailure i s in
      if truthy ws
      then s1\<lparr>pub_invalidated := pub_invalidated s1 @ [queueAttemptsKey (the ws) i]\<rparr> else s1)"

definition publish_one ::
  "jstring option \<Rightarrow> publish_answer \<Rightarrow> jstring \<Rightarrow> PublishBatchResult \<times> publishing
     \<Rightarrow> PublishBatchResult \<times> publishing" where
  "publish_one ws answer i rs =
     (let (r, s) = rs;
          (r1, s1) = (case answer of
            None \<Rightarrow> (r\<lparr>pb_published := pb_published r + 1\<rparr>, publish_success ws i s)
          | Some (error, time) \<Rightarrow>
              (let message = hook_error_message error cannot_publish_text in
               if isConflictError error
               then (r\<lparr>pb_conflicts := pb_conflicts r + 1,
                       conflictMessage := (if \<not> truthy (conflictMessage r) then Some message
                                           else conflictMessage r)\<rparr>, s)
               else (r\<lparr>pb_failed := pb_failed r + 1,
                       failureMessage := (if \<not> truthy (failureMessage r) then Some message
                                          else failureMessage r)\<rparr>,
                     s\<lparr>failures := (failures s)(i \<mapsto> \<lparr>fl_message = message,
                                                      fl_occurredAt = time\<rparr>)\<rparr>)))
      in (r1, s1\<lparr>publishingIds := filter (\<lambda>value. value \<noteq> i) (publishingIds s1)\<rparr>))"

definition no_result :: PublishBatchResult where
  "no_result =
     \<lparr>pb_published = 0, pb_failed = 0, pb_conflicts = 0, conflictMessage = None,
      failureMessage = None\<rparr>"

definition publishItems ::
  "jstring option \<Rightarrow> (jstring \<Rightarrow> publish_answer) \<Rightarrow> jstring list \<Rightarrow> publishing
     \<Rightarrow> PublishBatchResult \<times> publishing" where
  "publishItems ws answers ids s =
     (let uniqueIds = unique ids;
          s1 = s\<lparr>publishingIds := unique (publishingIds s @ uniqueIds)\<rparr>;
          (r, s2) = foldl (\<lambda>rs i. publish_one ws (answers i) i rs) (no_result, s1) uniqueIds
      in (r, if truthy ws
             then s2\<lparr>pub_invalidated := pub_invalidated s2 @ [queueKey (the ws)]\<rparr> else s2))"

definition syncFailuresFromBackend :: "QueueItem list \<Rightarrow> publishing \<Rightarrow> publishing" where
  "syncFailuresFromBackend items s =
     s\<lparr>failures := foldl (\<lambda>nxt item.
         if nxt (q_id item) = None then nxt
         else if last_attempt item \<noteq> None \<or> failure_reason item \<noteq> None
         then nxt(q_id item := None) else nxt) (failures s) items\<rparr>"

text \<open>What a whole batch leaves behind.\<close>

definition fails :: "publish_answer \<Rightarrow> bool" where
  "fails a = (case a of None \<Rightarrow> False | Some (e, _) \<Rightarrow> \<not> isConflictError e)"

definition conflicts :: "publish_answer \<Rightarrow> bool" where
  "conflicts a = (case a of None \<Rightarrow> False | Some (e, _) \<Rightarrow> isConflictError e)"

definition failure_after ::
  "publish_answer \<Rightarrow> QueuePublishFailure option \<Rightarrow> QueuePublishFailure option" where
  "failure_after a old = (case a of
     None \<Rightarrow> None
   | Some (e, t) \<Rightarrow>
       if isConflictError e then old
       else Some \<lparr>fl_message = hook_error_message e cannot_publish_text, fl_occurredAt = t\<rparr>)"

lemma publish_one_counts:
  assumes "publish_one ws a i (r, s) = (r', s')"
  shows "pb_published r' = pb_published r + (if a = None then 1 else 0)"
    "pb_failed r' = pb_failed r + (if fails a then 1 else 0)"
    "pb_conflicts r' = pb_conflicts r + (if conflicts a then 1 else 0)"
    "publishingIds s' = filter (\<lambda>v. v \<noteq> i) (publishingIds s)"
    "failures s' = (failures s)(i := failure_after a (failures s i))"
  using assms
  by (auto simp: publish_one_def Let_def publish_success_def clearFailure_def fails_def
      conflicts_def failure_after_def split: option.splits if_splits)

lemma publish_fold:
  assumes "foldl (\<lambda>rs i. publish_one ws (answers i) i rs) (r, s) ids = (r', s')" "distinct ids"
  shows "pb_published r' = pb_published r + length (filter (\<lambda>i. answers i = None) ids) \<and>
    pb_failed r' = pb_failed r + length (filter (\<lambda>i. fails (answers i)) ids) \<and>
    pb_conflicts r' = pb_conflicts r + length (filter (\<lambda>i. conflicts (answers i)) ids) \<and>
    publishingIds s' = filter (\<lambda>v. v \<notin> set ids) (publishingIds s) \<and>
    failures s' = (\<lambda>i. if i \<in> set ids then failure_after (answers i) (failures s i)
                       else failures s i)"
  using assms
proof (induction ids arbitrary: r s)
  case Nil
  then show ?case by simp
next
  case (Cons i ids)
  obtain r1 s1 where one: "publish_one ws (answers i) i (r, s) = (r1, s1)" by fastforce
  note c = publish_one_counts [OF one]
  from Cons.prems one have "foldl (\<lambda>rs i. publish_one ws (answers i) i rs) (r1, s1) ids = (r', s')"
    and "distinct ids" and "i \<notin> set ids" by simp_all
  from Cons.IH [OF this(1,2)] c \<open>i \<notin> set ids\<close> show ?case
    by (auto simp: fun_eq_iff)
qed

lemma partition_answers:
  "length (filter (\<lambda>i. answers i = None) ids) + length (filter (\<lambda>i. fails (answers i)) ids) +
     length (filter (\<lambda>i. conflicts (answers i)) ids) = length ids"
  by (induction ids) (auto simp: fails_def conflicts_def split: option.splits)


text \<open>The client's fallback failures give way to the backend's: after the synchronisation a
  failure is still there exactly when no item of that id brought an attempt summary.\<close>

theorem syncFailuresFromBackend_correct:
  "failures (syncFailuresFromBackend items s) i =
     (if \<exists>item \<in> set items. q_id item = i \<and>
           (last_attempt item \<noteq> None \<or> failure_reason item \<noteq> None)
      then None else failures s i)"
proof -
  have "foldl (\<lambda>nxt item.
         if nxt (q_id item) = None then nxt
         else if last_attempt item \<noteq> None \<or> failure_reason item \<noteq> None
         then nxt(q_id item := None) else nxt) m items i =
     (if \<exists>item \<in> set items. q_id item = i \<and>
           (last_attempt item \<noteq> None \<or> failure_reason item \<noteq> None)
      then None else m i)" for m :: "jstring \<rightharpoonup> QueuePublishFailure"
    by (induction items arbitrary: m) auto
  then show ?thesis by (simp add: syncFailuresFromBackend_def)
qed

section \<open>useQueueWorkspaceState\<close>

text \<open>\<open>None\<close> stands for the empty filter.\<close>

record queue_table =
  selectedQueueItemIds :: "jstring list"
  search :: jstring
  statusFilter :: "QueueStatus option"
  channelFilter :: jstring
  sort_order :: QueueWorkspaceSort
  density :: QueueTableDensity
  pageSize :: nat
  page :: nat

definition initial_table :: queue_table where
  "initial_table =
     \<lparr>selectedQueueItemIds = [], search = [], statusFilter = None, channelFilter = [],
      sort_order = Newest, density = Comfortable, pageSize = 25, page = 0\<rparr>"

definition matches_search :: "host \<Rightarrow> jstring \<Rightarrow> QueueItem \<Rightarrow> bool" where
  "matches_search h query item =
     (query = [] \<or>
      list_ex (\<lambda>value. includes_sub query (lower h value))
        (filter (\<lambda>v. v \<noteq> []) (List.map_filter id [q_title item, Some (q_content item), q_product_id item])))"

definition matches_filters :: "host \<Rightarrow> queue_table \<Rightarrow> QueueItem \<Rightarrow> bool" where
  "matches_filters h t item =
     (let query = lower h (trim (search t)) in
      matches_search h query item \<and>
      (statusFilter t = None \<or> statusFilter t = Some (q_status item)) \<and>
      (channelFilter t = [] \<or>
       (if channelFilter t = js ''missing'' then \<not> truthy (q_channel_id item)
        else q_channel_id item = Some (channelFilter t))))"

text \<open>The place of a status in the order of its word, which is how \<open>localeCompare\<close> orders these
  lower-case words.\<close>

fun status_rank :: "QueueStatus \<Rightarrow> nat" where
  "status_rank Draft = 0"
| "status_rank StatusFailed = 1"
| "status_rank Published = 2"
| "status_rank Queued = 3"
| "status_rank Scheduled = 4"

lemma status_rank_inj: "status_rank a = status_rank b \<longleftrightarrow> a = b"
  by (cases a; cases b) simp_all

instantiation QueueStatus :: linorder
begin

definition less_eq_QueueStatus :: "QueueStatus \<Rightarrow> QueueStatus \<Rightarrow> bool" where
  "less_eq_QueueStatus a b \<longleftrightarrow> status_rank a \<le> status_rank b"

definition less_QueueStatus :: "QueueStatus \<Rightarrow> QueueStatus \<Rightarrow> bool" where
  "less_QueueStatus a b \<longleftrightarrow> status_rank a < status_rank b"

instance
proof
  fix a b :: QueueStatus
  assume "a \<le> b" "b \<le> a"
  then show "a = b" by (simp add: less_eq_QueueStatus_def flip: status_rank_inj)
qed (auto simp: less_eq_QueueStatus_def less_QueueStatus_def)

end

definition locale_compare :: "QueueStatus \<Rightarrow> QueueStatus \<Rightarrow> jsnum" where
  "locale_compare a b = Num (if a < b then -1 else if a = b then 0 else 1)"

definition queue_compare :: "host \<Rightarrow> QueueWorkspaceSort \<Rightarrow> QueueItem \<Rightarrow> QueueItem \<Rightarrow> jsnum" where
  "queue_compare h srt left right = (case srt of
     Oldest \<Rightarrow> num_minus (date_parse h (q_created_at left)) (date_parse h (q_created_at right))
   | ScheduleAsc \<Rightarrow>
       num_minus (date_parse h (or_default (q_scheduled_at left) (js ''9999-12-31'')))
                 (date_parse h (or_default (q_scheduled_at right) (js ''9999-12-31'')))
   | ScheduleDesc \<Rightarrow>
       num_minus (date_parse h (or_default (q_scheduled_at right) (js ''1970-01-01'')))
                 (date_parse h (or_default (q_scheduled_at left) (js ''1970-01-01'')))
   | ByStatus \<Rightarrow> locale_compare (q_status left) (q_status right)
   | Newest \<Rightarrow> num_minus (date_parse h (q_created_at right)) (date_parse h (q_created_at left)))"

definition filteredItems :: "host \<Rightarrow> queue_table \<Rightarrow> QueueItem list \<Rightarrow> QueueItem list" where
  "filteredItems h t items =
     sort_by (queue_compare h (sort_order t)) (filter (matches_filters h t) items)"

definition pagedItems :: "host \<Rightarrow> queue_table \<Rightarrow> QueueItem list \<Rightarrow> QueueItem list" where
  "pagedItems h t items =
     slice (page t * pageSize t) ((page t + 1) * pageSize t) (filteredItems h t items)"

text \<open>The effects: the selection keeps only ids that exist; a changed filter goes back to the first
  page.\<close>

definition prune_ids :: "jstring list \<Rightarrow> jstring list \<Rightarrow> jstring list" where
  "prune_ids valid previous = filter (\<lambda>i. i \<in> set valid) previous"

definition items_effect :: "QueueItem list \<Rightarrow> queue_table \<Rightarrow> queue_table" where
  "items_effect items t =
     t\<lparr>selectedQueueItemIds := prune_ids (map q_id items) (selectedQueueItemIds t)\<rparr>"

definition toggle_id :: "jstring \<Rightarrow> jstring list \<Rightarrow> jstring list" where
  "toggle_id i previous =
     (if i \<in> set previous then filter (\<lambda>value. value \<noteq> i) previous else previous @ [i])"

definition toggle :: "jstring \<Rightarrow> queue_table \<Rightarrow> queue_table" where
  "toggle i t = t\<lparr>selectedQueueItemIds := toggle_id i (selectedQueueItemIds t)\<rparr>"

definition toggle_all_ids :: "jstring list \<Rightarrow> jstring list \<Rightarrow> jstring list" where
  "toggle_all_ids pageIds selected =
     (let allSelected = (pageIds \<noteq> [] \<and> list_all (\<lambda>i. i \<in> set selected) pageIds) in
      if allSelected then filter (\<lambda>i. i \<notin> set pageIds) selected
      else unique (selected @ pageIds))"

definition toggleAll :: "host \<Rightarrow> QueueItem list \<Rightarrow> queue_table \<Rightarrow> queue_table" where
  "toggleAll h items t =
     t\<lparr>selectedQueueItemIds :=
         toggle_all_ids (map q_id (pagedItems h t items)) (selectedQueueItemIds t)\<rparr>"

definition selectedItems :: "queue_table \<Rightarrow> QueueItem list \<Rightarrow> QueueItem list" where
  "selectedItems t items = filter (\<lambda>item. q_id item \<in> set (selectedQueueItemIds t)) items"

definition allPageSelected :: "host \<Rightarrow> queue_table \<Rightarrow> QueueItem list \<Rightarrow> bool" where
  "allPageSelected h t items =
     (pagedItems h t items \<noteq> [] \<and>
      list_all (\<lambda>item. q_id item \<in> set (selectedQueueItemIds t)) (pagedItems h t items))"

text \<open>What the screen does; a setter runs the page effect in the same commit.\<close>

datatype table_action =
  SetSearch jstring | SetStatusFilter "QueueStatus option" | SetChannelFilter jstring
| SetSort QueueWorkspaceSort | SetDensity QueueTableDensity | SetPageSize nat | SetPage nat
| Toggle jstring | ToggleAll | ClearSelection | ItemsChanged "QueueItem list"

definition reset_page :: "queue_table \<Rightarrow> queue_table \<Rightarrow> queue_table" where
  "reset_page old t =
     (if search old = search t \<and> statusFilter old = statusFilter t \<and>
         channelFilter old = channelFilter t \<and> sort_order old = sort_order t \<and>
         pageSize old = pageSize t
      then t else t\<lparr>page := 0\<rparr>)"

definition table_step ::
  "host \<Rightarrow> QueueItem list \<times> queue_table \<Rightarrow> table_action \<Rightarrow> QueueItem list \<times> queue_table" where
  "table_step h st a =
     (let (items, t) = st in
      (case a of
         SetSearch v \<Rightarrow> (items, reset_page t (t\<lparr>search := v\<rparr>))
       | SetStatusFilter v \<Rightarrow> (items, reset_page t (t\<lparr>statusFilter := v\<rparr>))
       | SetChannelFilter v \<Rightarrow> (items, reset_page t (t\<lparr>channelFilter := v\<rparr>))
       | SetSort v \<Rightarrow> (items, reset_page t (t\<lparr>sort_order := v\<rparr>))
       | SetDensity v \<Rightarrow> (items, t\<lparr>density := v\<rparr>)
       | SetPageSize v \<Rightarrow> (items, reset_page t (t\<lparr>pageSize := v\<rparr>))
       | SetPage v \<Rightarrow> (items, t\<lparr>page := v\<rparr>)
       | Toggle i \<Rightarrow> (items, toggle i t)
       | ToggleAll \<Rightarrow> (items, toggleAll h items t)
       | ClearSelection \<Rightarrow> (items, t\<lparr>selectedQueueItemIds := []\<rparr>)
       | ItemsChanged items' \<Rightarrow> (items', items_effect items' t)))"

section \<open>Selection\<close>

lemma toggle_id_set:
  "set (toggle_id i sel) = (if i \<in> set sel then set sel - {i} else insert i (set sel))"
  by (auto simp: toggle_id_def)

lemma toggle_id_distinct: "distinct sel \<Longrightarrow> distinct (toggle_id i sel)"
  by (auto simp: toggle_id_def)

interpretation queue_rows: row_selection toggle_id prune_ids
  by unfold_locales (auto simp: toggle_id_set toggle_id_distinct prune_ids_def)

lemma toggle_all_set:
  "set (toggle_all_ids ids sel) =
     (if ids \<noteq> [] \<and> set ids \<subseteq> set sel then set sel - set ids else set sel \<union> set ids)"
  by (auto simp: toggle_all_ids_def Let_def list_all_iff)

lemma toggle_all_distinct: "distinct sel \<Longrightarrow> distinct (toggle_all_ids ids sel)"
  by (simp add: toggle_all_ids_def Let_def)

lemma paged_subset: "set (pagedItems h t items) \<subseteq> set items"
  using set_slice_subset [of _ _ "filteredItems h t items"]
  by (auto simp: pagedItems_def filteredItems_def)

text \<open>The selection holds ids of rows that exist, each once; actions name rows of the table.\<close>

definition table_inv :: "QueueItem list \<times> queue_table \<Rightarrow> bool" where
  "table_inv st \<longleftrightarrow>
     set (selectedQueueItemIds (snd st)) \<subseteq> q_id ` set (fst st) \<and>
     distinct (selectedQueueItemIds (snd st))"

definition table_ok :: "QueueItem list \<times> queue_table \<Rightarrow> table_action \<Rightarrow> bool" where
  "table_ok st a = (case a of Toggle i \<Rightarrow> i \<in> set (map q_id (fst st)) | _ \<Rightarrow> True)"

lemma reset_page_selection [simp]:
  "selectedQueueItemIds (reset_page old t) = selectedQueueItemIds t"
  by (simp add: reset_page_def)

lemma table_step_inv:
  assumes "table_inv st" "table_ok st a"
  shows "table_inv (table_step h st a)"
proof (cases st)
  case (Pair items t)
  show ?thesis
  proof (cases a)
    case (Toggle i)
    then show ?thesis
      using assms Pair queue_rows.toggle_in_valid [of "selectedQueueItemIds t" "map q_id items" i]
      by (simp add: table_inv_def table_ok_def table_step_def toggle_def toggle_id_distinct)
  next
    case ToggleAll
    then show ?thesis
      using assms Pair paged_subset [of h t items]
      by (auto simp: table_inv_def table_step_def toggleAll_def toggle_all_set toggle_all_distinct)
  next
    case (ItemsChanged items')
    then show ?thesis
      using assms Pair queue_rows.prune_valid [of "map q_id items'" "selectedQueueItemIds t"]
        queue_rows.prune_distinct [of "selectedQueueItemIds t" "map q_id items'"]
      by (simp add: table_inv_def table_step_def items_effect_def)
  qed (use assms Pair in \<open>auto simp: table_inv_def table_step_def\<close>)
qed

interpretation queue_table: state_machine "table_step h" table_ok table_inv for h
  by unfold_locales (rule table_step_inv)

text \<open>The publishing table never acts on a row that is gone: through any use of the table and
  any refetch of its items, the selected ids are distinct ids of items that are there, so the
  bulk actions get exactly the selected items.\<close>

theorem queue_selection_valid:
  assumes "admissible (table_step h) table_ok ([], initial_table) actions"
  shows "let (items, t) = run (table_step h) ([], initial_table) actions
    in set (selectedQueueItemIds t) = set (map q_id (selectedItems t items)) \<and>
       distinct (selectedQueueItemIds t)"
proof -
  have "table_inv (run (table_step h) ([], initial_table) actions)"
    by (rule queue_table.run_inv [OF _ assms]) (simp add: table_inv_def initial_table_def)
  then show ?thesis
    by (auto simp: table_inv_def selectedItems_def split: prod.splits)
qed

section \<open>Sorting and pages\<close>

definition date_key :: "host \<Rightarrow> jstring \<Rightarrow> rat" where
  "date_key h s = (case date_parse h s of Num q \<Rightarrow> q | _ \<Rightarrow> 0)"

definition queue_key :: "host \<Rightarrow> QueueWorkspaceSort \<Rightarrow> QueueItem \<Rightarrow> rat" where
  "queue_key h srt item = (case srt of
     Oldest \<Rightarrow> date_key h (q_created_at item)
   | ScheduleAsc \<Rightarrow> date_key h (or_default (q_scheduled_at item) (js ''9999-12-31''))
   | ScheduleDesc \<Rightarrow> - date_key h (or_default (q_scheduled_at item) (js ''1970-01-01''))
   | ByStatus \<Rightarrow> of_nat (status_rank (q_status item))
   | Newest \<Rightarrow> - date_key h (q_created_at item))"

text \<open>The dates the order depends on can be read.\<close>

definition queue_dates_ok :: "host \<Rightarrow> QueueWorkspaceSort \<Rightarrow> QueueItem \<Rightarrow> bool" where
  "queue_dates_ok h srt item = (case srt of
     ByStatus \<Rightarrow> True
   | ScheduleAsc \<Rightarrow> is_finite (date_parse h (or_default (q_scheduled_at item) (js ''9999-12-31'')))
   | ScheduleDesc \<Rightarrow> is_finite (date_parse h (or_default (q_scheduled_at item) (js ''1970-01-01'')))
   | _ \<Rightarrow> is_finite (date_parse h (q_created_at item)))"

lemma date_key_Num: "is_finite (date_parse h s) \<Longrightarrow> date_parse h s = Num (date_key h s)"
  by (auto simp: date_key_def is_finite_iff)

lemma queue_compare_key:
  assumes "queue_dates_ok h srt x" "queue_dates_ok h srt y"
  shows "num_positive (queue_compare h srt x y) \<longleftrightarrow> queue_key h srt y < queue_key h srt x"
  using assms status_rank_inj [of "q_status x" "q_status y"]
  by (cases srt)
    (auto simp: queue_dates_ok_def queue_compare_def queue_key_def date_key_Num
      num_positive_minus locale_compare_def num_positive_def less_QueueStatus_def)

interpretation queue_order: keyed_comparator "queue_compare h srt" "queue_key h srt"
  "queue_dates_ok h srt" for h srt
  by unfold_locales (rule queue_compare_key)

text \<open>C33: filtering and sorting lose and invent nothing: the rows shown are exactly the items that
  match the filters, and when their dates can be read they stand in the order of the chosen key,
  items of equal key staying in the order the server gave.\<close>

theorem filteredItems_correct:
  "mset (filteredItems h t items) = filter_mset (matches_filters h t) (mset items) \<and>
   (list_all (queue_dates_ok h (sort_order t)) (filter (matches_filters h t) items) \<longrightarrow>
      sorted (map (queue_key h (sort_order t)) (filteredItems h t items)) \<and>
      (\<forall>k. filter (\<lambda>x. queue_key h (sort_order t) x = k) (filteredItems h t items) =
           filter (\<lambda>x. queue_key h (sort_order t) x = k) (filter (matches_filters h t) items)))"
  by (simp add: filteredItems_def mset_sort_by queue_order.sort_by_sorted
      queue_order.sort_by_stable)

lemma slices_concat:
  "concat (map (\<lambda>k. slice (k * n) ((k + 1) * n) xs) [0..<m]) = take (m * n) xs"
proof (induction m)
  case 0
  then show ?case by simp
next
  case (Suc m)
  have "slice (m * n) ((m + 1) * n) xs = take n (drop (m * n) xs)"
    by (simp add: slice_def algebra_simps)
  then show ?case using Suc by (simp add: take_add [symmetric] add.commute)
qed

text \<open>The pages partition the filtered rows: for a positive page size, reading the pages one
  after the other gives every filtered row once and in order.\<close>

theorem pages_partition_rows:
  assumes "0 < pageSize t" "length (filteredItems h t items) \<le> m * pageSize t"
  shows "concat (map (\<lambda>k. pagedItems h (t\<lparr>page := k\<rparr>) items) [0..<m]) = filteredItems h t items"
proof -
  have "filteredItems h (t\<lparr>page := k\<rparr>) items = filteredItems h t items" for k
    by (simp add: filteredItems_def matches_filters_def [abs_def])
  then have "concat (map (\<lambda>k. pagedItems h (t\<lparr>page := k\<rparr>) items) [0..<m]) =
      concat (map (\<lambda>k. slice (k * pageSize t) ((k + 1) * pageSize t) (filteredItems h t items)) [0..<m])"
    by (simp add: pagedItems_def)
  then show ?thesis using assms(2) by (simp only: slices_concat) simp
qed

text \<open>The page number is not brought back into range when the list shrinks: after a refetch
  that leaves no more rows than the pages before the current one hold, the table is empty although
  there are rows to show.\<close>

theorem page_not_clamped_after_refetch:
  assumes "length (filteredItems h t items') \<le> page t * pageSize t" "filteredItems h t items' \<noteq> []"
  shows "let (items, t') = table_step h (items0, t) (ItemsChanged items')
    in pagedItems h t' items = [] \<and> filteredItems h t' items \<noteq> [] \<and> page t' = page t"
proof -
  let ?t' = "items_effect items' t"
  have f: "filteredItems h ?t' items' = filteredItems h t items'"
    by (simp add: filteredItems_def matches_filters_def [abs_def] items_effect_def)
  have p: "page ?t' = page t" "pageSize ?t' = pageSize t" by (simp_all add: items_effect_def)
  show ?thesis
    using assms by (simp add: table_step_def pagedItems_def f p slice_def)
qed

section \<open>A small table\<close>

definition sample_item :: "jstring \<Rightarrow> jstring \<Rightarrow> QueueItem" where
  "sample_item i created =
     \<lparr>q_id = i, q_title = None, q_content = js ''text'', q_status = Queued, q_scheduled_at = None,
      q_published_at = None, q_channel_id = None, q_product_id = None, q_image_url = None,
      q_button_text = None, q_button_url = None, q_telegram_message_id = None,
      q_created_at = created, q_updated_at = created, last_attempt = None,
      failure_reason = None, retry_count = None\<rparr>"

definition sample_items :: "QueueItem list" where
  "sample_items = [sample_item (js ''a'') (js ''2024-01-01''), sample_item (js ''b'') (js ''2024-01-02'')]"

lemma sample_filtered: "map q_id (filteredItems (utc_host 0) initial_table sample_items) = [js ''b'', js ''a'']"
  by code_simp

lemma queue_selection_valid_witness:
  "let (items, t) = run (table_step (utc_host 0)) ([], initial_table)
     [ItemsChanged sample_items, ToggleAll, ItemsChanged (tl sample_items)]
   in set (selectedQueueItemIds t) = set (map q_id (selectedItems t items)) \<and>
      selectedQueueItemIds t = [js ''b'']"
proof -
  let ?as = "[ItemsChanged sample_items, ToggleAll, ItemsChanged (tl sample_items)]"
  have "admissible (table_step (utc_host 0)) table_ok ([], initial_table) ?as" by code_simp
  note v = queue_selection_valid [OF this]
  have "selectedQueueItemIds (snd (run (table_step (utc_host 0)) ([], initial_table) ?as)) = [js ''b'']"
    by code_simp
  with v show ?thesis by (simp add: Let_def split_beta)
qed

lemma filteredItems_correct_witness:
  "sorted (map (queue_key (utc_host 0) Newest) (filteredItems (utc_host 0) initial_table sample_items))"
proof -
  have "list_all (queue_dates_ok (utc_host 0) (sort_order initial_table))
      (filter (matches_filters (utc_host 0) initial_table) sample_items)" by code_simp
  moreover have "sort_order initial_table = Newest" by (simp add: initial_table_def)
  ultimately show ?thesis
    using filteredItems_correct [of "utc_host 0" initial_table sample_items] by simp
qed

lemma pages_partition_rows_witness:
  "concat (map (\<lambda>k. pagedItems (utc_host 0) (initial_table\<lparr>pageSize := 1, page := k\<rparr>) sample_items) [0..<2]) =
   filteredItems (utc_host 0) (initial_table\<lparr>pageSize := 1\<rparr>) sample_items"
proof -
  have "length (filteredItems (utc_host 0) (initial_table\<lparr>pageSize := 1\<rparr>) sample_items) =
      length (filteredItems (utc_host 0) initial_table sample_items)"
    by (simp add: filteredItems_def matches_filters_def [abs_def])
  also have "\<dots> = 2" using arg_cong [OF sample_filtered, of length] by simp
  finally show ?thesis
    using pages_partition_rows [of "initial_table\<lparr>pageSize := 1\<rparr>" "utc_host 0" sample_items 2]
    by simp
qed

lemma page_not_clamped_after_refetch_witness:
  "let (items, t') = table_step (utc_host 0) ([], initial_table\<lparr>page := 1\<rparr>) (ItemsChanged sample_items)
   in pagedItems (utc_host 0) t' items = [] \<and> filteredItems (utc_host 0) t' items \<noteq> []"
proof -
  have len: "length (filteredItems (utc_host 0) (initial_table\<lparr>page := 1\<rparr>) sample_items) = 2"
  proof -
    have "filteredItems (utc_host 0) (initial_table\<lparr>page := 1\<rparr>) sample_items =
        filteredItems (utc_host 0) initial_table sample_items"
      by (simp add: filteredItems_def matches_filters_def [abs_def])
    then show ?thesis using arg_cong [OF sample_filtered, of length] by simp
  qed
  then have "length (filteredItems (utc_host 0) (initial_table\<lparr>page := 1\<rparr>) sample_items)
      \<le> page (initial_table\<lparr>page := 1\<rparr>) * pageSize (initial_table\<lparr>page := 1\<rparr>)"
    by (simp add: initial_table_def)
  moreover have "filteredItems (utc_host 0) (initial_table\<lparr>page := 1\<rparr>) sample_items \<noteq> []"
    using len by (metis list.size(3) zero_neq_numeral)
  ultimately show ?thesis
    using page_not_clamped_after_refetch [of "utc_host 0" "initial_table\<lparr>page := 1\<rparr>"
        sample_items "[]"] by (auto simp: Let_def split: prod.splits)
qed

end
