(* ===== verification/IsoDate.thy ===== *)
theory IsoDate
  imports Host ApiErrors
begin

text \<open>
  From a time to its text: the calendar fields of a time, \<open>Date.prototype.toISOString\<close>, and the
  value of a \<open>datetime-local\<close> input (\<open>toDateTimeLocal\<close> of
  \<open>frontend/src/features/queue/components/QueueView.tsx\<close> and \<open>QueueSchedulingDialog.tsx\<close>).
  The lemmas show that the parser of \<open>Host\<close> reads back what is written here.
\<close>

section \<open>Year, month and day of a day number\<close>

text \<open>The estimate by the mean length of a year is at most one year off; the month is the last one
  that starts on or before the day (counted from 0).\<close>

definition year_of_day :: "int \<Rightarrow> int" where
  "year_of_day d =
     (let y = 1970 + 400 * d div 146097 in
      if d < day_from_year y then y - 1 else if day_from_year (y + 1) \<le> d then y + 1 else y)"

definition month_of_day :: "int \<Rightarrow> int \<Rightarrow> nat" where
  "month_of_day y n = length (takeWhile (\<lambda>m. days_before_month y m \<le> n) [1..<12])"

lemma div_floor:
  fixes a b :: int
  assumes "0 < b"
  shows "b * (a div b) \<le> a" "a < b * (a div b) + b"
  using assms pos_mod_bound [of b a] pos_mod_sign [of b a] mult_div_mod_eq [of b a] by linarith+

lemma day_from_year_bounds:
  "146097 * y - 287811596 \<le> 400 * day_from_year y"
  "400 * day_from_year y \<le> 146097 * y - 287810501"
proof -
  define a b c where "a = (y - 1969) div 4" and "b = (y - 1901) div 100" and "c = (y - 1601) div 400"
  have "4 * a \<le> y - 1969" "y - 1969 < 4 * a + 4"
    "100 * b \<le> y - 1901" "y - 1901 < 100 * b + 100"
    "400 * c \<le> y - 1601" "y - 1601 < 400 * c + 400"
    unfolding a_def b_def c_def by (rule div_floor; simp)+
  moreover have "day_from_year y = 365 * y - 719050 + a - b + c"
    unfolding day_from_year_def a_def b_def c_def by simp
  ultimately show "146097 * y - 287811596 \<le> 400 * day_from_year y"
    "400 * day_from_year y \<le> 146097 * y - 287810501" by - linarith+
qed

lemma year_of_day_correct:
  "day_from_year (year_of_day d) \<le> d \<and> d < day_from_year (year_of_day d + 1)"
proof -
  define q where "q = 400 * d div 146097"
  have q: "146097 * q \<le> 400 * d" "400 * d < 146097 * q + 146097"
    unfolding q_def by (rule div_floor; simp)+
  have "day_from_year (q + 1969) \<le> d" "d < day_from_year (q + 1972)"
    using q day_from_year_bounds [of "q + 1969"] day_from_year_bounds [of "q + 1972"]
    unfolding distrib_left by - linarith+
  then show ?thesis
    unfolding year_of_day_def Let_def q_def [symmetric] by (auto simp: add.commute)
qed

lemma month_of_day_correct:
  assumes "0 \<le> n" "n < days_before_month y 12"
  shows "month_of_day y n < 12 \<and> days_before_month y (month_of_day y n) \<le> n \<and>
    n < days_before_month y (Suc (month_of_day y n))"
proof -
  let ?P = "\<lambda>m. days_before_month y m \<le> n"
  define k where "k = length (takeWhile ?P [1..<12])"
  have "k \<le> 11" using length_takeWhile_le [of ?P "[1..<12]"] by (simp add: k_def)
  moreover have "?P k"
  proof (cases k)
    case 0
    then show ?thesis using assms(1) by simp
  next
    case (Suc j)
    then have "takeWhile ?P [1..<12] ! j = Suc j" using \<open>k \<le> 11\<close>
      by (simp add: takeWhile_nth k_def)
    then have "Suc j \<in> set (takeWhile ?P [1..<12])"
      by (metis Suc k_def lessI nth_mem)
    then show ?thesis using set_takeWhileD Suc by metis
  qed
  moreover have "\<not> ?P (Suc k)"
  proof (cases "k = 11")
    case True
    then show ?thesis using assms(2) by (simp add: eval_nat_numeral del: days_before_month.simps)
  next
    case False
    then have "k < length [1..<12]" using \<open>k \<le> 11\<close> by simp
    then show ?thesis using nth_length_takeWhile [of ?P "[1..<12]"] by (simp add: k_def)
  qed
  ultimately show ?thesis by (simp add: month_of_day_def k_def)
qed
section \<open>toISOString\<close>

text \<open>The last \<open>n\<close> decimal digits.\<close>

fun fixed :: "nat \<Rightarrow> nat \<Rightarrow> jstring" where
  "fixed 0 x = []"
| "fixed (Suc n) x = fixed n (x div 10) @ [48 + x mod 10]"

definition year_text :: "int \<Rightarrow> jstring" where
  "year_text y =
     (if 0 \<le> y \<and> y \<le> 9999 then fixed 4 (nat y)
      else (if y < 0 then 45 else 43) # fixed 6 (nat \<bar>y\<bar>))"

definition date_text :: "int \<Rightarrow> jstring" where
  "date_text d =
     (let y = year_of_day d; n = d - day_from_year y; m = month_of_day y n in
      year_text y @ [45] @ fixed 2 (m + 1) @ [45] @ fixed 2 (nat (n - days_before_month y m + 1)))"

definition minute_text :: "int \<Rightarrow> jstring" where
  "minute_text r = fixed 2 (nat (r div 3600000)) @ [58] @ fixed 2 (nat (r div 60000 mod 60))"

definition iso_string :: "int \<Rightarrow> jstring" where
  "iso_string t =
     (let r = t mod ms_per_day in
      date_text (t div ms_per_day) @ [84] @ minute_text r @
      [58] @ fixed 2 (nat (r div 1000 mod 60)) @ [46] @ fixed 3 (nat (r mod 1000)) @ [90])"

text \<open>\<open>toISOString\<close> of an invalid date throws; the text of the error is V8's.\<close>

definition toISOString :: "jsnum \<Rightarrow> thrown + jstring" where
  "toISOString t = (case t of
     Num x \<Rightarrow> Inr (iso_string \<lfloor>x\<rfloor>)
   | _ \<Rightarrow> Inl (ThrownError (js ''RangeError'') (js ''Invalid time value'')))"

text \<open>\<open>date.getTime() - offset * 60000\<close> is the local time; sixteen characters are its minutes.\<close>

definition toDateTimeLocal :: "host \<Rightarrow> jsnum \<Rightarrow> thrown + jstring" where
  "toDateTimeLocal h date = (case date of
     Num x \<Rightarrow> Inr (take 16 (iso_string (local_time h \<lfloor>x\<rfloor>)))
   | _ \<Rightarrow> Inl (ThrownError (js ''RangeError'') (js ''Invalid time value'')))"

section \<open>Reading back\<close>

lemma length_fixed [simp]: "length (fixed n x) = n"
  by (induction n arbitrary: x) simp_all

lemma fixed_digits: "list_all is_digit (fixed n x)"
  by (induction n arbitrary: x) (simp_all add: is_digit_def)

lemma fixed_value: "foldl (\<lambda>acc c. acc * 10 + (c - 48)) 0 (fixed n x) = x mod 10 ^ n"
proof (induction n arbitrary: x)
  case 0
  then show ?case by simp
next
  case (Suc n)
  have "x mod 10 ^ Suc n = x div 10 mod 10 ^ n * 10 + x mod 10"
    by (simp add: mod_mult2_eq)
  with Suc show ?case by simp
qed

lemma digits_fixed:
  "x < 10 ^ n \<Longrightarrow> digits n (fixed n x @ r) = Some (int x, r)"
  by (simp add: digits_def Let_def fixed_digits fixed_value)

lemma digits_fixed_end: "x < 10 ^ n \<Longrightarrow> digits n (fixed n x) = Some (int x, [])"
  using digits_fixed [of x n "[]"] by simp

lemma expect_Cons [simp]: "expect c (c # r) = Some r"
  by (simp add: expect_def)

definition plain_year :: "int \<Rightarrow> bool" where
  "plain_year t \<longleftrightarrow>
     0 \<le> year_of_day (t div ms_per_day) \<and> year_of_day (t div ms_per_day) \<le> 9999"

lemma days_in_month_small: "days_in_month y m \<le> 31"
  by (simp add: days_in_month_def)

lemma div_step:
  fixes b :: int
  assumes "0 < b"
  shows "(a + 1) div b = a div b + (if (a + 1) mod b = 0 then 1 else 0)"
proof -
  have e: "b * (a div b) + a mod b = a" "0 \<le> a mod b" "a mod b < b" using assms by simp_all
  show ?thesis
  proof (cases "a mod b = b - 1")
    case True
    with e(1) have "b * (a div b) + (b - 1) = a" by simp
    then have "a + 1 = b * (a div b + 1) + 0" by (simp add: distrib_left)
    from int_div_pos_eq [OF this] int_mod_pos_eq [OF this] assms show ?thesis by simp
  next
    case False
    with e have "a + 1 = b * (a div b) + (a mod b + 1)" "0 \<le> a mod b + 1" "a mod b + 1 < b" by linarith+
    from int_div_pos_eq [OF this] int_mod_pos_eq [OF this] e(2) show ?thesis by simp
  qed
qed

lemma year_length: "days_before_month y 12 = day_from_year (y + 1) - day_from_year y"
proof -
  define a b c where "a = (y - 1969) div 4" and "b = (y - 1901) div 100" and "c = (y - 1601) div 400"
  have "(y - 1968) mod 4 = y mod 4" using mod_mult_self1 [of "y - 1968" 492 4] by simp
  then have a: "(y - 1968) div 4 = a + (if y mod 4 = 0 then 1 else 0)"
    using div_step [of 4 "y - 1969"] by (simp add: a_def)
  have "(y - 1900) mod 100 = y mod 100" using mod_mult_self1 [of "y - 1900" 19 100] by simp
  then have b: "(y - 1900) div 100 = b + (if y mod 100 = 0 then 1 else 0)"
    using div_step [of 100 "y - 1901"] by (simp add: b_def)
  have "(y - 1600) mod 400 = y mod 400" using mod_mult_self1 [of "y - 1600" 4 400] by simp
  then have c: "(y - 1600) div 400 = c + (if y mod 400 = 0 then 1 else 0)"
    using div_step [of 400 "y - 1601"] by (simp add: c_def)
  have now: "day_from_year y = 365 * y - 719050 + a - b + c"
    unfolding day_from_year_def a_def b_def c_def by simp
  have "day_from_year (y + 1) =
      365 * y - 718685 + (y - 1968) div 4 - (y - 1900) div 100 + (y - 1600) div 400"
    unfolding day_from_year_def by simp
  then have diff: "day_from_year (y + 1) - day_from_year y =
      365 + (if y mod 4 = 0 then 1 else 0) - (if y mod 100 = 0 then 1 else 0) +
        (if y mod 400 = 0 then 1 else 0)"
    unfolding a b c now by simp
  have l: "days_before_month y 12 = (if leap_year y then 366 else 365)"
    by (simp add: eval_nat_numeral days_in_month_def)
  have "y mod 400 = 0 \<Longrightarrow> y mod 100 = 0" "y mod 100 = 0 \<Longrightarrow> y mod 4 = 0"
    using mod_mod_cancel [of 100 400 y] mod_mod_cancel [of 4 100 y] by simp_all
  then show ?thesis
    unfolding diff l leap_year_def by (cases "y mod 400 = 0"; cases "y mod 100 = 0"; simp)
qed
lemma date_text_fields:
  assumes "0 \<le> year_of_day d" "year_of_day d \<le> 9999"
  obtains y m a where "date_text d = fixed 4 y @ [45] @ fixed 2 m @ [45] @ fixed 2 a"
    "y < 10 ^ 4" "1 \<le> m" "m \<le> 12" "1 \<le> a" "int a \<le> days_in_month (int y) (int m)" "a \<le> 31"
    "day_number (int y) (int m) (int a) = d"
proof -
  define y where "y = year_of_day d"
  define n where "n = d - day_from_year y"
  define m where "m = month_of_day y n"
  define a where "a = n - days_before_month y m + 1"
  have "0 \<le> n" "n < days_before_month y 12"
    using year_of_day_correct [of d] year_length [of y] by (simp_all add: n_def y_def)
  from month_of_day_correct [OF this] have m: "m < 12" "1 \<le> a" "a \<le> days_in_month y (int m + 1)"
    by (simp_all add: m_def a_def)
  have "a \<le> 31" using m(3) days_in_month_small [of y "int m + 1"] by linarith
  moreover have "date_text d = fixed 4 (nat y) @ [45] @ fixed 2 (m + 1) @ [45] @ fixed 2 (nat a)"
    using assms by (simp add: date_text_def Let_def y_def n_def m_def a_def year_text_def)
  moreover have "day_number y (int m + 1) a = d" by (simp add: day_number_def a_def n_def)
  ultimately show thesis
    using that [of "nat y" "m + 1" "nat a"] m assms by (simp add: y_def [symmetric] add.commute)
qed

lemma parse_date_text:
  assumes "0 \<le> year_of_day d" "year_of_day d \<le> 9999"
  shows "parse_iso (date_text d @ [84] @ rest) =
    Option.bind (parse_time rest) (\<lambda>(t, z). Some (d * ms_per_day + t, z))"
    and "length (date_text d) = 10"
proof -
  obtain y m a where dt: "date_text d = fixed 4 y @ [45] @ fixed 2 m @ [45] @ fixed 2 a"
    and f: "y < 10 ^ 4" "1 \<le> m" "m \<le> 12" "1 \<le> a" "int a \<le> days_in_month (int y) (int m)" "a \<le> 31"
      "day_number (int y) (int m) (int a) = d" using assms by (rule date_text_fields)
  show "length (date_text d) = 10" by (simp add: dt)
  show "parse_iso (date_text d @ [84] @ rest) =
    Option.bind (parse_time rest) (\<lambda>(t, z). Some (d * ms_per_day + t, z))"
    using f by (simp add: dt parse_iso_def digits_fixed on_date_def)
qed

lemma parse_hours_minutes:
  assumes "hh < 24" "mm < 60"
  shows "parse_time (fixed 2 hh @ [58] @ fixed 2 mm) =
    Some ((int hh * 60 + int mm) * 60000, LocalZone)"
  using assms
  by (simp add: parse_time_def digits_fixed digits_fixed_end parse_seconds_def expect_def
      parse_zone_def Let_def)

lemma parse_full_time:
  assumes "hh < 24" "mm < 60" "ss < 60" "ms < 1000"
  shows "parse_time (fixed 2 hh @ [58] @ fixed 2 mm @ [58] @ fixed 2 ss @ [46] @ fixed 3 ms @ [90]) =
    Some ((int hh * 60 + int mm) * 60000 + (int ss * 1000 + int ms), Utc)"
proof -
  have "int ss * 1000 + int ms < 60000" using assms by simp
  then show ?thesis
    using assms by (simp add: parse_time_def digits_fixed parse_seconds_def parse_zone_def Let_def)
qed

text \<open>Hours, minutes, seconds and milliseconds make up the time of the day.\<close>

lemma time_fields:
  assumes "0 \<le> r" "r < ms_per_day"
  obtains hh mm ss ms where "hh < 24" "mm < 60" "ss < 60" "ms < 1000"
    "nat (r div 3600000) = hh" "nat (r div 60000 mod 60) = mm"
    "nat (r div 1000 mod 60) = ss" "nat (r mod 1000) = ms"
    "(int hh * 60 + int mm) * 60000 + (int ss * 1000 + int ms) = r"
    "(int hh * 60 + int mm) * 60000 = r div 60000 * 60000"
proof -
  define s m h where "s = r div 1000" and "m = s div 60" and "h = m div 60"
  have m: "r div 60000 = m" using zdiv_zmult2_eq [of 60 r 1000] by (simp add: m_def s_def)
  have h: "r div 3600000 = h" using zdiv_zmult2_eq [of 60 r 60000] m by (simp add: h_def)
  have f: "1000 * s + r mod 1000 = r" "60 * m + s mod 60 = s" "60 * h + m mod 60 = m"
    unfolding s_def m_def h_def by (rule mult_div_mod_eq)+
  have b: "0 \<le> r mod 1000" "r mod 1000 < 1000" "0 \<le> s mod 60" "s mod 60 < 60"
    "0 \<le> m mod 60" "m mod 60 < 60" by simp_all
  have r: "r < 86400000" using assms(2) by (simp add: ms_per_day_def)
  from f b assms(1) r have "0 \<le> h" "h < 24" by linarith+
  then show thesis
    using that [of "nat h" "nat (m mod 60)" "nat (s mod 60)" "nat (r mod 1000)"] b f m h
    by (simp add: s_def [symmetric] nat_less_iff algebra_simps)
qed

lemma iso_fields:
  assumes "plain_year t"
  obtains d hh mm ss ms where "0 \<le> year_of_day d" "year_of_day d \<le> 9999"
    "hh < 24" "mm < 60" "ss < 60" "ms < 1000"
    "iso_string t = date_text d @ [84] @
       fixed 2 hh @ [58] @ fixed 2 mm @ [58] @ fixed 2 ss @ [46] @ fixed 3 ms @ [90]"
    "take 16 (iso_string t) = date_text d @ [84] @ (fixed 2 hh @ [58] @ fixed 2 mm)"
    "d * ms_per_day + ((int hh * 60 + int mm) * 60000 + (int ss * 1000 + int ms)) = t"
    "d * ms_per_day + (int hh * 60 + int mm) * 60000 = t div 60000 * 60000"
proof -
  define d r where "d = t div ms_per_day" and "r = t mod ms_per_day"
  have "0 \<le> r" "r < ms_per_day" by (simp_all add: r_def ms_per_day_def)
  then obtain hh mm ss ms where f: "hh < 24" "mm < 60" "ss < 60" "ms < 1000"
    "nat (r div 3600000) = hh" "nat (r div 60000 mod 60) = mm"
    "nat (r div 1000 mod 60) = ss" "nat (r mod 1000) = ms"
    "(int hh * 60 + int mm) * 60000 + (int ss * 1000 + int ms) = r"
    "(int hh * 60 + int mm) * 60000 = r div 60000 * 60000" by (rule time_fields)
  have t: "d * ms_per_day + r = t" by (simp add: d_def r_def)
  have y: "0 \<le> year_of_day d" "year_of_day d \<le> 9999"
    using assms by (simp_all add: plain_year_def d_def)
  have iso: "iso_string t = date_text d @ [84] @
      fixed 2 hh @ [58] @ fixed 2 mm @ [58] @ fixed 2 ss @ [46] @ fixed 3 ms @ [90]"
    unfolding iso_string_def minute_text_def Let_def d_def [symmetric] r_def [symmetric] f(5-8)
    by simp
  have "take 16 (iso_string t) = date_text d @ [84] @ (fixed 2 hh @ [58] @ fixed 2 mm)"
    unfolding iso using parse_date_text(2) [OF y] by simp
  moreover have "d * ms_per_day + r div 60000 * 60000 = t div 60000 * 60000"
  proof -
    have "t = r + d * 1440 * 60000" using t by (simp add: ms_per_day_def)
    then have "t div 60000 = r div 60000 + d * 1440" by (simp only: div_mult_self1)
    then show ?thesis by (simp add: ms_per_day_def)
  qed
  ultimately show thesis using that y f(1-4) iso t f(9,10) by metis
qed

lemma iso_parts:
  assumes "plain_year t"
  shows "parse_iso (iso_string t) = Some (t, Utc)"
    and "parse_iso (take 16 (iso_string t)) = Some (t div 60000 * 60000, LocalZone)"
  using assms
  by (rule iso_fields, simp only: parse_date_text parse_full_time parse_hours_minutes
      Option.bind.simps prod.case)+

lemma date_parse_iso_string: "plain_year t \<Longrightarrow> date_parse h (iso_string t) = Num (of_int t)"
  by (simp add: date_parse_def iso_parts)

lemma iso_string_sample: "iso_string 1709200800000 = js ''2024-02-29T10:00:00.000Z''"
  by code_simp

lemma toDateTimeLocal_sample:
  "toDateTimeLocal (utc_host 0) (Num 1709200812345) = Inr (js ''2024-02-29T10:00'')"
  by code_simp

end
