(* ===== verification/CallLoops.thy ===== *)
theory CallLoops
  imports JsPrelude
begin

text \<open>
  The loops of the screens' handlers: \<open>for (const x of xs) { await mutate(x); }\<close> inside a
  \<open>try\<close>.  The calls are made one after the other and the first rejection leaves the loop.  What a
  call is answered may depend on all calls made before it; \<open>Some e\<close> is a rejection with \<open>e\<close>.
\<close>

fun await_all ::
  "('c list \<Rightarrow> 'c \<Rightarrow> 'e option) \<Rightarrow> 'c list \<Rightarrow> 'c list \<Rightarrow> 'e option \<times> 'c list" where
  "await_all answer past [] = (None, past)"
| "await_all answer past (c # cs) =
     (case answer past c of
        Some e \<Rightarrow> (Some e, past @ [c])
      | None \<Rightarrow> await_all answer (past @ [c]) cs)"

text \<open>Every call of the list succeeds when they are made one after the other.\<close>

fun all_succeed :: "('c list \<Rightarrow> 'c \<Rightarrow> 'e option) \<Rightarrow> 'c list \<Rightarrow> 'c list \<Rightarrow> bool" where
  "all_succeed answer past [] = True"
| "all_succeed answer past (c # cs) =
     (answer past c = None \<and> all_succeed answer (past @ [c]) cs)"

text \<open>The first call that fails has index \<open>k\<close> and is rejected with \<open>e\<close>.\<close>

definition fails_at ::
  "('c list \<Rightarrow> 'c \<Rightarrow> 'e option) \<Rightarrow> 'c list \<Rightarrow> 'c list \<Rightarrow> nat \<Rightarrow> 'e \<Rightarrow> bool" where
  "fails_at answer past cs k e \<longleftrightarrow>
     k < length cs \<and> all_succeed answer past (take k cs) \<and>
     answer (past @ take k cs) (cs ! k) = Some e"

text \<open>How many of the calls were answered without a rejection.\<close>

definition succeeded :: "'c list \<Rightarrow> 'e option \<times> 'c list \<Rightarrow> nat" where
  "succeeded past r =
     length (snd r) - length past - (case fst r of None \<Rightarrow> 0 | Some _ \<Rightarrow> 1)"

lemma await_all_done: "all_succeed answer past cs \<Longrightarrow> await_all answer past cs = (None, past @ cs)"
  by (induction answer past cs rule: await_all.induct) (auto split: option.splits)

lemma await_all_stopped:
  "\<not> all_succeed answer past cs \<Longrightarrow>
     \<exists>k e. fails_at answer past cs k e \<and> await_all answer past cs = (Some e, past @ take (Suc k) cs)"
proof (induction answer past cs rule: await_all.induct)
  case (1 answer past)
  then show ?case by simp
next
  case (2 answer past c cs)
  show ?case
  proof (cases "answer past c")
    case (Some e)
    then show ?thesis by (intro exI [of _ 0] exI [of _ e]) (simp add: fails_at_def)
  next
    case None
    with 2 obtain k e where "fails_at answer (past @ [c]) cs k e"
      "await_all answer (past @ [c]) cs = (Some e, past @ c # take (Suc k) cs)" by auto
    with None show ?thesis
      by (intro exI [of _ "Suc k"] exI [of _ e]) (simp add: fails_at_def)
  qed
qed

text \<open>A loop either went through or stopped at the first rejection.\<close>

lemma await_all_cases:
  obtains (Done) "await_all answer past cs = (None, past @ cs)" "all_succeed answer past cs"
  | (Stopped) k e where "await_all answer past cs = (Some e, past @ take (Suc k) cs)"
      "\<not> all_succeed answer past cs" "fails_at answer past cs k e"
  using await_all_done await_all_stopped by metis

lemma all_succeed_append:
  "all_succeed answer past (cs @ ds) \<longleftrightarrow>
     all_succeed answer past cs \<and> all_succeed answer (past @ cs) ds"
  by (induction cs arbitrary: past) auto

lemma fails_at_not_all:
  assumes "fails_at answer past cs k e"
  shows "\<not> all_succeed answer past cs"
proof -
  have "cs = take k cs @ cs ! k # drop (Suc k) cs"
    using assms by (simp add: fails_at_def Cons_nth_drop_Suc)
  then show ?thesis
    using assms all_succeed_append [of answer past "take k cs" "cs ! k # drop (Suc k) cs"]
    by (simp add: fails_at_def)
qed

lemma fails_at_unique:
  assumes "fails_at answer past cs k e" "fails_at answer past cs k' e'"
  shows "k' = k" "e' = e"
proof -
  have le: "j \<le> i" if "fails_at answer past cs i d" "fails_at answer past cs j d'" for i j d d'
  proof (rule ccontr)
    assume "\<not> j \<le> i"
    then have "fails_at answer past (take j cs) i d"
      using that by (simp add: fails_at_def min_def)
    from fails_at_not_all [OF this] that(2) show False by (simp add: fails_at_def)
  qed
  show k: "k' = k" using le [OF assms] le [OF assms(2) assms(1)] by simp
  with assms show "e' = e" by (simp add: fails_at_def)
qed

lemma all_succeed_always: "(\<And>past c. answer past c = None) \<Longrightarrow> all_succeed answer past cs"
  by (induction cs arbitrary: past) auto

lemma count_list_member: "x \<in> set xs \<Longrightarrow> 1 \<le> count_list (map f xs) (f x)"
  by (induction xs) auto

end
