(* ===== verification/QueueScreen.thy ===== *)
theory QueueScreen
  imports QueueHooks QueueTable IsoDate CallLoops
begin

text \<open>
  The publishing screen, \<open>frontend/src/features/queue/components/QueueView.tsx\<close>: the state of
  \<open>QueueViewBody\<close> and every handler, on top of the hooks of \<open>QueueHooks\<close> and \<open>QueueTable\<close>.
  What the server answers is a parameter (it may depend on every call made before); each call
  the handlers make is recorded in order.  A handler runs with the values of the render it
  was created in, and its writes follow one another; \<open>toLocaleString\<close> is a parameter.
\<close>

section \<open>Calls and answers\<close>

datatype queue_call =
  UpdateCall jstring QueueUpdate
| PublishCall jstring
| DeleteCall jstring

record queue_server =
  sv_update :: "queue_call list \<Rightarrow> jstring \<Rightarrow> QueueUpdate \<Rightarrow> thrown + QueueItem"
  sv_publish :: "queue_call list \<Rightarrow> jstring \<Rightarrow> publish_answer"
  sv_delete :: "queue_call list \<Rightarrow> jstring \<Rightarrow> thrown option"

text \<open>What a call is rejected with, if it is.\<close>

definition call_error :: "queue_server \<Rightarrow> queue_call list \<Rightarrow> queue_call \<Rightarrow> thrown option" where
  "call_error srv past c = (case c of
     UpdateCall i u \<Rightarrow> (case sv_update srv past i u of Inl e \<Rightarrow> Some e | Inr _ \<Rightarrow> None)
   | PublishCall i \<Rightarrow> map_option fst (sv_publish srv past i)
   | DeleteCall i \<Rightarrow> sv_delete srv past i)"

section \<open>State\<close>

record SchedulingState =
  sd_itemIds :: "jstring list"
  sd_channelId :: jstring
  sd_scheduledAt :: jstring

datatype tone = ToneSuccess | ToneError

record queue_screen =
  qs_workspace :: "jstring option"
  qs_listItems :: "QueueItem list"
  qs_isPending :: bool
  qs_enrichment :: enrichment
  qs_table :: queue_table
  qs_publishing :: publishing
  activePostId :: "jstring option"
  schedulingDialog :: "SchedulingState option"
  qs_deleteTargets :: "QueueItem list"
  qs_toast :: "(jstring \<times> tone) option"
  qs_calls :: "queue_call list"
  qs_invalidated :: "query_key list"
  qs_routes :: "jstring list"

definition qs_items :: "queue_screen \<Rightarrow> QueueItem list" where
  "qs_items s = enrichedItems (qs_listItems s) (qs_enrichment s)"

definition activePost :: "queue_screen \<Rightarrow> QueueItem option" where
  "activePost s = (case activePostId s of
     None \<Rightarrow> None
   | Some i \<Rightarrow> if i = [] then None else List.find (\<lambda>item. q_id item = i) (qs_items s))"

definition set_toast :: "tone \<Rightarrow> jstring \<Rightarrow> queue_screen \<Rightarrow> queue_screen" where
  "set_toast t message s = s\<lparr>qs_toast := Some (message, t)\<rparr>"

definition clear_selection :: "queue_screen \<Rightarrow> queue_screen" where
  "clear_selection s = s\<lparr>qs_table := (qs_table s)\<lparr>selectedQueueItemIds := []\<rparr>\<rparr>"

text \<open>\<open>mutateAsync\<close> of the update and delete hooks, one after the other: every success refetches
  the queue of the workspace.\<close>

definition mutation_succeeded :: "nat \<Rightarrow> queue_screen \<Rightarrow> queue_screen" where
  "mutation_succeeded n s =
     (if truthy (qs_workspace s)
      then s\<lparr>qs_invalidated := qs_invalidated s @ replicate n (queueKey (the (qs_workspace s)))\<rparr>
      else s)"

definition mutate_all ::
  "queue_server \<Rightarrow> queue_call list \<Rightarrow> queue_screen \<Rightarrow> thrown option \<times> queue_screen" where
  "mutate_all srv cs s =
     (let r = await_all (call_error srv) (qs_calls s) cs in
      (fst r, mutation_succeeded (succeeded (qs_calls s) r) (s\<lparr>qs_calls := snd r\<rparr>)))"

section \<open>Handlers\<close>

definition assign_channel_text :: jstring where
  "assign_channel_text =
    [1593, 1610, 1617, 1606, 32, 1602, 1606, 1575, 1577, 32, 1605, 1587, 1578, 1607, 1583,
     1601, 1577, 32, 1602, 1576, 1604, 32, 1575, 1604, 1606, 1588, 1585, 46]"

definition conflict_text :: jstring where
  "conflict_text =
    [1578, 1593, 1584, 1585, 32, 1575, 1604, 1606, 1588, 1585, 32, 1576, 1587, 1576, 1576,
     32, 1578, 1593, 1575, 1585, 1590, 46]"

definition published_prefix :: jstring where
  "published_prefix =
    [1606, 1615, 1588, 1585, 32]"

definition failed_prefix :: jstring where
  "failed_prefix =
    [1601, 1588, 1604, 32]"

definition conflicts_prefix :: jstring where
  "conflicts_prefix =
    [1578, 1593, 1575, 1585, 1590, 32]"

definition published_ok_prefix :: jstring where
  "published_ok_prefix =
    [1578, 1605, 32, 1606, 1588, 1585, 32]"

definition published_ok_suffix :: jstring where
  "published_ok_suffix =
    [32, 1605, 1606, 1588, 1608, 1585, 32, 1576, 1606, 1580, 1575, 1581, 46]"

definition schedule_saved_text :: jstring where
  "schedule_saved_text =
    [1578, 1605, 32, 1578, 1581, 1583, 1610, 1579, 32, 1605, 1608, 1593, 1583, 32, 1575,
     1604, 1606, 1588, 1585, 46]"

definition schedule_failed_text :: jstring where
  "schedule_failed_text =
    [1578, 1593, 1584, 1585, 32, 1581, 1601, 1592, 32, 1575, 1604, 1580, 1583, 1608, 1604,
     1577, 46]"

definition prepare_failed_text :: jstring where
  "prepare_failed_text =
    [1578, 1593, 1584, 1585, 32, 1578, 1580, 1607, 1610, 1586, 32, 1575, 1604, 1606, 1588,
     1585, 46]"

definition rescheduled_text :: jstring where
  "rescheduled_text =
    [1578, 1605, 1578, 32, 1573, 1593, 1575, 1583, 1577, 32, 1580, 1583, 1608, 1604, 1577,
     32, 1575, 1604, 1605, 1606, 1588, 1608, 1585, 32, 1575, 1604, 1601, 1575, 1588, 1604, 46]"

definition retry_failed_text :: jstring where
  "retry_failed_text =
    [1578, 1593, 1584, 1585, 32, 1573, 1593, 1575, 1583, 1577, 32, 1605, 1581, 1575, 1608,
     1604, 1577, 32, 1575, 1604, 1606, 1588, 1585, 46]"

definition status_changed_text :: jstring where
  "status_changed_text =
    [1578, 1605, 32, 1578, 1581, 1583, 1610, 1579, 32, 1581, 1575, 1604, 1577, 32, 1575,
     1604, 1605, 1606, 1588, 1608, 1585, 1575, 1578, 46]"

definition status_failed_text :: jstring where
  "status_failed_text =
    [1578, 1593, 1584, 1585, 32, 1578, 1581, 1583, 1610, 1579, 32, 1575, 1604, 1581, 1575,
     1604, 1577, 46]"

definition deleted_prefix :: jstring where
  "deleted_prefix =
    [1578, 1605, 32, 1581, 1584, 1601, 32]"

definition deleted_suffix :: jstring where
  "deleted_suffix =
    [32, 1605, 1606, 1588, 1608, 1585, 46]"

definition delete_failed_text :: jstring where
  "delete_failed_text =
    [1578, 1593, 1584, 1585, 32, 1581, 1584, 1601, 32, 1575, 1604, 1605, 1606, 1588, 1608,
     1585, 1575, 1578, 46]"

text \<open>An event handler or an async function may throw: the error, and the state it leaves.\<close>

definition openSchedule ::
  "host \<Rightarrow> QueueItem list \<Rightarrow> queue_screen \<Rightarrow> thrown option \<times> queue_screen" where
  "openSchedule h selected s = (case selected of
     [] \<Rightarrow> (None, s)
   | first # _ \<Rightarrow>
       (case (if truthy (q_scheduled_at first)
              then toDateTimeLocal h (date_parse h (the (q_scheduled_at first))) else Inr []) of
          Inl e \<Rightarrow> (Some e, s)
        | Inr at_time \<Rightarrow>
            (None, s\<lparr>schedulingDialog :=
                      Some \<lparr>sd_itemIds = map q_id selected,
                            sd_channelId = or_default (q_channel_id first) [],
                            sd_scheduledAt = at_time\<rparr>\<rparr>)))"

definition with_detail :: "jstring option \<Rightarrow> jstring" where
  "with_detail message = (if truthy message then js '': '' @ the message else [])"

definition publish_toast :: "(nat \<Rightarrow> jstring) \<Rightarrow> PublishBatchResult \<Rightarrow> jstring \<times> tone" where
  "publish_toast ar r =
     (if pb_conflicts r > 0 \<and> pb_published r = 0 \<and> pb_failed r = 0
      then (or_default (conflictMessage r) conflict_text, ToneError)
      else if pb_failed r > 0 \<or> pb_conflicts r > 0
      then (join [32, 183, 32]
              ((if pb_published r > 0 then [published_prefix @ ar (pb_published r)] else []) @
               (if pb_failed r > 0
                then [failed_prefix @ ar (pb_failed r) @ with_detail (failureMessage r)] else []) @
               (if pb_conflicts r > 0
                then [conflicts_prefix @ ar (pb_conflicts r) @ with_detail (conflictMessage r)]
                else [])), ToneError)
      else (published_ok_prefix @ ar (pb_published r) @ published_ok_suffix, ToneSuccess))"

text \<open>The answers to the publications of a batch, which are made in the order of the list.\<close>

definition batch_answers ::
  "queue_server \<Rightarrow> queue_call list \<Rightarrow> jstring list \<Rightarrow> jstring \<Rightarrow> publish_answer" where
  "batch_answers srv past ids i =
     sv_publish srv (past @ map PublishCall (takeWhile (\<lambda>j. j \<noteq> i) ids)) i"

definition publish_selected ::
  "host \<Rightarrow> (nat \<Rightarrow> jstring) \<Rightarrow> queue_server \<Rightarrow> QueueItem list \<Rightarrow> queue_screen
     \<Rightarrow> thrown option \<times> queue_screen" where
  "publish_selected h ar srv selected s =
     (if selected = [] then (None, s)
      else if list_ex (\<lambda>item. \<not> truthy (q_channel_id item)) selected
      then (case openSchedule h selected s of
              (Some e, s1) \<Rightarrow> (Some e, s1)
            | (None, s1) \<Rightarrow> (None, set_toast ToneError assign_channel_text s1))
      else
        (let ids = map q_id selected;
             (r, p) = QueueTable.publishItems (qs_workspace s)
                        (batch_answers srv (qs_calls s) (unique ids)) ids (qs_publishing s);
             s1 = s\<lparr>qs_publishing := p,
                    qs_calls := qs_calls s @ map PublishCall (unique ids),
                    qs_toast := Some (publish_toast ar r)\<rparr>
         in (None, clear_selection s1)))"

text \<open>A rejected handler that nobody catches leaves its state; a caught one shows a toast.\<close>

definition caught :: "jstring \<Rightarrow> thrown option \<times> queue_screen \<Rightarrow> queue_screen" where
  "caught fallback es = (case es of
     (Some e, s) \<Rightarrow> set_toast ToneError (getApiErrorMessage e fallback) s
   | (None, s) \<Rightarrow> s)"

definition schedule_update :: "jstring \<Rightarrow> jstring \<Rightarrow> QueueUpdate" where
  "schedule_update channelId iso_time =
     no_update\<lparr>u_channel_id := Given channelId, u_status := Given Scheduled,
               u_scheduled_at := Given iso_time\<rparr>"

definition saveSchedule ::
  "host \<Rightarrow> queue_server \<Rightarrow> jstring \<Rightarrow> jstring \<Rightarrow> queue_screen \<Rightarrow> queue_screen" where
  "saveSchedule h srv channelId scheduledAt s = (case schedulingDialog s of
     None \<Rightarrow> s
   | Some dialog \<Rightarrow>
       caught schedule_failed_text
        (case toISOString (date_parse h scheduledAt) of
           Inl e \<Rightarrow> (Some e, s)
         | Inr iso_time \<Rightarrow>
             (case mutate_all srv
                     (map (\<lambda>i. UpdateCall i (schedule_update channelId iso_time)) (sd_itemIds dialog)) s of
                (Some e, s1) \<Rightarrow> (Some e, s1)
              | (None, s1) \<Rightarrow>
                  (None, set_toast ToneSuccess schedule_saved_text
                           (clear_selection (s1\<lparr>schedulingDialog := None\<rparr>))))))"

definition queue_update :: "jstring \<Rightarrow> QueueUpdate" where
  "queue_update channelId =
     no_update\<lparr>u_channel_id := Given channelId, u_status := Given Queued\<rparr>"

definition publishFromDialog ::
  "host \<Rightarrow> (nat \<Rightarrow> jstring) \<Rightarrow> queue_server \<Rightarrow> jstring \<Rightarrow> queue_screen \<Rightarrow> queue_screen" where
  "publishFromDialog h ar srv channelId s = (case schedulingDialog s of
     None \<Rightarrow> s
   | Some dialog \<Rightarrow>
       (let selected = filter (\<lambda>item. q_id item \<in> set (sd_itemIds dialog)) (qs_items s) in
        caught prepare_failed_text
         (case mutate_all srv
                 (map (\<lambda>item. UpdateCall (q_id item) (queue_update channelId)) selected) s of
            (Some e, s1) \<Rightarrow> (Some e, s1)
          | (None, s1) \<Rightarrow>
              publish_selected h ar srv
                (map (\<lambda>item. item\<lparr>q_channel_id := Some channelId, q_status := Queued\<rparr>) selected)
                (s1\<lparr>schedulingDialog := None\<rparr>))))"

text \<open>The answer has every key of an item, so spreading it over the item gives the answer.\<close>

definition retryFailedItem ::
  "host \<Rightarrow> (nat \<Rightarrow> jstring) \<Rightarrow> queue_server \<Rightarrow> QueueItem \<Rightarrow> queue_screen \<Rightarrow> queue_screen" where
  "retryFailedItem h ar srv item s =
     (let update = nextStatusAfterFailedRetry h item;
          s1 = s\<lparr>qs_calls := qs_calls s @ [UpdateCall (q_id item) update]\<rparr>
      in caught retry_failed_text
          (case sv_update srv (qs_calls s) (q_id item) update of
             Inl e \<Rightarrow> (Some e, s1)
           | Inr updated \<Rightarrow>
               (if q_status updated = Queued
                then publish_selected h ar srv [updated] (mutation_succeeded 1 s1)
                else (None, set_toast ToneSuccess rescheduled_text (mutation_succeeded 1 s1)))))"

definition changeStatus :: "queue_server \<Rightarrow> QueueStatus \<Rightarrow> queue_screen \<Rightarrow> queue_screen" where
  "changeStatus srv status s =
     caught status_failed_text
      (case mutate_all srv
              (map (\<lambda>item. UpdateCall (q_id item) (no_update\<lparr>u_status := Given status\<rparr>))
                 (selectedItems (qs_table s) (qs_items s))) s of
         (Some e, s1) \<Rightarrow> (Some e, s1)
       | (None, s1) \<Rightarrow> (None, set_toast ToneSuccess status_changed_text (clear_selection s1)))"

definition confirmDelete ::
  "(nat \<Rightarrow> jstring) \<Rightarrow> queue_server \<Rightarrow> queue_screen \<Rightarrow> queue_screen" where
  "confirmDelete ar srv s =
     (let targets = qs_deleteTargets s in
      caught delete_failed_text
       (case mutate_all srv (map (\<lambda>item. DeleteCall (q_id item)) targets) s of
          (Some e, s1) \<Rightarrow> (Some e, s1)
        | (None, s1) \<Rightarrow>
            (let s2 = (if list_ex (\<lambda>item. Some (q_id item) = activePostId s) targets
                       then s1\<lparr>activePostId := None\<rparr> else s1);
                 s3 = set_toast ToneSuccess
                        (deleted_prefix @ ar (length targets) @ deleted_suffix) s2
             in (None, clear_selection (s3\<lparr>qs_deleteTargets := []\<rparr>)))))"

text \<open>\<open>encode\<close> is \<open>encodeURIComponent\<close>.\<close>

definition openAi :: "(jstring \<Rightarrow> jstring) \<Rightarrow> QueueItem \<Rightarrow> queue_screen \<Rightarrow> queue_screen" where
  "openAi encode item s =
     (if truthy (q_product_id item)
      then s\<lparr>qs_routes := qs_routes s @ [js ''/ai?product='' @ encode (the (q_product_id item))]\<rparr>
      else if truthy (q_button_url item)
      then s\<lparr>qs_routes := qs_routes s @ [js ''/ai?url='' @ encode (the (q_button_url item))]\<rparr>
      else s)"

section \<open>Effects\<close>

text \<open>When the enriched items are new, the selection is pruned and the client's failures give way
  to the backend's; the inspector is closed when the list no longer has its item.\<close>

definition inspector_effect :: "queue_screen \<Rightarrow> queue_screen" where
  "inspector_effect s =
     (case activePostId s of
        None \<Rightarrow> s
      | Some i \<Rightarrow>
          if qs_isPending s \<or> list_ex (\<lambda>item. q_id item = i) (qs_listItems s) then s
          else s\<lparr>activePostId := None\<rparr>)"

definition enriched_effects :: "queue_screen \<Rightarrow> queue_screen" where
  "enriched_effects s =
     s\<lparr>qs_table := items_effect (qs_items s) (qs_table s),
       qs_publishing := syncFailuresFromBackend (qs_items s) (qs_publishing s)\<rparr>"

text \<open>The list's fingerprint decides whether the summaries are fetched again; equal data keeps its
  identity in the query cache, so nothing is new then.\<close>

definition listFingerprint :: "QueueItem list \<Rightarrow> jstring" where
  "listFingerprint items =
     join [124] (map (\<lambda>item. q_id item @ [58] @ q_updated_at item) items)"

definition list_arrived :: "QueueItem list \<Rightarrow> queue_screen \<Rightarrow> queue_screen" where
  "list_arrived items s =
     (if items = qs_listItems s then inspector_effect (s\<lparr>qs_isPending := False\<rparr>)
      else inspector_effect (enriched_effects
        (s\<lparr>qs_isPending := False, qs_listItems := items,
           qs_enrichment :=
             (if listFingerprint items = listFingerprint (qs_listItems s) then qs_enrichment s
              else enrich_step (qs_enrichment s) (ListChanged items))\<rparr>)))"

definition detail_arrived :: "nat \<Rightarrow> jstring \<Rightarrow> QueueItem \<Rightarrow> queue_screen \<Rightarrow> queue_screen" where
  "detail_arrived generation i detail s =
     (let e = qs_enrichment s;
          s1 = s\<lparr>qs_enrichment := enrich_step e (DetailAnswered generation i detail)\<rparr>
      in if live_run e \<and> generationRef e = generation then enriched_effects s1 else s1)"

text \<open>Everything the screen offers.\<close>

datatype screen_action =
  ListArrived "QueueItem list" | DetailArrived nat jstring QueueItem | SummariesDone nat
| ViewItem jstring | CloseInspector
| OpenSchedule "QueueItem list" | CloseSchedule | SaveSchedule jstring jstring | PublishNow jstring
| PublishSelected "QueueItem list" | RetryItem QueueItem | ChangeStatus QueueStatus
| AskDelete "QueueItem list" | CancelDelete | ConfirmDelete
| OpenAi QueueItem | OpenProduct jstring | DismissToast | UseTable table_action

definition screen_step ::
  "host \<Rightarrow> (nat \<Rightarrow> jstring) \<Rightarrow> (jstring \<Rightarrow> jstring) \<Rightarrow> queue_server
     \<Rightarrow> queue_screen \<Rightarrow> screen_action \<Rightarrow> queue_screen" where
  "screen_step h ar encode srv s a = (case a of
     ListArrived items \<Rightarrow> list_arrived items s
   | DetailArrived generation i detail \<Rightarrow> detail_arrived generation i detail s
   | SummariesDone generation \<Rightarrow>
       s\<lparr>qs_enrichment := enrich_step (qs_enrichment s) (RunFinished generation)\<rparr>
   | ViewItem i \<Rightarrow> inspector_effect (s\<lparr>activePostId := Some i\<rparr>)
   | CloseInspector \<Rightarrow> s\<lparr>activePostId := None\<rparr>
   | OpenSchedule items \<Rightarrow> snd (openSchedule h items s)
   | CloseSchedule \<Rightarrow> s\<lparr>schedulingDialog := None\<rparr>
   | SaveSchedule channelId scheduledAt \<Rightarrow> saveSchedule h srv channelId scheduledAt s
   | PublishNow channelId \<Rightarrow> publishFromDialog h ar srv channelId s
   | PublishSelected items \<Rightarrow> snd (publish_selected h ar srv items s)
   | RetryItem item \<Rightarrow> retryFailedItem h ar srv item s
   | ChangeStatus status \<Rightarrow> changeStatus srv status s
   | AskDelete items \<Rightarrow> s\<lparr>qs_deleteTargets := items\<rparr>
   | CancelDelete \<Rightarrow> s\<lparr>qs_deleteTargets := []\<rparr>
   | ConfirmDelete \<Rightarrow> confirmDelete ar srv s
   | OpenAi item \<Rightarrow> openAi encode item s
   | OpenProduct i \<Rightarrow> s\<lparr>qs_routes := qs_routes s @ [js ''/products/'' @ i]\<rparr>
   | DismissToast \<Rightarrow> s\<lparr>qs_toast := None\<rparr>
   | UseTable act \<Rightarrow> s\<lparr>qs_table := snd (table_step h (qs_items s, qs_table s) act)\<rparr>)"

definition fresh_screen :: "jstring option \<Rightarrow> queue_screen" where
  "fresh_screen ws =
     \<lparr>qs_workspace = ws, qs_listItems = [], qs_isPending = True, qs_enrichment = fresh_enrichment,
      qs_table = initial_table,
      qs_publishing = \<lparr>publishingIds = [], failures = Map.empty, pub_invalidated = []\<rparr>,
      activePostId = None, schedulingDialog = None, qs_deleteTargets = [], qs_toast = None,
      qs_calls = [], qs_invalidated = [], qs_routes = []\<rparr>"

section \<open>Loops of calls\<close>

text \<open>The loop writes nothing but the calls and the refetches.\<close>

definition untouched :: "queue_screen \<Rightarrow> queue_screen \<Rightarrow> bool" where
  "untouched s s1 \<longleftrightarrow>
     schedulingDialog s1 = schedulingDialog s \<and> qs_table s1 = qs_table s \<and>
     qs_publishing s1 = qs_publishing s \<and> qs_deleteTargets s1 = qs_deleteTargets s \<and>
     activePostId s1 = activePostId s \<and> qs_listItems s1 = qs_listItems s \<and>
     qs_isPending s1 = qs_isPending s \<and> qs_enrichment s1 = qs_enrichment s \<and>
     qs_workspace s1 = qs_workspace s"

lemma mutation_succeeded_calls [simp]: "qs_calls (mutation_succeeded n s) = qs_calls s"
  by (simp add: mutation_succeeded_def)

lemma mutate_all_untouched: "untouched s (snd (mutate_all srv cs s))"
  by (simp add: untouched_def mutate_all_def mutation_succeeded_def Let_def)

lemma mutate_all_cases:
  obtains (Done) s1 where "mutate_all srv cs s = (None, s1)"
      "all_succeed (call_error srv) (qs_calls s) cs" "qs_calls s1 = qs_calls s @ cs" "untouched s s1"
  | (Stopped) s1 k e where "mutate_all srv cs s = (Some e, s1)"
      "\<not> all_succeed (call_error srv) (qs_calls s) cs"
      "fails_at (call_error srv) (qs_calls s) cs k e"
      "qs_calls s1 = qs_calls s @ take (Suc k) cs" "untouched s s1"
proof (cases rule: await_all_cases [of "call_error srv" "qs_calls s" cs])
  case Done
  then show thesis
    using that(1) [of "snd (mutate_all srv cs s)"] mutate_all_untouched [of s srv cs]
    by (simp add: mutate_all_def Let_def)
next
  case (Stopped k e)
  then show thesis
    using that(2) [of e "snd (mutate_all srv cs s)" k] mutate_all_untouched [of s srv cs]
    by (simp add: mutate_all_def Let_def)
qed

lemma map_q_id_enriched [simp]: "map q_id (enrichedItems items e) = map q_id items"
  by (auto simp: enrichedItems_def split: option.splits)

section \<open>Publishing\<close>

lemma list_ex_no_channel:
  "list_ex (\<lambda>item. \<not> truthy (q_channel_id item)) items \<longleftrightarrow>
     \<not> (\<forall>item \<in> set items. truthy (q_channel_id item))"
  by (auto simp: list_ex_iff)

lemma openSchedule_keeps [simp]:
  "qs_calls (snd (openSchedule h selected s)) = qs_calls s"
  "qs_publishing (snd (openSchedule h selected s)) = qs_publishing s"
  "qs_table (snd (openSchedule h selected s)) = qs_table s"
  "qs_items (snd (openSchedule h selected s)) = qs_items s"
  "activePostId (snd (openSchedule h selected s)) = activePostId s"
  "qs_listItems (snd (openSchedule h selected s)) = qs_listItems s"
  "qs_isPending (snd (openSchedule h selected s)) = qs_isPending s"
  "qs_enrichment (snd (openSchedule h selected s)) = qs_enrichment s"
  by (auto simp: openSchedule_def qs_items_def split: list.splits sum.splits)

lemma openSchedule_dialog:
  "selected \<noteq> [] \<Longrightarrow> fst (openSchedule h selected s) = None \<Longrightarrow>
     \<exists>d. schedulingDialog (snd (openSchedule h selected s)) = Some d \<and>
         sd_itemIds d = map q_id selected"
  by (auto simp: openSchedule_def split: list.splits sum.splits)

lemma publish_selected_ready:
  assumes "\<forall>item \<in> set selected. truthy (q_channel_id item)"
  shows "fst (publish_selected h ar srv selected s) = None"
    and "qs_calls (snd (publish_selected h ar srv selected s)) =
      qs_calls s @ map PublishCall (unique (map q_id selected))"
    and "schedulingDialog (snd (publish_selected h ar srv selected s)) = schedulingDialog s"
  using assms
  by (auto simp: publish_selected_def list_ex_no_channel Let_def clear_selection_def split: prod.splits)

text \<open>Nothing is published without a channel: when one of the selected items has none, no request
  is sent at all, and the screen asks for a channel (opening the scheduling dialog for exactly
  these items); otherwise each distinct selected item is published once, in the order of the
  list, the outcome is shown, and the selection is cleared.\<close>

theorem publish_needs_channels:
  assumes "selected \<noteq> []"
  shows "let (r, s') = publish_selected h ar srv selected s
    in if \<forall>item \<in> set selected. truthy (q_channel_id item)
       then r = None \<and> qs_calls s' = qs_calls s @ map PublishCall (unique (map q_id selected)) \<and>
         selectedQueueItemIds (qs_table s') = [] \<and> qs_toast s' \<noteq> None
       else qs_calls s' = qs_calls s \<and> qs_publishing s' = qs_publishing s \<and>
         (case r of
            Some _ \<Rightarrow> s' = s
          | None \<Rightarrow> qs_toast s' = Some (assign_channel_text, ToneError) \<and>
              map_option sd_itemIds (schedulingDialog s') = Some (map q_id selected))"
proof (cases "\<forall>item \<in> set selected. truthy (q_channel_id item)")
  case True
  with assms show ?thesis
    by (auto simp: publish_selected_def list_ex_no_channel Let_def clear_selection_def
        split: prod.splits)
next
  case False
  obtain r s1 where o: "openSchedule h selected s = (r, s1)" by fastforce
  then have "r \<noteq> None \<Longrightarrow> s1 = s"
    by (auto simp: openSchedule_def split: list.splits sum.splits)
  with False assms o openSchedule_keeps [of h selected s] openSchedule_dialog [of selected h s]
  show ?thesis
    by (auto simp: publish_selected_def list_ex_no_channel Let_def set_toast_def
        split: option.splits)
qed

text \<open>C24: scheduling from the dialog goes through item by item: with a readable time every item of the
  dialog is sent the chosen channel and time, in order; if all are accepted the dialog closes,
  the selection is cleared and success is shown; otherwise nothing is sent after the first
  refusal, and the dialog and the selection stay for another try, with the server's message.
  An unreadable time sends nothing.\<close>

theorem saveSchedule_all_or_first_failure:
  assumes "schedulingDialog s = Some d"
  shows "let s' = saveSchedule h srv channelId scheduledAt s in
    (case toISOString (date_parse h scheduledAt) of
       Inl e \<Rightarrow> qs_calls s' = qs_calls s \<and> schedulingDialog s' = Some d
     | Inr iso_time \<Rightarrow>
         (let cs = map (\<lambda>i. UpdateCall i (schedule_update channelId iso_time)) (sd_itemIds d) in
          if all_succeed (call_error srv) (qs_calls s) cs
          then qs_calls s' = qs_calls s @ cs \<and> schedulingDialog s' = None \<and>
            selectedQueueItemIds (qs_table s') = [] \<and>
            qs_toast s' = Some (schedule_saved_text, ToneSuccess)
          else (\<exists>k e. fails_at (call_error srv) (qs_calls s) cs k e \<and>
            qs_calls s' = qs_calls s @ take (Suc k) cs \<and> schedulingDialog s' = Some d \<and>
            qs_table s' = qs_table s \<and>
            qs_toast s' = Some (getApiErrorMessage e schedule_failed_text, ToneError))))"
proof (cases "toISOString (date_parse h scheduledAt)")
  case (Inl e)
  then show ?thesis
    using assms by (simp add: saveSchedule_def caught_def set_toast_def Let_def)
next
  case (Inr iso_time)
  let ?cs = "map (\<lambda>i. UpdateCall i (schedule_update channelId iso_time)) (sd_itemIds d)"
  show ?thesis
    by (cases rule: mutate_all_cases [of srv ?cs s])
      (use Inr assms in \<open>auto simp: saveSchedule_def caught_def set_toast_def clear_selection_def
         untouched_def Let_def intro!: exI\<close>)
qed

text \<open>Publishing from the dialog never publishes a half-prepared batch: only when every selected
  item that is still in the list has been given the channel is any of them published, each
  distinct one once and in order, and the dialog closes; otherwise nothing is published, no
  update is sent after the refused one, and the dialog stays with the server's message.\<close>

theorem publishFromDialog_prepares_all_first:
  assumes "schedulingDialog s = Some d" "channelId \<noteq> []"
  shows "let s' = publishFromDialog h ar srv channelId s;
        ids = filter (\<lambda>i. i \<in> set (sd_itemIds d)) (map q_id (qs_listItems s));
        updates = map (\<lambda>i. UpdateCall i (queue_update channelId)) ids
    in if all_succeed (call_error srv) (qs_calls s) updates
       then qs_calls s' = qs_calls s @ updates @ map PublishCall (unique ids) \<and>
         schedulingDialog s' = None
       else (\<exists>k e. fails_at (call_error srv) (qs_calls s) updates k e \<and>
         qs_calls s' = qs_calls s @ take (Suc k) updates \<and> schedulingDialog s' = Some d \<and>
         qs_toast s' = Some (getApiErrorMessage e prepare_failed_text, ToneError))"
proof -
  let ?sel = "filter (\<lambda>item. q_id item \<in> set (sd_itemIds d)) (qs_items s)"
  let ?cs = "map (\<lambda>item. UpdateCall (q_id item) (queue_update channelId)) ?sel"
  let ?ready = "map (\<lambda>item. item\<lparr>q_channel_id := Some channelId, q_status := Queued\<rparr>) ?sel"
  have ids: "map q_id ?sel = filter (\<lambda>i. i \<in> set (sd_itemIds d)) (map q_id (qs_listItems s))"
    using filter_map [of "\<lambda>i. i \<in> set (sd_itemIds d)" q_id "qs_items s"]
    by (simp add: qs_items_def comp_def)
  have cs: "?cs = map (\<lambda>i. UpdateCall i (queue_update channelId)) (map q_id ?sel)" by simp
  have ready: "map q_id ?ready = map q_id ?sel"
    "\<forall>item \<in> set ?ready. truthy (q_channel_id item)" using assms(2) by auto
  have "if all_succeed (call_error srv) (qs_calls s) ?cs
     then qs_calls (publishFromDialog h ar srv channelId s) =
         qs_calls s @ ?cs @ map PublishCall (unique (map q_id ?sel)) \<and>
       schedulingDialog (publishFromDialog h ar srv channelId s) = None
     else (\<exists>k e. fails_at (call_error srv) (qs_calls s) ?cs k e \<and>
       qs_calls (publishFromDialog h ar srv channelId s) = qs_calls s @ take (Suc k) ?cs \<and>
       schedulingDialog (publishFromDialog h ar srv channelId s) = Some d \<and>
       qs_toast (publishFromDialog h ar srv channelId s) =
         Some (getApiErrorMessage e prepare_failed_text, ToneError))"
  proof (cases rule: mutate_all_cases [of srv ?cs s])
    case (Done s1)
    note p = publish_selected_ready [OF ready(2), of h ar srv "s1\<lparr>schedulingDialog := None\<rparr>"]
    obtain s2 where "publish_selected h ar srv ?ready (s1\<lparr>schedulingDialog := None\<rparr>) = (None, s2)"
      using p(1) by (metis prod.collapse)
    with Done p(2,3) assms(1) ready(1) show ?thesis
      by (simp add: publishFromDialog_def caught_def comp_def)
  next
    case (Stopped s1 k e)
    then have "publishFromDialog h ar srv channelId s =
        set_toast ToneError (getApiErrorMessage e prepare_failed_text) s1"
      using assms(1) by (simp add: publishFromDialog_def caught_def)
    with Stopped assms(1) show ?thesis by (auto simp: set_toast_def untouched_def intro!: exI)
  qed
  then show ?thesis unfolding Let_def ids cs .
qed

section \<open>Deleting\<close>

text \<open>Deleting works through the confirmed items in order: if the server deletes them all, the
  confirmation closes, the selection is cleared, and the inspector closes when it showed one of
  them and stays as it was otherwise; after a refusal nothing more is sent, and confirmation,
  selection and inspector stay as they were, with the server's message.\<close>

theorem confirmDelete_all_or_first_failure:
  "let s' = confirmDelete ar srv s;
       cs = map (\<lambda>item. DeleteCall (q_id item)) (qs_deleteTargets s)
   in if all_succeed (call_error srv) (qs_calls s) cs
      then qs_calls s' = qs_calls s @ cs \<and> qs_deleteTargets s' = [] \<and>
        selectedQueueItemIds (qs_table s') = [] \<and>
        activePostId s' = (if activePostId s \<in> Some ` q_id ` set (qs_deleteTargets s) then None
                           else activePostId s)
      else (\<exists>k e. fails_at (call_error srv) (qs_calls s) cs k e \<and>
        qs_calls s' = qs_calls s @ take (Suc k) cs \<and>
        qs_deleteTargets s' = qs_deleteTargets s \<and> qs_table s' = qs_table s \<and>
        activePostId s' = activePostId s \<and>
        qs_toast s' = Some (getApiErrorMessage e delete_failed_text, ToneError))"
proof -
  let ?cs = "map (\<lambda>item. DeleteCall (q_id item)) (qs_deleteTargets s)"
  show ?thesis
  proof (cases rule: mutate_all_cases [of srv ?cs s])
    case (Done s1)
    moreover have "list_ex (\<lambda>item. Some (q_id item) = activePostId s) (qs_deleteTargets s) \<longleftrightarrow>
        activePostId s \<in> Some ` q_id ` set (qs_deleteTargets s)"
      by (cases "activePostId s") (auto simp: list_ex_iff image_iff)
    ultimately show ?thesis
      by (auto simp: confirmDelete_def caught_def set_toast_def clear_selection_def untouched_def
          Let_def)
  next
    case (Stopped s1 k e)
    then have "confirmDelete ar srv s = set_toast ToneError (getApiErrorMessage e delete_failed_text) s1"
      by (simp add: confirmDelete_def caught_def)
    with Stopped show ?thesis by (auto simp: Let_def set_toast_def untouched_def intro!: exI)
  qed
qed

text \<open>Confirming again after a partial failure cannot finish: the deleted items are still among
  the targets, so the second attempt starts with an item that is gone, which the server refuses
  (it answers 404), and the items after it are never asked for.\<close>

theorem delete_retry_stuck:
  assumes "qs_deleteTargets s = a # b # rest"
    and "sv_delete srv (qs_calls s) (q_id a) = None"
    and "sv_delete srv (qs_calls s @ [DeleteCall (q_id a)]) (q_id b) = Some e"
    and "sv_delete srv (qs_calls s @ [DeleteCall (q_id a), DeleteCall (q_id b)]) (q_id a) = Some gone"
  shows "let s2 = confirmDelete ar srv (confirmDelete ar srv s)
    in qs_deleteTargets s2 = a # b # rest \<and>
       qs_calls s2 = qs_calls s @
         [DeleteCall (q_id a), DeleteCall (q_id b), DeleteCall (q_id a)]"
  using assms
  by (simp add: confirmDelete_def caught_def call_error_def set_toast_def mutate_all_def
      mutation_succeeded_def Let_def)

section \<open>The scheduling form\<close>

text \<open>The zone data of the host agree at the minute in which \<open>t\<close> lies.\<close>

definition minute_of :: "host \<Rightarrow> int \<Rightarrow> int" where
  "minute_of h t = t - local_time h t mod 60000"

definition zone_agrees :: "host \<Rightarrow> int \<Rightarrow> bool" where
  "zone_agrees h t \<longleftrightarrow>
     plain_year (local_time h t) \<and> plain_year (minute_of h t) \<and>
     utc_of_local h (local_time h t div 60000 * 60000) = minute_of h t"

lemma form_value_read_back:
  assumes "zone_agrees h t"
  shows "toDateTimeLocal h (Num (of_int t)) = Inr (take 16 (iso_string (local_time h t)))"
    and "date_parse h (take 16 (iso_string (local_time h t))) = Num (of_int (minute_of h t))"
  using assms
  by (simp_all add: toDateTimeLocal_def date_parse_def zone_agrees_def iso_parts(2))

text \<open>C21: what the scheduling form shows is what it saves: opening it for items whose first one is
  scheduled, and saving it unchanged to a server that accepts, sends every one of them that very
  time, truncated to the minute, as UTC text that reads back as that time; so an item that is
  scheduled on a full minute keeps its time, whatever the user's time zone.\<close>

theorem schedule_form_round_trip:
  assumes "selected = first # others" "q_scheduled_at first = Some text" "text \<noteq> []"
    and "date_parse h text = Num (of_int t)" "zone_agrees h t"
    and "all_succeed (call_error srv) (qs_calls s)
      (map (\<lambda>item. UpdateCall (q_id item) (schedule_update channelId (iso_string (minute_of h t))))
        selected)"
  shows "let (r, s1) = openSchedule h selected s;
        d = the (schedulingDialog s1);
        s2 = saveSchedule h srv channelId (sd_scheduledAt d) s1
    in r = None \<and>
       qs_calls s2 = qs_calls s @
         map (\<lambda>item. UpdateCall (q_id item)
                (schedule_update channelId (iso_string (minute_of h t)))) selected \<and>
       date_parse h (iso_string (minute_of h t)) = Num (of_int (minute_of h t)) \<and>
       (t mod 60000 = 0 \<and> utc_offset h t mod 60000 = 0 \<longrightarrow> minute_of h t = t)"
proof -
  let ?d = "\<lparr>sd_itemIds = map q_id selected, sd_channelId = or_default (q_channel_id first) [],
      sd_scheduledAt = take 16 (iso_string (local_time h t))\<rparr>"
  let ?s1 = "s\<lparr>schedulingDialog := Some ?d\<rparr>"
  let ?u = "schedule_update channelId (iso_string (minute_of h t))"
  have o: "openSchedule h selected s = (None, ?s1)"
    using assms(1-4) form_value_read_back(1) [OF assms(5)] by (simp add: openSchedule_def)
  have iso: "toISOString (date_parse h (take 16 (iso_string (local_time h t)))) =
      Inr (iso_string (minute_of h t))"
    using form_value_read_back(2) [OF assms(5)] by (simp add: toISOString_def)
  have cs: "map (\<lambda>i. UpdateCall i ?u) (sd_itemIds ?d) = map (\<lambda>item. UpdateCall (q_id item) ?u) selected"
    by simp
  have "qs_calls (saveSchedule h srv channelId (sd_scheduledAt ?d) ?s1) =
      qs_calls s @ map (\<lambda>item. UpdateCall (q_id item) ?u) selected"
    by (cases rule: mutate_all_cases [of srv "map (\<lambda>i. UpdateCall i ?u) (sd_itemIds ?d)" ?s1])
      (use assms(6) iso in \<open>simp_all add: cs saveSchedule_def caught_def set_toast_def
         clear_selection_def comp_def\<close>)
  moreover have "date_parse h (iso_string (minute_of h t)) = Num (of_int (minute_of h t))"
    using assms(5) by (simp add: date_parse_iso_string zone_agrees_def)
  moreover have "t mod 60000 = 0 \<Longrightarrow> utc_offset h t mod 60000 = 0 \<Longrightarrow> minute_of h t = t"
    using mod_add_eq [of t 60000 "utc_offset h t"] by (simp add: minute_of_def local_time_def)
  ultimately show ?thesis by (simp add: o)
qed

section \<open>The invariant of the screen\<close>

text \<open>A table action of the screen names rows of the table; a detail answers a request of its run.\<close>

definition screen_ok :: "queue_screen \<Rightarrow> screen_action \<Rightarrow> bool" where
  "screen_ok s a = (case a of
     UseTable act \<Rightarrow>
       (case act of ItemsChanged _ \<Rightarrow> False | _ \<Rightarrow> table_ok (qs_items s, qs_table s) act)
   | DetailArrived generation i detail \<Rightarrow>
       enrich_ok (qs_enrichment s) (DetailAnswered generation i detail)
   | _ \<Rightarrow> True)"

definition inspector_valid :: "queue_screen \<Rightarrow> bool" where
  "inspector_valid s \<longleftrightarrow> qs_isPending s \<or>
     (\<forall>i. activePostId s = Some i \<longrightarrow> i \<in> q_id ` set (qs_listItems s))"

definition dialog_valid :: "queue_screen \<Rightarrow> bool" where
  "dialog_valid s \<longleftrightarrow>
     (\<forall>d. schedulingDialog s = Some d \<longrightarrow> sd_itemIds d \<noteq> [])"

definition screen_inv :: "queue_screen \<Rightarrow> bool" where
  "screen_inv s \<longleftrightarrow> table_inv (qs_items s, qs_table s) \<and> inspector_valid s \<and> dialog_valid s \<and>
     publishingIds (qs_publishing s) = [] \<and> enrich_inv (qs_enrichment s)"

lemmas screen_inv_defs = screen_inv_def inspector_valid_def dialog_valid_def

lemma set_enriched_ids [simp]: "q_id ` set (enrichedItems items e) = q_id ` set items"
  using arg_cong [OF map_q_id_enriched [of items e], of set] by (simp only: list.set_map)

lemma table_inv_enriched:
  "table_inv (enrichedItems items e, t) \<longleftrightarrow>
     set (selectedQueueItemIds t) \<subseteq> q_id ` set items \<and> distinct (selectedQueueItemIds t)"
  by (simp add: table_inv_def)

lemma publishItems_leaves_none:
  "publishingIds s = [] \<Longrightarrow> publishingIds (snd (QueueTable.publishItems ws answers ids s)) = []"
proof -
  assume none: "publishingIds s = []"
  let ?s1 = "s\<lparr>publishingIds := unique (publishingIds s @ unique ids)\<rparr>"
  obtain r s2 where f: "foldl (\<lambda>rs i. publish_one ws (answers i) i rs) (no_result, ?s1) (unique ids)
      = (r, s2)" by fastforce
  have "publishingIds s2 = []"
    using publish_fold [OF f distinct_unique] none by (simp add: filter_empty_conv)
  then show ?thesis using f by (simp add: QueueTable.publishItems_def Let_def)
qed

lemma untouched_inv: "screen_inv s \<Longrightarrow> untouched s s1 \<Longrightarrow> screen_inv s1"
  by (simp add: screen_inv_defs untouched_def qs_items_def)

lemma dialog_closed_inv: "screen_inv s \<Longrightarrow> screen_inv (s\<lparr>schedulingDialog := None\<rparr>)"
  by (simp add: screen_inv_defs qs_items_def)

lemma set_toast_inv [simp]: "screen_inv (set_toast t m s) \<longleftrightarrow> screen_inv s"
  by (simp add: screen_inv_defs set_toast_def qs_items_def)

lemma targets_inv [simp]: "screen_inv (s\<lparr>qs_deleteTargets := items\<rparr>) \<longleftrightarrow> screen_inv s"
  by (simp add: screen_inv_defs qs_items_def)

lemma clear_selection_inv: "screen_inv s \<Longrightarrow> screen_inv (clear_selection s)"
  by (simp add: screen_inv_defs clear_selection_def qs_items_def table_inv_enriched)

lemma logged_inv: "screen_inv s \<Longrightarrow> screen_inv (mutation_succeeded n s) \<and> screen_inv (s\<lparr>qs_calls := cs\<rparr>)"
  by (simp add: screen_inv_defs mutation_succeeded_def qs_items_def)

lemma caught_inv: "screen_inv (snd es) \<Longrightarrow> screen_inv (caught m es)"
  by (cases es) (auto simp: caught_def split: option.splits)

lemma mutate_all_inv: "mutate_all srv cs s = (r, s1) \<Longrightarrow> screen_inv s \<Longrightarrow> screen_inv s1"
  using mutate_all_untouched [of s srv cs] untouched_inv [of s s1] by simp

lemma openSchedule_inv:
  "openSchedule h selected s = (r, s1) \<Longrightarrow> screen_inv s \<Longrightarrow> screen_inv s1"
  by (auto simp: openSchedule_def screen_inv_defs qs_items_def split: list.splits sum.splits)

lemma publish_selected_inv:
  assumes "screen_inv s"
  shows "screen_inv (snd (publish_selected h ar srv selected s))"
proof -
  have p: "publishingIds (snd (QueueTable.publishItems ws answers ids (qs_publishing s))) = []"
    for ws answers ids using assms by (intro publishItems_leaves_none) (simp add: screen_inv_def)
  have "screen_inv (snd (publish_selected h ar srv selected s))"
    if ready: "\<forall>item \<in> set selected. truthy (q_channel_id item)" "selected \<noteq> []"
  proof -
    let ?ids = "map q_id selected"
    let ?ans = "batch_answers srv (qs_calls s) (unique ?ids)"
    obtain r p' where rp: "QueueTable.publishItems (qs_workspace s) ?ans ?ids (qs_publishing s) = (r, p')"
      by fastforce
    with p [of "qs_workspace s" ?ans ?ids] have "publishingIds p' = []" by simp
    with rp assms ready show ?thesis
      by (auto simp: publish_selected_def Let_def clear_selection_def screen_inv_defs qs_items_def
          table_inv_enriched list_ex_no_channel)
  qed
  moreover have "screen_inv (snd (publish_selected h ar srv selected s))"
    if "\<not> (\<forall>item \<in> set selected. truthy (q_channel_id item))"
    using that assms by (auto simp: publish_selected_def list_ex_no_channel
        split: prod.splits option.splits dest: openSchedule_inv)
  moreover have "screen_inv (snd (publish_selected h ar srv [] s))"
    using assms by (simp add: publish_selected_def)
  ultimately show ?thesis by (cases "selected = []") auto
qed

lemma saveSchedule_inv: "screen_inv s \<Longrightarrow> screen_inv (saveSchedule h srv channelId scheduledAt s)"
  unfolding saveSchedule_def
  by (auto intro!: caught_inv clear_selection_inv dialog_closed_inv dest: mutate_all_inv
      split: option.splits sum.splits prod.splits)

lemma publishFromDialog_inv: "screen_inv s \<Longrightarrow> screen_inv (publishFromDialog h ar srv channelId s)"
  unfolding publishFromDialog_def Let_def
  by (auto intro!: caught_inv publish_selected_inv dialog_closed_inv dest: mutate_all_inv
      split: option.splits prod.splits)

lemma retryFailedItem_inv: "screen_inv s \<Longrightarrow> screen_inv (retryFailedItem h ar srv item s)"
  unfolding retryFailedItem_def Let_def
  by (auto intro!: caught_inv publish_selected_inv simp: logged_inv split: sum.splits)

lemma changeStatus_inv: "screen_inv s \<Longrightarrow> screen_inv (changeStatus srv status s)"
  unfolding changeStatus_def
  by (auto intro!: caught_inv clear_selection_inv dest: mutate_all_inv split: option.splits prod.splits)

lemma inspector_closed_inv: "screen_inv s \<Longrightarrow> screen_inv (s\<lparr>activePostId := None\<rparr>)"
  by (simp add: screen_inv_defs qs_items_def)

lemma confirmDelete_inv: "screen_inv s \<Longrightarrow> screen_inv (confirmDelete ar srv s)"
proof -
  assume inv: "screen_inv s"
  obtain r s1 where m: "mutate_all srv (map (\<lambda>item. DeleteCall (q_id item)) (qs_deleteTargets s)) s = (r, s1)"
    by fastforce
  from mutate_all_inv [OF m inv] m show ?thesis
    by (auto simp: confirmDelete_def Let_def split: option.splits
        intro!: caught_inv clear_selection_inv inspector_closed_inv)
qed

lemma inspector_effect_inv:
  assumes "table_inv (qs_items s, qs_table s)" "dialog_valid s" "enrich_inv (qs_enrichment s)"
    "publishingIds (qs_publishing s) = []"
  shows "screen_inv (inspector_effect s)"
  using assms by (auto simp: inspector_effect_def screen_inv_defs qs_items_def list_ex_iff
      split: option.splits)

lemma table_inv_pruned: "distinct (selectedQueueItemIds t) \<Longrightarrow> table_inv (items, items_effect items t)"
  using queue_rows.prune_valid [of "map q_id items" "selectedQueueItemIds t"]
    queue_rows.prune_distinct [of "selectedQueueItemIds t" "map q_id items"]
  by (simp add: table_inv_def items_effect_def)

lemma sync_keeps [simp]: "publishingIds (syncFailuresFromBackend items p) = publishingIds p"
  by (simp add: syncFailuresFromBackend_def)

lemma enriched_effects_simps [simp]:
  "qs_items (enriched_effects s) = qs_items s"
  "schedulingDialog (enriched_effects s) = schedulingDialog s"
  "dialog_valid (enriched_effects s) = dialog_valid s"
  "inspector_valid (enriched_effects s) = inspector_valid s"
  "qs_enrichment (enriched_effects s) = qs_enrichment s"
  "publishingIds (qs_publishing (enriched_effects s)) = publishingIds (qs_publishing s)"
  "qs_table (enriched_effects s) = items_effect (qs_items s) (qs_table s)"
  by (simp_all add: enriched_effects_def qs_items_def dialog_valid_def inspector_valid_def)

lemma list_arrived_inv: "screen_inv s \<Longrightarrow> screen_inv (list_arrived items s)"
proof -
  assume inv: "screen_inv s"
  then have d: "distinct (selectedQueueItemIds (qs_table s))" by (simp add: screen_inv_def table_inv_def)
  have e: "enrich_inv (enrich_step (qs_enrichment s) (ListChanged items))"
    using inv by (intro enrich_step_inv) (simp_all add: screen_inv_def)
  show ?thesis
  proof (cases "items = qs_listItems s")
    case True
    then show ?thesis
      using inv [unfolded screen_inv_def]
      by (auto simp: list_arrived_def qs_items_def dialog_valid_def intro!: inspector_effect_inv)
  next
    case False
    then show ?thesis
      using inv [unfolded screen_inv_def] e table_inv_pruned [OF d]
      by (auto simp: list_arrived_def dialog_valid_def intro!: inspector_effect_inv)
  qed
qed

lemma detail_arrived_inv:
  assumes "screen_inv s" "enrich_ok (qs_enrichment s) (DetailAnswered generation i detail)"
  shows "screen_inv (detail_arrived generation i detail s)"
proof -
  let ?e = "enrich_step (qs_enrichment s) (DetailAnswered generation i detail)"
  have e: "enrich_inv ?e" using assms by (intro enrich_step_inv) (simp_all add: screen_inv_def)
  have s1: "screen_inv (s\<lparr>qs_enrichment := ?e\<rparr>)"
    using assms(1) e by (simp add: screen_inv_defs qs_items_def table_inv_enriched)
  then have "distinct (selectedQueueItemIds (qs_table s))" by (simp add: screen_inv_def table_inv_def)
  with s1 have "screen_inv (enriched_effects (s\<lparr>qs_enrichment := ?e\<rparr>))"
    by (simp add: screen_inv_def table_inv_pruned)
  with s1 show ?thesis by (simp add: detail_arrived_def Let_def)
qed

lemma use_table_inv:
  assumes "screen_inv s" "screen_ok s (UseTable act)"
  shows "screen_inv (screen_step h ar encode srv s (UseTable act))"
proof -
  have "table_inv (table_step h (qs_items s, qs_table s) act)"
    using assms by (intro table_step_inv)
      (auto simp: screen_inv_def screen_ok_def table_ok_def split: table_action.splits)
  moreover have "fst (table_step h (qs_items s, qs_table s) act) = qs_items s"
    using assms(2) by (auto simp: screen_ok_def table_step_def split: table_action.splits)
  ultimately have "table_inv (qs_items s, snd (table_step h (qs_items s, qs_table s) act))"
    by (metis prod.collapse)
  with assms(1) show ?thesis by (simp add: screen_step_def screen_inv_defs qs_items_def)
qed

lemma screen_step_inv:
  assumes "screen_inv s" "screen_ok s a"
  shows "screen_inv (screen_step h ar encode srv s a)"
proof (cases a)
  case (OpenSchedule items)
  then show ?thesis
    using assms openSchedule_inv [of h items s] by (simp add: screen_step_def prod_eq_iff)
next
  case (SummariesDone generation)
  have "enrich_inv (enrich_step (qs_enrichment s) (RunFinished generation))"
    using assms by (intro enrich_step_inv) (simp_all add: screen_inv_def)
  with SummariesDone assms(1) show ?thesis
    by (simp add: screen_step_def screen_inv_defs qs_items_def table_inv_enriched)
next
  case (ViewItem i)
  then show ?thesis
    using assms(1) [unfolded screen_inv_def]
    by (auto simp: screen_step_def qs_items_def dialog_valid_def intro!: inspector_effect_inv)
next
  case (OpenAi item)
  then show ?thesis
    using assms(1) by (auto simp: screen_step_def openAi_def screen_inv_defs qs_items_def)
next
  case (UseTable act)
  then show ?thesis using assms use_table_inv by simp
next
  case (DetailArrived generation i detail)
  then show ?thesis
    using assms detail_arrived_inv by (simp add: screen_step_def screen_ok_def)
qed (use assms in \<open>simp_all add: screen_step_def list_arrived_inv saveSchedule_inv publishFromDialog_inv
  publish_selected_inv retryFailedItem_inv changeStatus_inv confirmDelete_inv dialog_closed_inv,
  (simp add: screen_inv_defs qs_items_def)+\<close>)

interpretation queue_screen: state_machine "screen_step h ar encode srv" screen_ok screen_inv
  for h ar encode srv
  by unfold_locales (rule screen_step_inv)


section \<open>A small screen\<close>

definition accepting_server :: "QueueItem \<Rightarrow> queue_server" where
  "accepting_server item =
     \<lparr>sv_update = (\<lambda>_ _ _. Inr item), sv_publish = (\<lambda>_ _. None), sv_delete = (\<lambda>_ _. None)\<rparr>"

text \<open>A server that deletes \<open>a\<close> once and refuses everything else.\<close>

definition deletes_once :: "jstring \<Rightarrow> queue_server" where
  "deletes_once a =
     \<lparr>sv_update = (\<lambda>_ _ _. Inl ThrownOther), sv_publish = (\<lambda>_ _. None),
      sv_delete = (\<lambda>past i. if i = a \<and> DeleteCall a \<notin> set past then None else Some ThrownOther)\<rparr>"

definition sample_screen :: queue_screen where
  "sample_screen = (fresh_screen (Some (js ''w'')))
     \<lparr>qs_listItems := sample_items, qs_isPending := False,
      schedulingDialog := Some \<lparr>sd_itemIds = [js ''a'', js ''b''], sd_channelId = js ''c'',
                                sd_scheduledAt = []\<rparr>,
      qs_deleteTargets := sample_items\<rparr>"

lemma fresh_screen_calls [simp]: "qs_calls (fresh_screen ws) = []"
  by (simp add: fresh_screen_def)

lemma all_succeed_accepting: "all_succeed (call_error (accepting_server item)) past cs"
  by (rule all_succeed_always) (auto simp: call_error_def accepting_server_def split: queue_call.split)

lemma publish_needs_channels_witness:
  "let (r, s') = publish_selected (utc_host 0) (\<lambda>n. []) (accepting_server (hd sample_items))
       sample_items (fresh_screen None)
   in r = None \<and> qs_calls s' = [] \<and> qs_toast s' = Some (assign_channel_text, ToneError)"
proof -
  have "sample_items \<noteq> []" by (simp add: sample_items_def)
  note p = publish_needs_channels [OF this, of "utc_host 0" "\<lambda>n. []"
      "accepting_server (hd sample_items)" "fresh_screen None"]
  have c: "(\<forall>item \<in> set sample_items. truthy (q_channel_id item)) = False"
    by (simp add: sample_items_def sample_item_def)
  have "fst (publish_selected (utc_host 0) (\<lambda>n. []) (accepting_server (hd sample_items))
      sample_items (fresh_screen None)) = None" by code_simp
  with p [unfolded c if_False] show ?thesis by (auto simp: split_beta Let_def)
qed

lemma saveSchedule_all_or_first_failure_witness:
  "let s' = saveSchedule (utc_host 0) (accepting_server (hd sample_items)) (js ''c'')
       (js ''2024-02-29T10:00'') sample_screen
   in length (qs_calls s') = 2 \<and> schedulingDialog s' = None"
proof -
  have d: "schedulingDialog sample_screen = Some \<lparr>sd_itemIds = [js ''a'', js ''b''],
      sd_channelId = js ''c'', sd_scheduledAt = []\<rparr>" by (simp add: sample_screen_def)
  have t: "toISOString (date_parse (utc_host 0) (js ''2024-02-29T10:00'')) =
      Inr (js ''2024-02-29T10:00:00.000Z'')" by code_simp
  show ?thesis
    using saveSchedule_all_or_first_failure [OF d, of "utc_host 0" "accepting_server (hd sample_items)"
        "js ''c''" "js ''2024-02-29T10:00''"]
    by (simp add: t Let_def all_succeed_accepting) (simp add: sample_screen_def fresh_screen_def)
qed

lemma publishFromDialog_prepares_all_first_witness:
  "qs_calls (publishFromDialog (utc_host 0) (\<lambda>n. []) (accepting_server (hd sample_items)) (js ''c'')
     sample_screen) =
   [UpdateCall (js ''a'') (queue_update (js ''c'')), UpdateCall (js ''b'') (queue_update (js ''c'')),
    PublishCall (js ''a''), PublishCall (js ''b'')]"
proof -
  have d: "schedulingDialog sample_screen = Some \<lparr>sd_itemIds = [js ''a'', js ''b''],
      sd_channelId = js ''c'', sd_scheduledAt = []\<rparr>" by (simp add: sample_screen_def)
  have "js ''c'' \<noteq> []" by simp
  note p = publishFromDialog_prepares_all_first [OF d this, of "utc_host 0" "\<lambda>n. []"
      "accepting_server (hd sample_items)"]
  have "map q_id (qs_listItems sample_screen) = [js ''a'', js ''b'']" "qs_calls sample_screen = []"
    by (simp_all add: sample_screen_def sample_items_def sample_item_def fresh_screen_def)
  moreover have "unique [js ''a'', js ''b''] = [js ''a'', js ''b'']" by code_simp
  ultimately show ?thesis using p by (simp add: Let_def all_succeed_accepting)
qed

lemma delete_retry_stuck_witness:
  "length (qs_calls (confirmDelete (\<lambda>n. []) (deletes_once (js ''a''))
     (confirmDelete (\<lambda>n. []) (deletes_once (js ''a'')) sample_screen))) = 3"
proof -
  have t: "qs_deleteTargets sample_screen = sample_item (js ''a'') (js ''2024-01-01'') #
      sample_item (js ''b'') (js ''2024-01-02'') # []" "qs_calls sample_screen = []"
    by (simp_all add: sample_screen_def sample_items_def fresh_screen_def)
  have n: "js ''b'' \<noteq> js ''a''" by code_simp
  show ?thesis
    using delete_retry_stuck [OF t(1), where srv = "deletes_once (js ''a'')" and ar = "\<lambda>n. []"]
    by (simp add: t(2) deletes_once_def sample_item_def n Let_def)
qed

lemma schedule_form_round_trip_witness:
  "let (r, s1) = openSchedule (utc_host 0)
         [(hd sample_items)\<lparr>q_scheduled_at := Some (js ''2024-02-29T10:00:00Z'')\<rparr>] (fresh_screen None);
       s2 = saveSchedule (utc_host 0) (accepting_server (hd sample_items)) (js ''c'')
         (sd_scheduledAt (the (schedulingDialog s1))) s1
   in length (qs_calls s2) = 1"
proof -
  let ?first = "(hd sample_items)\<lparr>q_scheduled_at := Some (js ''2024-02-29T10:00:00Z'')\<rparr>"
  have p: "date_parse (utc_host 0) (js ''2024-02-29T10:00:00Z'') = Num (of_int 1709200800000)"
    by code_simp
  have z: "zone_agrees (utc_host 0) 1709200800000" by code_simp
  have "q_scheduled_at ?first = Some (js ''2024-02-29T10:00:00Z'')" "js ''2024-02-29T10:00:00Z'' \<noteq> []"
    by simp_all
  from schedule_form_round_trip [OF refl this p z all_succeed_accepting, where others = "[]"
      and s = "fresh_screen None" and item1 = "hd sample_items" and channelId = "js ''c''"]
  show ?thesis by (simp add: Let_def split_beta)
qed


end
