(* ===== verification/QueueScheduling.thy ===== *)
theory QueueScheduling
  imports QueueScreen
begin

text \<open>
  The scheduling form of the publishing screen: the validation of
  \<open>frontend/src/features/queue/lib/schemas.ts\<close> with the messages of \<open>lib/validation/messages.ts\<close>,
  and the state of \<open>components/QueueSchedulingDialog.tsx\<close>.  Of zod, the string checks and
  refinements run in the order in which they are chained, each adding its message; whether a text is
  a UUID to zod is the parameter \<open>zod_uuid\<close>.  The form shows the first message of a field.
\<close>

section \<open>messages.ts\<close>

definition required_feminine :: jstring where
  "required_feminine =
    [1605, 1591, 1604, 1608, 1576, 1577]"

definition required_masculine :: jstring where
  "required_masculine =
    [1605, 1591, 1604, 1608, 1576]"

definition not_valid_text :: jstring where
  "not_valid_text =
    [32, 1594, 1610, 1585, 32, 1589, 1575, 1604, 1581]"

definition invalidDateTime :: jstring where
  "invalidDateTime =
    [1571, 1583, 1582, 1604, 32, 1578, 1575, 1585, 1610, 1582, 1611, 1575, 32, 1608, 1608,
     1602, 1578, 1611, 1575, 32, 1589, 1581, 1610, 1581, 1610, 1606]"

definition requiredField :: "jstring \<Rightarrow> bool \<Rightarrow> jstring" where
  "requiredField label feminine =
     label @ [32] @ (if feminine then required_feminine else required_masculine)"

definition invalidUuid :: "jstring \<Rightarrow> jstring" where
  "invalidUuid label = label @ not_valid_text"

section \<open>schemas.ts\<close>

definition target_channel_label :: jstring where
  "target_channel_label =
    [1575, 1604, 1602, 1606, 1575, 1577, 32, 1575, 1604, 1605, 1587, 1578, 1607, 1583, 1601,
     1577]"

definition channel_id_label :: jstring where
  "channel_id_label =
    [1605, 1593, 1585, 1617, 1601, 32, 1575, 1604, 1602, 1606, 1575, 1577]"

definition schedule_time_label :: jstring where
  "schedule_time_label =
    [1578, 1575, 1585, 1610, 1582, 32, 1608, 1608, 1602, 1578, 32, 1575, 1604, 1580, 1583,
     1608, 1604, 1577]"

definition past_time_text :: jstring where
  "past_time_text =
    [1604, 1575, 32, 1610, 1605, 1603, 1606, 32, 1580, 1583, 1608, 1604, 1577, 32, 1608,
     1602, 1578, 32, 1601, 1610, 32, 1575, 1604, 1605, 1575, 1590, 1610]"

datatype schedule_intent = Schedule | PublishNowIntent

text \<open>\<open>/^(\d{4})-(\d{2})-(\d{2})T(\d{2}):(\d{2})$/\<close>; \<open>$\<close> without the \<open>m\<close> flag is the end of the text.\<close>

definition DATETIME_LOCAL_PATTERN :: "jstring \<Rightarrow> bool" where
  "DATETIME_LOCAL_PATTERN s \<longleftrightarrow>
     Option.bind (digits 4 s) (\<lambda>(_, r1).
     Option.bind (expect 45 r1) (\<lambda>r2.
     Option.bind (digits 2 r2) (\<lambda>(_, r3).
     Option.bind (expect 45 r3) (\<lambda>r4.
     Option.bind (digits 2 r4) (\<lambda>(_, r5).
     Option.bind (expect 84 r5) (\<lambda>r6.
     Option.bind (digits 2 r6) (\<lambda>(_, r7).
     Option.bind (expect 58 r7) (\<lambda>r8.
     Option.bind (digits 2 r8) (\<lambda>(_, r9). Some r9))))))))) = Some []"

definition parseDateTimeLocal :: "host \<Rightarrow> jstring \<Rightarrow> rat option" where
  "parseDateTimeLocal h value =
     (if \<not> DATETIME_LOCAL_PATTERN value then None
      else (case date_parse h value of Num t \<Rightarrow> Some t | _ \<Rightarrow> None))"

definition channelAssignmentSchema :: "(jstring \<Rightarrow> bool) \<Rightarrow> jstring \<Rightarrow> jstring list" where
  "channelAssignmentSchema zod_uuid value =
     (if length value < 1 then [requiredField target_channel_label True] else []) @
     (if \<not> zod_uuid value then [invalidUuid channel_id_label] else [])"

definition scheduledAtSchema :: "host \<Rightarrow> jstring \<Rightarrow> jstring list" where
  "scheduledAtSchema h value =
     (if length value < 1 then [requiredField schedule_time_label False] else []) @
     (if parseDateTimeLocal h value = None then [invalidDateTime] else []) @
     (case parseDateTimeLocal h value of
        Some t \<Rightarrow> if t \<ge> of_int (now h) then [] else [past_time_text]
      | None \<Rightarrow> [past_time_text])"

record form_values =
  fv_intent :: schedule_intent
  fv_channelId :: jstring
  fv_scheduledAt :: jstring

text \<open>The first message of each field, if any; the union only looks at the fields of its intent.\<close>

record form_errors =
  fe_channelId :: "jstring option"
  fe_scheduledAt :: "jstring option"

definition first_message :: "jstring list \<Rightarrow> jstring option" where
  "first_message issues = (case issues of [] \<Rightarrow> None | m # _ \<Rightarrow> Some m)"

definition queueSchedulingSchema ::
  "host \<Rightarrow> (jstring \<Rightarrow> bool) \<Rightarrow> form_values \<Rightarrow> form_errors" where
  "queueSchedulingSchema h zod_uuid v =
     \<lparr>fe_channelId = first_message (channelAssignmentSchema zod_uuid (fv_channelId v)),
      fe_scheduledAt = (if fv_intent v = Schedule
                        then first_message (scheduledAtSchema h (fv_scheduledAt v)) else None)\<rparr>"

definition no_errors :: form_errors where
  "no_errors = \<lparr>fe_channelId = None, fe_scheduledAt = None\<rparr>"

section \<open>QueueSchedulingDialog\<close>

datatype bot_permission = PermUnknown | PermPending | PermGranted | PermPartial | PermDenied

record Channel =
  ch_id :: jstring
  telegram_channel_id :: jstring
  ch_title :: "jstring option"
  ch_username :: "jstring option"
  bot_permission_status :: bot_permission
  can_post_messages :: bool
  can_edit_messages :: bool
  can_delete_messages :: bool
  permissions_checked_at :: "jstring option"
  permission_detail :: "jstring option"
  is_active :: bool
  ch_created_at :: jstring
  ch_updated_at :: jstring

text \<open>The options of the channel list: id and label of the channels that can be posted to.\<close>

definition channel_options :: "Channel list \<Rightarrow> (jstring \<times> jstring) list" where
  "channel_options channels =
     map (\<lambda>c. (ch_id c, or_default (nullish (ch_title c) (ch_username c)) (telegram_channel_id c)))
       (filter (\<lambda>c. is_active c \<and> can_post_messages c) channels)"

record scheduling_form =
  sf_values :: form_values
  sf_errors :: form_errors

definition open_form :: "SchedulingState \<Rightarrow> scheduling_form" where
  "open_form d =
     \<lparr>sf_values = \<lparr>fv_intent = Schedule, fv_channelId = sd_channelId d,
                   fv_scheduledAt = sd_scheduledAt d\<rparr>,
      sf_errors = no_errors\<rparr>"

text \<open>Setting the field and validating it; a preset whose date is invalid throws and changes
  nothing.\<close>

definition setPreset ::
  "host \<Rightarrow> (jstring \<Rightarrow> bool) \<Rightarrow> schedule_preset \<Rightarrow> scheduling_form \<Rightarrow> scheduling_form" where
  "setPreset h zod_uuid preset f =
     (case toDateTimeLocal h (Num (of_int (getSchedulePreset h preset))) of
        Inl _ \<Rightarrow> f
      | Inr value \<Rightarrow>
          (let v = (sf_values f)\<lparr>fv_scheduledAt := value\<rparr> in
           f\<lparr>sf_values := v,
             sf_errors := (sf_errors f)
               \<lparr>fe_scheduledAt := fe_scheduledAt (queueSchedulingSchema h zod_uuid v)\<rparr>\<rparr>))"

text \<open>What a submission hands to the screen.\<close>

datatype submission = OnSchedule jstring jstring | OnPublishNow jstring

definition submitWithIntent ::
  "host \<Rightarrow> (jstring \<Rightarrow> bool) \<Rightarrow> schedule_intent \<Rightarrow> scheduling_form
     \<Rightarrow> scheduling_form \<times> submission option" where
  "submitWithIntent h zod_uuid intent f =
     (let v = (sf_values f)\<lparr>fv_intent := intent\<rparr>;
          errors = queueSchedulingSchema h zod_uuid v;
          f' = f\<lparr>sf_values := v, sf_errors := errors\<rparr>
      in (f', if errors \<noteq> no_errors then None
              else Some (if intent = Schedule then OnSchedule (fv_channelId v) (fv_scheduledAt v)
                         else OnPublishNow (fv_channelId v))))"

definition schedule_disabled :: "bool \<Rightarrow> scheduling_form \<Rightarrow> bool" where
  "schedule_disabled busy f \<longleftrightarrow>
     fv_channelId (sf_values f) = [] \<or> fv_scheduledAt (sf_values f) = [] \<or> busy"

definition publish_disabled :: "bool \<Rightarrow> scheduling_form \<Rightarrow> bool" where
  "publish_disabled busy f \<longleftrightarrow> fv_channelId (sf_values f) = [] \<or> busy"

text \<open>The submission reaches the handlers of the screen.\<close>

definition deliver ::
  "host \<Rightarrow> (nat \<Rightarrow> jstring) \<Rightarrow> queue_server \<Rightarrow> submission option \<Rightarrow> queue_screen \<Rightarrow> queue_screen" where
  "deliver h ar srv submitted s = (case submitted of
     None \<Rightarrow> s
   | Some (OnSchedule channelId scheduledAt) \<Rightarrow> saveSchedule h srv channelId scheduledAt s
   | Some (OnPublishNow channelId) \<Rightarrow> publishFromDialog h ar srv channelId s)"

section \<open>Validation\<close>

lemma first_message_None [simp]: "first_message issues = None \<longleftrightarrow> issues = []"
  by (cases issues) (simp_all add: first_message_def)

lemma channel_valid_iff:
  "channelAssignmentSchema zod_uuid value = [] \<longleftrightarrow> value \<noteq> [] \<and> zod_uuid value"
  by (auto simp: channelAssignmentSchema_def)

lemma pattern_nonempty: "DATETIME_LOCAL_PATTERN value \<Longrightarrow> value \<noteq> []"
  by (auto simp: DATETIME_LOCAL_PATTERN_def digits_def)

lemma time_valid_iff:
  "scheduledAtSchema h value = [] \<longleftrightarrow>
     (\<exists>t. parseDateTimeLocal h value = Some t \<and> of_int (now h) \<le> t)"
  by (auto simp: scheduledAtSchema_def parseDateTimeLocal_def dest: pattern_nonempty
      split: option.splits if_splits)

lemma parsed_time: "parseDateTimeLocal h value = Some t \<Longrightarrow> date_parse h value = Num t"
  by (auto simp: parseDateTimeLocal_def split: if_splits jsnum.splits)

lemma submit_accepted:
  "snd (submitWithIntent h zod_uuid intent f) \<noteq> None \<longleftrightarrow>
     fv_channelId (sf_values f) \<noteq> [] \<and> zod_uuid (fv_channelId (sf_values f)) \<and>
     (intent = Schedule \<longrightarrow>
        (\<exists>t. parseDateTimeLocal h (fv_scheduledAt (sf_values f)) = Some t \<and> of_int (now h) \<le> t))"
  by (auto simp: submitWithIntent_def Let_def queueSchedulingSchema_def no_errors_def
      channel_valid_iff time_valid_iff simp del: not_None_eq)

text \<open>C20: only a valid form gets through: a submission for scheduling is handed on exactly when the
  channel is a UUID and the time is a date-time in the form's format that is not past, so saving
  it never throws and the server is asked, for every item of the dialog in turn, for that very
  instant, which lies now or later; a submission for immediate publishing looks at the channel
  alone.\<close>

theorem submitted_schedule_never_past:
  assumes "snd (submitWithIntent h zod_uuid Schedule f) = Some sub" "schedulingDialog s = Some d"
    and "sd_itemIds d = i # ids"
  shows "\<exists>t. of_int (now h) \<le> t \<and> date_parse h (fv_scheduledAt (sf_values f)) = Num t \<and>
     sub = OnSchedule (fv_channelId (sf_values f)) (fv_scheduledAt (sf_values f)) \<and>
     zod_uuid (fv_channelId (sf_values f)) \<and>
     (\<exists>k \<ge> 1. qs_calls (deliver h ar srv (Some sub) s) = qs_calls s @
        take k (map (\<lambda>i. UpdateCall i
                 (schedule_update (fv_channelId (sf_values f)) (iso_string \<lfloor>t\<rfloor>))) (sd_itemIds d)))"
proof -
  let ?v = "sf_values f"
  obtain t where t: "parseDateTimeLocal h (fv_scheduledAt ?v) = Some t" "of_int (now h) \<le> t"
    and u: "zod_uuid (fv_channelId ?v)"
    using assms(1) submit_accepted [of h zod_uuid Schedule f] by auto
  have sub: "sub = OnSchedule (fv_channelId ?v) (fv_scheduledAt ?v)"
    using assms(1) by (auto simp: submitWithIntent_def Let_def split: if_splits)
  have iso: "toISOString (date_parse h (fv_scheduledAt ?v)) = Inr (iso_string \<lfloor>t\<rfloor>)"
    using parsed_time [OF t(1)] by (simp add: toISOString_def)
  let ?cs = "map (\<lambda>i. UpdateCall i (schedule_update (fv_channelId ?v) (iso_string \<lfloor>t\<rfloor>))) (sd_itemIds d)"
  have "\<exists>k \<ge> 1. qs_calls (saveSchedule h srv (fv_channelId ?v) (fv_scheduledAt ?v) s) =
      qs_calls s @ take k ?cs"
  proof (cases rule: mutate_all_cases [of srv ?cs s])
    case (Done s1)
    with iso assms(2,3) show ?thesis
      by (intro exI [of _ "length ?cs"])
        (simp add: saveSchedule_def caught_def set_toast_def clear_selection_def)
  next
    case (Stopped s1 k e)
    with iso assms(2) show ?thesis
      by (intro exI [of _ "Suc k"]) (simp add: saveSchedule_def caught_def set_toast_def)
  qed
  then show ?thesis
    using t u sub parsed_time [OF t(1)] by (auto simp: deliver_def)
qed

section \<open>Presets\<close>

text \<open>A time zone without changes of its offset \<open>c\<close>.\<close>

definition fixed_zone :: "host \<Rightarrow> int \<Rightarrow> bool" where
  "fixed_zone h c \<longleftrightarrow> utc_offset h = (\<lambda>_. c) \<and> utc_of_local h = (\<lambda>l. l - c)"

lemma local_form_pattern:
  assumes "plain_year t"
  shows "DATETIME_LOCAL_PATTERN (take 16 (iso_string t))"
proof -
  obtain d hh mm where y: "0 \<le> year_of_day d" "year_of_day d \<le> 9999" and hm: "hh < 24" "mm < 60"
    and t: "take 16 (iso_string t) = date_text d @ [84] @ (fixed 2 hh @ [58] @ fixed 2 mm)"
    using assms by (rule iso_fields)
  obtain y m a where "date_text d = fixed 4 y @ [45] @ fixed 2 m @ [45] @ fixed 2 a"
    "y < 10 ^ 4" "m \<le> 12" "a \<le> 31" using y by (rule date_text_fields)
  then show ?thesis
    using hm by (simp add: t DATETIME_LOCAL_PATTERN_def digits_fixed digits_fixed_end)
qed

lemma preset_is_ahead:
  assumes "fixed_zone h c"
  shows "now h + 60000 \<le> getSchedulePreset h preset"
proof (cases "preset = PresetHour")
  case True
  then show ?thesis
    using assms by (simp add: getSchedulePreset_def add_local_ms_def local_time_def fixed_zone_def)
next
  case False
  define l where "l = now h + c"
  have "(l + ms_per_day) div ms_per_day = l div ms_per_day + 1" by (simp add: ms_per_day_def)
  moreover have "l < ms_per_day * (l div ms_per_day) + ms_per_day"
    by (rule div_floor) (simp add: ms_per_day_def)
  moreover have "getSchedulePreset h preset =
      (l + ms_per_day) div ms_per_day * ms_per_day
        + (if preset = PresetTomorrowMorning then 9 else 18) * 3600000 - c"
    using False assms
    by (simp add: getSchedulePreset_def Let_def at_local_hour_def add_local_ms_def local_day_def
        local_time_def fixed_zone_def l_def algebra_simps)
  ultimately show ?thesis by (auto simp: l_def algebra_simps split: if_splits)
qed

text \<open>The shortcuts always work: in a zone with a fixed offset, choosing a shortcut (in an hour,
  tomorrow morning, tomorrow evening) fills in a time that passes validation, at most a minute
  before the moment the shortcut stands for.\<close>

theorem preset_accepted:
  assumes "fixed_zone h c" "plain_year (local_time h (getSchedulePreset h preset))"
  shows "let f' = setPreset h zod_uuid preset f; t = getSchedulePreset h preset
    in fe_scheduledAt (sf_errors f') = None \<and>
       fv_intent (sf_values f') = fv_intent (sf_values f) \<and>
       (\<exists>m. date_parse h (fv_scheduledAt (sf_values f')) = Num (of_int m) \<and>
            now h \<le> m \<and> m \<le> t \<and> t < m + 60000)"
proof -
  let ?t = "getSchedulePreset h preset"
  let ?entered = "take 16 (iso_string (local_time h ?t))"
  let ?m = "minute_of h ?t"
  have l: "local_time h s = s + c" "utc_of_local h s = s - c" for s
    using assms(1) by (simp_all add: fixed_zone_def local_time_def)
  have "local_time h ?t div 60000 * 60000 = local_time h ?t - local_time h ?t mod 60000"
    by (simp add: minus_mod_eq_div_mult)
  then have p: "date_parse h ?entered = Num (of_int ?m)"
    using assms(2) by (simp add: date_parse_def iso_parts(2) minute_of_def l)
  have b: "?m \<le> ?t" "?t < ?m + 60000" by (simp_all add: minute_of_def)
  with preset_is_ahead [OF assms(1), of preset] have n: "now h \<le> ?m" by linarith
  have "parseDateTimeLocal h ?entered = Some (of_int ?m)"
    using local_form_pattern [OF assms(2)] p by (simp add: parseDateTimeLocal_def)
  then have v: "scheduledAtSchema h ?entered = []" using n by (simp add: time_valid_iff)
  have "toDateTimeLocal h (Num (of_int ?t)) = Inr ?entered" by (simp add: toDateTimeLocal_def)
  then show ?thesis
    using v p b n by (auto simp: setPreset_def Let_def queueSchedulingSchema_def)
qed

section \<open>Examples\<close>

definition filled_form :: scheduling_form where
  "filled_form =
     \<lparr>sf_values = \<lparr>fv_intent = Schedule, fv_channelId = js ''c'',
                   fv_scheduledAt = js ''2024-02-29T10:00''\<rparr>, sf_errors = no_errors\<rparr>"

lemma submitted_schedule_never_past_witness:
  "\<exists>t. of_int 1709000000000 \<le> t \<and>
     date_parse (utc_host 1709000000000) (js ''2024-02-29T10:00'') = Num t"
proof -
  have "snd (submitWithIntent (utc_host 1709000000000) (\<lambda>_. True) Schedule filled_form) =
      Some (OnSchedule (js ''c'') (js ''2024-02-29T10:00''))" by code_simp
  moreover have "schedulingDialog sample_screen = Some \<lparr>sd_itemIds = [js ''a'', js ''b''],
      sd_channelId = js ''c'', sd_scheduledAt = []\<rparr>" by (simp add: sample_screen_def)
  moreover have "sd_itemIds \<lparr>sd_itemIds = [js ''a'', js ''b''], sd_channelId = js ''c'',
      sd_scheduledAt = []\<rparr> = js ''a'' # [js ''b'']" by simp
  ultimately have "\<exists>t. of_int (now (utc_host 1709000000000)) \<le> t \<and>
      date_parse (utc_host 1709000000000) (fv_scheduledAt (sf_values filled_form)) = Num t"
    using submitted_schedule_never_past by blast
  then show ?thesis by (simp add: utc_host_def filled_form_def)
qed

lemma preset_accepted_witness:
  "fe_scheduledAt (sf_errors (setPreset (utc_host 1709000000000) (\<lambda>_. True) PresetTomorrowEvening
     filled_form)) = None"
proof -
  have "fixed_zone (utc_host 1709000000000) 0" by (simp add: fixed_zone_def utc_host_def)
  moreover have "plain_year (local_time (utc_host 1709000000000)
      (getSchedulePreset (utc_host 1709000000000) PresetTomorrowEvening))" by code_simp
  ultimately show ?thesis by (rule preset_accepted [unfolded Let_def, THEN conjunct1])
qed

end
