(* ===== verification/Utf8.thy ===== *)
theory Utf8
  imports JsPrelude "HOL-Library.Word"
begin

text \<open>
  \<open>TextDecoder\<close> with its default options, which the SSE client applies to the field names and
  values of a line: UTF-8 with replacement characters, a byte order mark at the start dropped,
  and the result as UTF-16 code units.  The encoder of the sending side comes with it, and the
  proof that decoding undoes encoding.
\<close>

type_synonym byte = "8 word"

section \<open>TextDecoder\<close>

text \<open>
  The UTF-8 decoder of the Encoding standard: the number of continuation bytes still needed,
  the code point so far and the range the next byte must lie in.  A byte out of range yields
  one replacement character (65533) and is read again as a first byte.
\<close>

fun utf8_run :: "nat \<Rightarrow> nat \<Rightarrow> nat \<Rightarrow> nat \<Rightarrow> nat list \<Rightarrow> nat list" where
  "utf8_run 0 cp lo up [] = []"
| "utf8_run (Suc n) cp lo up [] = [65533]"
| "utf8_run 0 cp lo up (b # bs) =
     (if b < 128 then b # utf8_run 0 0 128 191 bs
      else if 194 \<le> b \<and> b \<le> 223 then utf8_run 1 (b - 192) 128 191 bs
      else if 224 \<le> b \<and> b \<le> 239 then
        utf8_run 2 (b - 224) (if b = 224 then 160 else 128) (if b = 237 then 159 else 191) bs
      else if 240 \<le> b \<and> b \<le> 244 then
        utf8_run 3 (b - 240) (if b = 240 then 144 else 128) (if b = 244 then 143 else 191) bs
      else 65533 # utf8_run 0 0 128 191 bs)"
| "utf8_run (Suc n) cp lo up (b # bs) =
     (if b < lo \<or> up < b then 65533 # utf8_run 0 0 128 191 (b # bs)
      else if n = 0 then (cp * 64 + (b - 128)) # utf8_run 0 0 128 191 bs
      else utf8_run n (cp * 64 + (b - 128)) 128 191 bs)"

definition to_utf16 :: "nat \<Rightarrow> jstring" where
  "to_utf16 cp =
     (if cp < 65536 then [cp]
      else [55296 + (cp - 65536) div 1024, 56320 + (cp - 65536) mod 1024])"

definition strip_bom :: "nat list \<Rightarrow> nat list" where
  "strip_bom cps = (case cps of [] \<Rightarrow> [] | c # cs \<Rightarrow> if c = 65279 then cs else cps)"

definition text_decode :: "byte list \<Rightarrow> jstring" where
  "text_decode bs = concat (map to_utf16 (strip_bom (utf8_run 0 0 128 191 (map unat bs))))"

text \<open>The encoder on the other side, for code points that are not surrogates.\<close>

definition utf8_encode1 :: "nat \<Rightarrow> nat list" where
  "utf8_encode1 cp =
     (if cp < 128 then [cp]
      else if cp < 2048 then [192 + cp div 64, 128 + cp mod 64]
      else if cp < 65536 then [224 + cp div 4096, 128 + cp div 64 mod 64, 128 + cp mod 64]
      else [240 + cp div 262144, 128 + cp div 4096 mod 64, 128 + cp div 64 mod 64,
            128 + cp mod 64])"

definition utf8_encode :: "nat list \<Rightarrow> byte list" where
  "utf8_encode cps = map of_nat (concat (map utf8_encode1 cps))"

definition is_scalar :: "nat \<Rightarrow> bool" where
  "is_scalar cp \<longleftrightarrow> cp < 55296 \<or> (57344 \<le> cp \<and> cp < 1114112)"

lemma utf8_run_ready: "utf8_run 0 x l u bs = utf8_run 0 0 128 191 bs"
  by (cases bs) simp_all

lemma utf8_run_last:
  "l \<le> b \<Longrightarrow> b \<le> u \<Longrightarrow>
     utf8_run (Suc 0) x l u (b # bs) = (x * 64 + (b - 128)) # utf8_run 0 0 128 191 bs"
  by simp

lemma utf8_run_more:
  "l \<le> b \<Longrightarrow> b \<le> u \<Longrightarrow>
     utf8_run (Suc (Suc n)) x l u (b # bs) = utf8_run (Suc n) (x * 64 + (b - 128)) 128 191 bs"
  by simp

lemma utf8_run_encode1_2:
  assumes "128 \<le> cp" "cp < 2048"
  shows "utf8_run 0 x l u (utf8_encode1 cp @ bs) = cp # utf8_run 0 0 128 191 bs"
proof -
  define a b where "a = cp div 64" and "b = cp mod 64"
  have cp: "cp = a * 64 + b" by (simp add: a_def b_def)
  have bounds: "2 \<le> a" "a < 32" "b < 64" using assms by (auto simp: a_def b_def)
  have "utf8_encode1 cp = [192 + a, 128 + b]"
    using assms by (simp add: utf8_encode1_def a_def b_def)
  then have "utf8_run 0 x l u (utf8_encode1 cp @ bs) = utf8_run (Suc 0) a 128 191 ((128 + b) # bs)"
    using bounds by simp
  also have "\<dots> = cp # utf8_run 0 0 128 191 bs"
    using bounds cp by (subst utf8_run_last) simp_all
  finally show ?thesis .
qed

lemma utf8_run_encode1_3:
  assumes "2048 \<le> cp" "cp < 65536" "cp < 55296 \<or> 57344 \<le> cp"
  shows "utf8_run 0 x l u (utf8_encode1 cp @ bs) = cp # utf8_run 0 0 128 191 bs"
proof -
  define a b c where "a = cp div 4096" and "b = cp div 64 mod 64" and "c = cp mod 64"
  have "cp div 64 = a * 64 + b"
    using div_mult_mod_eq [of "cp div 64" 64] by (simp add: a_def b_def div_mult2_eq [symmetric])
  moreover have "cp = cp div 64 * 64 + c" by (simp add: c_def)
  ultimately have cp: "cp = (a * 64 + b) * 64 + c" by simp
  have bounds: "a < 16" "b < 64" "c < 64" using assms by (auto simp: a_def b_def c_def)
  define lo up where "lo = (if a = 0 then 160 else 128::nat)" and "up = (if a = 13 then 159 else 191::nat)"
  have lo: "lo \<le> 128 + b" using assms(1) cp bounds by (auto simp: lo_def)
  have up: "128 + b \<le> up" using assms cp bounds by (auto simp: up_def)
  have "utf8_encode1 cp = [224 + a, 128 + b, 128 + c]"
    using assms by (simp add: utf8_encode1_def a_def b_def c_def)
  then have "utf8_run 0 x l u (utf8_encode1 cp @ bs) =
      utf8_run (Suc (Suc 0)) a lo up ((128 + b) # (128 + c) # bs)"
    using bounds by (simp add: numeral_2_eq_2 lo_def up_def del: utf8_run.simps(4))
  also have "\<dots> = utf8_run (Suc 0) (a * 64 + b) 128 191 ((128 + c) # bs)"
    using lo up by (subst utf8_run_more) simp_all
  also have "\<dots> = cp # utf8_run 0 0 128 191 bs"
    using bounds cp by (subst utf8_run_last) simp_all
  finally show ?thesis .
qed

lemma utf8_run_encode1_4:
  assumes "65536 \<le> cp" "cp < 1114112"
  shows "utf8_run 0 x l u (utf8_encode1 cp @ bs) = cp # utf8_run 0 0 128 191 bs"
proof -
  define a b c d where "a = cp div 262144" and "b = cp div 4096 mod 64"
    and "c = cp div 64 mod 64" and "d = cp mod 64"
  have "cp div 4096 = a * 64 + b"
    using div_mult_mod_eq [of "cp div 4096" 64]
    by (simp add: a_def b_def div_mult2_eq [symmetric])
  moreover have "cp div 64 = cp div 4096 * 64 + c"
    using div_mult_mod_eq [of "cp div 64" 64] by (simp add: c_def div_mult2_eq [symmetric])
  moreover have "cp = cp div 64 * 64 + d" by (simp add: d_def)
  ultimately have cp: "cp = ((a * 64 + b) * 64 + c) * 64 + d" by simp
  have bounds: "a < 5" "b < 64" "c < 64" "d < 64" using assms by (auto simp: a_def b_def c_def d_def)
  define lo up where "lo = (if a = 0 then 144 else 128::nat)" and "up = (if a = 4 then 143 else 191::nat)"
  have lo: "lo \<le> 128 + b" using assms(1) cp bounds by (auto simp: lo_def)
  have up: "128 + b \<le> up" using assms cp bounds by (auto simp: up_def)
  have "utf8_encode1 cp = [240 + a, 128 + b, 128 + c, 128 + d]"
    using assms by (simp add: utf8_encode1_def a_def b_def c_def d_def)
  then have "utf8_run 0 x l u (utf8_encode1 cp @ bs) =
      utf8_run (Suc (Suc (Suc 0))) a lo up ((128 + b) # (128 + c) # (128 + d) # bs)"
    using bounds by (simp add: numeral_3_eq_3 lo_def up_def del: utf8_run.simps(4))
  also have "\<dots> = utf8_run (Suc (Suc 0)) (a * 64 + b) 128 191 ((128 + c) # (128 + d) # bs)"
    using lo up by (subst utf8_run_more) simp_all
  also have "\<dots> = utf8_run (Suc 0) ((a * 64 + b) * 64 + c) 128 191 ((128 + d) # bs)"
    using bounds by (subst utf8_run_more) simp_all
  also have "\<dots> = cp # utf8_run 0 0 128 191 bs"
    using bounds cp by (subst utf8_run_last) simp_all
  finally show ?thesis .
qed

lemma utf8_run_encode1:
  assumes "is_scalar cp"
  shows "utf8_run 0 x l u (utf8_encode1 cp @ bs) = cp # utf8_run 0 0 128 191 bs"
proof -
  consider "cp < 128" | "128 \<le> cp" "cp < 2048"
    | "2048 \<le> cp" "cp < 65536" "cp < 55296 \<or> 57344 \<le> cp" | "65536 \<le> cp" "cp < 1114112"
    using assms by (force simp: is_scalar_def)
  then show ?thesis
  proof cases
    case 1
    then show ?thesis by (simp add: utf8_encode1_def)
  qed (fact utf8_run_encode1_2 utf8_run_encode1_3 utf8_run_encode1_4)+
qed

lemma utf8_run_encode:
  "list_all is_scalar cps \<Longrightarrow>
     utf8_run 0 x l u (concat (map utf8_encode1 cps) @ bs) = cps @ utf8_run 0 0 128 191 bs"
proof (induction cps arbitrary: x l u)
  case Nil
  then show ?case by (simp add: utf8_run_ready [of x l u])
next
  case (Cons c cps)
  then show ?case by (simp add: utf8_run_encode1)
qed

lemma utf8_encode1_byte: "is_scalar cp \<Longrightarrow> b \<in> set (utf8_encode1 cp) \<Longrightarrow> b < 256"
  by (auto simp: utf8_encode1_def is_scalar_def split: if_splits)

lemma utf8_encode_unat:
  "list_all is_scalar cps \<Longrightarrow> map unat (utf8_encode cps) = concat (map utf8_encode1 cps)"
  unfolding utf8_encode_def map_map
  by (rule map_idI) (auto simp: list_all_iff unat_of_nat dest!: utf8_encode1_byte)

text \<open>Decoding undoes encoding, but for a byte order mark at the start.\<close>

lemma text_decode_encode:
  "list_all is_scalar cps \<Longrightarrow> text_decode (utf8_encode cps) = concat (map to_utf16 (strip_bom cps))"
  using utf8_run_encode [of cps 0 128 191 "[]"] by (simp add: text_decode_def utf8_encode_unat)

end
