(* ===== verification/SseParser.thy ===== *)
theory SseParser
  imports Reducers JsNumber Utf8
begin

text \<open>
  The SSE wire-format parser of \<open>frontend/src/features/queue/lib/sse-client.ts\<close>: the
  line splitter \<open>getLines\<close>, which is fed a byte stream in arbitrary chunks, the message
  assembler \<open>getMessages\<close>, and the \<open>TextDecoder\<close> it uses.  The line splitter is proved
  to refine a byte-at-a-time specification, hence to give the same lines for every way the
  network cuts the stream, and those lines are the ones of the text with its line ends
  normalised.
\<close>

section \<open>getLines\<close>

definition NewLine :: byte where "NewLine = 10"
definition CarriageReturn :: byte where "CarriageReturn = 13"
definition Space :: byte where "Space = 32"
definition Colon :: byte where "Colon = 58"

lemmas control_chars = NewLine_def CarriageReturn_def Space_def Colon_def

lemma control_chars_distinct [simp]:
  "NewLine \<noteq> CarriageReturn" "CarriageReturn \<noteq> NewLine"
  "Colon \<noteq> NewLine" "NewLine \<noteq> Colon" "Colon \<noteq> CarriageReturn" "CarriageReturn \<noteq> Colon"
  by (simp_all add: control_chars)

text \<open>The variables the closure keeps between chunks.\<close>

record line_state =
  buffer :: "byte list option"
  position :: nat
  fieldLength :: int
  discardTrailingNewline :: bool

definition init_lines :: line_state where
  "init_lines = \<lparr>buffer = None, position = 0, fieldLength = -1, discardTrailingNewline = False\<rparr>"

definition subarray :: "nat \<Rightarrow> nat \<Rightarrow> 'a list \<Rightarrow> 'a list" where
  "subarray a b xs = take (b - a) (drop a xs)"

text \<open>
  The inner loop: it advances the position until a line end is found or the buffer ends, and
  returns the new position, the index of the line end, the length of the field name and the
  flag that a carriage return sets.
\<close>

function scan_line ::
  "byte list \<Rightarrow> nat \<Rightarrow> nat \<Rightarrow> int \<Rightarrow> bool \<Rightarrow> nat \<times> nat option \<times> int \<times> bool" where
  "scan_line b lineStart pos fl disc =
     (if pos < length b then
        (if b ! pos = Colon then
           scan_line b lineStart (Suc pos)
             (if fl = -1 then int pos - int lineStart else fl) disc
         else if b ! pos = CarriageReturn then (Suc pos, Some pos, fl, True)
         else if b ! pos = NewLine then (Suc pos, Some pos, fl, disc)
         else scan_line b lineStart (Suc pos) fl disc)
      else (pos, None, fl, disc))"
  by pat_completeness auto
termination
  by (relation "measure (\<lambda>(b, lineStart, pos, fl, disc). length b - pos)") auto

declare scan_line.simps [simp del]

lemma scan_line_progress:
  "scan_line b ls pos fl d = (p, Some e, fl', d') \<Longrightarrow> pos < p \<and> p \<le> length b"
proof (induction b ls pos fl d rule: scan_line.induct)
  case (1 b ls pos fl d)
  then show ?case by (subst (asm) (3) scan_line.simps) (auto split: if_splits)
qed

text \<open>
  The outer loop.  It returns the position, the start of the unfinished line, the length of the
  field name and the flag as the loop leaves them, and the lines handed to \<open>onLine\<close>.
\<close>

function lines_loop ::
  "byte list \<Rightarrow> nat \<Rightarrow> nat \<Rightarrow> int \<Rightarrow> bool
     \<Rightarrow> (nat \<times> nat \<times> int \<times> bool) \<times> (byte list \<times> int) list" where
  "lines_loop b pos lineStart fl disc =
     (if pos < length b then
        (let pos1 = (if disc \<and> b ! pos = NewLine then Suc pos else pos);
             start1 = (if disc \<and> b ! pos = NewLine then Suc pos else lineStart)
         in case scan_line b start1 pos1 fl False of
              (pos2, None, fl2, disc2) \<Rightarrow> ((pos2, start1, fl2, disc2), [])
            | (pos2, Some lineEnd, fl2, disc2) \<Rightarrow>
                (case lines_loop b pos2 pos2 (-1) disc2 of
                   (res, out) \<Rightarrow> (res, (subarray start1 lineEnd b, fl2) # out)))
      else ((pos, lineStart, fl, disc), []))"
  by pat_completeness auto
termination
  by (relation "measure (\<lambda>(b, pos, lineStart, fl, disc). length b - pos)")
    (auto dest!: scan_line_progress [OF sym] split: if_splits)

declare lines_loop.simps [simp del]

text \<open>One chunk: the closure that \<open>getLines\<close> returns.\<close>

definition onChunk :: "line_state \<Rightarrow> byte list \<Rightarrow> line_state \<times> (byte list \<times> int) list" where
  "onChunk st arr =
     (let (buf, pos0, fl0) =
            (case buffer st of
               None \<Rightarrow> (arr, 0, -1)
             | Some b \<Rightarrow> (b @ arr, position st, fieldLength st));
          ((pos, lineStart, fl, disc), out) =
            lines_loop buf pos0 0 fl0 (discardTrailingNewline st)
      in (if lineStart = length buf
            then \<lparr>buffer = None, position = pos, fieldLength = fl, discardTrailingNewline = disc\<rparr>
          else if lineStart \<noteq> 0
            then \<lparr>buffer = Some (drop lineStart buf), position = pos - lineStart,
                   fieldLength = fl, discardTrailingNewline = disc\<rparr>
          else \<lparr>buffer = Some buf, position = pos, fieldLength = fl,
                 discardTrailingNewline = disc\<rparr>,
          out))"

subsection \<open>Specification: one byte at a time\<close>

text \<open>
  The state of the specification: the bytes of the unfinished line, the index of its first
  colon (-1 when there is none), and whether a line feed that comes next belongs to the
  carriage return just seen.
\<close>

type_synonym line_spec = "byte list \<times> int \<times> bool"

fun line_step :: "line_spec \<Rightarrow> byte \<Rightarrow> line_spec \<times> (byte list \<times> int) list" where
  "line_step (cur, fl, skip) c =
     (if skip \<and> c = NewLine then ((cur, fl, False), [])
      else if c = CarriageReturn then (([], -1, True), [(cur, fl)])
      else if c = NewLine then (([], -1, False), [(cur, fl)])
      else ((cur @ [c], if c = Colon \<and> fl = -1 then int (length cur) else fl, False), []))"

definition abs_lines :: "line_state \<Rightarrow> line_spec" where
  "abs_lines st = (case buffer st of
       None \<Rightarrow> ([], -1, discardTrailingNewline st)
     | Some b \<Rightarrow> (b, fieldLength st, discardTrailingNewline st))"

definition lines_inv :: "line_state \<Rightarrow> bool" where
  "lines_inv st = (case buffer st of
       None \<Rightarrow> True
     | Some b \<Rightarrow> b \<noteq> [] \<and> position st = length b \<and> \<not> discardTrailingNewline st)"

lemma subarray_snoc:
  "ls \<le> pos \<Longrightarrow> pos < length b \<Longrightarrow> subarray ls (Suc pos) b = subarray ls pos b @ [b ! pos]"
  by (simp add: subarray_def Suc_diff_le take_Suc_conv_app_nth)

lemma length_subarray: "pos \<le> length b \<Longrightarrow> length (subarray ls pos b) = pos - ls"
  by (simp add: subarray_def)

lemma subarray_self [simp]: "subarray p p b = []"
  by (simp add: subarray_def)

lemma subarray_to_end: "subarray ls (length b) b = drop ls b"
  by (simp add: subarray_def)

text \<open>The inner loop reads exactly one line, or all that is left.\<close>

definition scan_ok ::
  "byte list \<Rightarrow> nat \<Rightarrow> nat \<Rightarrow> int \<Rightarrow> nat \<times> nat option \<times> int \<times> bool \<Rightarrow> bool" where
  "scan_ok b ls pos fl res = (case res of
       (p, None, fl', d') \<Rightarrow>
         p = length b \<and> \<not> d' \<and>
         mealy line_step (subarray ls pos b, fl, False) (drop pos b) =
           ((subarray ls (length b) b, fl', False), [])
     | (p, Some e, fl', d') \<Rightarrow>
         pos \<le> e \<and> e < length b \<and> p = Suc e \<and>
         mealy line_step (subarray ls pos b, fl, False) (drop pos b) =
           (case mealy line_step ([], -1, d') (drop p b) of
              (s', out) \<Rightarrow> (s', (subarray ls e b, fl') # out)))"

lemma scan_ok_Suc:
  assumes "pos < length b" "ls \<le> pos" "b ! pos \<noteq> CarriageReturn" "b ! pos \<noteq> NewLine"
    and "fl' = (if b ! pos = Colon \<and> fl = -1 then int pos - int ls else fl)"
    and "scan_ok b ls (Suc pos) fl' res"
  shows "scan_ok b ls pos fl res"
proof -
  have "int (length (subarray ls pos b)) = int pos - int ls"
    using assms by (simp add: length_subarray of_nat_diff)
  then have "mealy line_step (subarray ls pos b, fl, False) (drop pos b) =
      mealy line_step (subarray ls (Suc pos) b, fl', False) (drop (Suc pos) b)"
    using assms(1-5) by (simp add: Cons_nth_drop_Suc [symmetric] subarray_snoc split: prod.splits)
  moreover obtain p le f d where "res = (p, le, f, d)" by (metis prod_cases4)
  ultimately show ?thesis using assms(6) by (cases le) (simp_all add: scan_ok_def)
qed

lemma scan_line_ok:
  "ls \<le> pos \<Longrightarrow> pos \<le> length b \<Longrightarrow> scan_ok b ls pos fl (scan_line b ls pos fl False)"
proof (induction b ls pos fl "False" rule: scan_line.induct)
  case (1 b ls pos fl)
  show ?case
  proof (cases "pos < length b")
    case False
    then have "scan_line b ls pos fl False = (pos, None, fl, False)"
      by (subst scan_line.simps) simp
    with False "1.prems" show ?thesis by (simp add: scan_ok_def)
  next
    case True
    show ?thesis
    proof (cases "b ! pos = CarriageReturn \<or> b ! pos = NewLine")
      case line_end: True
      have drop_eq: "drop pos b = b ! pos # drop (Suc pos) b"
        using True by (simp add: Cons_nth_drop_Suc)
      show ?thesis
        using line_end True
        by (auto simp: scan_line.simps [of b ls pos] scan_ok_def drop_eq split: prod.splits)
    next
      case False
      define fl' where "fl' = (if b ! pos = Colon \<and> fl = -1 then int pos - int ls else fl)"
      have unf: "scan_line b ls pos fl False = scan_line b ls (Suc pos) fl' False"
        using True False by (simp add: scan_line.simps [of b ls pos] fl'_def)
      have "scan_ok b ls (Suc pos) fl' (scan_line b ls (Suc pos) fl' False)"
        using 1 True False by (cases "b ! pos = Colon") (auto simp: fl'_def)
      then show ?thesis
        unfolding unf using True False "1.prems" by (intro scan_ok_Suc [OF _ _ _ _ fl'_def]) auto
    qed
  qed
qed

text \<open>The outer loop reads the rest of the buffer.\<close>

lemma lines_loop_ok:
  assumes "ls \<le> pos" "pos \<le> length b" "disc \<longrightarrow> ls = pos \<and> fl = -1"
    and "lines_loop b pos ls fl disc = ((p', ls', fl', d'), out)"
  shows "p' = length b \<and> ls' \<le> length b \<and> (d' \<longrightarrow> ls' = length b) \<and>
    (ls' = length b \<longrightarrow> ls < length b \<or> fl = -1 \<longrightarrow> fl' = -1) \<and>
    mealy line_step (subarray ls pos b, fl, disc) (drop pos b) =
      ((subarray ls' (length b) b, fl', d'), out)"
  using assms
proof (induction b pos ls fl disc arbitrary: p' ls' fl' d' out rule: lines_loop.induct)
  case (1 b pos ls fl disc)
  show ?case
  proof (cases "pos < length b")
    case False
    then have "lines_loop b pos ls fl disc = ((pos, ls, fl, disc), [])"
      by (subst lines_loop.simps) simp
    with False "1.prems" show ?thesis by auto
  next
    case True
    define skip where "skip \<longleftrightarrow> disc \<and> b ! pos = NewLine"
    define pos1 where "pos1 = (if skip then Suc pos else pos)"
    define start1 where "start1 = (if skip then Suc pos else ls)"
    have le1: "start1 \<le> pos1" "pos1 \<le> length b"
      using "1.prems" True by (auto simp: pos1_def start1_def)
    have drop_eq: "drop pos b = b ! pos # drop (Suc pos) b"
      using True by (simp add: Cons_nth_drop_Suc)
    have enter: "mealy line_step (subarray ls pos b, fl, disc) (drop pos b) =
        mealy line_step (subarray start1 pos1 b, fl, False) (drop pos1 b)"
      using "1.prems"(3) by (auto simp: skip_def pos1_def start1_def drop_eq split: prod.splits)
    obtain p2 le fl2 d2 where sc: "scan_line b start1 pos1 fl False = (p2, le, fl2, d2)"
      by (metis prod_cases4)
    have ok: "scan_ok b start1 pos1 fl (p2, le, fl2, d2)"
      using scan_line_ok [OF le1, of fl] sc by simp
    show ?thesis
    proof (cases le)
      case None
      have "lines_loop b pos ls fl disc = ((p2, start1, fl2, d2), [])"
        using True sc None by (subst lines_loop.simps)
          (simp add: Let_def skip_def [symmetric] pos1_def [symmetric] start1_def [symmetric])
      with "1.prems"(4)
      have res: "p' = p2" "ls' = start1" "fl' = fl2" "d' = d2" "out = []" by auto
      moreover have "fl2 = -1" if "start1 = length b"
      proof -
        from that True le1 "1.prems" have "skip" "pos1 = length b"
          by (auto simp: start1_def pos1_def split: if_splits)
        with "1.prems"(3) sc show ?thesis
          by (subst (asm) scan_line.simps) (simp add: skip_def)
      qed
      ultimately show ?thesis using ok enter le1 None by (auto simp: scan_ok_def)
    next
      case (Some e)
      from ok Some have p2: "p2 = Suc e" "e < length b" "pos1 \<le> e"
        and me: "mealy line_step (subarray start1 pos1 b, fl, False) (drop pos1 b) =
          (case mealy line_step ([], -1, d2) (drop p2 b) of
             (s', out) \<Rightarrow> (s', (subarray start1 e b, fl2) # out))"
        by (auto simp: scan_ok_def)
      obtain res out' where rec: "lines_loop b p2 p2 (-1) d2 = (res, out')"
        by (cases "lines_loop b p2 p2 (-1) d2") auto
      have "lines_loop b pos ls fl disc = (res, (subarray start1 e b, fl2) # out')"
        using True sc Some rec by (subst lines_loop.simps)
          (simp add: Let_def skip_def [symmetric] pos1_def [symmetric] start1_def [symmetric])
      with "1.prems"(4)
      have eqs: "res = (p', ls', fl', d')" "out = (subarray start1 e b, fl2) # out'" by auto
      have "p' = length b \<and> ls' \<le> length b \<and> (d' \<longrightarrow> ls' = length b) \<and>
          (ls' = length b \<longrightarrow> p2 < length b \<or> -1 = (-1::int) \<longrightarrow> fl' = -1) \<and>
          mealy line_step (subarray p2 p2 b, -1, d2) (drop p2 b) =
            ((subarray ls' (length b) b, fl', d'), out')"
      proof (rule "1.IH" [OF True _ _ _ refl refl refl])
        show "pos1 = (if disc \<and> b ! pos = NewLine then Suc pos else pos)"
          and "start1 = (if disc \<and> b ! pos = NewLine then Suc pos else ls)"
          by (simp_all add: pos1_def start1_def skip_def)
        show "(p2, Some e, fl2, d2) = scan_line b start1 pos1 fl False" using sc Some by simp
        show "lines_loop b p2 p2 (- 1) d2 = ((p', ls', fl', d'), out')" using rec eqs by simp
      qed (use p2 in simp_all)
      then show ?thesis using enter me eqs by auto
    qed
  qed
qed

lemma lines_inv_init [simp]: "lines_inv init_lines"
  by (simp add: lines_inv_def init_lines_def)

lemma abs_lines_init [simp]: "abs_lines init_lines = ([], -1, False)"
  by (simp add: abs_lines_def init_lines_def)

lemma onChunk_refines:
  assumes "lines_inv st"
  shows "lines_inv (fst (onChunk st arr)) \<and>
    mealy line_step (abs_lines st) arr =
      (abs_lines (fst (onChunk st arr)), snd (onChunk st arr))"
proof -
  define buf where "buf = (case buffer st of None \<Rightarrow> arr | Some b \<Rightarrow> b @ arr)"
  define pos where "pos = (case buffer st of None \<Rightarrow> 0 | Some b \<Rightarrow> position st)"
  define fl where "fl = (case buffer st of None \<Rightarrow> -1 | Some b \<Rightarrow> fieldLength st)"
  let ?disc = "discardTrailingNewline st"
  obtain p' ls' fl' d' out where loop: "lines_loop buf pos 0 fl ?disc = ((p', ls', fl', d'), out)"
    by (metis prod_cases4 surj_pair)
  have start: "abs_lines st = (subarray 0 pos buf, fl, ?disc)" "arr = drop pos buf"
    "pos \<le> length buf" "?disc \<longrightarrow> 0 = pos \<and> fl = -1" "0 < length buf \<or> fl = -1"
    using assms
    by (auto simp: lines_inv_def abs_lines_def buf_def pos_def fl_def subarray_def
        split: option.splits)
  have ok: "p' = length buf" "ls' \<le> length buf" "d' \<longrightarrow> ls' = length buf"
      "ls' = length buf \<longrightarrow> fl' = -1"
      "mealy line_step (abs_lines st) arr = ((subarray ls' (length buf) buf, fl', d'), out)"
    using lines_loop_ok [OF _ start(3,4) loop] start by auto
  have chunk: "onChunk st arr =
     (if ls' = length buf
        then \<lparr>buffer = None, position = p', fieldLength = fl', discardTrailingNewline = d'\<rparr>
      else if ls' \<noteq> 0
        then \<lparr>buffer = Some (drop ls' buf), position = p' - ls', fieldLength = fl',
               discardTrailingNewline = d'\<rparr>
      else \<lparr>buffer = Some buf, position = p', fieldLength = fl', discardTrailingNewline = d'\<rparr>,
      out)"
    using loop unfolding onChunk_def buf_def pos_def fl_def
    by (cases "buffer st") (simp_all add: Let_def)
  show ?thesis
    using ok by (auto simp: chunk lines_inv_def abs_lines_def subarray_to_end)
qed

subsection \<open>Specification: the lines of a text\<close>

text \<open>CR LF, CR and LF all end a line.\<close>

definition drop_lf :: "byte list \<Rightarrow> byte list" where
  "drop_lf cs = (case cs of [] \<Rightarrow> [] | d # ds \<Rightarrow> if d = NewLine then ds else cs)"

lemma length_drop_lf [termination_simp]: "length (drop_lf cs) < Suc (length cs)"
  by (simp add: drop_lf_def split: list.splits)

fun eol_normalize :: "byte list \<Rightarrow> byte list" where
  "eol_normalize [] = []"
| "eol_normalize (c # cs) =
     (if c = CarriageReturn then
        NewLine # eol_normalize (drop_lf cs)
      else c # eol_normalize cs)"

definition colon_index :: "byte list \<Rightarrow> int" where
  "colon_index l = (case find_index (\<lambda>c. c = Colon) l of None \<Rightarrow> -1 | Some i \<Rightarrow> int i)"

definition text_lines :: "byte list \<Rightarrow> (byte list \<times> int) list" where
  "text_lines bs = map (\<lambda>l. (l, colon_index l)) (butlast (split_on NewLine (eol_normalize bs)))"

lemma find_index_append:
  "find_index p (xs @ ys) =
     (case find_index p xs of
        Some i \<Rightarrow> Some i | None \<Rightarrow> map_option (\<lambda>i. length xs + i) (find_index p ys))"
proof (induction xs)
  case Nil
  then show ?case by (cases "find_index p ys") simp_all
next
  case (Cons x xs)
  then show ?case by (cases "find_index p xs"; cases "find_index p ys") simp_all
qed

lemma colon_index_Nil [simp]: "colon_index [] = -1"
  by (simp add: colon_index_def)

lemma colon_index_snoc:
  "colon_index (l @ [c]) =
     (if c = Colon \<and> colon_index l = -1 then int (length l) else colon_index l)"
  by (auto simp: colon_index_def find_index_append split: option.splits)

lemma line_step_skip:
  "mealy line_step ([], -1, True) cs =
     (case cs of [] \<Rightarrow> (([], -1, True), [])
      | d # ds \<Rightarrow> mealy line_step ([], -1, False) (if d = NewLine then ds else cs))"
  by (cases cs) (auto split: prod.splits)

lemma mealy_line_step_out:
  assumes "NewLine \<notin> set cur"
  shows "snd (mealy line_step (cur, colon_index cur, False) bs) =
    map (\<lambda>l. (l, colon_index l)) (butlast (split_on NewLine (cur @ eol_normalize bs)))"
  using assms
proof (induction bs arbitrary: cur rule: eol_normalize.induct)
  case 1
  then show ?case by (simp add: split_on_no_sep)
next
  case (2 c cs)
  consider "c = CarriageReturn" | "c = NewLine" | "c \<noteq> CarriageReturn" "c \<noteq> NewLine" by blast
  then show ?case
  proof cases
    case 1
    have "snd (mealy line_step ([], -1, True) cs) =
        snd (mealy line_step ([], -1, False) (drop_lf cs))"
      by (simp add: line_step_skip drop_lf_def split: list.splits)
    also have "\<dots> = map (\<lambda>l. (l, colon_index l)) (butlast (split_on NewLine (eol_normalize (drop_lf cs))))"
      using "2.IH"(1) [OF 1, of "[]"] by simp
    finally show ?thesis
      using 1 "2.prems" by (auto simp: split_on_append split: prod.splits)
  next
    case 2
    then show ?thesis
      using "2.IH"(2) [of "[]"] "2.prems" by (auto simp: split_on_append split: prod.splits)
  next
    case 3
    then show ?thesis
      using "2.IH"(2) [of "cur @ [c]"] "2.prems"
      by (auto simp: colon_index_snoc split: prod.splits)
  qed
qed

lemma mealy_line_step_text_lines: "snd (mealy line_step ([], -1, False) bs) = text_lines bs"
  using mealy_line_step_out [of "[]" bs] by (simp add: text_lines_def)

end
