(* ===== verification/SseMessages.thy ===== *)
theory SseMessages
  imports SseParser
begin

text \<open>
  The message assembler \<open>getMessages\<close> of \<open>frontend/src/features/queue/lib/sse-client.ts\<close>
  and the whole byte-to-message pipeline \<open>getBytes\<close>, \<open>getLines\<close>,
  \<open>getMessages\<close>.  The frames the server writes (\<open>format_sse_event\<close> and the heartbeat
  of \<open>app/api/v1/queue_stream.py\<close>) are modelled too, so that what the client reads can be
  compared with what the server sent.
\<close>

section \<open>getMessages\<close>

record sse_message =
  msg_id :: jstring
  msg_event :: jstring
  msg_data :: jstring
  msg_retry :: "int option"

definition newMessage :: sse_message where
  "newMessage = \<lparr>msg_id = [], msg_event = [], msg_data = [], msg_retry = None\<rparr>"

text \<open>The calls the assembler makes: \<open>onId\<close>, \<open>onRetry\<close>, \<open>onMessage\<close>.\<close>

datatype sse_call = OnId jstring | OnRetry int | OnMessage sse_message

text \<open>One field of a message; fields with other names are ignored.\<close>

definition set_field :: "jstring \<Rightarrow> jstring \<Rightarrow> sse_message \<Rightarrow> sse_message \<times> sse_call list" where
  "set_field field value m =
     (if field = js ''data'' then
        (m\<lparr>msg_data := (if msg_data m \<noteq> [] then msg_data m @ [10] @ value else value)\<rparr>, [])
      else if field = js ''event'' then (m\<lparr>msg_event := value\<rparr>, [])
      else if field = js ''id'' then (m\<lparr>msg_id := value\<rparr>, [OnId value])
      else if field = js ''retry'' then
        (case parse_int value of
           None \<Rightarrow> (m, [])
         | Some retry \<Rightarrow> (m\<lparr>msg_retry := Some retry\<rparr>, [OnRetry retry]))
      else (m, []))"

definition value_offset :: "byte list \<Rightarrow> nat \<Rightarrow> nat" where
  "value_offset line fl =
     fl + (if fl + 1 < length line \<and> line ! (fl + 1) = Space then 2 else 1)"

definition onLine :: "sse_message \<Rightarrow> byte list \<times> int \<Rightarrow> sse_message \<times> sse_call list" where
  "onLine m lf =
     (let (line, fl) = lf in
      if line = [] then (newMessage, [OnMessage m])
      else if fl > 0 then
        set_field (text_decode (take (nat fl) line))
          (text_decode (drop (value_offset line (nat fl)) line)) m
      else (m, []))"

text \<open>The pipeline: what one chunk of the response body causes.\<close>

definition consume_chunk ::
  "line_state \<times> sse_message \<Rightarrow> byte list \<Rightarrow> (line_state \<times> sse_message) \<times> sse_call list" where
  "consume_chunk = pipe onChunk onLine"

definition init_reader :: "line_state \<times> sse_message" where
  "init_reader = (init_lines, newMessage)"

text \<open>\<open>getBytes\<close> reads the body chunk by chunk until it is done.\<close>

definition read_stream :: "byte list list \<Rightarrow> sse_call list" where
  "read_stream chunks = snd (mealy consume_chunk init_reader chunks)"

interpretation sse: piped_reader onChunk line_step abs_lines lines_inv onLine
  by unfold_locales (simp_all add: onChunk_refines)

lemma read_stream_lines: "read_stream cs = snd (mealy onLine newMessage (text_lines (concat cs)))"
proof -
  have "snd (mealy onChunk init_lines cs) = text_lines (concat cs)"
    using sse.chunks_refine [of init_lines cs]
    by (metis abs_lines_init lines_inv_init mealy_line_step_text_lines snd_conv)
  then show ?thesis
    by (auto simp: read_stream_def consume_chunk_def init_reader_def mealy_pipe Let_def
        split: prod.splits)
qed

text \<open>C22: however the body of the stream is cut into chunks, the reader does what reading the whole body
  at once would do: it takes the lines of the whole body (ended by LF, CR or CRLF, the pairs never
  read as two ends even when a chunk boundary splits them), and gives them in order to the message
  assembler; a last line without its end is held back.\<close>

theorem read_stream_refines_whole_body:
  "read_stream chunks = snd (mealy onLine newMessage (text_lines (concat chunks))) \<and>
   read_stream chunks = read_stream [concat chunks]"
  by (simp add: read_stream_lines)

section \<open>Lines as fields\<close>

lemma find_index_prefix:
  "\<forall>c \<in> set f. \<not> p c \<Longrightarrow> p x \<Longrightarrow> find_index p (f @ x # r) = Some (length f)"
  by (induction f) auto

lemma colon_index_field: "Colon \<notin> set f \<Longrightarrow> colon_index (f @ Colon # v) = int (length f)"
proof -
  assume "Colon \<notin> set f"
  then have "\<forall>c \<in> set f. c \<noteq> Colon" by auto
  then show ?thesis by (simp add: colon_index_def find_index_prefix)
qed

text \<open>A line \<open>field: value\<close>, as every line of a server frame is.\<close>

lemma onLine_field:
  assumes "Colon \<notin> set f" "f \<noteq> []"
  shows "onLine m (f @ Colon # Space # v, colon_index (f @ Colon # Space # v)) =
    set_field (text_decode f) (text_decode v) m"
proof -
  have "colon_index (f @ Colon # Space # v) = int (length f)"
    using assms by (rule_tac colon_index_field)
  then show ?thesis using assms by (simp add: onLine_def value_offset_def nth_append)
qed

text \<open>A comment line, such as the server's heartbeat.\<close>

lemma onLine_comment: "onLine m (Colon # v, colon_index (Colon # v)) = (m, [])"
  by (simp add: onLine_def colon_index_def)

lemma onLine_blank: "onLine m ([], fl) = (newMessage, [OnMessage m])"
  by (simp add: onLine_def)

section \<open>The frames of the server\<close>

text \<open>\<open>format_sse_event\<close> and \<open>SSE_HEARTBEAT_FRAME\<close> of \<open>app/api/v1/queue_stream.py\<close>, as
  lists of code points; \<open>ident\<close> and \<open>json\<close> are the envelope's id and its JSON text.\<close>

definition format_sse_event :: "nat list \<Rightarrow> nat list \<Rightarrow> nat list \<Rightarrow> nat list" where
  "format_sse_event event ident json =
     js ''event: '' @ event @ [10] @ js ''id: '' @ ident @ [10] @ js ''data: '' @ json @ [10] @ [10]"

definition heartbeat_frame :: "nat list" where
  "heartbeat_frame = js '': heartbeat'' @ [10] @ [10]"

lemma utf8_encode_append: "utf8_encode (a @ b) = utf8_encode a @ utf8_encode b"
  by (simp add: utf8_encode_def)

lemma utf8_encode_ascii:
  "\<forall>c \<in> set s. c < 128 \<Longrightarrow> utf8_encode s = map of_nat s"
  by (induction s) (auto simp: utf8_encode_def utf8_encode1_def)

lemma of_nat_byte_eq:
  "b < 256 \<Longrightarrow> c < 256 \<Longrightarrow> (of_nat b :: byte) = of_nat c \<longleftrightarrow> b = c"
  by (auto dest!: arg_cong [where f = unat] simp: unat_of_nat)

text \<open>An ASCII byte occurs in an encoding only where its code point occurs.\<close>

lemma ascii_in_utf8_encode:
  assumes "list_all is_scalar s" "c < 128" "(of_nat c :: byte) \<in> set (utf8_encode s)"
  shows "c \<in> set s"
proof -
  from assms(3) obtain x b where x: "x \<in> set s" "b \<in> set (utf8_encode1 x)"
    and eq: "(of_nat c :: byte) = of_nat b"
    by (auto simp: utf8_encode_def)
  from x assms(1) have "b < 256" by (meson list_all_iff utf8_encode1_byte)
  then have "b = c" using eq assms(2) by (simp add: of_nat_byte_eq)
  then have "b = x" using x(2) assms(2) by (auto simp: utf8_encode1_def split: if_splits)
  with x \<open>b = c\<close> show ?thesis by simp
qed

section \<open>Reading what the server wrote\<close>

text \<open>What the server puts on the wire: events, and heartbeats while it is idle.\<close>

datatype frame = EventFrame "nat list" "nat list" "nat list" | HeartbeatFrame

fun frame_text :: "frame \<Rightarrow> nat list" where
  "frame_text (EventFrame event ident json) = format_sse_event event ident json"
| "frame_text HeartbeatFrame = heartbeat_frame"

definition one_line :: "nat list \<Rightarrow> bool" where
  "one_line s \<longleftrightarrow> list_all is_scalar s \<and> 10 \<notin> set s \<and> 13 \<notin> set s"

fun frame_ok :: "frame \<Rightarrow> bool" where
  "frame_ok (EventFrame event ident json) = (one_line event \<and> one_line ident \<and> one_line json)"
| "frame_ok HeartbeatFrame = True"

text \<open>What the client's reader does with a frame; the empty message of a heartbeat is dropped by
  the consumer, which ignores messages without data.\<close>

definition as_text :: "nat list \<Rightarrow> jstring" where
  "as_text s = concat (map to_utf16 (strip_bom s))"

fun frame_calls :: "frame \<Rightarrow> sse_call list" where
  "frame_calls (EventFrame event ident json) =
     [OnId (as_text ident),
      OnMessage \<lparr>msg_id = as_text ident, msg_event = as_text event, msg_data = as_text json,
                 msg_retry = None\<rparr>]"
| "frame_calls HeartbeatFrame = [OnMessage newMessage]"

lemma line_run_from:
  "NewLine \<notin> set l \<Longrightarrow> CarriageReturn \<notin> set l \<Longrightarrow>
     mealy line_step (cur, colon_index cur, False) (l @ [NewLine]) =
       (([], -1, False), [(cur @ l, colon_index (cur @ l))])"
proof (induction l arbitrary: cur)
  case Nil
  then show ?case by simp
next
  case (Cons c l)
  from Cons.IH [of "cur @ [c]"] Cons.prems show ?case by (auto simp: colon_index_snoc)
qed

lemma line_run:
  "NewLine \<notin> set l \<Longrightarrow> CarriageReturn \<notin> set l \<Longrightarrow>
     mealy line_step ([], -1, False) (l @ [NewLine]) = (([], -1, False), [(l, colon_index l)])"
  using line_run_from [of l "[]"] by simp

lemma lines_run:
  "\<forall>l \<in> set ls. NewLine \<notin> set l \<and> CarriageReturn \<notin> set l \<Longrightarrow>
     mealy line_step ([], -1, False) (concat (map (\<lambda>l. l @ [NewLine]) ls)) =
       (([], -1, False), map (\<lambda>l. (l, colon_index l)) ls)"
proof (induction ls)
  case Nil
  then show ?case by simp
next
  case (Cons l ls)
  then have l: "mealy line_step ([], -1, False) (l @ [NewLine]) =
      (([], -1, False), [(l, colon_index l)])" by (intro line_run) auto
  have "concat (map (\<lambda>l. l @ [NewLine]) (l # ls)) =
      (l @ [NewLine]) @ concat (map (\<lambda>l. l @ [NewLine]) ls)" by simp
  with Cons l show ?case by (simp only: mealy_append) simp
qed

lemma one_line_bytes:
  assumes "one_line s"
  shows "NewLine \<notin> set (utf8_encode s) \<and> CarriageReturn \<notin> set (utf8_encode s)"
  using assms ascii_in_utf8_encode [of s 10] ascii_in_utf8_encode [of s 13]
  by (auto simp: one_line_def control_chars)

text \<open>The lines of a frame.\<close>

definition field_line :: "nat list \<Rightarrow> nat list \<Rightarrow> byte list" where
  "field_line f v = utf8_encode f @ Colon # Space # utf8_encode v"

fun frame_lines :: "frame \<Rightarrow> byte list list" where
  "frame_lines (EventFrame event ident json) =
     [field_line (js ''event'') event, field_line (js ''id'') ident,
      field_line (js ''data'') json, []]"
| "frame_lines HeartbeatFrame = [Colon # utf8_encode (js '' heartbeat''), []]"

lemmas js_bytes = js_def utf8_encode_def utf8_encode1_def control_chars

lemma frame_text_lines:
  "utf8_encode (frame_text fr) = concat (map (\<lambda>l. l @ [NewLine]) (frame_lines fr))"
  by (cases fr)
    (simp_all add: format_sse_event_def heartbeat_frame_def field_line_def js_bytes)

lemma text_decode_ascii:
  "\<forall>c \<in> set s. c < 128 \<Longrightarrow> text_decode (utf8_encode s) = s"
proof -
  assume a: "\<forall>c \<in> set s. c < 128"
  then have "list_all is_scalar s" by (auto simp: list_all_iff is_scalar_def)
  moreover from a have "strip_bom s = s" by (auto simp: strip_bom_def split: list.splits)
  moreover from a have "concat (map to_utf16 s) = s"
    by (induction s) (auto simp: to_utf16_def)
  ultimately show ?thesis by (simp add: text_decode_encode)
qed

lemma field_names_ascii:
  "\<forall>f \<in> {js ''event'', js ''id'', js ''data''}.
     f \<noteq> [] \<and> (\<forall>c \<in> set f. c < 128 \<and> c \<noteq> 58 \<and> c \<noteq> 10 \<and> c \<noteq> 13)"
  by (simp add: js_def)

lemma field_names_bytes:
  assumes "f \<in> {js ''event'', js ''id'', js ''data''}"
  shows "utf8_encode f \<noteq> [] \<and> Colon \<notin> set (utf8_encode f) \<and>
     NewLine \<notin> set (utf8_encode f) \<and> CarriageReturn \<notin> set (utf8_encode f) \<and>
     text_decode (utf8_encode f) = f"
proof -
  have f: "f \<noteq> []" "\<forall>c \<in> set f. c < 128 \<and> c \<noteq> 58 \<and> c \<noteq> 10 \<and> c \<noteq> 13"
    using field_names_ascii assms by blast+
  then have "list_all is_scalar f" by (auto simp: list_all_iff is_scalar_def)
  then have "Colon \<notin> set (utf8_encode f) \<and> NewLine \<notin> set (utf8_encode f) \<and>
      CarriageReturn \<notin> set (utf8_encode f)"
    using f(2) ascii_in_utf8_encode [of f 58] ascii_in_utf8_encode [of f 10]
      ascii_in_utf8_encode [of f 13] by (auto simp: control_chars)
  moreover have "text_decode (utf8_encode f) = f" using f(2) by (simp add: text_decode_ascii)
  moreover have "utf8_encode f \<noteq> []" using f by (simp add: utf8_encode_ascii)
  ultimately show ?thesis by simp
qed

lemma heartbeat_bytes:
  "NewLine \<notin> set (Colon # utf8_encode (js '' heartbeat'')) \<and>
   CarriageReturn \<notin> set (Colon # utf8_encode (js '' heartbeat''))"
  by code_simp

lemma field_line_one_line:
  assumes "f \<in> {js ''event'', js ''id'', js ''data''}" "one_line v"
  shows "NewLine \<notin> set (field_line f v) \<and> CarriageReturn \<notin> set (field_line f v)"
proof -
  have "NewLine \<notin> set (utf8_encode f)" "CarriageReturn \<notin> set (utf8_encode f)"
    using field_names_bytes [OF assms(1)] by auto
  then show ?thesis
    using one_line_bytes [OF assms(2)] by (simp add: field_line_def) (simp add: control_chars)
qed

lemma frame_lines_one_line:
  "frame_ok fr \<Longrightarrow> \<forall>l \<in> set (frame_lines fr). NewLine \<notin> set l \<and> CarriageReturn \<notin> set l"
  using heartbeat_bytes by (cases fr) (simp_all add: field_line_one_line)

lemma frame_bytes_run:
  "frame_ok fr \<Longrightarrow> mealy line_step ([], -1, False) (utf8_encode (frame_text fr)) =
     (([], -1, False), map (\<lambda>l. (l, colon_index l)) (frame_lines fr))"
  unfolding frame_text_lines by (rule lines_run) (rule frame_lines_one_line)

lemma onLine_field_line:
  assumes "f \<in> {js ''event'', js ''id'', js ''data''}" "one_line v"
  shows "onLine m (field_line f v, colon_index (field_line f v)) = set_field f (as_text v) m"
proof -
  have "utf8_encode f \<noteq> []" "Colon \<notin> set (utf8_encode f)" "text_decode (utf8_encode f) = f"
    using field_names_bytes [OF assms(1)] by auto
  moreover have "text_decode (utf8_encode v) = as_text v"
    using assms(2) by (simp add: as_text_def one_line_def text_decode_encode)
  ultimately show ?thesis by (simp add: field_line_def onLine_field)
qed

lemma field_names_distinct:
  "js ''event'' \<noteq> js ''data'' \<and> js ''id'' \<noteq> js ''data'' \<and> js ''id'' \<noteq> js ''event''"
  by code_simp

lemma set_field_event: "set_field (js ''event'') v m = (m\<lparr>msg_event := v\<rparr>, [])"
  by (simp add: set_field_def field_names_distinct)

lemma set_field_id: "set_field (js ''id'') v m = (m\<lparr>msg_id := v\<rparr>, [OnId v])"
  by (simp add: set_field_def field_names_distinct)

lemma set_field_data:
  "msg_data m = [] \<Longrightarrow> set_field (js ''data'') v m = (m\<lparr>msg_data := v\<rparr>, [])"
  by (simp add: set_field_def)

lemma mealy_Cons_eq:
  "f s x = (s1, o1) \<Longrightarrow> mealy f s (x # xs) = (fst (mealy f s1 xs), o1 @ snd (mealy f s1 xs))"
  by (simp add: Let_def split: prod.splits)

lemma frame_messages:
  assumes "frame_ok fr"
  shows "mealy onLine newMessage (map (\<lambda>l. (l, colon_index l)) (frame_lines fr)) =
    (newMessage, frame_calls fr)"
proof (cases fr)
  case (EventFrame event ident json)
  with assms have ol: "one_line event" "one_line ident" "one_line json" by simp_all
  let ?m = "newMessage\<lparr>msg_event := as_text event\<rparr>"
  let ?m' = "?m\<lparr>msg_id := as_text ident\<rparr>"
  let ?m'' = "?m'\<lparr>msg_data := as_text json\<rparr>"
  let ?l = "\<lambda>l. (l, colon_index l)"
  have 1: "onLine newMessage (?l (field_line (js ''event'') event)) = (?m, [])"
    using ol by (simp only: onLine_field_line insert_iff simp_thms set_field_event)
  have 2: "onLine ?m (?l (field_line (js ''id'') ident)) = (?m', [OnId (as_text ident)])"
    using ol by (simp only: onLine_field_line insert_iff simp_thms set_field_id)
  have d: "msg_data ?m' = []" by (simp add: newMessage_def)
  have 3: "onLine ?m' (?l (field_line (js ''data'') json)) = (?m'', [])"
    using ol by (simp only: onLine_field_line insert_iff simp_thms set_field_data [OF d])
  have 4: "onLine ?m'' (?l []) = (newMessage, [OnMessage ?m''])"
    by (rule onLine_blank)
  have "frame_calls fr = [OnId (as_text ident), OnMessage ?m'']"
    by (simp add: EventFrame newMessage_def)
  then show ?thesis
    by (simp only: EventFrame frame_lines.simps list.map mealy_Cons_eq [where f = onLine, OF 1]
        mealy_Cons_eq [where f = onLine, OF 2] mealy_Cons_eq [where f = onLine, OF 3] mealy_Cons_eq [where f = onLine, OF 4]
        mealy.simps(1) fst_conv snd_conv append.simps)
next
  case HeartbeatFrame
  then show ?thesis by (simp add: onLine_comment onLine_blank)
qed

lemma frames_run:
  assumes "list_all frame_ok frs"
  shows "mealy line_step ([], -1, False) (concat (map (utf8_encode \<circ> frame_text) frs)) =
    (([], -1, False), concat (map (\<lambda>fr. map (\<lambda>l. (l, colon_index l)) (frame_lines fr)) frs))"
  using assms
proof (induction frs)
  case Nil
  then show ?case by simp
next
  case (Cons fr frs)
  then show ?case by (simp add: mealy_append frame_bytes_run)
qed

lemma frames_messages:
  assumes "list_all frame_ok frs"
  shows "mealy onLine newMessage
      (concat (map (\<lambda>fr. map (\<lambda>l. (l, colon_index l)) (frame_lines fr)) frs)) =
    (newMessage, concat (map frame_calls frs))"
  using assms
proof (induction frs)
  case Nil
  then show ?case by simp
next
  case (Cons fr frs)
  then show ?case by (simp add: mealy_append frame_messages)
qed

lemma utf8_encode_concat: "utf8_encode (concat ss) = concat (map utf8_encode ss)"
  by (induction ss) (simp_all add: utf8_encode_append, simp add: utf8_encode_def)

lemma read_stream_frames:
  assumes "list_all frame_ok frs" "concat cs = utf8_encode (concat (map frame_text frs))"
  shows "read_stream cs = concat (map frame_calls frs)"
proof -
  have "concat cs = concat (map (utf8_encode \<circ> frame_text) frs)"
    using assms(2) by (simp add: utf8_encode_concat)
  then have "text_lines (concat cs) =
      concat (map (\<lambda>fr. map (\<lambda>l. (l, colon_index l)) (frame_lines fr)) frs)"
    using frames_run [OF assms(1)] by (simp flip: mealy_line_step_text_lines)
  then show ?thesis using frames_messages [OF assms(1)] by (simp add: read_stream_lines)
qed

end
