(* ===== verification/SseClient.thy ===== *)
theory SseClient
  imports SseMessages Workspace JsNumber
begin

text \<open>
  \<open>createQueueEventStream\<close> of \<open>frontend/src/features/queue/lib/sse-client.ts\<close>: the
  connection loop with its reconnect delays, the resumption header and its callbacks.  The
  outside world is a script of attempts (what sleeping, \<open>fetch\<close> and each \<open>read\<close> did, the
  random number drawn, and where the abort signal fired); what the client does is a trace of
  effects.  \<open>json_parse\<close> is \<open>JSON.parse\<close> followed by the \<open>onMessage\<close> callback: \<open>None\<close> where
  either throws.
\<close>

section \<open>Reconnect delays\<close>

definition DEFAULT_INITIAL_BACKOFF_MS :: rat where
  "DEFAULT_INITIAL_BACKOFF_MS = 1000"

definition DEFAULT_MAX_BACKOFF_MS :: rat where
  "DEFAULT_MAX_BACKOFF_MS = 30000"

definition computeReconnectDelayMs :: "int \<Rightarrow> rat \<Rightarrow> rat \<Rightarrow> rat \<Rightarrow> rat" where
  "computeReconnectDelayMs attemptIndex initialMs maxMs random =
     (let exp = min (initialMs * 2 ^ nat (max 0 attemptIndex)) maxMs;
          jitter = random * initialMs
      in min (of_int (math_round (exp + jitter))) maxMs)"

definition getQueueStreamUrl :: "jstring option \<Rightarrow> jstring" where
  "getQueueStreamUrl api_url =
     (let base = or_default api_url (js ''http://localhost:8000/api/v1'');
          stripped = (if base \<noteq> [] \<and> last base = 47 then butlast base else base)
      in stripped @ js ''/queues/stream'')"

section \<open>Errors and effects\<close>

datatype QueueSseErrorKind = AuthError | NetworkError | ServerError | AbortedError | ParseError

record QueueSseError =
  se_kind :: QueueSseErrorKind
  se_message :: jstring
  se_status :: "nat option"
  se_fatal :: bool

definition no_workspace_text :: jstring where
  "no_workspace_text =
    [1604, 1605, 32, 1610, 1578, 1605, 32, 1578, 1581, 1583, 1610, 1583, 32, 1605, 1587,
     1575, 1581, 1577, 32, 1575, 1604, 1593, 1605, 1604, 46]"

definition session_expired_text :: jstring where
  "session_expired_text =
    [1575, 1606, 1578, 1607, 1578, 32, 1589, 1604, 1575, 1581, 1610, 1577, 32, 1575, 1604,
     1580, 1604, 1587, 1577, 46]"

definition stream_forbidden_text :: jstring where
  "stream_forbidden_text =
    [1594, 1610, 1585, 32, 1605, 1589, 1585, 1581, 32, 1576, 1575, 1604, 1608, 1589, 1608,
     1604, 32, 1573, 1604, 1609, 32, 1576, 1579, 32, 1575, 1604, 1571, 1581, 1583, 1575,
     1579, 46]"

definition stream_failed_prefix :: jstring where
  "stream_failed_prefix =
    [1601, 1588, 1604, 32, 1576, 1579, 32, 1575, 1604, 1571, 1581, 1583, 1575, 1579, 32, 40]"

definition no_body_text :: jstring where
  "no_body_text =
    [1575, 1587, 1578, 1580, 1575, 1576, 1577, 32, 1575, 1604, 1576, 1579, 32, 1604, 1575,
     32, 1578, 1581, 1578, 1608, 1610, 32, 1593, 1604, 1609, 32, 1605, 1581, 1578, 1608,
     1609, 46]"

definition parse_failed_text :: jstring where
  "parse_failed_text =
    [1578, 1593, 1584, 1585, 32, 1602, 1585, 1575, 1569, 1577, 32, 1581, 1583, 1579, 32,
     1575, 1604, 1576, 1579, 46]"

definition stream_lost_text :: jstring where
  "stream_lost_text =
    [1575, 1606, 1602, 1591, 1593, 32, 1576, 1579, 32, 1575, 1604, 1571, 1581, 1583, 1575,
     1579, 46]"

definition stream_aborted_text :: jstring where
  "stream_aborted_text =
    [1578, 1605, 32, 1573, 1604, 1594, 1575, 1569, 32, 1576, 1579, 32, 1575, 1604, 1571,
     1581, 1583, 1575, 1579, 46]"

definition cannot_connect_text :: jstring where
  "cannot_connect_text =
    [1578, 1593, 1584, 1585, 32, 1575, 1604, 1575, 1578, 1589, 1575, 1604, 32, 1576, 1576,
     1579, 32, 1575, 1604, 1571, 1581, 1583, 1575, 1579, 46]"

definition auth_failure :: "nat \<Rightarrow> QueueSseError" where
  "auth_failure status =
     \<lparr>se_kind = AuthError,
      se_message = (if status = 401 then session_expired_text else stream_forbidden_text),
      se_status = Some status, se_fatal = True\<rparr>"

definition server_failure :: "nat \<Rightarrow> QueueSseError" where
  "server_failure status =
     \<lparr>se_kind = ServerError, se_message = stream_failed_prefix @ decimal status @ js '').'',
      se_status = Some status, se_fatal = False\<rparr>"

definition plain_failure :: "QueueSseErrorKind \<Rightarrow> jstring \<Rightarrow> bool \<Rightarrow> QueueSseError" where
  "plain_failure kind message fatal =
     \<lparr>se_kind = kind, se_message = message, se_status = None, se_fatal = fatal\<rparr>"

text \<open>The headers of one connection attempt and the callbacks, in the order they happen.\<close>

datatype 'e effect =
  Fetch jstring "(jstring \<times> jstring) list"
| Sleep rat
| OnReconnect nat rat
| OnOpen
| OnEvent 'e
| OnError QueueSseError

section \<open>The outside world\<close>

text \<open>A thrown value: whether it is an \<open>AbortError\<close>, and its message if it is an \<open>Error\<close>.\<close>

record failure =
  is_abort_error :: bool
  failure_message :: "jstring option"

text \<open>One call of \<open>reader.read()\<close>; the flag says that the signal fired before it settled.\<close>

datatype read_result = ReadChunk bool "byte list" | ReadDone bool | ReadThrows bool failure

datatype fetch_result =
  FetchThrows failure
| Response nat "read_result list option"

record attempt =
  at_abort_sleep :: bool
  at_random :: rat
  at_abort_fetch :: bool
  at_fetch :: fetch_result

definition response_ok :: "nat \<Rightarrow> bool" where
  "response_ok status \<longleftrightarrow> 200 \<le> status \<and> status \<le> 299"

section \<open>The client\<close>

record 'e options =
  opt_token :: jstring
  opt_url :: jstring
  opt_workspaceId :: "jstring option"
  opt_lastEventId :: jstring
  initialBackoffMs :: rat
  maxBackoffMs :: rat
  json_parse :: "jstring \<Rightarrow> 'e option"

record 'e sse_state =
  aborted :: bool
  lastEventId :: jstring
  consecutiveFailures :: nat
  serverRetryMs :: "int option"
  trace :: "'e effect list"

definition emit :: "'e effect \<Rightarrow> 'e sse_state \<Rightarrow> 'e sse_state" where
  "emit eff s = s\<lparr>trace := trace s @ [eff]\<rparr>"

definition fail_with :: "QueueSseError \<Rightarrow> 'e sse_state \<Rightarrow> 'e sse_state" where
  "fail_with err s = emit (OnError err) (s\<lparr>consecutiveFailures := consecutiveFailures s + 1\<rparr>)"

definition fire :: "bool \<Rightarrow> 'e sse_state \<Rightarrow> 'e sse_state" where
  "fire now s = s\<lparr>aborted := aborted s \<or> now\<rparr>"

text \<open>\<open>onId\<close>, \<open>onRetry\<close> and \<open>onRawMessage\<close>.\<close>

definition handle_call :: "'e options \<Rightarrow> 'e sse_state \<Rightarrow> sse_call \<Rightarrow> 'e sse_state" where
  "handle_call opts s call = (case call of
     OnId i \<Rightarrow> if i \<noteq> [] then s\<lparr>lastEventId := i\<rparr> else s
   | OnRetry retry \<Rightarrow> s\<lparr>serverRetryMs := Some retry\<rparr>
   | OnMessage raw \<Rightarrow>
       if msg_data raw = [] then s
       else
         let s' = (if msg_id raw \<noteq> [] then s\<lparr>lastEventId := msg_id raw\<rparr> else s) in
         (case json_parse opts (msg_data raw) of
            Some parsed \<Rightarrow> emit (OnEvent parsed) s'
          | None \<Rightarrow> emit (OnError (plain_failure ParseError parse_failed_text False)) s'))"

definition handle_calls :: "'e options \<Rightarrow> 'e sse_state \<Rightarrow> sse_call list \<Rightarrow> 'e sse_state" where
  "handle_calls opts s calls = foldl (handle_call opts) s calls"

text \<open>\<open>getBytes\<close> and the parser behind it.  The result is a thrown value, or nothing when it
  returned; a body whose script ends is still open (\<open>Pending\<close>).\<close>

datatype stream_end = StreamReturned | StreamThrew failure | StreamPending

fun consume :: "'e options \<Rightarrow> line_state \<times> sse_message \<Rightarrow> read_result list \<Rightarrow> 'e sse_state
    \<Rightarrow> stream_end \<times> 'e sse_state" where
  "consume opts p [] s = (if aborted s then StreamReturned else StreamPending, s)"
| "consume opts p (r # rs) s =
     (if aborted s then (StreamReturned, s)
      else (case r of
        ReadDone now \<Rightarrow> (StreamReturned, fire now s)
      | ReadThrows now err \<Rightarrow>
          (let s' = fire now s in
           if \<not> is_abort_error err \<and> \<not> aborted s' then (StreamThrew err, s')
           else (StreamReturned, s'))
      | ReadChunk now bytes \<Rightarrow>
          (let (p', calls) = consume_chunk p bytes
           in consume opts p' rs (handle_calls opts (fire now s) calls))))"

text \<open>How one turn of the loop ends.\<close>

datatype turn = GoOn | Return | StillOpen

text \<open>The \<open>catch\<close> clause.\<close>

definition catch_clause :: "failure \<Rightarrow> 'e sse_state \<Rightarrow> turn \<times> 'e sse_state" where
  "catch_clause err s =
     (if aborted s \<or> is_abort_error err
      then (Return, emit (OnError (plain_failure AbortedError stream_aborted_text True)) s)
      else (GoOn, fail_with (plain_failure NetworkError
              (or_default (failure_message err) cannot_connect_text) False) s))"

text \<open>The reconnect pause at the top of the loop.\<close>

definition reconnect_pause :: "'e options \<Rightarrow> attempt \<Rightarrow> 'e sse_state \<Rightarrow> 'e sse_state" where
  "reconnect_pause opts a s =
     (if consecutiveFailures s > 0
      then
        let delay = (case serverRetryMs s of
              Some ms \<Rightarrow> of_int ms
            | None \<Rightarrow> computeReconnectDelayMs (int (consecutiveFailures s) - 1)
                        (initialBackoffMs opts) (maxBackoffMs opts) (at_random a))
        in fire (at_abort_sleep a)
             (emit (Sleep delay)
               (emit (OnReconnect (consecutiveFailures s) delay) (s\<lparr>serverRetryMs := None\<rparr>)))
      else s)"

definition request_headers :: "'e options \<Rightarrow> 'e sse_state \<Rightarrow> (jstring \<times> jstring) list" where
  "request_headers opts s =
     [(js ''Accept'', js ''text/event-stream''),
      (js ''Authorization'', js ''Bearer '' @ opt_token opts),
      (WORKSPACE_HEADER, the (opt_workspaceId opts))]
     @ (if lastEventId s \<noteq> [] then [(js ''Last-Event-ID'', lastEventId s)] else [])"

text \<open>What follows a response.\<close>

definition after_response ::
  "'e options \<Rightarrow> nat \<Rightarrow> read_result list option \<Rightarrow> 'e sse_state \<Rightarrow> turn \<times> 'e sse_state" where
  "after_response opts status body s =
     (if \<not> response_ok status then
        (if status = 401 \<or> status = 403
         then (Return, emit (OnError (auth_failure status)) s)
         else (GoOn, fail_with (server_failure status) s))
      else (case body of
        None \<Rightarrow> (GoOn, fail_with (plain_failure NetworkError no_body_text False) s)
      | Some reads \<Rightarrow>
          (case consume opts init_reader reads (emit OnOpen (s\<lparr>consecutiveFailures := 0\<rparr>)) of
             (StreamPending, s') \<Rightarrow> (StillOpen, s')
           | (StreamThrew err, s') \<Rightarrow> catch_clause err s'
           | (StreamReturned, s') \<Rightarrow>
               if aborted s' then (Return, s')
               else (GoOn, fail_with (plain_failure NetworkError stream_lost_text False) s'))))"

text \<open>One turn of the loop whose condition held.\<close>

definition attempt_turn :: "'e options \<Rightarrow> attempt \<Rightarrow> 'e sse_state \<Rightarrow> turn \<times> 'e sse_state" where
  "attempt_turn opts a s =
     (let s1 = reconnect_pause opts a s in
      if consecutiveFailures s > 0 \<and> aborted s1 then (Return, s1)
      else
        let s2 = fire (at_abort_fetch a) (emit (Fetch (opt_url opts) (request_headers opts s1)) s1)
        in (case at_fetch a of
              FetchThrows err \<Rightarrow> catch_clause err s2
            | Response status body \<Rightarrow> after_response opts status body s2))"

text \<open>The loop, and the check before it.  A script that ends leaves the client waiting.\<close>

fun client_loop :: "'e options \<Rightarrow> attempt list \<Rightarrow> 'e sse_state \<Rightarrow> turn \<times> 'e sse_state" where
  "client_loop opts [] s = (if aborted s then Return else StillOpen, s)"
| "client_loop opts (a # as) s =
     (if aborted s then (Return, s)
      else (case attempt_turn opts a s of
              (GoOn, s') \<Rightarrow> client_loop opts as s'
            | (t, s') \<Rightarrow> (t, s')))"

definition start_state :: "'e options \<Rightarrow> bool \<Rightarrow> 'e sse_state" where
  "start_state opts ab =
     \<lparr>aborted = ab, lastEventId = opt_lastEventId opts, consecutiveFailures = 0,
      serverRetryMs = None, trace = []\<rparr>"

definition createQueueEventStream ::
  "'e options \<Rightarrow> bool \<Rightarrow> attempt list \<Rightarrow> turn \<times> 'e sse_state" where
  "createQueueEventStream opts ab attempts =
     (let s = start_state opts ab in
      if \<not> isUsableWorkspaceId (opt_workspaceId opts)
      then (Return, emit (OnError (plain_failure AuthError no_workspace_text True)) s)
      else client_loop opts attempts s)"

section \<open>The delays\<close>

lemma delay_exponent_pos: "(1::rat) \<le> 2 ^ k"
  by simp

text \<open>For whole-millisecond bounds \<open>0 <= initial <= max\<close> and a random number in \<open>[0, 1)\<close>,
  the delay is a whole number of milliseconds between the initial backoff and the maximum; it is
  at least the exponential step (capped at the maximum) and exceeds it by at most one initial
  backoff of jitter.\<close>

theorem computeReconnectDelayMs_bounds:
  assumes "0 \<le> I" "I \<le> M" "0 \<le> r" "r < 1"
  shows "let d = computeReconnectDelayMs k (of_int I) (of_int M) r;
             e = min (of_int I * 2 ^ nat (max 0 k)) (of_int M)
    in of_int I \<le> d \<and> d \<le> of_int M \<and> e \<le> d \<and> d \<le> e + of_int I \<and>
       d = of_int \<lfloor>d\<rfloor>"
proof -
  let ?e = "min (of_int I * 2 ^ nat (max 0 k)) (of_int M) :: rat"
  have e: "?e = of_int (min (I * 2 ^ nat (max 0 k)) M)" by (simp add: of_int_min)
  obtain E where E: "?e = of_int E" and IE: "I \<le> E"
  proof
    show "?e = of_int (min (I * 2 ^ nat (max 0 k)) M)" by (rule e)
    have "I * 1 \<le> I * 2 ^ nat (max 0 k)" using assms(1) by (intro mult_left_mono) simp_all
    then show "I \<le> min (I * 2 ^ nat (max 0 k)) M" using assms(2) by simp
  qed
  have j: "0 \<le> r * of_int I" "r * of_int I \<le> of_int I"
    using assms mult_right_mono [of r 1 "of_int I"] by simp_all
  let ?m = "math_round (?e + r * of_int I)"
  have lo: "E \<le> ?m" using j(1) E by (intro math_round_ge) simp
  have "?e + r * of_int I \<le> of_int (E + I)" using j(2) E by simp
  then have hi: "?m \<le> E + I" by (rule math_round_le)
  have EM: "E \<le> M" using E by (metis min.cobounded2 of_int_le_iff)
  have d: "computeReconnectDelayMs k (of_int I) (of_int M) r = of_int (min ?m M)"
    by (simp add: computeReconnectDelayMs_def Let_def of_int_min)
  obtain D where D: "computeReconnectDelayMs k (of_int I) (of_int M) r = of_int D"
    and facts: "I \<le> D" "D \<le> M" "E \<le> D" "D \<le> E + I"
  proof
    show "I \<le> min ?m M" "min ?m M \<le> M" "E \<le> min ?m M" "min ?m M \<le> E + I"
      using lo hi IE EM by linarith+
  qed (rule d)
  have "(of_int D :: rat) \<le> of_int (E + I)" using facts(4) by (simp only: of_int_le_iff)
  then show ?thesis
    unfolding Let_def D E using facts by simp
qed

lemma computeReconnectDelayMs_bounds_witness:
  "let d = computeReconnectDelayMs 2 1000 30000 (1 / 2) in 4000 \<le> d \<and> d \<le> 5000"
proof -
  have "computeReconnectDelayMs 2 1000 30000 (1 / 2) = 4500" by code_simp
  then show ?thesis
    using computeReconnectDelayMs_bounds [of 1000 30000 "1 / 2" 2] by (simp add: Let_def)
qed

section \<open>A monitor for the trace\<close>

text \<open>
  The monitor reads the effects in order.  It counts the failures since the stream last opened;
  a reconnect must announce exactly that number and be followed by a sleep of the announced
  length before the next request; every request carries the token and the workspace; and after
  a fatal error nothing may happen any more.
\<close>

datatype pause = NoPause | Announced rat | Slept

datatype monitor = Alive nat pause | Dead

definition headers_complete :: "'e options \<Rightarrow> (jstring \<times> jstring) list \<Rightarrow> bool" where
  "headers_complete opts hs \<longleftrightarrow>
     map_of hs (js ''Authorization'') = Some (js ''Bearer '' @ opt_token opts) \<and>
     map_of hs WORKSPACE_HEADER = opt_workspaceId opts"

fun watch :: "'e options \<Rightarrow> monitor \<Rightarrow> 'e effect \<Rightarrow> monitor option" where
  "watch opts Dead eff = None"
| "watch opts (Alive f p) (OnReconnect n d) =
     (if n = f \<and> f > 0 \<and> p = NoPause then Some (Alive f (Announced d)) else None)"
| "watch opts (Alive f p) (Sleep d) =
     (if p = Announced d then Some (Alive f Slept) else None)"
| "watch opts (Alive f p) (Fetch url hs) =
     (if p = (if f = 0 then NoPause else Slept) \<and> url = opt_url opts \<and> headers_complete opts hs
      then Some (Alive f NoPause) else None)"
| "watch opts (Alive f p) OnOpen = (if p = NoPause then Some (Alive 0 NoPause) else None)"
| "watch opts (Alive f p) (OnEvent e) = (if p = NoPause then Some (Alive f NoPause) else None)"
| "watch opts (Alive f p) (OnError err) =
     (if p \<noteq> NoPause \<or> se_kind err = AbortedError \<and> \<not> se_fatal err then None
      else if se_fatal err then Some Dead
      else if se_kind err = ParseError then Some (Alive f NoPause)
      else Some (Alive (f + 1) NoPause))"

fun watch_all :: "'e options \<Rightarrow> monitor \<Rightarrow> 'e effect list \<Rightarrow> monitor option" where
  "watch_all opts m [] = Some m"
| "watch_all opts m (e # es) = Option.bind (watch opts m e) (\<lambda>m'. watch_all opts m' es)"

lemma watch_all_append:
  "watch_all opts m (es @ fs) = Option.bind (watch_all opts m es) (\<lambda>m'. watch_all opts m' fs)"
  by (induction es arbitrary: m) (auto split: bind_splits)

text \<open>The state of the monitor after the trace of a state.\<close>

definition monitored :: "'e options \<Rightarrow> 'e sse_state \<Rightarrow> monitor option" where
  "monitored opts s = watch_all opts (Alive 0 NoPause) (trace s)"

definition in_step :: "'e options \<Rightarrow> 'e sse_state \<Rightarrow> bool" where
  "in_step opts s \<longleftrightarrow> monitored opts s = Some (Alive (consecutiveFailures s) NoPause)"

lemma monitored_emit:
  "monitored opts (emit e s) = Option.bind (monitored opts s) (\<lambda>m. watch opts m e)"
  by (simp add: monitored_def emit_def watch_all_append)

lemma monitored_updates [simp]:
  "monitored opts (fire b s) = monitored opts s"
  "monitored opts (s\<lparr>lastEventId := i\<rparr>) = monitored opts s"
  "monitored opts (s\<lparr>serverRetryMs := r\<rparr>) = monitored opts s"
  "monitored opts (s\<lparr>consecutiveFailures := n\<rparr>) = monitored opts s"
  by (simp_all add: monitored_def fire_def)

lemma emit_keeps [simp]:
  "aborted (emit e s) = aborted s" "lastEventId (emit e s) = lastEventId s"
  "consecutiveFailures (emit e s) = consecutiveFailures s"
  "serverRetryMs (emit e s) = serverRetryMs s"
  "trace (emit e s) = trace s @ [e]"
  by (simp_all add: emit_def)

lemma fire_keeps [simp]:
  "lastEventId (fire b s) = lastEventId s"
  "consecutiveFailures (fire b s) = consecutiveFailures s"
  "serverRetryMs (fire b s) = serverRetryMs s" "trace (fire b s) = trace s"
  "aborted (fire b s) = (aborted s \<or> b)" "fire False s = s"
  by (simp_all add: fire_def)

lemma in_step_fire [simp]: "in_step opts (fire b s) = in_step opts s"
  by (simp add: in_step_def)

lemma in_step_event: "in_step opts s \<Longrightarrow> in_step opts (emit (OnEvent e) s)"
  by (simp add: in_step_def monitored_emit)

lemma in_step_parse_error:
  "in_step opts s \<Longrightarrow> in_step opts (emit (OnError (plain_failure ParseError m False)) s)"
  by (simp add: in_step_def monitored_emit plain_failure_def)

lemma in_step_fail:
  "in_step opts s \<Longrightarrow> \<not> se_fatal err \<Longrightarrow> se_kind err \<notin> {ParseError, AbortedError} \<Longrightarrow>
     in_step opts (fail_with err s)"
  by (simp add: in_step_def fail_with_def monitored_emit)

lemma in_step_fatal:
  "in_step opts s \<Longrightarrow> se_fatal err \<Longrightarrow> monitored opts (emit (OnError err) s) = Some Dead"
  by (simp add: in_step_def monitored_emit)

lemma handle_call_in_step: "in_step opts s \<Longrightarrow> in_step opts (handle_call opts s c)"
proof (cases c)
  case (OnMessage raw)
  assume "in_step opts s"
  then have "in_step opts (if msg_id raw \<noteq> [] then s\<lparr>lastEventId := msg_id raw\<rparr> else s)"
    by (simp add: in_step_def)
  with \<open>in_step opts s\<close> show ?thesis
    by (auto simp: OnMessage handle_call_def Let_def in_step_event in_step_parse_error
        split: option.splits)
qed (auto simp: handle_call_def in_step_def)

lemma handle_calls_in_step: "in_step opts s \<Longrightarrow> in_step opts (handle_calls opts s cs)"
  unfolding handle_calls_def
  by (induction cs arbitrary: s) (simp_all add: handle_call_in_step)

lemma consume_in_step: "in_step opts s \<Longrightarrow> in_step opts (snd (consume opts p rs s))"
  by (induction opts p rs s rule: consume.induct)
    (auto simp: handle_calls_in_step Let_def split: read_result.splits prod.splits)

text \<open>A turn that goes on is in step again; one that returns leaves a trace the monitor accepts.\<close>

definition turn_ok :: "'e options \<Rightarrow> turn \<times> 'e sse_state \<Rightarrow> bool" where
  "turn_ok opts r \<longleftrightarrow>
     (if fst r = GoOn then in_step opts (snd r) else monitored opts (snd r) \<noteq> None)"

lemma turn_ok_GoOn [simp]: "turn_ok opts (GoOn, s) = in_step opts s"
  by (simp add: turn_ok_def)

lemma turn_ok_stop [simp]:
  "turn_ok opts (Return, s) = (monitored opts s \<noteq> None)"
  "turn_ok opts (StillOpen, s) = (monitored opts s \<noteq> None)"
  by (simp_all add: turn_ok_def)

lemma catch_clause_ok: "in_step opts s \<Longrightarrow> turn_ok opts (catch_clause err s)"
  by (simp add: catch_clause_def plain_failure_def in_step_fail in_step_fatal)

lemma in_step_open:
  "in_step opts s \<Longrightarrow> in_step opts (emit OnOpen (s\<lparr>consecutiveFailures := 0\<rparr>))"
  by (simp add: in_step_def monitored_emit)

lemma after_response_ok:
  assumes "in_step opts s"
  shows "turn_ok opts (after_response opts status body s)"
proof (cases "response_ok status")
  case False
  then show ?thesis
    using assms
    by (auto simp: after_response_def in_step_fail server_failure_def
        in_step_fatal auth_failure_def)
next
  case True
  show ?thesis
  proof (cases body)
    case None
    then show ?thesis
      using True assms
      by (auto simp: after_response_def in_step_fail plain_failure_def)
  next
    case (Some reads)
    obtain e s' where e: "consume opts init_reader reads
        (emit OnOpen (s\<lparr>consecutiveFailures := 0\<rparr>)) = (e, s')" by fastforce
    then have s': "in_step opts s'"
      using consume_in_step [OF in_step_open [OF assms], of init_reader reads] by simp
    then have "monitored opts s' \<noteq> None" by (simp add: in_step_def)
    with s' show ?thesis
      using True Some e catch_clause_ok [OF s']
      by (auto simp: after_response_def in_step_fail plain_failure_def
          split: stream_end.splits)
  qed
qed

lemma headers_complete_request:
  "opt_workspaceId opts = Some w \<Longrightarrow> headers_complete opts (request_headers opts s)"
  by (simp add: headers_complete_def request_headers_def WORKSPACE_HEADER_def js_def)

lemma pause_ok:
  assumes "in_step opts s"
  shows "monitored opts (reconnect_pause opts a s) =
    Some (Alive (consecutiveFailures s) (if consecutiveFailures s = 0 then NoPause else Slept))"
    and "consecutiveFailures (reconnect_pause opts a s) = consecutiveFailures s"
  using assms by (auto simp: reconnect_pause_def Let_def in_step_def monitored_emit)

lemma attempt_turn_ok:
  assumes "in_step opts s" "opt_workspaceId opts = Some w"
  shows "turn_ok opts (attempt_turn opts a s)"
proof -
  let ?s1 = "reconnect_pause opts a s"
  let ?s2 = "fire (at_abort_fetch a)
      (emit (Fetch (opt_url opts) (request_headers opts ?s1)) ?s1)"
  have s2: "in_step opts ?s2"
    using pause_ok [OF assms(1), of a] headers_complete_request [OF assms(2), of ?s1]
    by (simp add: in_step_def monitored_emit)
  show ?thesis
    using pause_ok(1) [OF assms(1), of a] catch_clause_ok [OF s2] after_response_ok [OF s2]
    by (auto simp: attempt_turn_def Let_def split: fetch_result.splits)
qed

lemma client_loop_monitored:
  "in_step opts s \<Longrightarrow> opt_workspaceId opts = Some w \<Longrightarrow>
     monitored opts (snd (client_loop opts as s)) \<noteq> None"
proof (induction as arbitrary: s)
  case Nil
  then show ?case by (simp add: in_step_def)
next
  case (Cons a as)
  obtain t s' where t: "attempt_turn opts a s = (t, s')" by fastforce
  with Cons.prems have "turn_ok opts (t, s')" using attempt_turn_ok by metis
  moreover have "monitored opts s \<noteq> None" using Cons.prems by (simp add: in_step_def)
  ultimately show ?case using Cons t by (cases t) auto
qed

text \<open>C9: in every run of the client, whatever the network does: each reconnect announces the
  number of failures since the stream was last open and is followed by a sleep of exactly the
  announced length before the next request, so a failing server is never asked twice in a row;
  every request carries the bearer token and the workspace; and a fatal error (a 401 or 403, a
  missing workspace, an abort) is the last thing the client ever does.\<close>

theorem sse_client_trace_monitored:
  "watch_all opts (Alive 0 NoPause) (trace (snd (createQueueEventStream opts ab attempts))) \<noteq> None"
proof (cases "isUsableWorkspaceId (opt_workspaceId opts)")
  case False
  then show ?thesis
    by (simp add: createQueueEventStream_def Let_def start_state_def plain_failure_def)
next
  case True
  then obtain w where w: "opt_workspaceId opts = Some w"
    by (cases "opt_workspaceId opts") auto
  have "in_step opts (start_state opts ab)"
    by (simp add: in_step_def monitored_def start_state_def)
  from client_loop_monitored [OF this w] show ?thesis
    using True by (simp add: createQueueEventStream_def Let_def monitored_def)
qed

section \<open>What the server wrote arrives, and is resumed from\<close>

fun seen_id :: "jstring \<Rightarrow> frame \<Rightarrow> jstring" where
  "seen_id old (EventFrame event ident json) = (if as_text ident \<noteq> [] then as_text ident else old)"
| "seen_id old HeartbeatFrame = old"

fun frame_effects :: "'e options \<Rightarrow> frame \<Rightarrow> 'e effect list" where
  "frame_effects opts (EventFrame event ident json) =
     (if as_text json = [] then []
      else (case json_parse opts (as_text json) of
              Some e \<Rightarrow> [OnEvent e]
            | None \<Rightarrow> [OnError (plain_failure ParseError parse_failed_text False)]))"
| "frame_effects opts HeartbeatFrame = []"

lemma handle_call_aborted [simp]: "aborted (handle_call opts s c) = aborted s"
  by (auto simp: handle_call_def Let_def split: sse_call.splits option.splits)

lemma handle_calls_aborted [simp]: "aborted (handle_calls opts s cs) = aborted s"
  unfolding handle_calls_def by (induction cs arbitrary: s) simp_all

lemma handle_calls_append:
  "handle_calls opts s (xs @ ys) = handle_calls opts (handle_calls opts s xs) ys"
  by (simp add: handle_calls_def)

lemma handle_calls_frame:
  "handle_calls opts s (frame_calls fr) =
     s\<lparr>lastEventId := seen_id (lastEventId s) fr, trace := trace s @ frame_effects opts fr\<rparr>"
  by (cases fr)
    (auto simp: handle_calls_def handle_call_def newMessage_def Let_def emit_def
      split: option.splits)

lemma handle_calls_frames:
  "handle_calls opts s (concat (map frame_calls frs)) =
     s\<lparr>lastEventId := foldl seen_id (lastEventId s) frs,
       trace := trace s @ concat (map (frame_effects opts) frs)\<rparr>"
proof (induction frs arbitrary: s)
  case Nil
  then show ?case by (simp add: handle_calls_def)
next
  case (Cons fr frs)
  then show ?case by (simp add: handle_calls_append handle_calls_frame)
qed

lemma consume_chunks:
  "\<not> aborted s \<Longrightarrow>
     consume opts p (map (ReadChunk False) cs @ [ReadDone False]) s =
       (StreamReturned, handle_calls opts s (snd (mealy consume_chunk p cs)))"
proof (induction cs arbitrary: p s)
  case Nil
  then show ?case by (simp add: handle_calls_def)
next
  case (Cons c cs)
  obtain p' calls where p': "consume_chunk p c = (p', calls)" by fastforce
  with Cons show ?case
    by (simp add: handle_calls_append Let_def split: prod.splits)
qed

lemma frames_delivered:
  assumes "list_all frame_ok frs" "concat chunks = utf8_encode (concat (map frame_text frs))"
    and "response_ok status" "\<not> aborted s"
  shows "after_response opts status (Some (map (ReadChunk False) chunks @ [ReadDone False])) s =
    (GoOn, s\<lparr>lastEventId := foldl seen_id (lastEventId s) frs, consecutiveFailures := 1,
       trace := trace s @ OnOpen # concat (map (frame_effects opts) frs) @
         [OnError (plain_failure NetworkError stream_lost_text False)]\<rparr>)"
proof -
  let ?s = "emit OnOpen (s\<lparr>consecutiveFailures := 0\<rparr>)"
  have "snd (mealy consume_chunk init_reader chunks) = concat (map frame_calls frs)"
    using read_stream_frames [OF assms(1,2)] by (simp add: read_stream_def)
  then have "consume opts init_reader (map (ReadChunk False) chunks @ [ReadDone False]) ?s =
      (StreamReturned, handle_calls opts ?s (concat (map frame_calls frs)))"
    using assms(4) by (simp add: consume_chunks)
  then show ?thesis
    using assms(3,4)
    by (simp add: after_response_def handle_calls_frames fail_with_def emit_def)
qed


definition sample_options :: "jstring options" where
  "sample_options =
     \<lparr>opt_token = js ''t'', opt_url = js ''/u'', opt_workspaceId = Some (js ''w''),
      opt_lastEventId = [], initialBackoffMs = 1000, maxBackoffMs = 30000, json_parse = Some\<rparr>"


section \<open>The client keeps trying\<close>

text \<open>A failure that is neither an abort nor a refusal of the credentials.\<close>

fun stream_ends :: "read_result list \<Rightarrow> bool" where
  "stream_ends [] = False"
| "stream_ends (ReadChunk now bytes # rs) = (\<not> now \<and> stream_ends rs)"
| "stream_ends (ReadDone now # rs) = (\<not> now)"
| "stream_ends (ReadThrows now err # rs) = (\<not> now \<and> \<not> is_abort_error err)"

definition recoverable :: "attempt \<Rightarrow> bool" where
  "recoverable a \<longleftrightarrow> \<not> at_abort_sleep a \<and> \<not> at_abort_fetch a \<and>
     (case at_fetch a of
        FetchThrows err \<Rightarrow> \<not> is_abort_error err
      | Response status body \<Rightarrow> status \<noteq> 401 \<and> status \<noteq> 403 \<and>
          (case body of None \<Rightarrow> True | Some reads \<Rightarrow> stream_ends reads))"

definition is_fetch :: "'e effect \<Rightarrow> bool" where
  "is_fetch eff = (case eff of Fetch _ _ \<Rightarrow> True | _ \<Rightarrow> False)"

definition fetches :: "'e sse_state \<Rightarrow> nat" where
  "fetches s = length (filter is_fetch (trace s))"

lemma fetches_emit [simp]:
  "fetches (emit e s) = fetches s + (if is_fetch e then 1 else 0)"
  "fetches (fire b s) = fetches s" "fetches (s\<lparr>lastEventId := i\<rparr>) = fetches s"
  "fetches (s\<lparr>serverRetryMs := r\<rparr>) = fetches s"
  "fetches (s\<lparr>consecutiveFailures := n\<rparr>) = fetches s"
  by (simp_all add: fetches_def)

lemma is_fetch_simps [simp]:
  "is_fetch (Fetch u h)" "\<not> is_fetch (Sleep d)" "\<not> is_fetch (OnReconnect n d)"
  "\<not> is_fetch OnOpen" "\<not> is_fetch (OnEvent e)" "\<not> is_fetch (OnError err)"
  by (simp_all add: is_fetch_def)

lemma fail_with_keeps [simp]:
  "fetches (fail_with err s) = fetches s" "aborted (fail_with err s) = aborted s"
  by (simp_all add: fail_with_def)

lemma handle_calls_fetches [simp]: "fetches (handle_calls opts s cs) = fetches s"
proof -
  have "fetches (handle_call opts s c) = fetches s" for s c
    by (auto simp: handle_call_def Let_def split: sse_call.splits option.splits)
  then show ?thesis unfolding handle_calls_def by (induction cs arbitrary: s) simp_all
qed

lemma consume_recoverable:
  "\<not> aborted s \<Longrightarrow> stream_ends rs \<Longrightarrow>
     (case consume opts p rs s of (e, s') \<Rightarrow>
        \<not> aborted s' \<and> fetches s' = fetches s \<and>
        (e = StreamReturned \<or> (\<exists>err. e = StreamThrew err \<and> \<not> is_abort_error err)))"
proof (induction rs arbitrary: p s)
  case Nil
  then show ?case by simp
next
  case (Cons r rs)
  show ?case
  proof (cases r)
    case (ReadChunk now bytes)
    obtain p' calls where c: "consume_chunk p bytes = (p', calls)" by fastforce
    from ReadChunk Cons.prems have "\<not> now" "stream_ends rs" by simp_all
    with ReadChunk c Cons.prems Cons.IH [of "handle_calls opts s calls" p'] show ?thesis
      by simp
  qed (use Cons.prems in \<open>auto simp: Let_def\<close>)
qed

lemma attempt_recoverable:
  assumes "\<not> aborted s" "recoverable a"
  shows "case attempt_turn opts a s of (t, s') \<Rightarrow>
    t = GoOn \<and> \<not> aborted s' \<and> fetches s' = fetches s + 1"
proof -
  let ?s1 = "reconnect_pause opts a s"
  let ?s2 = "emit (Fetch (opt_url opts) (request_headers opts ?s1)) ?s1"
  have s1: "\<not> aborted ?s1" "fetches ?s1 = fetches s"
    using assms by (simp_all add: reconnect_pause_def recoverable_def Let_def)
  have resp: "case after_response opts status body ?s2 of (t, s') \<Rightarrow>
      t = GoOn \<and> \<not> aborted s' \<and> fetches s' = fetches s + 1"
    if "status \<noteq> 401" "status \<noteq> 403"
      "case body of None \<Rightarrow> True | Some reads \<Rightarrow> stream_ends reads" for status body
  proof (cases body)
    case None
    then show ?thesis using that s1 by (simp add: after_response_def)
  next
    case (Some reads)
    then show ?thesis
      using that s1 consume_recoverable [of "emit OnOpen (?s2\<lparr>consecutiveFailures := 0\<rparr>)"
          reads opts init_reader]
      by (auto simp: after_response_def catch_clause_def split: prod.splits)
  qed
  show ?thesis
    using assms s1 resp
    by (auto simp: attempt_turn_def Let_def recoverable_def catch_clause_def
        split: fetch_result.splits)
qed

text \<open>Nothing but an abort or a refusal of the credentials ends the client: through any number
  of failed attempts (dropped or broken streams, server errors, answers without a body, network
  errors) it stays in its loop, making exactly one request per attempt.\<close>

theorem sse_client_keeps_trying:
  assumes "list_all recoverable attempts" "isUsableWorkspaceId (opt_workspaceId opts)"
  shows "case createQueueEventStream opts False attempts of
    (t, s) \<Rightarrow> t = StillOpen \<and> fetches s = length attempts"
proof -
  have "case client_loop opts as s of (t, s') \<Rightarrow>
      t = StillOpen \<and> fetches s' = fetches s + length as"
    if "\<not> aborted s" "list_all recoverable as" for as s
    using that
  proof (induction as arbitrary: s)
    case Nil
    then show ?case by simp
  next
    case (Cons a as)
    then show ?case using attempt_recoverable [of s a opts] by (fastforce split: prod.splits)
  qed
  from this [of "start_state opts False" attempts] assms show ?thesis
    by (simp add: createQueueEventStream_def Let_def start_state_def fetches_def)
qed

lemma sse_client_keeps_trying_witness:
  "let opts = sample_options\<lparr>opt_workspaceId := Some (js ''123e4567-e89b-12d3-a456-426614174000'')\<rparr>;
       bad = \<lparr>at_abort_sleep = False, at_random = 0, at_abort_fetch = False,
              at_fetch = Response 503 None\<rparr>
   in case createQueueEventStream opts False [bad, bad, bad] of
        (t, s) \<Rightarrow> t = StillOpen \<and> fetches s = 3"
proof -
  let ?bad = "\<lparr>at_abort_sleep = False, at_random = 0, at_abort_fetch = False,
              at_fetch = Response 503 None\<rparr>"
  let ?opts = "sample_options\<lparr>opt_workspaceId := Some (js ''123e4567-e89b-12d3-a456-426614174000'')\<rparr>"
  have "list_all recoverable [?bad, ?bad, ?bad]" by (simp add: recoverable_def)
  moreover have "isUsableWorkspaceId (opt_workspaceId ?opts)"
    by (simp add: usable_iff uuid_trim [OF sample_uuid] sample_uuid)
  ultimately have "case createQueueEventStream ?opts False [?bad, ?bad, ?bad] of
      (t, s) \<Rightarrow> t = StillOpen \<and> fetches s = length [?bad, ?bad, ?bad]"
    by (rule sse_client_keeps_trying)
  moreover have "length [?bad, ?bad, ?bad] = 3" by simp
  ultimately show ?thesis unfolding Let_def by (simp only: prod.case_eq_if)
qed

end
