(* ===== verification/QueueStream.thy ===== *)
theory QueueStream
  imports SseClient QueueRealtime
begin

text \<open>
  The React side of the realtime stream: the connection status that
  \<open>features/queue/hooks/useQueueEventStream.ts\<close> derives from the callbacks of the SSE client,
  and the effects of \<open>hooks/useQueueRealtimeInvalidation.ts\<close>, which refetch after a reconnect
  and decide when polling takes over.
\<close>

section \<open>useQueueEventStream\<close>

datatype QueueEventStreamStatus = Connecting | Connected | Disconnected | StreamError

text \<open>What the mount effect does before it opens a stream.\<close>

definition initial_status :: "bool \<Rightarrow> QueueEventStreamStatus" where
  "initial_status enabled = (if enabled then Connecting else Disconnected)"

definition mount_status :: "bool \<Rightarrow> jstring option \<Rightarrow> jstring option \<Rightarrow> QueueEventStreamStatus" where
  "mount_status enabled token workspaceId =
     (if \<not> enabled then Disconnected
      else if \<not> truthy token \<or> \<not> truthy workspaceId then StreamError
      else Connecting)"

text \<open>The callbacks of a stream that is still mounted and not aborted.  Requests and sleeps are
  not visible to the hook.\<close>

fun status_step :: "QueueEventStreamStatus \<Rightarrow> 'e effect \<Rightarrow> QueueEventStreamStatus" where
  "status_step st OnOpen = Connected"
| "status_step st (OnReconnect n d) = Connecting"
| "status_step st (OnError err) =
     (if se_kind err = AbortedError then st
      else if se_fatal err then StreamError
      else Disconnected)"
| "status_step st (OnEvent e) = st"
| "status_step st (Fetch u h) = st"
| "status_step st (Sleep d) = st"

definition stream_status :: "'e effect list \<Rightarrow> QueueEventStreamStatus" where
  "stream_status effs = foldl status_step Connecting effs"

text \<open>\<open>onMessage\<close> and \<open>onError\<close> observers: late frames after unmount are dropped.\<close>

definition observed_events :: "bool \<Rightarrow> 'e effect list \<Rightarrow> 'e list" where
  "observed_events mounted effs =
     (if mounted then List.map_filter (\<lambda>eff. case eff of OnEvent e \<Rightarrow> Some e | _ \<Rightarrow> None) effs
      else [])"

lemma stream_status_snoc: "stream_status (effs @ [e]) = status_step (stream_status effs) e"
  by (simp add: stream_status_def)

text \<open>The status and the monitor of the client's trace move together.\<close>

definition status_agrees :: "QueueEventStreamStatus \<Rightarrow> monitor \<Rightarrow> bool" where
  "status_agrees st m = (case m of
     Alive f p \<Rightarrow>
       (st = Connected \<longrightarrow> f = 0) \<and> st \<noteq> StreamError \<and> (p \<noteq> NoPause \<longrightarrow> st = Connecting)
   | Dead \<Rightarrow> True)"

lemma status_agrees_watch:
  assumes "status_agrees st (Alive f p)"
  shows "case watch opts (Alive f p) e of
    None \<Rightarrow> True | Some m' \<Rightarrow> status_agrees (status_step st e) m'"
  using assms by (cases e; cases "p = NoPause") (simp_all add: status_agrees_def)

lemma status_agrees_step:
  assumes "status_agrees st m" "watch opts m e = Some m'"
  shows "status_agrees (status_step st e) m'"
proof (cases m)
  case (Alive f p)
  then show ?thesis using assms status_agrees_watch [where st = st and f = f and p = p and opts = opts and e = e] by simp
next
  case Dead
  then show ?thesis using assms by simp
qed

lemma status_agrees_run:
  "status_agrees st m \<Longrightarrow> watch_all opts m effs = Some m' \<Longrightarrow>
     status_agrees (foldl status_step st effs) m'"
  by (induction effs arbitrary: st m) (auto split: bind_splits dest: status_agrees_step)

text \<open>The status the screen shows is true to the stream: it is connected only while no failure
  happened since the stream last opened, so a lost stream is never shown as connected; and it is
  an error only after a fatal error.\<close>

theorem stream_status_honest:
  assumes "watch_all opts (Alive 0 NoPause)
      (trace (snd (createQueueEventStream opts ab attempts))) = Some (Alive f p)"
  shows "let st = stream_status (trace (snd (createQueueEventStream opts ab attempts)))
    in (st = Connected \<longrightarrow> f = 0 \<and> p = NoPause) \<and> st \<noteq> StreamError"
proof -
  have "status_agrees Connecting (Alive 0 NoPause)" by (simp add: status_agrees_def)
  from status_agrees_run [OF this assms] show ?thesis
    by (auto simp: status_agrees_def stream_status_def Let_def)
qed

text \<open>An unreadable frame on a healthy stream leaves the screen disconnected: after the parse
  error the status is \<open>disconnected\<close> and stays so while events keep arriving, although the
  stream was never lost, because only \<open>onOpen\<close> restores it.\<close>

theorem parse_error_shown_as_disconnected:
  "stream_status (effs @ [OnOpen, OnError (plain_failure ParseError parse_failed_text False)]
     @ map OnEvent evs) = Disconnected \<and>
   (watch_all opts (Alive 0 NoPause) effs = Some (Alive f NoPause) \<longrightarrow>
      watch_all opts (Alive 0 NoPause)
        (effs @ [OnOpen, OnError (plain_failure ParseError parse_failed_text False)]
          @ map OnEvent evs) = Some (Alive 0 NoPause))"
proof -
  have "foldl status_step st (map OnEvent evs) = st" for st
    by (induction evs arbitrary: st) simp_all
  moreover have "watch_all opts (Alive 0 NoPause) (map OnEvent evs) = Some (Alive 0 NoPause)"
    by (induction evs) simp_all
  ultimately show ?thesis
    by (simp add: stream_status_def plain_failure_def watch_all_append)
qed

section \<open>useQueueRealtimeInvalidation\<close>

text \<open>The refs and the state of the hook; \<open>rt_refetches\<close> counts the refetches of the whole queue
  after a reconnect.\<close>

record realtime =
  sawConnectingRef :: bool
  establishedConnectionRef :: bool
  pollingEnabled :: bool
  rt_refetches :: nat

definition fresh_realtime :: realtime where
  "fresh_realtime =
     \<lparr>sawConnectingRef = False, establishedConnectionRef = False, pollingEnabled = False,
      rt_refetches = 0\<rparr>"

text \<open>What the effects depend on.\<close>

record commit =
  cm_enabled :: bool
  cm_workspace :: "jstring option"
  cm_status :: QueueEventStreamStatus

definition workspace_effect :: "realtime \<Rightarrow> realtime" where
  "workspace_effect r =
     r\<lparr>sawConnectingRef := False, establishedConnectionRef := False, pollingEnabled := False\<rparr>"

definition status_effect :: "commit \<Rightarrow> realtime \<Rightarrow> realtime" where
  "status_effect c r =
     (if cm_status c = Connecting then r\<lparr>sawConnectingRef := True\<rparr>
      else if cm_status c \<noteq> Connected then r
      else if \<not> sawConnectingRef r then r
      else if \<not> establishedConnectionRef r then r\<lparr>establishedConnectionRef := True\<rparr>
      else if truthy (cm_workspace c) then r\<lparr>rt_refetches := rt_refetches r + 1\<rparr>
      else r)"

definition polling_effect :: "commit \<Rightarrow> realtime \<Rightarrow> realtime" where
  "polling_effect c r =
     (if \<not> cm_enabled c \<or> \<not> truthy (cm_workspace c) then
        r\<lparr>sawConnectingRef := False, establishedConnectionRef := False, pollingEnabled := False\<rparr>
      else if cm_status c = Connected \<or> cm_status c = StreamError
      then r\<lparr>pollingEnabled := False\<rparr>
      else if cm_status c = Disconnected then r\<lparr>pollingEnabled := True\<rparr>
      else r\<lparr>pollingEnabled := establishedConnectionRef r\<rparr>)"

text \<open>The effects of one commit: those whose dependencies changed run, in the order of the
  source.  The first commit runs them all (\<open>None\<close>).\<close>

definition commit_effects :: "commit option \<Rightarrow> commit \<Rightarrow> realtime \<Rightarrow> realtime" where
  "commit_effects prev c r =
     (let changed = (\<lambda>f. case prev of None \<Rightarrow> True | Some p \<Rightarrow> f p);
          r1 = (if changed (\<lambda>p. cm_workspace p \<noteq> cm_workspace c) then workspace_effect r else r);
          r2 = (if changed (\<lambda>p. cm_status p \<noteq> cm_status c \<or> cm_workspace p \<noteq> cm_workspace c)
                then status_effect c r1 else r1)
      in (if changed (\<lambda>p. cm_status p \<noteq> cm_status c \<or> cm_enabled p \<noteq> cm_enabled c \<or>
              cm_workspace p \<noteq> cm_workspace c)
          then polling_effect c r2 else r2))"

fun run_commits :: "commit option \<Rightarrow> commit list \<Rightarrow> realtime \<Rightarrow> realtime" where
  "run_commits prev [] r = r"
| "run_commits prev (c # cs) r = run_commits (Some c) cs (commit_effects prev c r)"

text \<open>What holds after each commit.\<close>

definition polling_right :: "commit \<Rightarrow> realtime \<Rightarrow> bool" where
  "polling_right c r \<longleftrightarrow>
     (if \<not> cm_enabled c \<or> \<not> truthy (cm_workspace c) then \<not> pollingEnabled r
      else case cm_status c of
        Connected \<Rightarrow> \<not> pollingEnabled r
      | StreamError \<Rightarrow> \<not> pollingEnabled r
      | Disconnected \<Rightarrow> pollingEnabled r
      | Connecting \<Rightarrow> pollingEnabled r = establishedConnectionRef r)"

lemma commit_polling_right:
  assumes "case prev of None \<Rightarrow> True | Some p \<Rightarrow> polling_right p r"
  shows "polling_right c (commit_effects prev c r)"
proof (cases "prev = Some c")
  case True
  then show ?thesis using assms by (simp add: commit_effects_def)
next
  case False
  then have "case prev of None \<Rightarrow> True | Some p \<Rightarrow> cm_status p \<noteq> cm_status c \<or>
      cm_enabled p \<noteq> cm_enabled c \<or> cm_workspace p \<noteq> cm_workspace c"
    by (cases prev) (auto intro: commit.equality)
  then have "\<exists>r2. commit_effects prev c r = polling_effect c r2"
    by (cases prev) (auto simp: commit_effects_def Let_def)
  then show ?thesis
    by (auto simp: polling_right_def polling_effect_def
        split: QueueEventStreamStatus.splits)
qed


text \<open>One session: the stream connects, and reconnects \<open>n\<close> times.\<close>

fun reconnects :: "jstring \<Rightarrow> nat \<Rightarrow> commit list" where
  "reconnects w 0 = []"
| "reconnects w (Suc n) =
     \<lparr>cm_enabled = True, cm_workspace = Some w, cm_status = Connecting\<rparr> #
     \<lparr>cm_enabled = True, cm_workspace = Some w, cm_status = Connected\<rparr> # reconnects w n"

lemma reconnects_run:
  assumes "w \<noteq> []" "establishedConnectionRef r" "sawConnectingRef r"
  shows "rt_refetches (run_commits
      (Some \<lparr>cm_enabled = True, cm_workspace = Some w, cm_status = Connected\<rparr>)
      (reconnects w n) r) = rt_refetches r + n"
  using assms
  by (induction n arbitrary: r)
    (simp_all add: commit_effects_def status_effect_def polling_effect_def)

text \<open>Events are not replayed, so every reconnect is followed by one refetch of the whole queue:
  a session that connects and then reconnects \<open>n\<close> times refetches exactly \<open>n\<close> times, and the
  first connection does not refetch.\<close>

theorem reconnect_refetches_once:
  assumes "w \<noteq> []"
  shows "rt_refetches (run_commits None (reconnects w (Suc n)) fresh_realtime) = n"
  using assms reconnects_run [of w _ n]
  by (simp add: commit_effects_def status_effect_def polling_effect_def workspace_effect_def
      fresh_realtime_def)

lemma reconnect_refetches_once_witness:
  "rt_refetches (run_commits None (reconnects (js ''w'') (Suc 2)) fresh_realtime) = 2"
  using reconnect_refetches_once [of "js ''w''" 2] by simp

lemma stream_status_honest_witness:
  "let opts = sample_options\<lparr>opt_workspaceId := Some (js ''123e4567-e89b-12d3-a456-426614174000'')\<rparr>;
       effs = trace (snd (createQueueEventStream opts False []))
   in stream_status effs \<noteq> StreamError"
proof -
  let ?opts = "sample_options\<lparr>opt_workspaceId := Some (js ''123e4567-e89b-12d3-a456-426614174000'')\<rparr>"
  have "isUsableWorkspaceId (opt_workspaceId ?opts)"
    by (simp add: usable_iff uuid_trim [OF sample_uuid] sample_uuid)
  then have "watch_all ?opts (Alive 0 NoPause)
      (trace (snd (createQueueEventStream ?opts False []))) = Some (Alive 0 NoPause)"
    by (simp add: createQueueEventStream_def Let_def start_state_def)
  from stream_status_honest [OF this] show ?thesis by (simp add: Let_def)
qed

lemma parse_error_shown_as_disconnected_witness:
  "watch_all sample_options (Alive 0 NoPause)
     [OnOpen, OnError (plain_failure ParseError parse_failed_text False), OnEvent (js ''x'')] =
   Some (Alive 0 NoPause)"
  using parse_error_shown_as_disconnected [of "[]" "[js ''x'']" sample_options 0] by simp

end
