(* ===== verification/ProductData.thy ===== *)
theory ProductData
  imports QueueModel
begin

text \<open>
  The data of the product inventory: \<open>frontend/src/features/products/types/api.ts\<close>, the
  normal form of what the server sends (\<open>lib/normalize.ts\<close>), the link to the publishing queue and
  the score bands (\<open>lib/inventory.ts\<close>, \<open>frontend/src/lib/product-score.ts\<close>), and the CSV export
  (\<open>lib/export.ts\<close>, which \<open>features/discovery/lib/export.ts\<close> repeats).
\<close>

section \<open>types/api.ts\<close>

datatype ProductStatus = PDraft | PActive | PInactive | PArchived

fun product_status_text :: "ProductStatus \<Rightarrow> jstring" where
  "product_status_text PDraft = js ''draft''"
| "product_status_text PActive = js ''active''"
| "product_status_text PInactive = js ''inactive''"
| "product_status_text PArchived = js ''archived''"

text \<open>The numeric fields have one type in a product and another in the raw answer; opaque JSON is
  kept as its text.\<close>

record ('n, 'm) product_of =
  p_id :: jstring
  p_aliexpress_product_id :: "jstring option"
  p_title :: jstring
  p_description :: "jstring option"
  p_price :: 'n
  p_original_price :: 'm
  p_discount :: 'n
  p_rating :: 'n
  p_sales :: 'n
  p_reviews :: 'n
  p_image_url :: jstring
  p_gallery_images :: "jstring list option"
  p_product_url :: jstring
  p_affiliate_url :: "jstring option"
  p_category :: "jstring option"
  p_store_name :: "jstring option"
  p_currency :: jstring
  p_commission_rate :: 'm
  p_shipping_info :: "jstring option"
  p_score :: 'n
  p_status :: ProductStatus
  p_last_synced_at :: "jstring option"
  p_created_at :: jstring
  p_updated_at :: jstring

type_synonym Product = "(jsnum, jsnum option) product_of"

record ('p, 'n) product_list_of =
  pl_items :: "'p list"
  pl_total :: 'n
  pl_skip :: 'n
  pl_limit :: 'n

datatype ProductTableDensity = PComfortable | PCompact

datatype ProductTableColumn =
  ColProduct | ColPrice | ColRating | ColSales | ColScore | ColStatus | ColActions

datatype ProductSort = SortNewest | ScoreDesc | SalesDesc | RatingDesc | PriceAsc | PriceDesc

section \<open>normalize.ts\<close>

text \<open>A numeric field as it comes: missing or null, a number, or a text.\<close>

datatype raw_number = NumberMissing | RawNumber jsnum | NumberText jstring

type_synonym RawProduct = "(raw_number, raw_number) product_of"

text \<open>What the value is converted to before the check for finiteness, unless it is empty.\<close>

definition converted :: "raw_number \<Rightarrow> jsnum option" where
  "converted value = (case value of
     NumberMissing \<Rightarrow> None
   | RawNumber n \<Rightarrow> Some n
   | NumberText s \<Rightarrow> if s = [] then None else Some (string_to_number s))"

definition toNumber :: "raw_number \<Rightarrow> jsnum" where
  "toNumber value = (case converted value of
     None \<Rightarrow> Num 0
   | Some parsed \<Rightarrow> if is_finite parsed then parsed else Num 0)"

definition toNullableNumber :: "raw_number \<Rightarrow> jsnum option" where
  "toNullableNumber value = (case converted value of
     None \<Rightarrow> None
   | Some parsed \<Rightarrow> if is_finite parsed then Some parsed else None)"

definition normalizeProduct :: "RawProduct \<Rightarrow> Product" where
  "normalizeProduct raw =
     \<lparr>p_id = p_id raw, p_aliexpress_product_id = p_aliexpress_product_id raw,
      p_title = p_title raw, p_description = p_description raw,
      p_price = toNumber (p_price raw), p_original_price = toNullableNumber (p_original_price raw),
      p_discount = toNumber (p_discount raw), p_rating = toNumber (p_rating raw),
      p_sales = toNumber (p_sales raw), p_reviews = toNumber (p_reviews raw),
      p_image_url = p_image_url raw, p_gallery_images = p_gallery_images raw,
      p_product_url = p_product_url raw, p_affiliate_url = p_affiliate_url raw,
      p_category = p_category raw, p_store_name = p_store_name raw, p_currency = p_currency raw,
      p_commission_rate = toNullableNumber (p_commission_rate raw),
      p_shipping_info = p_shipping_info raw, p_score = toNumber (p_score raw),
      p_status = p_status raw, p_last_synced_at = p_last_synced_at raw,
      p_created_at = p_created_at raw, p_updated_at = p_updated_at raw\<rparr>"

definition normalizeProductList ::
  "(RawProduct, raw_number) product_list_of \<Rightarrow> (Product, jsnum) product_list_of" where
  "normalizeProductList raw =
     \<lparr>pl_items = map normalizeProduct (pl_items raw), pl_total = toNumber (pl_total raw),
      pl_skip = toNumber (pl_skip raw), pl_limit = toNumber (pl_limit raw)\<rparr>"

section \<open>inventory.ts\<close>

record ProductPipelineState =
  hasContent :: bool
  ps_queued :: bool
  ps_published :: bool
  lowScore :: bool

text \<open>The map is a list of its entries in insertion order; an entry keeps the order of the items.\<close>

fun push_item :: "jstring \<Rightarrow> QueueItem \<Rightarrow> (jstring \<times> QueueItem list) list
    \<Rightarrow> (jstring \<times> QueueItem list) list" where
  "push_item k item [] = [(k, [item])]"
| "push_item k item ((k', items) # rest) =
     (if k' = k then (k', items @ [item]) # rest else (k', items) # push_item k item rest)"

definition indexQueueByProduct :: "QueueItem list \<Rightarrow> (jstring \<times> QueueItem list) list" where
  "indexQueueByProduct items =
     foldl (\<lambda>index item.
         if \<not> truthy (q_product_id item) then index
         else push_item (the (q_product_id item)) item index) [] items"

definition getProductPipelineState ::
  "Product \<Rightarrow> (jstring \<times> QueueItem list) list \<Rightarrow> ProductPipelineState" where
  "getProductPipelineState product queueIndex =
     (let queueItems = or_default (map_of queueIndex (p_id product)) [] in
      \<lparr>hasContent = queueItems \<noteq> [],
       ps_queued = list_ex (\<lambda>item. q_status item \<in> {Queued, Scheduled, Published}) queueItems,
       ps_published = list_ex (\<lambda>item. q_status item = Published) queueItems,
       lowScore = num_less (p_score product) (Num 55)\<rparr>)"

datatype score_tone = TSuccess | TInfo | TWarning | TError | TNeutral

definition excellent_text :: jstring where
  "excellent_text =
    [1605, 1605, 1578, 1575, 1586]"

definition high_potential_text :: jstring where
  "high_potential_text =
    [1573, 1605, 1603, 1575, 1606, 1575, 1578, 32, 1593, 1575, 1604, 1610, 1577]"

definition moderate_text :: jstring where
  "moderate_text =
    [1605, 1578, 1608, 1587, 1591]"

definition low_text :: jstring where
  "low_text =
    [1605, 1606, 1582, 1601, 1590]"

definition getScoreQuality :: "jsnum \<Rightarrow> jstring \<times> score_tone" where
  "getScoreQuality score =
     (if num_ge score (Num 85) then (excellent_text, TSuccess)
      else if num_ge score (Num 70) then (high_potential_text, TInfo)
      else if num_ge score (Num 55) then (moderate_text, TWarning)
      else (low_text, TError))"

section \<open>product-score.ts\<close>

datatype quality_key = Excellent | High | Moderate | Low

record ProductScoreQuality =
  quality :: quality_key
  sq_label :: jstring
  sq_tone :: score_tone
  minScore :: rat

definition high_possibility_text :: jstring where
  "high_possibility_text =
    [1573, 1605, 1603, 1575, 1606, 1610, 1577, 32, 1593, 1575, 1604, 1610, 1577]"

definition needs_review_text :: jstring where
  "needs_review_text =
    [1610, 1581, 1578, 1575, 1580, 32, 1605, 1585, 1575, 1580, 1593, 1577]"

definition QUALITY_BANDS :: "ProductScoreQuality list" where
  "QUALITY_BANDS =
     [\<lparr>quality = Excellent, sq_label = excellent_text, sq_tone = TSuccess, minScore = 85\<rparr>,
      \<lparr>quality = High, sq_label = high_possibility_text, sq_tone = TInfo, minScore = 70\<rparr>,
      \<lparr>quality = Moderate, sq_label = moderate_text, sq_tone = TWarning, minScore = 55\<rparr>,
      \<lparr>quality = Low, sq_label = needs_review_text, sq_tone = TNeutral, minScore = 0\<rparr>]"

definition getProductScoreQuality :: "jsnum \<Rightarrow> ProductScoreQuality" where
  "getProductScoreQuality score =
     or_default (List.find (\<lambda>band. num_ge score (Num (minScore band))) QUALITY_BANDS)
       (QUALITY_BANDS ! (length QUALITY_BANDS - 1))"

datatype factor_key = FRating | FSales | FDiscount | FReviews

record ProductScoreFactor =
  sf_key :: factor_key
  weightPercent :: nat
  inputValue :: jsnum

record ProductScoreBreakdown =
  sb_total :: jsnum
  sb_factors :: "ProductScoreFactor list"
  sb_from_backend :: bool

text \<open>What the scores are explained from; products and candidates of the discovery both have it.\<close>

record ProductScoreInput =
  si_score :: jsnum
  si_rating :: jsnum
  si_sales :: jsnum
  si_discount :: jsnum
  si_reviews :: jsnum
  score_breakdown :: "ProductScoreBreakdown option"

text \<open>The labels of the factors are presentation and left out.\<close>

definition getProductScoreBreakdown :: "ProductScoreInput \<Rightarrow> ProductScoreBreakdown" where
  "getProductScoreBreakdown product = (case score_breakdown product of
     Some b \<Rightarrow> b
   | None \<Rightarrow>
       \<lparr>sb_total = si_score product,
        sb_factors =
          [\<lparr>sf_key = FRating, weightPercent = 40, inputValue = si_rating product\<rparr>,
           \<lparr>sf_key = FSales, weightPercent = 30, inputValue = si_sales product\<rparr>,
           \<lparr>sf_key = FDiscount, weightPercent = 20, inputValue = si_discount product\<rparr>,
           \<lparr>sf_key = FReviews, weightPercent = 10, inputValue = si_reviews product\<rparr>],
        sb_from_backend = False\<rparr>)"

text \<open>For a finite price; the rate is a percentage.\<close>

definition estimateCommissionValue :: "rat \<Rightarrow> jsnum option \<Rightarrow> rat option" where
  "estimateCommissionValue price commissionRate = (case commissionRate of
     Some (Num r) \<Rightarrow> Some (price * r / 100)
   | _ \<Rightarrow> None)"

section \<open>export.ts\<close>

text \<open>A cell: null or undefined, or what \<open>String\<close> makes of it.\<close>

definition escapeCsv :: "jstring option \<Rightarrow> jstring" where
  "escapeCsv value =
     (let text = or_default value [] in
      if list_ex (\<lambda>c. c = 34 \<or> c = 44 \<or> c = 10) text
      then [34] @ concat (map (\<lambda>c. if c = 34 then [34, 34] else [c]) text) @ [34] else text)"

definition product_headers :: "jstring list" where
  "product_headers =
     map js [''id'', ''aliexpress_product_id'', ''title'', ''category'', ''store'', ''price'',
             ''currency'', ''rating'', ''sales'', ''score'', ''status'', ''product_url'']"

definition product_cells :: "(jsnum \<Rightarrow> jstring) \<Rightarrow> Product \<Rightarrow> jstring option list" where
  "product_cells num_text p =
     [Some (p_id p), p_aliexpress_product_id p, Some (p_title p), p_category p, p_store_name p,
      Some (num_text (p_price p)), Some (p_currency p), Some (num_text (p_rating p)),
      Some (num_text (p_sales p)), Some (num_text (p_score p)),
      Some (product_status_text (p_status p)), Some (p_product_url p)]"

definition csv_lines :: "jstring list \<Rightarrow> jstring option list list \<Rightarrow> jstring" where
  "csv_lines headers rows =
     join [10] (join [44] headers # map (\<lambda>cells. join [44] (map escapeCsv cells)) rows)"

text \<open>\<open>num_text\<close> is \<open>String\<close> of a number.\<close>

definition exportProductsCsv :: "(jsnum \<Rightarrow> jstring) \<Rightarrow> Product list \<Rightarrow> jstring" where
  "exportProductsCsv num_text products = csv_lines product_headers (map (product_cells num_text) products)"

section \<open>Lemmas on the normal form\<close>

lemma toNumber_finite [simp]: "is_finite (toNumber v)"
  by (simp add: toNumber_def split: option.splits)

lemma toNullableNumber_finite: "toNullableNumber v = Some n \<Longrightarrow> is_finite n"
  by (auto simp: toNullableNumber_def split: option.splits if_splits)

lemma toNumber_number [simp]: "is_finite n \<Longrightarrow> toNumber (RawNumber n) = n"
  by (simp add: toNumber_def converted_def)

text \<open>A product as the raw answer that would describe it.\<close>

definition as_raw :: "Product \<Rightarrow> RawProduct" where
  "as_raw p =
     \<lparr>p_id = p_id p, p_aliexpress_product_id = p_aliexpress_product_id p,
      p_title = p_title p, p_description = p_description p, p_price = RawNumber (p_price p),
      p_original_price =
        (case p_original_price p of None \<Rightarrow> NumberMissing | Some n \<Rightarrow> RawNumber n),
      p_discount = RawNumber (p_discount p), p_rating = RawNumber (p_rating p),
      p_sales = RawNumber (p_sales p), p_reviews = RawNumber (p_reviews p),
      p_image_url = p_image_url p, p_gallery_images = p_gallery_images p,
      p_product_url = p_product_url p, p_affiliate_url = p_affiliate_url p,
      p_category = p_category p, p_store_name = p_store_name p, p_currency = p_currency p,
      p_commission_rate =
        (case p_commission_rate p of None \<Rightarrow> NumberMissing | Some n \<Rightarrow> RawNumber n),
      p_shipping_info = p_shipping_info p, p_score = RawNumber (p_score p),
      p_status = p_status p, p_last_synced_at = p_last_synced_at p,
      p_created_at = p_created_at p, p_updated_at = p_updated_at p\<rparr>"

lemma toNullableNumber_again:
  "toNullableNumber (case toNullableNumber v of None \<Rightarrow> NumberMissing | Some n \<Rightarrow> RawNumber n) =
     toNullableNumber v"
proof (cases "toNullableNumber v")
  case None
  then show ?thesis by (simp add: toNullableNumber_def converted_def)
next
  case (Some n)
  then show ?thesis
    using toNullableNumber_finite [OF Some] by (simp add: toNullableNumber_def converted_def)
qed

text \<open>C35: whatever the server sends for a numeric field (a number, a decimal text, nothing, or
  garbage), the product only holds finite numbers: texts are read as JavaScript reads them, what
  cannot be read becomes 0, or null where null is allowed; the other fields are kept, and a
  normal form is its own normal form.\<close>

theorem normalizeProduct_finite:
  "list_all is_finite [p_price (normalizeProduct raw), p_discount (normalizeProduct raw),
      p_rating (normalizeProduct raw), p_sales (normalizeProduct raw),
      p_reviews (normalizeProduct raw), p_score (normalizeProduct raw)] \<and>
   pred_option is_finite (p_original_price (normalizeProduct raw)) \<and>
   pred_option is_finite (p_commission_rate (normalizeProduct raw)) \<and>
   p_price (normalizeProduct raw) = (case p_price raw of
      NumberMissing \<Rightarrow> Num 0
    | RawNumber n \<Rightarrow> if is_finite n then n else Num 0
    | NumberText s \<Rightarrow> if is_finite (string_to_number s) then string_to_number s else Num 0) \<and>
   normalizeProduct (as_raw (normalizeProduct raw)) = normalizeProduct raw"
proof -
  have n: "pred_option is_finite (toNullableNumber v)" for v
    using toNullableNumber_finite by (cases "toNullableNumber v") auto
  have e: "string_to_number [] = Num 0" by (simp add: string_to_number_def trim_eq_Nil_iff)
  have price: "toNumber v = (case v of NumberMissing \<Rightarrow> Num 0
      | RawNumber n \<Rightarrow> if is_finite n then n else Num 0
      | NumberText s \<Rightarrow> if is_finite (string_to_number s) then string_to_number s else Num 0)" if "v = p_price raw" for v
    by (auto simp: toNumber_def converted_def e split: raw_number.splits)
  have "p_price (normalizeProduct raw) = toNumber (p_price raw)"
    by (simp add: normalizeProduct_def)
  note price [OF refl, folded this]
  moreover have "normalizeProduct (as_raw (normalizeProduct raw)) = normalizeProduct raw"
    by (simp add: normalizeProduct_def as_raw_def toNullableNumber_again)
  moreover have "list_all is_finite [p_price (normalizeProduct raw), p_discount (normalizeProduct raw),
      p_rating (normalizeProduct raw), p_sales (normalizeProduct raw),
      p_reviews (normalizeProduct raw), p_score (normalizeProduct raw)] \<and>
      pred_option is_finite (p_original_price (normalizeProduct raw)) \<and>
      pred_option is_finite (p_commission_rate (normalizeProduct raw))"
    by (simp add: normalizeProduct_def n)
  ultimately show ?thesis by blast
qed

section \<open>Lemmas on the pipeline\<close>

lemma map_of_push_item:
  "map_of (push_item k item index) k' =
     (if k' = k then Some (or_default (map_of index k) [] @ [item]) else map_of index k')"
  by (induction k item index rule: push_item.induct) auto

lemma index_lookup:
  "k \<noteq> [] \<Longrightarrow> or_default (map_of (indexQueueByProduct items) k) [] =
     filter (\<lambda>item. q_product_id item = Some k) items"
proof (induction items rule: rev_induct)
  case Nil
  then show ?case by (simp add: indexQueueByProduct_def)
next
  case (snoc item items)
  then show ?case
    by (cases "q_product_id item") (auto simp: indexQueueByProduct_def map_of_push_item)
qed

text \<open>A product's place in the pipeline is read off the whole queue: it has content exactly when
  some queue item is about it, counts as queued when one of these is queued, scheduled or
  published, and as published when one is published; so a published product is queued, and a
  queued one has content.\<close>

theorem pipeline_state_of_queue:
  assumes "p_id product \<noteq> []"
  shows "let st = getProductPipelineState product (indexQueueByProduct items);
        about = filter (\<lambda>item. q_product_id item = Some (p_id product)) items
    in hasContent st = (about \<noteq> []) \<and>
       ps_queued st = (\<exists>item \<in> set about. q_status item \<in> {Queued, Scheduled, Published}) \<and>
       ps_published st = (\<exists>item \<in> set about. q_status item = Published) \<and>
       ps_published st \<le> ps_queued st \<and> ps_queued st \<le> hasContent st"
  unfolding getProductPipelineState_def index_lookup [OF assms]
  by (auto simp: Let_def list_ex_iff filter_empty_conv)

lemma pipeline_state_of_queue_witness:
  "ps_published (getProductPipelineState
     (normalizeProduct \<lparr>p_id = js ''p'', p_aliexpress_product_id = None, p_title = [],
      p_description = None, p_price = NumberText (js ''12.5''), p_original_price = NumberMissing,
      p_discount = NumberMissing, p_rating = NumberMissing, p_sales = NumberMissing,
      p_reviews = NumberMissing, p_image_url = [], p_gallery_images = None, p_product_url = [],
      p_affiliate_url = None, p_category = None, p_store_name = None, p_currency = [],
      p_commission_rate = NumberMissing, p_shipping_info = None, p_score = NumberMissing,
      p_status = PActive, p_last_synced_at = None, p_created_at = [], p_updated_at = []\<rparr>)
     (indexQueueByProduct [])) = False"
proof -
  let ?p = "normalizeProduct \<lparr>p_id = js ''p'', p_aliexpress_product_id = None, p_title = [],
      p_description = None, p_price = NumberText (js ''12.5''), p_original_price = NumberMissing,
      p_discount = NumberMissing, p_rating = NumberMissing, p_sales = NumberMissing,
      p_reviews = NumberMissing, p_image_url = [], p_gallery_images = None, p_product_url = [],
      p_affiliate_url = None, p_category = None, p_store_name = None, p_currency = [],
      p_commission_rate = NumberMissing, p_shipping_info = None, p_score = NumberMissing,
      p_status = PActive, p_last_synced_at = None, p_created_at = [], p_updated_at = []\<rparr>"
  have "p_id ?p \<noteq> []" by (simp add: normalizeProduct_def)
  from pipeline_state_of_queue [OF this, of "[]"] show ?thesis by (simp add: Let_def)
qed

section \<open>Lemmas on the scores\<close>

text \<open>The two score scales of the interface agree: they have the same four bands, at 85, 70 and 55,
  with the same tones but for the lowest one, every number, even NaN, falls in exactly one band,
  and a finite score is flagged as low exactly when it is in the lowest.\<close>

theorem score_scales_agree:
  "let score = p_score product; band = getProductScoreQuality score in
   snd (getScoreQuality score) = (if quality band = Low then TError else sq_tone band) \<and>
   (case score of
      Num q \<Rightarrow> quality band =
        (if 85 \<le> q then Excellent else if 70 \<le> q then High else if 55 \<le> q then Moderate else Low) \<and>
        lowScore (getProductPipelineState product index) = (quality band = Low)
    | PInf \<Rightarrow> quality band = Excellent
    | _ \<Rightarrow> quality band = Low)"
  by (cases "p_score product")
    (auto simp: getProductScoreQuality_def getScoreQuality_def QUALITY_BANDS_def
      getProductPipelineState_def Let_def)

section \<open>The exported table can be read back\<close>

text \<open>A reader of CSV with line feeds: outside quotes a comma ends the cell and a line feed the row;
  a quote at the start of a cell opens it, and inside a doubled quote stands for one.\<close>

datatype csv_mode = AtStart | Plain | InQuotes | AfterQuote

fun csv_read :: "csv_mode \<Rightarrow> jstring \<Rightarrow> jstring list \<Rightarrow> jstring \<Rightarrow> jstring list list" where
  "csv_read m cell row [] = [row @ [cell]]"
| "csv_read InQuotes cell row (c # s) =
     (if c = 34 then csv_read AfterQuote cell row s else csv_read InQuotes (cell @ [c]) row s)"
| "csv_read m cell row (c # s) =
     (if c = 44 then csv_read AtStart [] (row @ [cell]) s
      else if c = 10 then (row @ [cell]) # csv_read AtStart [] [] s
      else if c = 34 \<and> m = AtStart then csv_read InQuotes [] row s
      else if c = 34 \<and> m = AfterQuote then csv_read InQuotes (cell @ [34]) row s
      else csv_read Plain (cell @ [c]) row s)"

definition parse_csv :: "jstring \<Rightarrow> jstring list list" where
  "parse_csv s = csv_read AtStart [] [] s"

text \<open>What may follow a cell.\<close>

definition cell_end :: "jstring \<Rightarrow> bool" where
  "cell_end s \<longleftrightarrow> s = [] \<or> hd s = 44 \<or> hd s = 10"

lemma csv_read_end:
  assumes "cell_end s"
  shows "csv_read m cell row s = csv_read AfterQuote cell row s \<or> m = InQuotes"
  using assms by (cases s; cases m) (auto simp: cell_end_def)

lemma csv_read_plain:
  "list_all (\<lambda>c. c \<noteq> 34 \<and> c \<noteq> 44 \<and> c \<noteq> 10) u \<Longrightarrow> m \<in> {AtStart, Plain} \<Longrightarrow> cell_end s \<Longrightarrow>
     csv_read m cell row (u @ s) = csv_read AfterQuote (cell @ u) row s"
proof (induction u arbitrary: m cell)
  case Nil
  then show ?case using csv_read_end [of s m cell row] by auto
next
  case (Cons c u)
  then have "csv_read m cell row ((c # u) @ s) = csv_read Plain (cell @ [c]) row (u @ s)"
    by (cases m) auto
  also have "\<dots> = csv_read AfterQuote ((cell @ [c]) @ u) row s"
    using Cons.prems by (intro Cons.IH) auto
  finally show ?case by simp
qed

lemma csv_read_quoted:
  "cell_end s \<Longrightarrow>
     csv_read InQuotes cell row (concat (map (\<lambda>c. if c = 34 then [34, 34] else [c]) u) @ 34 # s) =
     csv_read AfterQuote (cell @ u) row s"
  by (induction u arbitrary: cell) auto

lemma csv_read_cell:
  assumes "cell_end s"
  shows "csv_read AtStart [] row (escapeCsv value @ s) =
    csv_read AfterQuote (or_default value []) row s"
proof (cases "list_ex (\<lambda>c. c = 34 \<or> c = 44 \<or> c = 10) (or_default value [])")
  case True
  then show ?thesis
    using csv_read_quoted [OF assms, of "[]" row "or_default value []"]
    by (simp add: escapeCsv_def Let_def)
next
  case False
  then have "list_all (\<lambda>c. c \<noteq> 34 \<and> c \<noteq> 44 \<and> c \<noteq> 10) (or_default value [])"
    by (auto simp: list_ex_iff list_all_iff)
  from csv_read_plain [OF this _ assms, of AtStart "[]" row] False show ?thesis
    by (simp add: escapeCsv_def Let_def)
qed

lemma cell_end_simps [simp]: "cell_end []" "cell_end (44 # s)" "cell_end (10 # s)"
  by (simp_all add: cell_end_def)

lemma csv_read_row:
  "cells \<noteq> [] \<Longrightarrow> s = [] \<or> hd s = 10 \<Longrightarrow>
     csv_read AtStart [] row (join [44] (map escapeCsv cells) @ s) =
     csv_read AfterQuote (or_default (last cells) [])
       (row @ map (\<lambda>v. or_default v []) (butlast cells)) s"
proof (induction cells arbitrary: row rule: induct_list012)
  case 1
  then show ?case by simp
next
  case (2 v)
  then have "cell_end s" by (auto simp: cell_end_def)
  then show ?case by (simp add: csv_read_cell)
next
  case (3 v w cells)
  have "csv_read AtStart [] row (join [44] (map escapeCsv (v # w # cells)) @ s) =
      csv_read AfterQuote (or_default v []) row (44 # join [44] (map escapeCsv (w # cells)) @ s)"
    using csv_read_cell [of "44 # join [44] (map escapeCsv (w # cells)) @ s" row v] by simp
  then show ?case using 3 by simp
qed

lemma map_butlast_last: "xs \<noteq> [] \<Longrightarrow> map f (butlast xs) @ [f (last xs)] = map f xs"
  by (cases xs rule: rev_cases) auto

lemma parse_csv_rows:
  "rows \<noteq> [] \<Longrightarrow> \<forall>cells \<in> set rows. cells \<noteq> [] \<Longrightarrow>
     parse_csv (join [10] (map (\<lambda>cells. join [44] (map escapeCsv cells)) rows)) =
     map (map (\<lambda>v. or_default v [])) rows"
proof (induction rows rule: induct_list012)
  case 1
  then show ?case by simp
next
  case (2 cells)
  then show ?case
    using csv_read_row [of cells "[]" "[]"] map_butlast_last [of cells "\<lambda>v. or_default v []"]
    by (simp add: parse_csv_def)
next
  case (3 cells cells' rows)
  let ?rest = "join [10] (map (\<lambda>cells. join [44] (map escapeCsv cells)) (cells' # rows))"
  have "csv_read AtStart [] [] (join [44] (map escapeCsv cells) @ 10 # ?rest) =
      map (\<lambda>v. or_default v []) cells # csv_read AtStart [] [] ?rest"
    using csv_read_row [of cells "10 # ?rest" "[]"] 3
      map_butlast_last [of cells "\<lambda>v. or_default v []"] by simp
  then show ?case using 3 by (simp add: parse_csv_def)
qed

text \<open>C34: the exported inventory can be read back: whatever the titles, categories and links hold
  (commas, quotes, line breaks), a CSV reader recovers from the file the header and every cell of
  every product, in order, an absent value as an empty cell.\<close>

theorem products_csv_round_trip:
  "parse_csv (exportProductsCsv num_text products) =
     product_headers # map (\<lambda>p. map (\<lambda>v. or_default v []) (product_cells num_text p)) products"
proof -
  have h: "join [44] product_headers = join [44] (map escapeCsv (map Some product_headers))"
    by code_simp
  have "product_headers \<noteq> []" by (simp add: product_headers_def)
  then have "parse_csv (exportProductsCsv num_text products) =
      map (map (\<lambda>v. or_default v [])) (map Some product_headers # map (product_cells num_text) products)"
    using parse_csv_rows [of "map Some product_headers # map (product_cells num_text) products"]
    by (simp add: exportProductsCsv_def csv_lines_def h comp_def product_cells_def del: join.simps)
  then show ?thesis by (simp add: comp_def)
qed

end
