(* ===== verification/Widgets.thy ===== *)
theory Widgets
  imports JsPrelude
begin

text \<open>
  What the screens share of \<open>frontend/src/components/ui/primitives.tsx\<close> and
  \<open>frontend/src/components/common\<close>: buttons with their guards, badges, dialogs, popovers, the toast
  with its timer, and the preview of an image under the pointer.  A view is the data it shows and the
  controls it offers; coordinates are exact numbers, and a closure is known by a number, which is new
  when the code makes a new closure.
\<close>

section \<open>primitives.tsx\<close>

datatype badge_tone = BadgeNeutral | BadgeSuccess | BadgeWarning | BadgeError | BadgeInfo

text \<open>A button and the action its handler takes.\<close>

record 'a control =
  ct_label :: jstring
  ct_disabled :: bool
  ct_loading :: bool
  ct_action :: 'a

definition Button :: "jstring \<Rightarrow> bool \<Rightarrow> bool \<Rightarrow> 'a \<Rightarrow> 'a control" where
  "Button label disabled loading action =
     \<lparr>ct_label = label, ct_disabled = (disabled \<or> loading), ct_loading = loading, ct_action = action\<rparr>"

definition offered :: "'a control list \<Rightarrow> 'a list" where
  "offered cs = map ct_action (filter (\<lambda>c. \<not> ct_disabled c) cs)"

text \<open>What happens in the window while a drawer or popover is open.\<close>

datatype window_event = PressInPanel | PressInAnchor | PressElsewhere | KeyDown jstring

definition Drawer_closes :: "bool \<Rightarrow> window_event \<Rightarrow> bool" where
  "Drawer_closes is_open e \<longleftrightarrow> is_open \<and> e = KeyDown (js ''Escape'')"

definition Popover_closes :: "bool \<Rightarrow> window_event \<Rightarrow> bool" where
  "Popover_closes is_open e \<longleftrightarrow>
     is_open \<and> (case e of
        PressInPanel \<Rightarrow> False
      | PressInAnchor \<Rightarrow> False
      | PressElsewhere \<Rightarrow> True
      | KeyDown k \<Rightarrow> k = js ''Escape'')"

record client_rect =
  rc_top :: rat
  rc_bottom :: rat
  rc_left :: rat
  rc_right :: rat

text \<open>Where a popover is put: top and left; the panel's size may not be known yet.\<close>

definition Popover_coords ::
  "bool \<Rightarrow> client_rect \<Rightarrow> (rat \<times> rat) option \<Rightarrow> rat \<times> rat \<Rightarrow> rat \<times> rat" where
  "Popover_coords align_end rect panel inner =
     (let panelWidth = (case panel of None \<Rightarrow> 280 | Some (w, _) \<Rightarrow> w);
          panelHeight = (case panel of None \<Rightarrow> 200 | Some (_, h) \<Rightarrow> h);
          gap = 8;
          left = (if align_end then rc_right rect - panelWidth else rc_left rect);
          upper = rc_bottom rect + gap;
          left' = min (max 8 left) (fst inner - panelWidth - 8);
          upper' = (if upper + panelHeight > snd inner - 8
                  then max 8 (rc_top rect - panelHeight - gap) else upper)
      in (upper', left'))"

section \<open>ConfirmDialog.tsx\<close>

definition ConfirmDialog ::
  "bool \<Rightarrow> jstring \<Rightarrow> jstring \<Rightarrow> bool \<Rightarrow> 'a \<Rightarrow> 'a \<Rightarrow> 'a control list" where
  "ConfirmDialog is_open cancelLabel confirmLabel busy cancel confirm =
     (if \<not> is_open then []
      else [Button cancelLabel busy False cancel, Button confirmLabel False busy confirm])"

section \<open>ToastOverlay.tsx\<close>

text \<open>The values the effect last ran with, and when its timer is due.\<close>

record toast_timer =
  tt_message :: "jstring option"
  tt_duration :: int
  tt_onDismiss :: nat
  tt_due :: "int option"

definition no_toast :: toast_timer where
  "no_toast = \<lparr>tt_message = None, tt_duration = 3500, tt_onDismiss = 0, tt_due = None\<rparr>"

text \<open>A render at time \<open>t\<close>: the effect runs again when one of its dependencies is new; the clean-up
  clears the old timer.\<close>

definition ToastOverlay_render ::
  "int \<Rightarrow> jstring option \<Rightarrow> int \<Rightarrow> nat \<Rightarrow> toast_timer \<Rightarrow> toast_timer" where
  "ToastOverlay_render t message duration onDismiss tt =
     (if tt_message tt = message \<and> tt_duration tt = duration \<and> tt_onDismiss tt = onDismiss then tt
      else \<lparr>tt_message = message, tt_duration = duration, tt_onDismiss = onDismiss,
            tt_due = (if truthy message then Some (t + duration) else None)\<rparr>)"

text \<open>The renders of a screen while it keeps its message, each with the closure it passes.\<close>

fun rendered :: "(nat \<Rightarrow> nat) \<Rightarrow> jstring \<Rightarrow> nat \<Rightarrow> int list \<Rightarrow> toast_timer \<Rightarrow> toast_timer" where
  "rendered closure message n [] tt = tt"
| "rendered closure message n (t # ts) tt =
     rendered closure message (Suc n) ts (ToastOverlay_render t (Some message) 3500 (closure n) tt)"

section \<open>ProductImageHoverPreview.tsx\<close>

record 'n hover_product =
  hp_src :: jstring
  hp_title :: jstring
  hp_price :: 'n
  hp_currency :: jstring
  hp_discount :: 'n

text \<open>The payload with its position, and the position the pending animation frame will set.\<close>

record 'n hover =
  hv_payload :: "('n hover_product \<times> rat \<times> rat) option"
  hv_frame :: "(rat \<times> rat) option"

definition no_hover :: "'n hover" where
  "no_hover = \<lparr>hv_payload = None, hv_frame = None\<rparr>"

datatype 'n hover_action =
  HoverShow "'n hover_product" rat rat | HoverMove rat rat | AnimationFrame | HoverHide

definition hover_step :: "'n hover \<Rightarrow> 'n hover_action \<Rightarrow> 'n hover" where
  "hover_step s a = (case a of
     HoverShow p x y \<Rightarrow> s\<lparr>hv_payload := Some (p, x, y)\<rparr>
   | HoverMove x y \<Rightarrow> s\<lparr>hv_frame := Some (x, y)\<rparr>
   | AnimationFrame \<Rightarrow>
       (case hv_frame s of
          None \<Rightarrow> s
        | Some (x, y) \<Rightarrow>
            s\<lparr>hv_payload := map_option (\<lambda>(p, _). (p, x, y)) (hv_payload s), hv_frame := None\<rparr>)
   | HoverHide \<Rightarrow> s\<lparr>hv_payload := None, hv_frame := None\<rparr>)"

definition PREVIEW_WIDTH :: rat where
  "PREVIEW_WIDTH = 260"

definition PREVIEW_HEIGHT :: rat where
  "PREVIEW_HEIGHT = 320"

text \<open>Left and top of the preview for a pointer and the inner size of the window.\<close>

definition preview_position :: "rat \<times> rat \<Rightarrow> rat \<Rightarrow> rat \<Rightarrow> rat \<times> rat" where
  "preview_position inner x y =
     (let left = (if x + 16 + PREVIEW_WIDTH > fst inner - 8 then x - PREVIEW_WIDTH - 16 else x + 16);
          upper = (if y + 16 + PREVIEW_HEIGHT > snd inner - 8 then snd inner - PREVIEW_HEIGHT - 8
                 else y + 16)
      in (max 8 left, max 8 upper))"

definition ProductImageHoverPreview ::
  "bool \<Rightarrow> bool \<Rightarrow> rat \<times> rat \<Rightarrow> 'n hover \<Rightarrow> ('n hover_product \<times> rat \<times> rat) option" where
  "ProductImageHoverPreview mounted canHover inner s =
     (if \<not> mounted \<or> \<not> canHover then None
      else map_option (\<lambda>(p, x, y). (p, preview_position inner x y)) (hv_payload s))"

section \<open>Lemmas\<close>

lemma those_Some: "those xs = Some ys \<longleftrightarrow> xs = map Some ys"
  by (induction xs arbitrary: ys) (auto split: option.splits)

lemma Button_simps [simp]:
  "ct_action (Button label d l a) = a" "ct_disabled (Button label d l a) = (d \<or> l)"
  "ct_label (Button label d l a) = label" "ct_loading (Button label d l a) = l"
  by (simp_all add: Button_def)

lemma offered_Nil [simp]: "offered [] = []"
  by (simp add: offered_def)

lemma offered_Cons [simp]:
  "offered (c # cs) = (if ct_disabled c then offered cs else ct_action c # offered cs)"
  by (simp add: offered_def)

lemma offered_append [simp]: "offered (cs @ ds) = offered cs @ offered ds"
  by (simp add: offered_def)

text \<open>All that a view offers is of a kind; disabled controls do not count.\<close>

definition controls_fit :: "('a \<Rightarrow> bool) \<Rightarrow> 'a control list \<Rightarrow> bool" where
  "controls_fit P cs \<longleftrightarrow> list_all P (offered cs)"

lemma controls_fit_simps [simp]:
  "controls_fit P []"
  "controls_fit P (c # cs) \<longleftrightarrow> (ct_disabled c \<or> P (ct_action c)) \<and> controls_fit P cs"
  "controls_fit P (cs @ ds) \<longleftrightarrow> controls_fit P cs \<and> controls_fit P ds"
  by (auto simp: controls_fit_def)

lemma controls_fit_concat: "(\<And>x. x \<in> set xs \<Longrightarrow> controls_fit P (f x)) \<Longrightarrow> controls_fit P (concat (map f xs))"
  by (induction xs) auto

lemma offered_fits: "controls_fit P cs \<Longrightarrow> a \<in> set (offered cs) \<Longrightarrow> P a"
  by (simp add: controls_fit_def list_all_iff)

text \<open>A busy dialog offers nothing, an open one that is not busy both of its buttons.\<close>

lemma ConfirmDialog_offers:
  "offered (ConfirmDialog is_open c k busy cancel confirm) =
     (if is_open \<and> \<not> busy then [cancel, confirm] else [])"
  by (simp add: ConfirmDialog_def)

lemma popover_in_window:
  assumes "Popover_coords align_end rect panel inner = (y, x)"
    and "(case panel of None \<Rightarrow> 280 | Some (w, _) \<Rightarrow> w) + 16 \<le> fst inner"
  shows "8 \<le> x \<and> x + (case panel of None \<Rightarrow> 280 | Some (w, _) \<Rightarrow> w) \<le> fst inner - 8"
  using assms by (auto simp: Popover_coords_def Let_def min_def max_def)

lemma rendered_new_closures:
  "tt_onDismiss tt < n \<or> tt_message tt \<noteq> Some m \<Longrightarrow> m \<noteq> [] \<Longrightarrow>
     tt_due (rendered id m n (t # ts) tt) = Some (last (t # ts) + 3500)"
proof (induction ts arbitrary: n t tt)
  case Nil
  then show ?case by (auto simp: ToastOverlay_render_def)
next
  case (Cons u us)
  let ?tt = "ToastOverlay_render t (Some m) 3500 n tt"
  have "tt_onDismiss ?tt < Suc n"
    using Cons.prems(1) by (auto simp: ToastOverlay_render_def)
  with Cons.prems(2) have "tt_due (rendered id m (Suc n) (u # us) ?tt) = Some (last (u # us) + 3500)"
    by (intro Cons.IH) simp_all
  then show ?case by (simp add: id_def)
qed

lemma rendered_same_closure:
  "tt_message tt = Some m \<Longrightarrow> tt_duration tt = 3500 \<Longrightarrow> tt_onDismiss tt = k \<Longrightarrow>
     rendered (\<lambda>_. k) m n ts tt = tt"
  by (induction ts arbitrary: n) (simp_all add: ToastOverlay_render_def)

text \<open>C39: a toast goes away 3.5 seconds after the last render of its screen, not after it was shown:
  the screens pass \<open>onDismiss\<close> as a new arrow function in each render, and every new function restarts
  the timer, so a screen that renders more often than that (typing, a refetch) keeps its toast; with
  one stable function the timer would run from the first render.\<close>

theorem toast_timer_restarts_with_every_render:
  "tt_due (rendered id (c # m) 1 (t # ts) no_toast) = Some (last (t # ts) + 3500) \<and>
   tt_due (rendered (\<lambda>_. 1) (c # m) 1 (t # ts) no_toast) = Some (t + 3500)"
proof
  show "tt_due (rendered id (c # m) 1 (t # ts) no_toast) = Some (last (t # ts) + 3500)"
    by (rule rendered_new_closures) (simp_all add: no_toast_def)
next
  have "rendered (\<lambda>_. 1) (c # m) 1 (t # ts) no_toast =
      ToastOverlay_render t (Some (c # m)) 3500 1 no_toast"
    by (simp add: rendered_same_closure ToastOverlay_render_def no_toast_def)
  then show "tt_due (rendered (\<lambda>_. 1) (c # m) 1 (t # ts) no_toast) = Some (t + 3500)"
    by (simp add: ToastOverlay_render_def no_toast_def)
qed

text \<open>The preview of an image stays on the screen and off the pointer: in any window of at least
  276 by 336, for a pointer within it, the preview keeps eight pixels from every edge; in a window of at
  least 552 the pointer is never over it, and in a narrower one it is beside the pointer or at the left
  edge.\<close>

theorem preview_stays_in_window:
  assumes "276 \<le> w" "336 \<le> h" "0 \<le> x" "x \<le> w" "0 \<le> y" "y \<le> h"
  shows "let (left, upper) = preview_position (w, h) x y
    in 8 \<le> left \<and> left + PREVIEW_WIDTH \<le> w - 8 \<and> 8 \<le> upper \<and> upper + PREVIEW_HEIGHT \<le> h - 8 \<and>
       (if 552 \<le> w then x < left \<or> left + PREVIEW_WIDTH < x else left = 8 \<or> left + 276 = x \<or> left = x + 16)"
  using assms
  by (auto simp: preview_position_def PREVIEW_WIDTH_def PREVIEW_HEIGHT_def Let_def max_def)

lemma preview_stays_in_window_witness:
  "preview_position (1024, 768) 1000 700 = (724, 440) \<and> 8 \<le> (724 :: rat)"
proof -
  have p: "preview_position (1024, 768) 1000 700 = (724, 440)"
    by (simp add: preview_position_def PREVIEW_WIDTH_def PREVIEW_HEIGHT_def max_def)
  show ?thesis
    using preview_stays_in_window [of 1024 768 1000 700] by (simp add: p)
qed

lemma hover_hidden:
  "hv_payload s = None \<Longrightarrow> (\<And>p x y. a \<noteq> HoverShow p x y) \<Longrightarrow> hv_payload (hover_step s a) = None"
  by (cases a) (auto simp: hover_step_def split: option.splits)

lemma hover_stays_hidden:
  "hv_payload s = None \<Longrightarrow> list_all (\<lambda>a. case a of HoverShow _ _ _ \<Rightarrow> False | _ \<Rightarrow> True) as \<Longrightarrow>
     hv_payload (foldl hover_step s as) = None"
proof (induction as arbitrary: s)
  case (Cons a as)
  have "hv_payload (hover_step s a) = None"
    using Cons.prems by (intro hover_hidden) (auto split: hover_action.splits)
  with Cons show ?case by simp
qed simp

end
