(* ===== verification/QueueControls.thy ===== *)
theory QueueControls
  imports QueueScheduling QueueStream ProductData Widgets
begin

text \<open>
  What the publishing screen shows of its state, and what can be pressed on it:
  \<open>frontend/src/features/queue/components\<close> (\<open>QueueTable\<close>, \<open>QueueActionsMenu\<close>,
  \<open>QueueHealthBadge\<close>, \<open>QueueDetailsDrawer\<close>, \<open>QueueToolbar\<close>, \<open>QueueSelectionBar\<close>) and the markup of
  \<open>QueueView.tsx\<close>.  A control carries the action of the screen that its handler starts, so that the
  views compose with the state machine of \<open>QueueScreen\<close>.  Formatting a date that cannot be read
  throws; a view that throws is \<open>None\<close>.
\<close>

section \<open>Badges\<close>

text \<open>How numbers and dates are written (\<open>toLocaleString\<close>, \<open>Intl.DateTimeFormat\<close>).\<close>

record formats =
  fm_count :: "nat \<Rightarrow> jstring"
  fm_number :: "int \<Rightarrow> jstring"
  fm_stamp :: "int \<Rightarrow> jstring"

definition format_stamp :: "formats \<Rightarrow> host \<Rightarrow> jstring \<Rightarrow> jstring option" where
  "format_stamp fm h value =
     (case date_parse h value of Num t \<Rightarrow> Some (fm_stamp fm \<lfloor>t\<rfloor>) | _ \<Rightarrow> None)"

definition publishing_label :: jstring where
  "publishing_label =
    [1602, 1610, 1583, 32, 1575, 1604, 1606, 1588, 1585]"

definition failed_label :: jstring where
  "failed_label =
    [1601, 1588, 1604]"

definition published_label :: jstring where
  "published_label =
    [1605, 1606, 1588, 1608, 1585]"

definition scheduled_label :: jstring where
  "scheduled_label =
    [1605, 1580, 1583, 1608, 1604]"

definition queued_label :: jstring where
  "queued_label =
    [1601, 1610, 32, 1575, 1604, 1575, 1606, 1578, 1592, 1575, 1585]"

definition draft_label :: jstring where
  "draft_label =
    [1605, 1587, 1608, 1583, 1577]"

definition QueueStatusBadge :: "QueueItem \<Rightarrow> bool \<Rightarrow> bool \<Rightarrow> jstring \<times> badge_tone" where
  "QueueStatusBadge item publishing failed =
     (if publishing then (publishing_label, BadgeInfo)
      else if q_status item = StatusFailed \<or> failed then (failed_label, BadgeError)
      else if q_status item = Published then (published_label, BadgeSuccess)
      else if q_status item = Scheduled then (scheduled_label, BadgeInfo)
      else if q_status item = Queued then (queued_label, BadgeInfo)
      else (draft_label, BadgeNeutral))"

definition ready_label :: jstring where
  "ready_label =
    [1580, 1575, 1607, 1586]"

definition missing_schedule_label :: jstring where
  "missing_schedule_label =
    [1610, 1606, 1602, 1589, 1607, 32, 1605, 1608, 1593, 1583]"

definition missing_channel_label :: jstring where
  "missing_channel_label =
    [1610, 1606, 1602, 1589, 1607, 32, 1602, 1606, 1575, 1577]"

definition error_label :: jstring where
  "error_label =
    [1582, 1591, 1571]"

fun HEALTH_META :: "QueueHealthStatus \<Rightarrow> jstring \<times> badge_tone" where
  "HEALTH_META HReady = (ready_label, BadgeSuccess)"
| "HEALTH_META HMissingSchedule = (missing_schedule_label, BadgeWarning)"
| "HEALTH_META HMissingChannel = (missing_channel_label, BadgeWarning)"
| "HEALTH_META HPublishing = (publishing_label, BadgeInfo)"
| "HEALTH_META HPublished = (published_label, BadgeSuccess)"
| "HEALTH_META HError = (error_label, BadgeError)"

text \<open>A plain badge, or the button whose popover shows the message and the time of the failure.\<close>

datatype health_badge = PlainBadge jstring badge_tone | FailureBadge jstring jstring

definition QueueHealthBadge ::
  "formats \<Rightarrow> host \<Rightarrow> QueueHealthStatus \<Rightarrow> QueuePublishFailure option \<Rightarrow> health_badge option" where
  "QueueHealthBadge fm h health failure =
     (case (health, failure) of
        (HError, Some f) \<Rightarrow>
          map_option (FailureBadge (fl_message f)) (format_stamp fm h (fl_occurredAt f))
      | _ \<Rightarrow> Some (PlainBadge (fst (HEALTH_META health)) (snd (HEALTH_META health))))"

section \<open>QueueActionsMenu.tsx\<close>

datatype menu_event = MenuButton | MenuChoice | MenuWindow window_event

definition menu_step :: "bool \<Rightarrow> menu_event \<Rightarrow> bool" where
  "menu_step is_open e = (case e of
     MenuButton \<Rightarrow> \<not> is_open
   | MenuChoice \<Rightarrow> False
   | MenuWindow w \<Rightarrow> (if Popover_closes is_open w then False else is_open))"

definition view_label :: jstring where
  "view_label =
    [1593, 1585, 1590, 32, 1575, 1604, 1578, 1601, 1575, 1589, 1610, 1604]"

definition reschedule_label :: jstring where
  "reschedule_label =
    [1573, 1593, 1575, 1583, 1577, 32, 1575, 1604, 1580, 1583, 1608, 1604, 1577]"

definition open_ai_label :: jstring where
  "open_ai_label =
    [1601, 1578, 1581, 32, 1601, 1610, 32, 65, 73, 32, 83, 116, 117, 100, 105, 111]"

definition delete_label :: jstring where
  "delete_label =
    [1581, 1584, 1601]"

definition QueueActionsMenu ::
  "bool \<Rightarrow> bool \<Rightarrow> 'a \<Rightarrow> 'a \<Rightarrow> 'a \<Rightarrow> 'a \<Rightarrow> 'a control list" where
  "QueueActionsMenu is_open canOpenAi onView onReschedule onOpenAi onDelete =
     (if \<not> is_open then []
      else [Button view_label False False onView, Button reschedule_label False False onReschedule,
            Button open_ai_label (\<not> canOpenAi) False onOpenAi,
            Button delete_label False False onDelete])"

section \<open>QueueTable.tsx\<close>

text \<open>\<open>new Map(items.map(...))\<close>: the last item of a key wins.\<close>

definition by_key :: "('b \<Rightarrow> 'k) \<Rightarrow> 'b list \<Rightarrow> 'k \<rightharpoonup> 'b" where
  "by_key f xs = map_of (rev (map (\<lambda>x. (f x, x)) xs))"

definition lookup_id :: "(jstring \<rightharpoonup> 'b) \<Rightarrow> jstring option \<Rightarrow> 'b option" where
  "lookup_id m i = (if truthy i then m (the i) else None)"

definition channel_label :: "Channel \<Rightarrow> jstring" where
  "channel_label c = or_default (nullish (ch_title c) (ch_username c)) (telegram_channel_id c)"

text \<open>What the queries of the screen have brought.\<close>

record queue_lookups =
  lk_products :: "Product list"
  lk_channels :: "Channel list"

definition productsById :: "queue_lookups \<Rightarrow> jstring \<rightharpoonup> Product" where
  "productsById d = by_key p_id (lk_products d)"

definition channelsById :: "queue_lookups \<Rightarrow> jstring \<rightharpoonup> Channel" where
  "channelsById d = by_key ch_id (lk_channels d)"

record queue_row =
  rw_title :: jstring
  rw_subtitle :: jstring
  rw_image :: "jstring option"
  rw_channel :: "jstring option"
  rw_schedule :: "jstring \<times> jstring option"
  rw_status :: "jstring \<times> badge_tone"
  rw_health :: health_badge
  rw_selected :: bool
  rw_link :: "jstring option"
  rw_controls :: "screen_action control list"

definition untitled_post :: jstring where
  "untitled_post =
    [1605, 1606, 1588, 1608, 1585, 32, 1576, 1583, 1608, 1606, 32, 1593, 1606, 1608, 1575,
     1606]"

definition standalone_post :: jstring where
  "standalone_post =
    [1605, 1581, 1578, 1608, 1609, 32, 1606, 1588, 1585, 32, 1605, 1587, 1578, 1602, 1604]"

definition publish_now_label :: jstring where
  "publish_now_label =
    [1606, 1588, 1585, 32, 1575, 1604, 1570, 1606]"

definition retry_label :: jstring where
  "retry_label =
    [1573, 1593, 1575, 1583, 1577, 32, 1575, 1604, 1605, 1581, 1575, 1608, 1604, 1577]"

definition telegram_prefix :: jstring where
  "telegram_prefix =
    [84, 101, 108, 101, 103, 114, 97, 109, 32, 8226, 32]"

definition item_title :: "QueueItem \<Rightarrow> Product option \<Rightarrow> jstring" where
  "item_title item product =
     or_default (nullish (q_title item) (map_option p_title product)) untitled_post"

definition item_image :: "QueueItem \<Rightarrow> Product option \<Rightarrow> jstring option" where
  "item_image item product =
     truthy_or_none (nullish (q_image_url item) (map_option p_image_url product))"

definition item_subtitle :: "Product option \<Rightarrow> jstring" where
  "item_subtitle product =
     (let parts = filter (\<lambda>v. v \<noteq> [])
        (List.map_filter id [Option.bind product p_category, Option.bind product p_store_name]);
          text_line = join [32, 183, 32] parts
      in if text_line = [] then standalone_post else text_line)"

definition publish_button :: "QueueItem \<Rightarrow> bool \<Rightarrow> screen_action control" where
  "publish_button item publishing =
     (if q_status item = StatusFailed
      then Button retry_label publishing publishing (RetryItem item)
      else Button publish_now_label (q_status item = Published \<or> publishing) publishing
             (PublishSelected [item]))"

definition canOpenAi :: "QueueItem \<Rightarrow> bool" where
  "canOpenAi item \<longleftrightarrow> truthy (q_product_id item) \<or> truthy (q_button_url item)"

text \<open>The controls of a row, from left to right: the row itself, its box, the image and the title,
  the schedule, the button, and the menu when it is open.\<close>

definition row_controls :: "QueueItem \<Rightarrow> jstring \<Rightarrow> bool \<Rightarrow> bool \<Rightarrow> screen_action control list" where
  "row_controls item title publishing menu_open =
     [Button title False False (ViewItem (q_id item)),
      Button title False False (UseTable (Toggle (q_id item))),
      Button title (\<not> truthy (q_product_id item)) False
        (OpenProduct (or_default (q_product_id item) [])),
      Button title False False (OpenSchedule [item]),
      publish_button item publishing] @
     QueueActionsMenu menu_open (canOpenAi item) (ViewItem (q_id item)) (OpenSchedule [item])
       (OpenAi item) (AskDelete [item])"

definition is_publishing :: "queue_screen \<Rightarrow> QueueItem \<Rightarrow> bool" where
  "is_publishing s item \<longleftrightarrow> q_id item \<in> set (publishingIds (qs_publishing s))"

definition item_failure :: "queue_screen \<Rightarrow> QueueItem \<Rightarrow> QueuePublishFailure option" where
  "item_failure s item = resolveQueueFailure item (failures (qs_publishing s) (q_id item))"

definition QueueTable_row ::
  "formats \<Rightarrow> host \<Rightarrow> queue_lookups \<Rightarrow> (jstring \<Rightarrow> bool) \<Rightarrow> queue_screen \<Rightarrow> QueueItem
     \<Rightarrow> queue_row option" where
  "QueueTable_row fm h d menus s item =
     (let product = lookup_id (productsById d) (q_product_id item);
          channel = lookup_id (channelsById d) (q_channel_id item);
          publishing = is_publishing s item;
          failure = item_failure s item;
          title = item_title item product
      in (case (formatQueueSchedule h item,
                QueueHealthBadge fm h (getQueueHealth item publishing failure) failure) of
            (Some schedule, Some health) \<Rightarrow>
              Some \<lparr>rw_title = title,
                    rw_subtitle = item_subtitle product,
                    rw_image = item_image item product,
                    rw_channel = map_option (\<lambda>c. telegram_prefix @ channel_label c) channel,
                    rw_schedule = schedule,
                    rw_status = QueueStatusBadge item publishing (failure \<noteq> None),
                    rw_health = health,
                    rw_selected = (q_id item \<in> set (selectedQueueItemIds (qs_table s))),
                    rw_link = truthy_or_none
                      (nullish (nullish (Option.bind product p_affiliate_url)
                                        (map_option p_product_url product)) (q_button_url item)),
                    rw_controls = row_controls item title publishing (menus (q_id item))\<rparr>
          | _ \<Rightarrow> None))"

section \<open>QueueDetailsDrawer.tsx\<close>

datatype attempts_report =
  AttemptsPending | AttemptsFailed | AttemptsHere "QueuePublishAttempt list"

record attempt_row =
  ar_number :: jstring
  ar_badge :: "jstring \<times> badge_tone"
  ar_time :: jstring
  ar_error :: "jstring option"

definition attempt_row_of :: "formats \<Rightarrow> host \<Rightarrow> QueuePublishAttempt \<Rightarrow> attempt_row option" where
  "attempt_row_of fm h a =
     map_option (\<lambda>time.
       \<lparr>ar_number = fm_number fm (attempt_number a),
        ar_badge = (formatAttemptStatus (att_status a),
          if att_status a = js ''succeeded'' then BadgeSuccess
          else if att_status a = js ''failed'' then BadgeError else BadgeInfo),
        ar_time = time,
        ar_error = (if att_status a = js ''failed'' \<and>
                       (truthy (error_message a) \<or> truthy (error_code a))
                    then nullish (error_message a) (error_code a) else None)\<rparr>)
       (format_stamp fm h (att_occurred_at a))"

datatype attempts_view = AttemptsLoading | AttemptsError | NoAttempts | AttemptRows "attempt_row list"

definition attempts_shown :: "formats \<Rightarrow> host \<Rightarrow> attempts_report \<Rightarrow> attempts_view option" where
  "attempts_shown fm h r = (case r of
     AttemptsPending \<Rightarrow> Some AttemptsLoading
   | AttemptsFailed \<Rightarrow> Some AttemptsError
   | AttemptsHere as \<Rightarrow>
       if as = [] then Some NoAttempts else map_option AttemptRows (those (map (attempt_row_of fm h) as)))"

record queue_drawer =
  dr_title :: jstring
  dr_image :: "jstring option"
  dr_health :: health_badge
  dr_retries :: "jstring option"
  dr_channel :: jstring
  dr_schedule :: jstring
  dr_content :: jstring
  dr_attempts :: attempts_view
  dr_status :: jstring
  dr_message_id :: "int option"
  dr_updated :: jstring
  dr_controls :: "screen_action control list"

definition no_channel_label :: jstring where
  "no_channel_label =
    [1594, 1610, 1585, 32, 1605, 1581, 1583, 1583, 1577]"

definition schedule_label :: jstring where
  "schedule_label =
    [1580, 1583, 1608, 1604, 1577]"

definition close_label :: jstring where
  "close_label =
    [1573, 1594, 1604, 1575, 1602]"

definition drawer_controls ::
  "QueueItem \<Rightarrow> bool \<Rightarrow> QueuePublishFailure option \<Rightarrow> screen_action control list" where
  "drawer_controls item publishing failure =
     (let isFailed = (q_status item = StatusFailed);
          canRetry = (q_status item \<noteq> Published)
      in [Button close_label False False CloseInspector,
          Button (if isFailed \<or> failure \<noteq> None then retry_label else publish_now_label)
            (\<not> canRetry \<or> publishing) publishing
            (if isFailed then RetryItem item else PublishSelected [item]),
          Button schedule_label False False (OpenSchedule [item]),
          Button (js ''AI Studio'') (\<not> truthy (q_product_id item) \<and> \<not> truthy (q_button_url item)) False
            (OpenAi item)])"

definition drawer_schedule :: "jstring \<times> jstring option \<Rightarrow> jstring" where
  "drawer_schedule schedule =
     (if truthy (snd schedule) then fst schedule @ [32, 8226, 32] @ the (snd schedule)
      else fst schedule)"

definition QueueDetailsDrawer ::
  "formats \<Rightarrow> host \<Rightarrow> queue_lookups \<Rightarrow> attempts_report \<Rightarrow> queue_screen \<Rightarrow> QueueItem
     \<Rightarrow> queue_drawer option" where
  "QueueDetailsDrawer fm h d report s item =
     (let product = lookup_id (productsById d) (q_product_id item);
          channel = lookup_id (channelsById d) (q_channel_id item);
          publishing = is_publishing s item;
          failure = item_failure s item
      in (case (formatQueueSchedule h item,
                QueueHealthBadge fm h (getQueueHealth item publishing failure) failure,
                attempts_shown fm h report, format_stamp fm h (q_updated_at item)) of
            (Some schedule, Some health, Some attempts, Some updated) \<Rightarrow>
              Some \<lparr>dr_title = item_title item product,
                    dr_image = item_image item product,
                    dr_health = health,
                    dr_retries = (if or_default (retry_count item) 0 > 0
                      then map_option (fm_number fm) (retry_count item) else None),
                    dr_channel = (case channel of
                        None \<Rightarrow> no_channel_label
                      | Some c \<Rightarrow> telegram_prefix @ channel_label c),
                    dr_schedule = drawer_schedule schedule,
                    dr_content = q_content item,
                    dr_attempts = attempts,
                    dr_status = status_text (q_status item),
                    dr_message_id = q_telegram_message_id item,
                    dr_updated = updated,
                    dr_controls = drawer_controls item publishing failure\<rparr>
          | _ \<Rightarrow> None))"

section \<open>QueueToolbar.tsx, QueueSelectionBar.tsx\<close>

definition showPollingBadge :: "QueueEventStreamStatus option \<Rightarrow> bool \<Rightarrow> bool" where
  "showPollingBadge status polling \<longleftrightarrow>
     status \<noteq> None \<and> polling \<and> (status = Some Disconnected \<or> status = Some Connecting)"

text \<open>The choices of the toolbar; the search box takes any text.\<close>

definition QueueToolbar_choices :: "Channel list \<Rightarrow> table_action list" where
  "QueueToolbar_choices channels =
     map SetStatusFilter
       [None, Some Draft, Some Queued, Some Scheduled, Some Published, Some StatusFailed] @
     map SetChannelFilter ([[], js ''missing''] @ map ch_id channels) @
     map SetSort [Newest, Oldest, ScheduleAsc, ScheduleDesc, ByStatus] @
     map SetDensity [Comfortable, Compact] @
     map SetPageSize [10, 25, 50, 100]"

definition clear_selection_label :: jstring where
  "clear_selection_label =
    [1605, 1587, 1581, 32, 1575, 1604, 1578, 1581, 1583, 1610, 1583]"

definition publish_selected_label :: jstring where
  "publish_selected_label =
    [1606, 1588, 1585, 32, 1575, 1604, 1605, 1581, 1583, 1583]"

definition reschedule_selected_label :: jstring where
  "reschedule_selected_label =
    [1573, 1593, 1575, 1583, 1577, 32, 1580, 1583, 1608, 1604, 1577, 32, 1575, 1604, 1605,
     1581, 1583, 1583]"

definition delete_selected_label :: jstring where
  "delete_selected_label =
    [1581, 1584, 1601, 32, 1575, 1604, 1605, 1581, 1583, 1583]"

definition QueueSelectionBar :: "nat \<Rightarrow> bool \<Rightarrow> QueueItem list \<Rightarrow> screen_action control list" where
  "QueueSelectionBar selectedCount busy selected =
     (if selectedCount = 0 then []
      else [Button clear_selection_label False False (UseTable ClearSelection),
            Button publish_selected_label busy busy (PublishSelected selected),
            Button reschedule_selected_label busy False (OpenSchedule selected),
            Button delete_selected_label busy False (AskDelete selected),
            Button draft_label busy False (ChangeStatus Draft),
            Button queued_label busy False (ChangeStatus Queued)])"

section \<open>The markup of QueueView.tsx\<close>

definition pageCount :: "host \<Rightarrow> queue_screen \<Rightarrow> nat" where
  "pageCount h s =
     (let n = length (filteredItems h (qs_table s) (qs_items s)); k = pageSize (qs_table s)
      in max 1 ((n + k - 1) div k))"

definition previous_label :: jstring where
  "previous_label =
    [1575, 1604, 1587, 1575, 1576, 1602]"

definition next_label :: jstring where
  "next_label =
    [1575, 1604, 1578, 1575, 1604, 1610]"

definition QueueView_pager :: "host \<Rightarrow> queue_screen \<Rightarrow> screen_action control list" where
  "QueueView_pager h s =
     (let t = qs_table s in
      [Button previous_label (page t = 0) False (UseTable (SetPage (page t - 1))),
       Button next_label
         ((page t + 1) * pageSize t \<ge> length (filteredItems h t (qs_items s))) False
         (UseTable (SetPage (page t + 1)))])"

datatype queue_body =
  QueueNoWorkspace | QueueLoading | QueueFailed jstring | QueueEmpty | QueueFilteredEmpty
| QueueRows "queue_row list" "screen_action control list"

text \<open>What the screen gets from its queries besides the list: the error of the list's query, the
  products and channels, the attempts of the inspected item, and whether an update or a deletion is
  under way.  \<open>menus\<close> tells which rows have their menu open.\<close>

record queue_report =
  qr_error :: "thrown option"
  qr_lookups :: queue_lookups
  qr_attempts :: attempts_report
  qr_updating :: bool
  qr_deleting :: bool
  qr_menus :: "jstring \<Rightarrow> bool"

definition queue_load_failed :: jstring where
  "queue_load_failed =
    [1578, 1593, 1584, 1585, 32, 1578, 1581, 1605, 1610, 1604, 32, 1593, 1605, 1604, 1610,
     1575, 1578, 32, 1575, 1604, 1606, 1588, 1585, 46]"

definition clear_filters_label :: jstring where
  "clear_filters_label =
    [1605, 1587, 1581, 32, 1593, 1608, 1575, 1605, 1604, 32, 1575, 1604, 1578, 1589, 1601,
     1610, 1577]"

definition QueueView_body :: "formats \<Rightarrow> host \<Rightarrow> queue_report \<Rightarrow> queue_screen \<Rightarrow> queue_body option" where
  "QueueView_body fm h r s =
     (if qs_isPending s then Some QueueLoading
      else (case qr_error r of
          Some e \<Rightarrow> Some (QueueFailed (getApiErrorMessage e queue_load_failed))
        | None \<Rightarrow>
            if qs_listItems s = [] then Some QueueEmpty
            else if filteredItems h (qs_table s) (qs_items s) = [] then Some QueueFilteredEmpty
            else map_option (\<lambda>rows. QueueRows rows (QueueView_pager h s))
                   (those (map (QueueTable_row fm h (qr_lookups r) (qr_menus r) s)
                      (pagedItems h (qs_table s) (qs_items s))))))"

record queue_shown =
  sw_body :: queue_body
  sw_drawer :: "queue_drawer option"
  sw_selection :: "screen_action control list"
  sw_confirm :: "screen_action control list"
  sw_allSelected :: bool

definition cancel_label :: jstring where
  "cancel_label =
    [1573, 1604, 1594, 1575, 1569]"

definition QueueView_shown ::
  "formats \<Rightarrow> host \<Rightarrow> queue_report \<Rightarrow> queue_screen \<Rightarrow> queue_shown option" where
  "QueueView_shown fm h r s =
     (if \<not> truthy (qs_workspace s)
      then Some \<lparr>sw_body = QueueNoWorkspace, sw_drawer = None, sw_selection = [], sw_confirm = [],
                 sw_allSelected = False\<rparr>
      else (case (QueueView_body fm h r s,
                  case activePost s of
                    None \<Rightarrow> Some None
                  | Some item \<Rightarrow>
                      map_option Some (QueueDetailsDrawer fm h (qr_lookups r) (qr_attempts r) s item)) of
          (Some body, Some drawer) \<Rightarrow>
            Some \<lparr>sw_body = body, sw_drawer = drawer,
                  sw_selection = QueueSelectionBar (length (selectedQueueItemIds (qs_table s)))
                    (qr_updating r \<or> qr_deleting r \<or> publishingIds (qs_publishing s) \<noteq> [])
                    (selectedItems (qs_table s) (qs_items s)),
                  sw_confirm = ConfirmDialog (qs_deleteTargets s \<noteq> []) cancel_label delete_label
                    (qr_deleting r) CancelDelete ConfirmDelete,
                  sw_allSelected = allPageSelected h (qs_table s) (qs_items s)\<rparr>
        | _ \<Rightarrow> None))"

section \<open>What can be pressed\<close>

definition select_page_label :: jstring where
  "select_page_label =
    [1578, 1581, 1583, 1610, 1583, 32, 1603, 1604, 32, 1605, 1606, 1588, 1608, 1585, 1575,
     1578, 32, 1575, 1604, 1589, 1601, 1581, 1577]"

text \<open>The buttons, boxes and rows of the screen.\<close>

definition shown_controls :: "queue_shown \<Rightarrow> screen_action control list" where
  "shown_controls v =
     (case sw_body v of
        QueueRows rows pager \<Rightarrow>
          concat (map rw_controls rows) @
          [Button select_page_label False False (UseTable ToggleAll)] @ pager
      | QueueFilteredEmpty \<Rightarrow>
          map (\<lambda>act. Button clear_filters_label False False (UseTable act))
            [SetSearch [], SetStatusFilter None, SetChannelFilter []]
      | _ \<Rightarrow> []) @
     (case sw_drawer v of None \<Rightarrow> [] | Some drawer \<Rightarrow> dr_controls drawer) @
     sw_selection v @ sw_confirm v"

text \<open>What a user can do in a state: press what is shown and enabled, choose in the toolbar, type in
  the search box, and, while the scheduling dialog is open, submit it or close it.\<close>

definition queue_offers ::
  "formats \<Rightarrow> host \<Rightarrow> queue_report \<Rightarrow> queue_screen \<Rightarrow> screen_action \<Rightarrow> bool" where
  "queue_offers fm h r s a =
     (case QueueView_shown fm h r s of
        None \<Rightarrow> False
      | Some v \<Rightarrow>
          sw_body v \<noteq> QueueNoWorkspace \<and>
          (a \<in> set (offered (shown_controls v)) \<or>
           (case a of
              UseTable (SetSearch _) \<Rightarrow> True
            | UseTable act \<Rightarrow> act \<in> set (QueueToolbar_choices (lk_channels (qr_lookups r)))
            | CloseSchedule \<Rightarrow> schedulingDialog s \<noteq> None
            | SaveSchedule _ _ \<Rightarrow> schedulingDialog s \<noteq> None
            | PublishNow _ \<Rightarrow> schedulingDialog s \<noteq> None
            | DismissToast \<Rightarrow> qs_toast s \<noteq> None
            | _ \<Rightarrow> False)))"

text \<open>The screen under its user and the world: a step is a press in what is shown then, or an answer.\<close>

definition press_step ::
  "host \<Rightarrow> (nat \<Rightarrow> jstring) \<Rightarrow> (jstring \<Rightarrow> jstring) \<Rightarrow> queue_server
     \<Rightarrow> queue_screen \<Rightarrow> queue_report \<times> screen_action \<Rightarrow> queue_screen" where
  "press_step h ar encode srv s ra = screen_step h ar encode srv s (snd ra)"

definition press_ok :: "formats \<Rightarrow> host \<Rightarrow> queue_screen \<Rightarrow> queue_report \<times> screen_action \<Rightarrow> bool" where
  "press_ok fm h s ra =
     (case snd ra of
        ListArrived _ \<Rightarrow> True
      | DetailArrived generation i detail \<Rightarrow>
          enrich_ok (qs_enrichment s) (DetailAnswered generation i detail)
      | SummariesDone _ \<Rightarrow> True
      | a \<Rightarrow> queue_offers fm h (fst ra) s a)"

section \<open>Lemmas\<close>

text \<open>What an action is about must be there.\<close>

fun action_items :: "screen_action \<Rightarrow> QueueItem list" where
  "action_items (OpenSchedule items) = items"
| "action_items (PublishSelected items) = items"
| "action_items (AskDelete items) = items"
| "action_items (RetryItem item) = [item]"
| "action_items (OpenAi item) = [item]"
| "action_items a = []"

definition fits :: "queue_screen \<Rightarrow> screen_action \<Rightarrow> bool" where
  "fits s a \<longleftrightarrow> set (action_items a) \<subseteq> set (qs_items s) \<and>
     (case a of
        UseTable (Toggle i) \<Rightarrow> i \<in> q_id ` set (qs_items s)
      | UseTable (ItemsChanged _) \<Rightarrow> False
      | ListArrived _ \<Rightarrow> False
      | DetailArrived _ _ _ \<Rightarrow> False
      | _ \<Rightarrow> True)"

abbreviation all_fit :: "queue_screen \<Rightarrow> screen_action control list \<Rightarrow> bool" where
  "all_fit s \<equiv> controls_fit (fits s)"

lemma row_controls_fit:
  "item \<in> set (qs_items s) \<Longrightarrow> all_fit s (row_controls item title publishing menu_open)"
  by (simp add: row_controls_def QueueActionsMenu_def publish_button_def fits_def)

lemma QueueTable_row_controls:
  "QueueTable_row fm h d menus s item = Some row \<Longrightarrow>
     \<exists>title. rw_controls row = row_controls item title (is_publishing s item) (menus (q_id item))"
  by (auto simp: QueueTable_row_def Let_def split: option.splits)

lemma body_rows_fit:
  assumes "QueueView_body fm h r s = Some (QueueRows rows pager)"
  shows "all_fit s (concat (map rw_controls rows))" "all_fit s pager"
proof -
  have rows: "map (QueueTable_row fm h (qr_lookups r) (qr_menus r) s)
      (pagedItems h (qs_table s) (qs_items s)) = map Some rows"
    and pager: "pager = QueueView_pager h s"
    using assms by (auto simp: QueueView_body_def those_Some split: if_splits option.splits)
  have "all_fit s (rw_controls row)" if "row \<in> set rows" for row
  proof -
    from that have "Some row \<in> set (map Some rows)" by simp
    then obtain item where "item \<in> set (pagedItems h (qs_table s) (qs_items s))"
      "QueueTable_row fm h (qr_lookups r) (qr_menus r) s item = Some row"
      unfolding rows [symmetric] by auto
    with paged_subset [of h "qs_table s" "qs_items s"] show ?thesis
      by (auto dest!: QueueTable_row_controls intro!: row_controls_fit)
  qed
  then show "all_fit s (concat (map rw_controls rows))" by (rule controls_fit_concat)
  show "all_fit s pager" by (simp add: pager QueueView_pager_def Let_def fits_def)
qed

lemma activePost_listed: "activePost s = Some item \<Longrightarrow> item \<in> set (qs_items s)"
  by (auto simp: activePost_def find_Some_iff split: option.splits if_splits)

lemma drawer_fits:
  "QueueDetailsDrawer fm h d report s item = Some drawer \<Longrightarrow> item \<in> set (qs_items s) \<Longrightarrow>
     all_fit s (dr_controls drawer)"
  by (auto simp: QueueDetailsDrawer_def drawer_controls_def Let_def fits_def split: option.splits)

lemma selection_fits: "all_fit s (QueueSelectionBar n busy (selectedItems (qs_table s) (qs_items s)))"
  by (auto simp: QueueSelectionBar_def selectedItems_def fits_def)

lemma shown_controls_fit:
  assumes "QueueView_shown fm h r s = Some v"
  shows "all_fit s (shown_controls v)"
proof (cases "truthy (qs_workspace s)")
  case False
  with assms show ?thesis by (auto simp: QueueView_shown_def shown_controls_def)
next
  case True
  with assms have body: "QueueView_body fm h r s = Some (sw_body v)"
    and drawer: "\<And>dr. sw_drawer v = Some dr \<Longrightarrow> \<exists>item. activePost s = Some item \<and>
      QueueDetailsDrawer fm h (qr_lookups r) (qr_attempts r) s item = Some dr"
    and bars: "all_fit s (sw_selection v)" "all_fit s (sw_confirm v)"
    by (auto simp: QueueView_shown_def selection_fits ConfirmDialog_def fits_def split: option.splits)
  have "all_fit s (case sw_drawer v of None \<Rightarrow> [] | Some dr \<Rightarrow> dr_controls dr)"
    using drawer by (auto split: option.splits dest!: activePost_listed intro: drawer_fits)
  with bars body body_rows_fit show ?thesis
    by (auto simp: shown_controls_def fits_def split: queue_body.splits)
qed

lemma offers_fit:
  assumes "queue_offers fm h r s a"
  shows "fits s a"
proof -
  from assms obtain v where v: "QueueView_shown fm h r s = Some v"
    by (auto simp: queue_offers_def split: option.splits)
  show ?thesis
  proof (cases "a \<in> set (offered (shown_controls v))")
    case True
    with shown_controls_fit [OF v] show ?thesis by (rule offered_fits)
  next
    case False
    with assms v show ?thesis
      by (cases a) (auto simp: queue_offers_def QueueToolbar_choices_def fits_def split: table_action.splits)
  qed
qed

lemma press_fits:
  "press_ok fm h s (r, a) \<Longrightarrow>
     (case a of ListArrived _ \<Rightarrow> True | DetailArrived _ _ _ \<Rightarrow> True | _ \<Rightarrow> fits s a)"
  using offers_fit [of fm h r s a] by (cases a) (auto simp: press_ok_def fits_def)

lemma press_screen_ok:
  assumes "press_ok fm h s ra"
  shows "screen_ok s (snd ra)"
proof (cases ra)
  case (Pair r a)
  with assms press_fits [of fm h s r a] show ?thesis
    by (cases a) (auto simp: screen_ok_def table_ok_def fits_def press_ok_def split: table_action.splits)
qed

section \<open>Which items the calls name\<close>

fun call_item :: "queue_call \<Rightarrow> jstring" where
  "call_item (UpdateCall i u) = i"
| "call_item (PublishCall i) = i"
| "call_item (DeleteCall i) = i"

text \<open>Everything the screen holds is about items of \<open>K\<close>.\<close>

definition knows :: "jstring set \<Rightarrow> queue_screen \<Rightarrow> bool" where
  "knows K s \<longleftrightarrow>
     call_item ` set (qs_calls s) \<subseteq> K \<and> q_id ` set (qs_listItems s) \<subseteq> K \<and>
     q_id ` set (qs_deleteTargets s) \<subseteq> K \<and>
     (\<forall>d. schedulingDialog s = Some d \<longrightarrow> set (sd_itemIds d) \<subseteq> K)"

lemma knows_toast [simp]: "knows K (set_toast t m s) = knows K s"
  by (simp add: knows_def set_toast_def)

lemma knows_clear [simp]: "knows K (clear_selection s) = knows K s"
  by (simp add: knows_def clear_selection_def)

lemma knows_mutation [simp]: "knows K (mutation_succeeded n s) = knows K s"
  by (simp add: knows_def mutation_succeeded_def)

lemma knows_fields [simp]:
  "knows K (s\<lparr>qs_publishing := p\<rparr>) = knows K s" "knows K (s\<lparr>qs_toast := t\<rparr>) = knows K s"
  "knows K (s\<lparr>activePostId := i\<rparr>) = knows K s" "knows K (s\<lparr>qs_routes := rs\<rparr>) = knows K s"
  "knows K (s\<lparr>qs_table := tb\<rparr>) = knows K s" "knows K (s\<lparr>qs_enrichment := e\<rparr>) = knows K s"
  "knows K (s\<lparr>qs_isPending := b\<rparr>) = knows K s"
  by (simp_all add: knows_def)

lemma knows_closed: "knows K s \<Longrightarrow> knows K (s\<lparr>schedulingDialog := None\<rparr>)"
  by (simp add: knows_def)

lemma knows_calls:
  "knows K s \<Longrightarrow> call_item ` set cs \<subseteq> K \<Longrightarrow> knows K (s\<lparr>qs_calls := qs_calls s @ cs\<rparr>)"
  by (auto simp: knows_def)

lemma knows_items:
  assumes "knows K s" "set items \<subseteq> set (qs_items s)"
  shows "q_id ` set items \<subseteq> K"
proof -
  have "q_id ` set items \<subseteq> q_id ` set (qs_items s)" using assms(2) by (rule image_mono)
  also have "\<dots> = q_id ` set (qs_listItems s)" by (simp add: qs_items_def)
  also have "\<dots> \<subseteq> K" using assms(1) by (simp add: knows_def)
  finally show ?thesis .
qed

lemma mutate_all_knows:
  assumes "mutate_all srv cs s = (r, s1)" "knows K s" "call_item ` set cs \<subseteq> K"
  shows "knows K s1"
proof (cases rule: mutate_all_cases [of srv cs s])
  case (Done s2)
  from Done(1) assms(1) have "s2 = s1" by simp
  with Done(3,4) assms(2,3) show ?thesis by (simp add: knows_def untouched_def image_Un)
next
  case (Stopped s2 k e)
  from Stopped(1) assms(1) have "s2 = s1" by simp
  moreover have "call_item ` set (take (Suc k) cs) \<subseteq> K"
    using assms(3) set_take_subset [of "Suc k" cs] by fastforce
  ultimately show ?thesis using Stopped(4,5) assms(2) by (simp add: knows_def untouched_def image_Un)
qed

lemma caught_knows: "knows K (snd es) \<Longrightarrow> knows K (caught m es)"
  by (cases es) (auto simp: caught_def split: option.splits)

lemma openSchedule_knows:
  "knows K s \<Longrightarrow> q_id ` set items \<subseteq> K \<Longrightarrow> openSchedule h items s = (r, s1) \<Longrightarrow> knows K s1"
  by (auto simp: openSchedule_def knows_def image_subset_iff split: list.splits sum.splits)

lemma publish_selected_knows:
  assumes "publish_selected h ar srv items s = (r, s1)" "knows K s" "q_id ` set items \<subseteq> K"
  shows "knows K s1"
proof (cases "items = [] \<or> \<not> (\<forall>item \<in> set items. truthy (q_channel_id item))")
  case True
  with assms show ?thesis
    by (auto simp: publish_selected_def list_ex_no_channel split: if_splits prod.splits option.splits
        intro: openSchedule_knows [OF assms(2,3)])
next
  case False
  with assms show ?thesis
    by (auto simp: publish_selected_def list_ex_no_channel Let_def knows_def clear_selection_def
        image_subset_iff split: prod.splits)
qed

lemma publish_knows:
  "knows K s \<Longrightarrow> q_id ` set items \<subseteq> K \<Longrightarrow> knows K (snd (publish_selected h ar srv items s))"
  using publish_selected_knows [of h ar srv items s] by (cases "publish_selected h ar srv items s") auto

lemma schedule_knows:
  "knows K s \<Longrightarrow> q_id ` set items \<subseteq> K \<Longrightarrow> knows K (snd (openSchedule h items s))"
  using openSchedule_knows [of K s items h] by (cases "openSchedule h items s") auto

lemma saveSchedule_knows: "knows K s \<Longrightarrow> knows K (saveSchedule h srv channelId scheduledAt s)"
proof (cases "schedulingDialog s")
  case (Some d)
  assume k: "knows K s"
  with Some have ids: "set (sd_itemIds d) \<subseteq> K" by (simp add: knows_def)
  have "knows K s1" if "mutate_all srv (map (\<lambda>i. UpdateCall i u) (sd_itemIds d)) s = (r, s1)" for r s1 u
    using mutate_all_knows [OF that k] ids by (auto simp: image_subset_iff)
  with Some k show ?thesis
    by (auto simp: saveSchedule_def intro!: caught_knows knows_closed split: sum.splits prod.splits option.splits)
qed (simp add: saveSchedule_def)

lemma publishFromDialog_knows: "knows K s \<Longrightarrow> knows K (publishFromDialog h ar srv channelId s)"
proof (cases "schedulingDialog s")
  case (Some d)
  assume k: "knows K s"
  let ?sel = "filter (\<lambda>item. q_id item \<in> set (sd_itemIds d)) (qs_items s)"
  have ids: "q_id ` set ?sel \<subseteq> K" by (rule knows_items [OF k]) auto
  have m: "knows K s1" if "mutate_all srv (map (\<lambda>item. UpdateCall (q_id item) u) ?sel) s = (r, s1)"
    for r s1 u
    using mutate_all_knows [OF that k] ids by (auto simp: image_subset_iff)
  have p: "knows K (snd (publish_selected h ar srv
      (map (\<lambda>item. item\<lparr>q_channel_id := c, q_status := Queued\<rparr>) ?sel) s1))"
    if "knows K s1" for s1 c
    using ids by (intro publish_knows [OF that]) (auto simp: image_subset_iff)
  from Some m show ?thesis
    by (auto simp: publishFromDialog_def Let_def intro!: caught_knows p knows_closed
        split: prod.splits option.splits)
qed (simp add: publishFromDialog_def)

lemma retryFailedItem_knows:
  assumes "\<And>past i u item. sv_update srv past i u = Inr item \<Longrightarrow> q_id item = i"
    and "knows K s" "q_id item \<in> K"
  shows "knows K (retryFailedItem h ar srv item s)"
proof -
  let ?u = "nextStatusAfterFailedRetry h item"
  have k1: "knows K (s\<lparr>qs_calls := qs_calls s @ [UpdateCall (q_id item) ?u]\<rparr>)"
    using assms(2,3) by (intro knows_calls) simp_all
  show ?thesis
  proof (cases "sv_update srv (qs_calls s) (q_id item) ?u")
    case (Inl e)
    with k1 show ?thesis by (auto simp: retryFailedItem_def Let_def intro!: caught_knows)
  next
    case (Inr updated)
    then have "q_id updated = q_id item" by (rule assms(1))
    then have "knows K (snd (publish_selected h ar srv [updated]
        (mutation_succeeded 1 (s\<lparr>qs_calls := qs_calls s @ [UpdateCall (q_id item) ?u]\<rparr>))))"
      using k1 assms(3) by (intro publish_knows) simp_all
    with Inr k1 show ?thesis by (auto simp: retryFailedItem_def Let_def intro!: caught_knows)
  qed
qed

lemma changeStatus_knows: "knows K s \<Longrightarrow> knows K (changeStatus srv status s)"
proof -
  assume k: "knows K s"
  let ?sel = "selectedItems (qs_table s) (qs_items s)"
  have ids: "q_id ` set ?sel \<subseteq> K" by (rule knows_items [OF k]) (auto simp: selectedItems_def)
  have "knows K s1" if "mutate_all srv (map (\<lambda>item. UpdateCall (q_id item) u) ?sel) s = (r, s1)"
    for r s1 u
    using mutate_all_knows [OF that k] ids by (auto simp: image_subset_iff)
  then show ?thesis
    by (auto simp: changeStatus_def intro!: caught_knows split: prod.splits option.splits)
qed

lemma confirmDelete_knows: "knows K s \<Longrightarrow> knows K (confirmDelete ar srv s)"
proof -
  assume k: "knows K s"
  then have ids: "q_id ` set (qs_deleteTargets s) \<subseteq> K" by (simp add: knows_def)
  obtain r s1 where m: "mutate_all srv (map (\<lambda>item. DeleteCall (q_id item)) (qs_deleteTargets s)) s = (r, s1)"
    by fastforce
  from mutate_all_knows [OF m k] ids have "knows K s1" by (auto simp: image_subset_iff)
  moreover have "knows K (s\<lparr>qs_deleteTargets := []\<rparr>)" if "knows K s" for s :: queue_screen
    using that by (simp add: knows_def)
  ultimately show ?thesis
    using m by (auto simp: confirmDelete_def Let_def intro!: caught_knows split: option.splits)
qed

lemma inspector_effect_knows [simp]: "knows K (inspector_effect s) = knows K s"
  by (simp add: inspector_effect_def split: option.splits)

lemma knows_listed: "knows K s \<Longrightarrow> q_id ` set items \<subseteq> K \<Longrightarrow> knows K (s\<lparr>qs_listItems := items\<rparr>)"
  by (simp add: knows_def)

lemma list_arrived_knows: "knows K s \<Longrightarrow> q_id ` set items \<subseteq> K \<Longrightarrow> knows K (list_arrived items s)"
  by (simp add: list_arrived_def enriched_effects_def knows_listed)

text \<open>A step keeps the screen within \<open>K\<close> when the server's lists do and its answers keep their ids.\<close>

definition keeps_ids :: "queue_server \<Rightarrow> bool" where
  "keeps_ids srv \<longleftrightarrow> (\<forall>past i u item. sv_update srv past i u = Inr item \<longrightarrow> q_id item = i)"

definition listed_ok ::
  "queue_server \<Rightarrow> formats \<Rightarrow> host \<Rightarrow> jstring set \<Rightarrow> queue_screen
     \<Rightarrow> queue_report \<times> screen_action \<Rightarrow> bool" where
  "listed_ok srv fm h K s ra \<longleftrightarrow> keeps_ids srv \<and> press_ok fm h s ra \<and>
     (case snd ra of ListArrived items \<Rightarrow> q_id ` set items \<subseteq> K | _ \<Rightarrow> True)"

lemma press_step_knows:
  assumes "knows K s" "listed_ok srv fm h K s ra"
  shows "knows K (press_step h ar encode srv s ra)"
proof (cases ra)
  case (Pair r a)
  have srv: "\<And>past i u item. sv_update srv past i u = Inr item \<Longrightarrow> q_id item = i"
    using assms(2) by (auto simp: keeps_ids_def listed_ok_def)
  have items: "q_id ` set (action_items a) \<subseteq> K"
  proof (rule knows_items [OF assms(1)])
    show "set (action_items a) \<subseteq> set (qs_items s)"
      using assms(2) Pair press_fits [of fm h s r a] by (cases a) (auto simp: listed_ok_def fits_def)
  qed
  show ?thesis
  proof (cases a)
    case (AskDelete items)
    with assms(1) items Pair show ?thesis by (auto simp: press_step_def screen_step_def knows_def)
  next
    case (OpenSchedule xs)
    with assms(1) items Pair show ?thesis
      by (simp add: press_step_def screen_step_def schedule_knows)
  next
    case (PublishSelected xs)
    with assms(1) items Pair show ?thesis
      by (simp add: press_step_def screen_step_def publish_knows)
  qed (use assms items Pair in \<open>auto simp: press_step_def screen_step_def listed_ok_def list_arrived_knows
    saveSchedule_knows publishFromDialog_knows retryFailedItem_knows [OF srv] changeStatus_knows
    confirmDelete_knows knows_closed openAi_def detail_arrived_def enriched_effects_def Let_def\<close>,
    (auto simp: knows_def)?)
qed

interpretation listed_screen: state_machine "press_step h ar encode srv" "listed_ok srv fm h K" "knows K"
  for h ar encode srv fm K
  by unfold_locales (rule press_step_knows)

interpretation pressed_screen: state_machine "press_step h ar encode srv" "press_ok fm h" screen_inv
  for h ar encode srv fm
  by unfold_locales (auto simp: press_step_def intro!: screen_step_inv press_screen_ok)

fun listed_ids :: "(queue_report \<times> screen_action) list \<Rightarrow> jstring set" where
  "listed_ids [] = {}"
| "listed_ids (ra # ras) =
     (case snd ra of ListArrived items \<Rightarrow> q_id ` set items | _ \<Rightarrow> {}) \<union> listed_ids ras"

lemma admissible_listed:
  "keeps_ids srv \<Longrightarrow> admissible step (press_ok fm h) s ras \<Longrightarrow> listed_ids ras \<subseteq> K \<Longrightarrow>
     admissible step (listed_ok srv fm h K) s ras"
  by (induction ras arbitrary: s) (auto simp: listed_ok_def split: screen_action.splits)

section \<open>Properties\<close>

text \<open>C16: whatever is pressed on the publishing screen, in whatever state its queries are, the screen
  keeps its selection within the list and its dialogs about something, and no request it ever makes
  names an item that the server did not list before or will list later in the session: updates,
  publications and deletions are only about listed items, as long as the server answers an update
  with the item it was about.\<close>

theorem queue_calls_name_listed_items:
  assumes "keeps_ids srv"
    and "admissible (press_step h ar encode srv) (press_ok fm h) (fresh_screen ws) actions"
  shows "let s = run (press_step h ar encode srv) (fresh_screen ws) actions
    in call_item ` set (qs_calls s) \<subseteq> listed_ids actions \<and>
       q_id ` set (qs_deleteTargets s) \<subseteq> listed_ids actions \<and>
       set (selectedQueueItemIds (qs_table s)) \<subseteq> set (map q_id (qs_listItems s)) \<and>
       (case schedulingDialog s of
          None \<Rightarrow> True
        | Some d \<Rightarrow> sd_itemIds d \<noteq> [] \<and> set (sd_itemIds d) \<subseteq> listed_ids actions)"
proof -
  let ?s = "run (press_step h ar encode srv) (fresh_screen ws) actions"
  have "knows (listed_ids actions) (fresh_screen ws)" by (simp add: knows_def fresh_screen_def)
  from listed_screen.run_inv [OF this admissible_listed [OF assms subset_refl]]
  have k: "knows (listed_ids actions) ?s" .
  have "screen_inv (fresh_screen ws)"
    by (simp add: fresh_screen_def screen_inv_defs qs_items_def table_inv_enriched initial_table_def
        enrich_inv_def fresh_enrichment_def)
  from pressed_screen.run_inv [OF this assms(2)] have "screen_inv ?s" .
  with k show ?thesis
    by (auto simp: Let_def knows_def screen_inv_defs qs_items_def table_inv_enriched split: option.splits)
qed


text \<open>The two badges of a row contradict each other in exactly two cases: a published item whose last
  attempt is known to have failed is shown as failed beside published, and an item that is published
  or failed already is shown as being published while a publication of it runs.\<close>

theorem queue_badges_disagree_exactly:
  "(QueueStatusBadge item publishing (failure \<noteq> None) = (failed_label, BadgeError) \<and>
      getQueueHealth item publishing failure \<noteq> HError \<longleftrightarrow>
      \<not> publishing \<and> q_status item = Published \<and> failure \<noteq> None) \<and>
   (QueueStatusBadge item publishing (failure \<noteq> None) = (publishing_label, BadgeInfo) \<and>
      getQueueHealth item publishing failure \<noteq> HPublishing \<longleftrightarrow>
      publishing \<and> q_status item \<in> {Published, StatusFailed})"
  by (cases "q_status item")
    (auto simp: QueueStatusBadge_def getQueueHealth_def failed_label_def publishing_label_def
      scheduled_label_def queued_label_def draft_label_def published_label_def)

text \<open>What a row refuses, the selection bar does: the button of a published item is disabled, but
  when the item is among the selected ones the bar still offers to publish them, and the request for
  the published item is sent again.\<close>

theorem selection_bar_publishes_published_items:
  assumes "item \<in> set (selectedItems (qs_table s) (qs_items s))" "q_status item = Published"
    and "\<forall>x \<in> set (selectedItems (qs_table s) (qs_items s)). truthy (q_channel_id x)"
  shows "let sel = selectedItems (qs_table s) (qs_items s);
        bar = QueueSelectionBar (length (selectedQueueItemIds (qs_table s))) False sel
    in PublishSelected [item] \<notin> set (offered (row_controls item title publishing menu_open)) \<and>
       PublishSelected sel \<in> set (offered bar) \<and>
       PublishCall (q_id item) \<in>
         set (drop (length (qs_calls s)) (qs_calls (screen_step h ar encode srv s (PublishSelected sel))))"
proof -
  let ?sel = "selectedItems (qs_table s) (qs_items s)"
  have "q_id item \<in> set (selectedQueueItemIds (qs_table s))" using assms(1) by (simp add: selectedItems_def)
  then have "selectedQueueItemIds (qs_table s) \<noteq> []" by auto
  moreover have "PublishCall (q_id item) \<in> set (map PublishCall (unique (map q_id ?sel)))"
    using assms(1) by auto
  ultimately show ?thesis
    using assms(2) publish_selected_ready(2) [OF assms(3), of h ar srv s]
    by (auto simp: Let_def QueueSelectionBar_def row_controls_def publish_button_def
        QueueActionsMenu_def screen_step_def)
qed

text \<open>The badge in the toolbar tells the truth about polling: after any history of the stream, it is
  shown exactly when the polling that stands in for the stream is on.\<close>

theorem polling_badge_honest:
  "let r = run_commits None (cs @ [c]) fresh_realtime
   in showPollingBadge (Some (cm_status c)) (pollingEnabled r) = pollingEnabled r"
proof -
  have "case prev of None \<Rightarrow> True | Some p \<Rightarrow> polling_right p r \<Longrightarrow>
      polling_right c (run_commits prev (cs @ [c]) r)" for prev r
    by (induction cs arbitrary: prev r) (simp_all add: commit_polling_right)
  from this [where prev = None] have "polling_right c (run_commits None (cs @ [c]) fresh_realtime)"
    by simp
  then show ?thesis
    by (auto simp: Let_def showPollingBadge_def polling_right_def split: if_splits
        QueueEventStreamStatus.splits)
qed

definition unreadable :: "host \<Rightarrow> jstring \<Rightarrow> bool" where
  "unreadable h value \<longleftrightarrow> (case date_parse h value of Num _ \<Rightarrow> False | _ \<Rightarrow> True)"

definition row_unreadable :: "host \<Rightarrow> queue_screen \<Rightarrow> QueueItem \<Rightarrow> bool" where
  "row_unreadable h s item \<longleftrightarrow>
     (let time = nullish (q_scheduled_at item) (q_published_at item);
          failure = item_failure s item
      in truthy time \<and> unreadable h (the time) \<or>
         getQueueHealth item (is_publishing s item) failure = HError \<and>
         (case failure of None \<Rightarrow> False | Some f \<Rightarrow> unreadable h (fl_occurredAt f)))"

lemma format_stamp_None: "format_stamp fm h v = None \<longleftrightarrow> unreadable h v"
  by (simp add: format_stamp_def unreadable_def split: jsnum.splits)

lemma schedule_None:
  "formatQueueSchedule h item = None \<longleftrightarrow>
     truthy (nullish (q_scheduled_at item) (q_published_at item)) \<and>
     unreadable h (the (nullish (q_scheduled_at item) (q_published_at item)))"
  by (simp add: formatQueueSchedule_def unreadable_def Let_def split: jsnum.splits)

lemma health_badge_None:
  "QueueHealthBadge fm h health failure = None \<longleftrightarrow> health = HError \<and>
     (case failure of None \<Rightarrow> False | Some f \<Rightarrow> unreadable h (fl_occurredAt f))"
  by (cases health) (auto simp: QueueHealthBadge_def format_stamp_None split: option.splits)

lemmas unreadable_simps = schedule_None health_badge_None format_stamp_None

lemma row_None: "QueueTable_row fm h d menus s item = None \<longleftrightarrow> row_unreadable h s item"
  using schedule_None [of h item]
    health_badge_None [of fm h "getQueueHealth item (is_publishing s item) (item_failure s item)" "item_failure s item"]
  by (auto simp: QueueTable_row_def row_unreadable_def Let_def simp del: not_None_eq
      split: option.splits)

lemma those_None: "those (map f xs) = None \<longleftrightarrow> list_ex (\<lambda>x. f x = None) xs"
  by (induction xs) (auto split: option.splits)

lemma QueueView_shown_None:
  "QueueView_shown fm h r s = None \<longleftrightarrow>
     truthy (qs_workspace s) \<and>
     (\<not> qs_isPending s \<and> qr_error r = None \<and>
        list_ex (row_unreadable h s) (pagedItems h (qs_table s) (qs_items s)) \<or>
      (case activePost s of
         None \<Rightarrow> False
       | Some item \<Rightarrow> row_unreadable h s item \<or> unreadable h (q_updated_at item) \<or>
           (case qr_attempts r of
              AttemptsHere as \<Rightarrow> list_ex (\<lambda>a. unreadable h (att_occurred_at a)) as
            | _ \<Rightarrow> False)))"
proof -
  have rows: "those (map (QueueTable_row fm h (qr_lookups r) (qr_menus r) s)
      (pagedItems h (qs_table s) (qs_items s))) = None \<longleftrightarrow>
      list_ex (row_unreadable h s) (pagedItems h (qs_table s) (qs_items s))"
    by (simp add: those_None row_None)
  have empty: "pagedItems h (qs_table s) (qs_items s) = []"
    if "qs_listItems s = [] \<or> filteredItems h (qs_table s) (qs_items s) = []"
  proof -
    have "set (pagedItems h (qs_table s) (qs_items s)) \<subseteq> set (filteredItems h (qs_table s) (qs_items s))"
      using set_slice_subset by (simp add: pagedItems_def)
    moreover have "qs_items s = []" if "qs_listItems s = []"
      using that by (simp add: qs_items_def enrichedItems_def)
    ultimately show ?thesis using that paged_subset [of h "qs_table s" "qs_items s"] by auto
  qed
  have body: "QueueView_body fm h r s = None \<longleftrightarrow> \<not> qs_isPending s \<and> qr_error r = None \<and>
      list_ex (row_unreadable h s) (pagedItems h (qs_table s) (qs_items s))"
    using rows empty by (auto simp: QueueView_body_def split: option.splits)
  have attempts: "attempts_shown fm h a = None \<longleftrightarrow>
      (case a of AttemptsHere as \<Rightarrow> list_ex (\<lambda>a. unreadable h (att_occurred_at a)) as | _ \<Rightarrow> False)" for a
    by (cases a) (simp_all add: attempts_shown_def those_None attempt_row_of_def format_stamp_None)
  have drawer: "QueueDetailsDrawer fm h (qr_lookups r) (qr_attempts r) s item = None \<longleftrightarrow>
      row_unreadable h s item \<or> unreadable h (q_updated_at item) \<or>
      attempts_shown fm h (qr_attempts r) = None" for item
    using schedule_None [of h item] format_stamp_None [of fm h "q_updated_at item"]
      health_badge_None [of fm h "getQueueHealth item (is_publishing s item) (item_failure s item)" "item_failure s item"]
    by (auto simp: QueueDetailsDrawer_def row_unreadable_def Let_def simp del: not_None_eq
        split: option.splits)
  show ?thesis
  proof (cases "activePost s")
    case None
    then show ?thesis unfolding body [symmetric]
      by (auto simp: QueueView_shown_def simp del: not_None_eq split: option.splits)
  next
    case (Some item)
    then have "QueueView_shown fm h r s = None \<longleftrightarrow> truthy (qs_workspace s) \<and>
        (QueueView_body fm h r s = None \<or>
         QueueDetailsDrawer fm h (qr_lookups r) (qr_attempts r) s item = None)"
      by (auto simp: QueueView_shown_def simp del: not_None_eq split: option.splits)
    with Some show ?thesis by (simp add: body drawer attempts)
  qed
qed


section \<open>A small session\<close>

definition plain_formats :: formats where
  "plain_formats = \<lparr>fm_count = (\<lambda>_. []), fm_number = (\<lambda>_. []), fm_stamp = (\<lambda>_. [])\<rparr>"

definition quiet_report :: queue_report where
  "quiet_report =
     \<lparr>qr_error = None, qr_lookups = \<lparr>lk_products = [], lk_channels = []\<rparr>, qr_attempts = AttemptsPending,
      qr_updating = False, qr_deleting = False, qr_menus = (\<lambda>_. False)\<rparr>"

definition echo_server :: queue_server where
  "echo_server =
     \<lparr>sv_update = (\<lambda>_ i _. Inr (sample_item i (js ''2024-01-01''))), sv_publish = (\<lambda>_ _. None),
      sv_delete = (\<lambda>_ _. None)\<rparr>"

text \<open>The list arrives, the user ticks the box of the page and makes its item a draft.\<close>

definition draft_session :: "(queue_report \<times> screen_action) list" where
  "draft_session = map (Pair quiet_report)
     [ListArrived [hd sample_items], UseTable ToggleAll, ChangeStatus Draft]"

lemma body_of_shown:
  "QueueView_shown fm h r s = Some v \<Longrightarrow> truthy (qs_workspace s) \<Longrightarrow>
     QueueView_body fm h r s = Some (sw_body v) \<and>
     sw_selection v = QueueSelectionBar (length (selectedQueueItemIds (qs_table s)))
       (qr_updating r \<or> qr_deleting r \<or> publishingIds (qs_publishing s) \<noteq> [])
       (selectedItems (qs_table s) (qs_items s))"
  by (auto simp: QueueView_shown_def split: option.splits)

lemma workspace_shown: "QueueView_body fm h r s \<noteq> Some QueueNoWorkspace"
  by (auto simp: QueueView_body_def split: option.splits)

lemma toggle_all_offered:
  assumes "QueueView_shown fm h r s \<noteq> None" "truthy (qs_workspace s)" "\<not> qs_isPending s"
    "qr_error r = None" "filteredItems h (qs_table s) (qs_items s) \<noteq> []" "qs_listItems s \<noteq> []"
  shows "queue_offers fm h r s (UseTable ToggleAll)"
proof -
  from assms(1) obtain v where v: "QueueView_shown fm h r s = Some v" by blast
  from body_of_shown [OF this assms(2)] obtain rows pager where "sw_body v = QueueRows rows pager"
    using assms(3-6) by (cases "sw_body v") (auto simp: QueueView_body_def)
  with v show ?thesis by (simp add: queue_offers_def shown_controls_def)
qed

lemma selection_offered:
  assumes "QueueView_shown fm h r s \<noteq> None" "truthy (qs_workspace s)"
    "a \<in> set (offered (QueueSelectionBar (length (selectedQueueItemIds (qs_table s)))
       (qr_updating r \<or> qr_deleting r \<or> publishingIds (qs_publishing s) \<noteq> [])
       (selectedItems (qs_table s) (qs_items s))))"
  shows "queue_offers fm h r s a"
proof -
  from assms(1) obtain v where v: "QueueView_shown fm h r s = Some v" by blast
  from body_of_shown [OF this assms(2)] workspace_shown [of fm h r s] assms(3) v
  show ?thesis by (auto simp: queue_offers_def shown_controls_def)
qed

lemma draft_session_pressed:
  "admissible (press_step (utc_host 0) (\<lambda>n. []) id echo_server) (press_ok plain_formats (utc_host 0))
     (fresh_screen (Some (js ''w''))) draft_session"
proof -
  let ?step = "screen_step (utc_host 0) (\<lambda>n. []) id echo_server"
  let ?i = "hd sample_items"
  let ?s1 = "?step (fresh_screen (Some (js ''w''))) (ListArrived [?i])"
  let ?s2 = "?step ?s1 (UseTable ToggleAll)"
  have f: "qs_workspace ?s1 = Some (js ''w'')" "qs_isPending ?s1 = False" "qs_items ?s1 = [?i]"
    "qs_listItems ?s1 = [?i]" "activePostId ?s1 = None" "failures (qs_publishing ?s1) (q_id ?i) = None"
    "publishingIds (qs_publishing ?s1) = []"
    "filteredItems (utc_host 0) (qs_table ?s1) [?i] = [?i]"
    "pagedItems (utc_host 0) (qs_table ?s1) [?i] = [?i]"
    by code_simp+
  have g: "qs_workspace ?s2 = qs_workspace ?s1" "qs_isPending ?s2 = qs_isPending ?s1"
    "qs_items ?s2 = qs_items ?s1" "activePostId ?s2 = activePostId ?s1"
    "qs_publishing ?s2 = qs_publishing ?s1"
    by (simp_all add: screen_step_def qs_items_def)
  have t: "selectedQueueItemIds (qs_table ?s2) = [js ''a'']"
    "pagedItems (utc_host 0) (qs_table ?s2) [?i] = [?i]"
    by code_simp+
  have i: "q_scheduled_at ?i = None" "q_published_at ?i = None" "q_status ?i = Queued"
    "last_attempt ?i = None" "failure_reason ?i = None"
    by (simp_all add: sample_items_def sample_item_def)
  have "item_failure s ?i = None" if "failures (qs_publishing s) (q_id ?i) = None" for s
    using that i by (simp add: item_failure_def resolveQueueFailure_def failureFromQueueItem_def
        nullish_def truthy_def Let_def)
  then have r: "\<not> row_unreadable (utc_host 0) ?s1 ?i" "\<not> row_unreadable (utc_host 0) ?s2 ?i"
    using f(6) i by (simp_all add: row_unreadable_def nullish_def truthy_def Let_def g(5))
  have shown: "QueueView_shown plain_formats (utc_host 0) quiet_report ?s1 \<noteq> None"
    "QueueView_shown plain_formats (utc_host 0) quiet_report ?s2 \<noteq> None"
    unfolding QueueView_shown_None using r by (simp_all add: f g t activePost_def)
  have w: "truthy (qs_workspace ?s1)" "truthy (qs_workspace ?s2)" by (simp_all add: f g truthy_def)
  have "queue_offers plain_formats (utc_host 0) quiet_report ?s1 (UseTable ToggleAll)"
    using shown(1) w(1) by (intro toggle_all_offered) (simp_all add: f quiet_report_def)
  moreover have "queue_offers plain_formats (utc_host 0) quiet_report ?s2 (ChangeStatus Draft)"
    using shown(2) w(2) by (intro selection_offered)
      (simp_all add: f g t quiet_report_def QueueSelectionBar_def)
  ultimately show ?thesis by (simp add: draft_session_def press_ok_def press_step_def)
qed

lemma draft_session_calls:
  "qs_calls (run (press_step (utc_host 0) (\<lambda>n. []) id echo_server)
     (fresh_screen (Some (js ''w''))) draft_session) =
   [UpdateCall (js ''a'') (no_update\<lparr>u_status := Given Draft\<rparr>)]"
  by code_simp

lemma queue_calls_name_listed_items_witness:
  "js ''a'' \<in> listed_ids draft_session \<and>
   qs_calls (run (press_step (utc_host 0) (\<lambda>n. []) id echo_server)
     (fresh_screen (Some (js ''w''))) draft_session) =
   [UpdateCall (js ''a'') (no_update\<lparr>u_status := Given Draft\<rparr>)]"
proof -
  have "keeps_ids echo_server" by (simp add: keeps_ids_def echo_server_def sample_item_def)
  from queue_calls_name_listed_items [OF this draft_session_pressed]
  show ?thesis by (simp add: Let_def draft_session_calls)
qed

definition published_screen :: queue_screen where
  "published_screen =
     (let item = (hd sample_items)\<lparr>q_status := Published, q_channel_id := Some (js ''c'')\<rparr> in
      (fresh_screen (Some (js ''w'')))
        \<lparr>qs_listItems := [item], qs_isPending := False,
         qs_table := initial_table\<lparr>selectedQueueItemIds := [js ''a'']\<rparr>\<rparr>)"

lemma selection_bar_publishes_published_items_witness:
  "PublishCall (js ''a'') \<in> set (qs_calls (screen_step (utc_host 0) (\<lambda>n. []) id echo_server
     published_screen (PublishSelected (qs_items published_screen))))"
proof -
  let ?item = "(hd sample_items)\<lparr>q_status := Published, q_channel_id := Some (js ''c'')\<rparr>"
  have sel: "selectedItems (qs_table published_screen) (qs_items published_screen) = [?item]"
    and items: "qs_items published_screen = [?item]" "qs_calls published_screen = []"
    and i: "q_id ?item = js ''a''" and t: "truthy (q_channel_id ?item)" "q_status ?item = Published"
    by code_simp+
  note sel' = sel [unfolded items]
  show ?thesis
    using selection_bar_publishes_published_items [of ?item published_screen "[]" False False "utc_host 0"
        "\<lambda>n. []" id echo_server]
    unfolding items sel' Let_def i using t by simp
qed

end
