(* ===== verification/DiscoveryData.thy ===== *)
theory DiscoveryData
  imports ProductData
begin

text \<open>
  The data of product discovery: \<open>frontend/src/features/discovery/types/api.ts\<close>, the normal form of
  the server's answers (\<open>lib/normalize.ts\<close>), the request a search becomes and the answer of the
  recommendations (\<open>api/discovery.api.ts\<close>), the preferences and the stored session
  (\<open>lib/ui-prefs.ts\<close>, \<open>lib/session.ts\<close>), the labels of the filters (\<open>lib/filter-labels.ts\<close>) and
  the CSV export (\<open>lib/export.ts\<close>).
\<close>

section \<open>types/api.ts\<close>

datatype DiscoveryMode = General | Hot | Deals | Trending | CategoryMode | Recommended

fun mode_text :: "DiscoveryMode \<Rightarrow> jstring" where
  "mode_text General = js ''general''"
| "mode_text Hot = js ''hot''"
| "mode_text Deals = js ''deals''"
| "mode_text Trending = js ''trending''"
| "mode_text CategoryMode = js ''category''"
| "mode_text Recommended = js ''recommended''"

datatype DiscoverySort =
  OrdersDesc | DRatingDesc | DiscountDesc | DPriceAsc | DPriceDesc | CommissionDesc | DNewest

datatype TableDensity = DComfortable | DCompact

datatype DiscoveryTableColumn =
  DColProduct | DColPrice | DColRating | DColOrders | DColCommission | DColScore | DColStatus
| DColActions

datatype rec_factor_key = RRating | ROrders | RDiscount | RPrice | RCommission

record ('n, 'm) rec_factor_of =
  rf_key :: rec_factor_key
  rf_raw_value :: 'm
  rf_normalized :: 'n
  rf_weight :: 'n
  rf_contribution :: 'n
  rf_missing :: bool

record ('n, 'm) rec_breakdown_of =
  rb_total :: 'n
  rb_factors :: "('n, 'm) rec_factor_of list"

text \<open>A candidate; as for products, the numeric fields have another type in the raw answer.\<close>

record ('n, 'm) candidate_of =
  dp_id :: "jstring option"
  dp_key :: jstring
  dp_title :: jstring
  dp_description :: "jstring option"
  dp_price :: 'n
  dp_original_price :: 'm
  dp_discount :: 'n
  dp_rating :: 'n
  dp_sales :: 'n
  dp_reviews :: 'n
  dp_image_url :: jstring
  dp_gallery_images :: "jstring list"
  dp_product_url :: jstring
  dp_affiliate_url :: "jstring option"
  dp_category :: "jstring option"
  dp_store_name :: "jstring option"
  dp_currency :: jstring
  dp_commission_rate :: 'm
  dp_shipping_info :: "jstring option"
  dp_score :: 'n
  dp_rank :: "nat option"
  dp_recommendation_score :: "jsnum option"
  dp_recommendation_breakdown :: "(jsnum, jsnum option) rec_breakdown_of option"
  dp_lacks_affiliate_url :: "bool option"

type_synonym DiscoveryProduct = "(jsnum, jsnum option) candidate_of"

type_synonym DiscoveryProductRaw = "(raw_number, raw_number) candidate_of"

record ('p, 'n) response_of =
  dr_items :: 'p
  dr_total :: 'n
  dr_skip :: 'n
  dr_limit :: 'n
  dr_page :: 'n
  dr_total_pages :: 'n
  dr_mode :: DiscoveryMode
  dr_sort :: DiscoverySort
  dr_persisted_count :: 'n

type_synonym DiscoveryResponse = "(DiscoveryProduct list, jsnum) response_of"

type_synonym DiscoveryResponseRaw = "(DiscoveryProductRaw list option, raw_number) response_of"

text \<open>The fields for later use, which are never sent, are left out.\<close>

record DiscoveryParams =
  dq_mode :: "DiscoveryMode option"
  dq_keywords :: "jstring option"
  dq_category_id :: "jstring option"
  dq_min_rating :: "jsnum option"
  dq_min_orders :: "jsnum option"
  dq_min_price :: "jsnum option"
  dq_max_price :: "jsnum option"
  dq_min_discount :: "jsnum option"
  dq_shipping_country :: "jstring option"
  dq_free_shipping :: "bool option"
  dq_choice_only :: "bool option"
  dq_min_commission :: "jsnum option"
  dq_max_commission :: "jsnum option"
  dq_top_n :: "nat option"
  dq_sort :: "DiscoverySort option"
  dq_page :: "nat option"
  dq_page_size :: "nat option"

definition no_params :: DiscoveryParams where
  "no_params =
     \<lparr>dq_mode = None, dq_keywords = None, dq_category_id = None, dq_min_rating = None,
      dq_min_orders = None, dq_min_price = None, dq_max_price = None, dq_min_discount = None,
      dq_shipping_country = None, dq_free_shipping = None, dq_choice_only = None,
      dq_min_commission = None, dq_max_commission = None, dq_top_n = None, dq_sort = None,
      dq_page = None, dq_page_size = None\<rparr>"

record DiscoveryUiPrefs =
  up_density :: TableDensity
  up_visibleColumns :: "DiscoveryTableColumn list"
  up_resultSearch :: jstring

section \<open>normalize.ts\<close>

definition toNumberOr :: "raw_number \<Rightarrow> jsnum \<Rightarrow> jsnum" where
  "toNumberOr value fallback = (case converted value of
     None \<Rightarrow> fallback
   | Some parsed \<Rightarrow> if is_finite parsed then parsed else fallback)"

definition normalizeDiscoveryProduct :: "DiscoveryProductRaw \<Rightarrow> DiscoveryProduct" where
  "normalizeDiscoveryProduct raw =
     \<lparr>dp_id = dp_id raw, dp_key = dp_key raw, dp_title = dp_title raw,
      dp_description = dp_description raw, dp_price = toNumberOr (dp_price raw) (Num 0),
      dp_original_price = toNullableNumber (dp_original_price raw),
      dp_discount = toNumberOr (dp_discount raw) (Num 0),
      dp_rating = toNumberOr (dp_rating raw) (Num 0),
      dp_sales = toNumberOr (dp_sales raw) (Num 0),
      dp_reviews = toNumberOr (dp_reviews raw) (Num 0), dp_image_url = dp_image_url raw,
      dp_gallery_images = dp_gallery_images raw, dp_product_url = dp_product_url raw,
      dp_affiliate_url = dp_affiliate_url raw, dp_category = dp_category raw,
      dp_store_name = dp_store_name raw, dp_currency = dp_currency raw,
      dp_commission_rate = toNullableNumber (dp_commission_rate raw),
      dp_shipping_info = dp_shipping_info raw, dp_score = toNumberOr (dp_score raw) (Num 0),
      dp_rank = dp_rank raw, dp_recommendation_score = dp_recommendation_score raw,
      dp_recommendation_breakdown = dp_recommendation_breakdown raw,
      dp_lacks_affiliate_url = dp_lacks_affiliate_url raw\<rparr>"

definition normalizeDiscoveryResponse :: "DiscoveryResponseRaw \<Rightarrow> DiscoveryResponse" where
  "normalizeDiscoveryResponse raw =
     \<lparr>dr_items = map normalizeDiscoveryProduct (or_default (dr_items raw) []),
      dr_total = toNumberOr (dr_total raw) (Num 0), dr_skip = toNumberOr (dr_skip raw) (Num 0),
      dr_limit = toNumberOr (dr_limit raw) (Num 0), dr_page = toNumberOr (dr_page raw) (Num 1),
      dr_total_pages = toNumberOr (dr_total_pages raw) (Num 1), dr_mode = dr_mode raw,
      dr_sort = dr_sort raw, dr_persisted_count = toNumberOr (dr_persisted_count raw) (Num 0)\<rparr>"

section \<open>discovery.api.ts\<close>

record RecommendationProductRaw =
  rp_id :: jstring
  rp_aliexpress_product_id :: "jstring option"
  rp_gallery_images :: "jstring list option"
  rp_rest :: DiscoveryProductRaw

record recommendation_item =
  ri_rank :: nat
  ri_product :: RecommendationProductRaw
  ri_score :: raw_number
  ri_breakdown :: "(raw_number, raw_number) rec_breakdown_of"
  ri_lacks_affiliate_url :: bool

record RecommendationResponseRaw =
  rr_items :: "recommendation_item list"
  rr_total_candidates :: nat
  rr_returned :: nat
  rr_top_n :: nat

text \<open>\<open>value == null ? null : toNumber(value)\<close>; an empty text counts as 0 here.\<close>

definition number_or_null :: "raw_number \<Rightarrow> jsnum option" where
  "number_or_null v = (if v = NumberMissing then None else Some (toNumberOr v (Num 0)))"

definition recommended_factor ::
  "(raw_number, raw_number) rec_factor_of \<Rightarrow> (jsnum, jsnum option) rec_factor_of" where
  "recommended_factor f =
     \<lparr>rf_key = rf_key f, rf_raw_value = number_or_null (rf_raw_value f),
      rf_normalized = toNumberOr (rf_normalized f) (Num 0),
      rf_weight = toNumberOr (rf_weight f) (Num 0),
      rf_contribution = toNumberOr (rf_contribution f) (Num 0), rf_missing = rf_missing f\<rparr>"

text \<open>The fields the answer shares with a candidate are those of \<open>rp_rest\<close>.\<close>

definition recommended_product :: "recommendation_item \<Rightarrow> DiscoveryProduct" where
  "recommended_product i =
     (let p = ri_product i; r = rp_rest p in
      \<lparr>dp_id = Some (rp_id p), dp_key = or_default (rp_aliexpress_product_id p) (rp_id p),
       dp_title = dp_title r, dp_description = dp_description r,
       dp_price = toNumberOr (dp_price r) (Num 0),
       dp_original_price = number_or_null (dp_original_price r),
       dp_discount = toNumberOr (dp_discount r) (Num 0),
       dp_rating = toNumberOr (dp_rating r) (Num 0), dp_sales = toNumberOr (dp_sales r) (Num 0),
       dp_reviews = toNumberOr (dp_reviews r) (Num 0), dp_image_url = dp_image_url r,
       dp_gallery_images = or_default (rp_gallery_images p) [], dp_product_url = dp_product_url r,
       dp_affiliate_url = dp_affiliate_url r, dp_category = dp_category r,
       dp_store_name = dp_store_name r, dp_currency = dp_currency r,
       dp_commission_rate = number_or_null (dp_commission_rate r),
       dp_shipping_info = dp_shipping_info r, dp_score = toNumberOr (dp_score r) (Num 0),
       dp_rank = Some (ri_rank i), dp_recommendation_score = Some (toNumberOr (ri_score i) (Num 0)),
       dp_recommendation_breakdown =
         Some \<lparr>rb_total = toNumberOr (rb_total (ri_breakdown i)) (Num 0),
               rb_factors = map recommended_factor (rb_factors (ri_breakdown i))\<rparr>,
       dp_lacks_affiliate_url = Some (ri_lacks_affiliate_url i)\<rparr>)"

definition recommended_response :: "RecommendationResponseRaw \<Rightarrow> DiscoveryResponse" where
  "recommended_response raw =
     \<lparr>dr_items = map recommended_product (rr_items raw),
      dr_total = Num (of_nat (rr_total_candidates raw)), dr_skip = Num 0,
      dr_limit = Num (of_nat (rr_returned raw)), dr_page = Num 1, dr_total_pages = Num 1,
      dr_mode = Recommended, dr_sort = OrdersDesc, dr_persisted_count = Num 0\<rparr>"

text \<open>The request a search becomes: the path and the query, whose missing keys are not sent.\<close>

record recommend_query =
  rq_keywords :: "jstring option"
  rq_min_price :: "jsnum option"
  rq_max_price :: "jsnum option"
  rq_min_rating :: "jsnum option"
  rq_min_orders :: "jsnum option"
  rq_min_discount :: "jsnum option"
  rq_min_commission :: "jsnum option"
  rq_max_commission :: "jsnum option"
  rq_top_n :: nat

record discover_query =
  gq_keywords :: "jstring option"
  gq_min_rating :: "jsnum option"
  gq_min_orders :: "jsnum option"
  gq_min_price :: "jsnum option"
  gq_max_price :: "jsnum option"
  gq_min_discount :: "jsnum option"
  gq_shipping_country :: "jstring option"
  gq_free_shipping :: bool
  gq_choice_only :: bool
  gq_sort :: "DiscoverySort option"
  gq_page :: "nat option"
  gq_page_size :: "nat option"

datatype discovery_request = Recommendations recommend_query | Discover jstring discover_query

definition recommend_request :: "DiscoveryParams \<Rightarrow> discovery_request" where
  "recommend_request p = Recommendations
     \<lparr>rq_keywords = dq_keywords p, rq_min_price = dq_min_price p, rq_max_price = dq_max_price p,
      rq_min_rating = dq_min_rating p, rq_min_orders = dq_min_orders p,
      rq_min_discount = dq_min_discount p, rq_min_commission = dq_min_commission p,
      rq_max_commission = dq_max_commission p, rq_top_n = or_default (dq_top_n p) 10\<rparr>"

definition discover_path :: "DiscoveryMode \<Rightarrow> jstring option \<Rightarrow> jstring" where
  "discover_path mode category_id =
     (if mode = CategoryMode \<and> truthy category_id
      then js ''/products/discover/category/'' @ the category_id
      else if mode = General then js ''/products/discover''
      else js ''/products/discover/'' @ mode_text mode)"

text \<open>\<open>None\<close> where the function throws before a request is made.\<close>

definition discoverProducts :: "DiscoveryParams \<Rightarrow> discovery_request option" where
  "discoverProducts p =
     (let mode = or_default (dq_mode p) General in
      if mode = Recommended then Some (recommend_request p)
      else if mode = CategoryMode \<and> \<not> truthy (map_option trim (dq_category_id p)) then None
      else Some (Discover (discover_path mode (dq_category_id p))
        \<lparr>gq_keywords = dq_keywords p, gq_min_rating = dq_min_rating p,
         gq_min_orders = dq_min_orders p, gq_min_price = dq_min_price p,
         gq_max_price = dq_max_price p, gq_min_discount = dq_min_discount p,
         gq_shipping_country = dq_shipping_country p,
         gq_free_shipping = (dq_free_shipping p = Some True),
         gq_choice_only = (dq_choice_only p = Some True), gq_sort = dq_sort p,
         gq_page = dq_page p, gq_page_size = dq_page_size p\<rparr>))"

section \<open>DiscoveryFilterPanel\<close>

definition choose_category_text :: jstring where
  "choose_category_text =
    [1575, 1582, 1578, 1585, 32, 1601, 1574, 1577, 32, 1602, 1576, 1604, 32, 1575, 1604,
     1578, 1588, 1594, 1610, 1604, 46]"

definition validateDiscoveryDraft :: "DiscoveryParams \<Rightarrow> jstring option" where
  "validateDiscoveryDraft params =
     (let mode = or_default (dq_mode params) Hot in
      if mode = CategoryMode \<and> \<not> truthy (map_option trim (dq_category_id params))
      then Some choose_category_text else None)"

section \<open>ui-prefs.ts\<close>

definition DEFAULT_VISIBLE_COLUMNS :: "DiscoveryTableColumn list" where
  "DEFAULT_VISIBLE_COLUMNS =
     [DColProduct, DColPrice, DColRating, DColOrders, DColCommission, DColScore, DColStatus,
      DColActions]"

definition DEFAULT_UI_PREFS :: DiscoveryUiPrefs where
  "DEFAULT_UI_PREFS =
     \<lparr>up_density = DComfortable, up_visibleColumns = DEFAULT_VISIBLE_COLUMNS, up_resultSearch = []\<rparr>"

text \<open>Preferences whose keys may be missing; a density that is not known counts as missing.\<close>

record ui_prefs_patch =
  pp_density :: "TableDensity option"
  pp_visibleColumns :: "DiscoveryTableColumn list option"
  pp_resultSearch :: "jstring option"

definition normalizeUiPrefs :: "ui_prefs_patch option \<Rightarrow> DiscoveryUiPrefs" where
  "normalizeUiPrefs prefs =
     \<lparr>up_density = or_default (Option.bind prefs pp_density) (up_density DEFAULT_UI_PREFS),
      up_visibleColumns =
        (case Option.bind prefs pp_visibleColumns of
           Some (c # cs) \<Rightarrow> c # cs
         | _ \<Rightarrow> DEFAULT_VISIBLE_COLUMNS),
      up_resultSearch = or_default (Option.bind prefs pp_resultSearch) []\<rparr>"

definition as_patch :: "DiscoveryUiPrefs \<Rightarrow> ui_prefs_patch" where
  "as_patch u =
     \<lparr>pp_density = Some (up_density u), pp_visibleColumns = Some (up_visibleColumns u),
      pp_resultSearch = Some (up_resultSearch u)\<rparr>"

section \<open>filter-labels.ts\<close>

definition all_text :: jstring where
  "all_text =
    [1575, 1604, 1603, 1604]"

definition from_dollar :: jstring where
  "from_dollar =
    [1605, 1606, 32, 36]"

definition up_to_dollar :: jstring where
  "up_to_dollar =
    [1581, 1578, 1609, 32, 36]"

definition price_range_sep :: jstring where
  "price_range_sep =
    [32, 8211, 32, 36]"

definition all_sources_text :: jstring where
  "all_sources_text =
    [1603, 1604, 32, 1575, 1604, 1605, 1589, 1575, 1583, 1585]"

definition choose_category_label :: jstring where
  "choose_category_label =
    [1575, 1582, 1578, 1585, 32, 1601, 1574, 1577]"

text \<open>\<open>num_text\<close> is \<open>String\<close> of a number, \<open>en\<close> is \<open>toLocaleString("en")\<close>.\<close>

definition formatPriceChip :: "(jsnum \<Rightarrow> jstring) \<Rightarrow> DiscoveryParams \<Rightarrow> jstring" where
  "formatPriceChip num_text p = (case (dq_min_price p, dq_max_price p) of
     (None, None) \<Rightarrow> all_text
   | (Some lo, Some hi) \<Rightarrow> [36] @ num_text lo @ price_range_sep @ num_text hi
   | (Some lo, None) \<Rightarrow> from_dollar @ num_text lo
   | (None, Some hi) \<Rightarrow> up_to_dollar @ num_text hi)"

definition formatRatingChip :: "(jsnum \<Rightarrow> jstring) \<Rightarrow> DiscoveryParams \<Rightarrow> jstring" where
  "formatRatingChip num_text p = (case dq_min_rating p of
     Some r \<Rightarrow> num_text r @ js ''+'' | None \<Rightarrow> all_text)"

definition formatOrdersChip :: "(jsnum \<Rightarrow> jstring) \<Rightarrow> DiscoveryParams \<Rightarrow> jstring" where
  "formatOrdersChip en p = (case dq_min_orders p of
     Some n \<Rightarrow> en n @ js ''+'' | None \<Rightarrow> all_text)"

definition formatCommissionChip :: "(jsnum \<Rightarrow> jstring) \<Rightarrow> DiscoveryParams \<Rightarrow> jstring" where
  "formatCommissionChip num_text p = (case dq_min_commission p of
     Some n \<Rightarrow> num_text n @ js ''%+'' | None \<Rightarrow> all_text)"

definition orders_desc_label :: jstring where
  "orders_desc_label =
    [1575, 1604, 1571, 1603, 1579, 1585, 32, 1605, 1576, 1610, 1593, 1611, 1575]"

definition rating_desc_label :: jstring where
  "rating_desc_label =
    [1575, 1604, 1571, 1593, 1604, 1609, 32, 1578, 1602, 1610, 1610, 1605, 1611, 1575]"

definition discount_desc_label :: jstring where
  "discount_desc_label =
    [1575, 1604, 1571, 1593, 1604, 1609, 32, 1582, 1589, 1605, 1611, 1575]"

definition price_asc_label :: jstring where
  "price_asc_label =
    [1575, 1604, 1587, 1593, 1585, 32, 8593]"

definition price_desc_label :: jstring where
  "price_desc_label =
    [1575, 1604, 1587, 1593, 1585, 32, 8595]"

definition commission_desc_label :: jstring where
  "commission_desc_label =
    [1575, 1604, 1571, 1593, 1604, 1609, 32, 1593, 1605, 1608, 1604, 1577]"

definition newest_label :: jstring where
  "newest_label =
    [1575, 1604, 1571, 1581, 1583, 1579]"

fun SORT_LABELS :: "DiscoverySort \<Rightarrow> jstring" where
  "SORT_LABELS OrdersDesc = orders_desc_label"
| "SORT_LABELS DRatingDesc = rating_desc_label"
| "SORT_LABELS DiscountDesc = discount_desc_label"
| "SORT_LABELS DPriceAsc = price_asc_label"
| "SORT_LABELS DPriceDesc = price_desc_label"
| "SORT_LABELS CommissionDesc = commission_desc_label"
| "SORT_LABELS DNewest = newest_label"

definition formatSortChip :: "DiscoveryParams \<Rightarrow> jstring" where
  "formatSortChip p = SORT_LABELS (or_default (dq_sort p) OrdersDesc)"

text \<open>Categories come as the text of their id and their name.\<close>

definition formatCategoryChip :: "DiscoveryParams \<Rightarrow> (jstring \<times> jstring) list \<Rightarrow> jstring" where
  "formatCategoryChip p categories =
     (if dq_mode p \<noteq> Some CategoryMode then all_sources_text
      else if \<not> truthy (dq_category_id p) then choose_category_label
      else or_default (map_option snd
             (List.find (\<lambda>item. fst item = the (dq_category_id p)) categories))
             (the (dq_category_id p)))"

section \<open>export.ts\<close>

definition discovery_headers :: "jstring list" where
  "discovery_headers =
     map js [''aliexpress_product_id'', ''title'', ''price'', ''currency'', ''discount'', ''rating'',
             ''sales'', ''reviews'', ''commission_rate'', ''score'', ''store_name'', ''category'',
             ''product_url'', ''affiliate_url'']"

definition discovery_cells :: "(jsnum \<Rightarrow> jstring) \<Rightarrow> DiscoveryProduct \<Rightarrow> jstring option list" where
  "discovery_cells num_text p =
     [Some (dp_key p), Some (dp_title p), Some (num_text (dp_price p)), Some (dp_currency p),
      Some (num_text (dp_discount p)), Some (num_text (dp_rating p)), Some (num_text (dp_sales p)),
      Some (num_text (dp_reviews p)),
      Some (case dp_commission_rate p of Some r \<Rightarrow> num_text r | None \<Rightarrow> []),
      Some (num_text (dp_score p)), Some (or_default (dp_store_name p) []),
      Some (or_default (dp_category p) []), Some (dp_product_url p),
      Some (or_default (dp_affiliate_url p) [])]"

definition exportDiscoveryProductsCsv :: "(jsnum \<Rightarrow> jstring) \<Rightarrow> DiscoveryProduct list \<Rightarrow> jstring" where
  "exportDiscoveryProductsCsv num_text products =
     csv_lines discovery_headers (map (discovery_cells num_text) products)"

section \<open>session.ts\<close>

datatype DiscoveryRunStatus = Idle | Running | RunSuccess | RunError

record DiscoverySessionSnapshot =
  draftParams :: DiscoveryParams
  committedParams :: "DiscoveryParams option"
  lastResponse :: "DiscoveryResponse option"
  lastRunAt :: "jstring option"
  lastRunStatus :: DiscoveryRunStatus
  lastError :: "jstring option"
  importedIds :: "jstring list"
  activeProfileId :: "jstring option"
  uiPrefs :: DiscoveryUiPrefs

definition emptySession :: DiscoverySessionSnapshot where
  "emptySession =
     \<lparr>draftParams = no_params\<lparr>dq_mode := Some Hot, dq_sort := Some OrdersDesc, dq_page := Some 1,
                              dq_page_size := Some 20\<rparr>,
      committedParams = None, lastResponse = None, lastRunAt = None, lastRunStatus = Idle,
      lastError = None, importedIds = [], activeProfileId = None, uiPrefs = DEFAULT_UI_PREFS\<rparr>"

text \<open>What \<open>JSON.parse\<close> makes of the stored text: keys may be missing, numbers may be texts.\<close>

record stored_discovery =
  sd_draftParams :: "DiscoveryParams option"
  sd_committedParams :: "DiscoveryParams option option"
  sd_lastResponse :: "DiscoveryResponseRaw option"
  sd_lastRunAt :: "jstring option option"
  sd_lastRunStatus :: "DiscoveryRunStatus option"
  sd_lastError :: "jstring option option"
  sd_importedIds :: "jstring list option"
  sd_activeProfileId :: "jstring option option"
  sd_uiPrefs :: "ui_prefs_patch option"

definition loadDiscoverySession ::
  "bool \<Rightarrow> (jstring \<Rightarrow> stored_discovery option) \<Rightarrow> jstring option \<Rightarrow> DiscoverySessionSnapshot" where
  "loadDiscoverySession in_browser json_parse raw =
     (if \<not> in_browser \<or> \<not> truthy raw then emptySession
      else (case json_parse (the raw) of
        None \<Rightarrow> emptySession
      | Some p \<Rightarrow>
          \<lparr>draftParams = or_default (sd_draftParams p) (draftParams emptySession),
           committedParams = or_default (sd_committedParams p) None,
           lastResponse = map_option normalizeDiscoveryResponse (sd_lastResponse p),
           lastRunAt = or_default (sd_lastRunAt p) None,
           lastRunStatus = or_default (sd_lastRunStatus p) Idle,
           lastError = or_default (sd_lastError p) None,
           importedIds = or_default (sd_importedIds p) [],
           activeProfileId = or_default (sd_activeProfileId p) None,
           uiPrefs = normalizeUiPrefs (sd_uiPrefs p)\<rparr>))"

text \<open>What is stored, as it is read back: the response with its numbers.\<close>

definition raw_candidate :: "DiscoveryProduct \<Rightarrow> DiscoveryProductRaw" where
  "raw_candidate p =
     \<lparr>dp_id = dp_id p, dp_key = dp_key p, dp_title = dp_title p,
      dp_description = dp_description p, dp_price = RawNumber (dp_price p),
      dp_original_price = (case dp_original_price p of Some n \<Rightarrow> RawNumber n | None \<Rightarrow> NumberMissing),
      dp_discount = RawNumber (dp_discount p), dp_rating = RawNumber (dp_rating p),
      dp_sales = RawNumber (dp_sales p), dp_reviews = RawNumber (dp_reviews p),
      dp_image_url = dp_image_url p, dp_gallery_images = dp_gallery_images p,
      dp_product_url = dp_product_url p, dp_affiliate_url = dp_affiliate_url p,
      dp_category = dp_category p, dp_store_name = dp_store_name p, dp_currency = dp_currency p,
      dp_commission_rate =
        (case dp_commission_rate p of Some n \<Rightarrow> RawNumber n | None \<Rightarrow> NumberMissing),
      dp_shipping_info = dp_shipping_info p, dp_score = RawNumber (dp_score p),
      dp_rank = dp_rank p, dp_recommendation_score = dp_recommendation_score p,
      dp_recommendation_breakdown = dp_recommendation_breakdown p,
      dp_lacks_affiliate_url = dp_lacks_affiliate_url p\<rparr>"

definition raw_response :: "DiscoveryResponse \<Rightarrow> DiscoveryResponseRaw" where
  "raw_response r =
     \<lparr>dr_items = Some (map raw_candidate (dr_items r)), dr_total = RawNumber (dr_total r),
      dr_skip = RawNumber (dr_skip r), dr_limit = RawNumber (dr_limit r),
      dr_page = RawNumber (dr_page r), dr_total_pages = RawNumber (dr_total_pages r),
      dr_mode = dr_mode r, dr_sort = dr_sort r,
      dr_persisted_count = RawNumber (dr_persisted_count r)\<rparr>"

definition stored_snapshot :: "DiscoverySessionSnapshot \<Rightarrow> stored_discovery" where
  "stored_snapshot s =
     \<lparr>sd_draftParams = Some (draftParams s), sd_committedParams = Some (committedParams s),
      sd_lastResponse = map_option raw_response (lastResponse s),
      sd_lastRunAt = Some (lastRunAt s), sd_lastRunStatus = Some (lastRunStatus s),
      sd_lastError = Some (lastError s), sd_importedIds = Some (importedIds s),
      sd_activeProfileId = Some (activeProfileId s), sd_uiPrefs = Some (as_patch (uiPrefs s))\<rparr>"

text \<open>Saving gives the new item of the storage.\<close>

definition saveDiscoverySession ::
  "bool \<Rightarrow> (stored_discovery \<Rightarrow> jstring) \<Rightarrow> DiscoverySessionSnapshot \<Rightarrow> jstring option
     \<Rightarrow> jstring option" where
  "saveDiscoverySession in_browser json_stringify s item =
     (if in_browser then Some (json_stringify (stored_snapshot s)) else item)"

definition clearDiscoverySession :: "bool \<Rightarrow> jstring option \<Rightarrow> jstring option" where
  "clearDiscoverySession in_browser item = (if in_browser then None else item)"

definition DISCOVERY_STORAGE_KEY :: jstring where
  "DISCOVERY_STORAGE_KEY = js ''affiliate_discovery_session_v1''"

section \<open>Normal forms\<close>

lemma toNumberOr_number [simp]: "is_finite n \<Longrightarrow> toNumberOr (RawNumber n) d = n"
  by (simp add: toNumberOr_def converted_def)

lemma toNumberOr_finite [simp]: "is_finite d \<Longrightarrow> is_finite (toNumberOr v d)"
  by (auto simp: toNumberOr_def split: option.splits)

definition finite_candidate :: "DiscoveryProduct \<Rightarrow> bool" where
  "finite_candidate p \<longleftrightarrow>
     list_all is_finite [dp_price p, dp_discount p, dp_rating p, dp_sales p, dp_reviews p, dp_score p] \<and>
     pred_option is_finite (dp_original_price p) \<and> pred_option is_finite (dp_commission_rate p)"

definition finite_response :: "DiscoveryResponse \<Rightarrow> bool" where
  "finite_response r \<longleftrightarrow>
     list_all finite_candidate (dr_items r) \<and>
     list_all is_finite [dr_total r, dr_skip r, dr_limit r, dr_page r, dr_total_pages r,
                         dr_persisted_count r]"

lemma nullable_finite: "pred_option is_finite (toNullableNumber v)"
  using toNullableNumber_finite by (cases "toNullableNumber v") auto

lemma normal_candidate_finite: "finite_candidate (normalizeDiscoveryProduct raw)"
  by (simp add: finite_candidate_def normalizeDiscoveryProduct_def nullable_finite)

lemma normal_response_finite: "finite_response (normalizeDiscoveryResponse raw)"
  by (simp add: finite_response_def normalizeDiscoveryResponse_def normal_candidate_finite
      list_all_iff)

lemma recommended_response_finite: "finite_response (recommended_response raw)"
proof -
  have "pred_option is_finite (number_or_null v)" for v by (simp add: number_or_null_def)
  then show ?thesis
    by (simp add: finite_response_def recommended_response_def finite_candidate_def
        recommended_product_def Let_def list_all_iff)
qed

lemma nullable_back:
  "pred_option is_finite m \<Longrightarrow>
     toNullableNumber (case m of Some n \<Rightarrow> RawNumber n | None \<Rightarrow> NumberMissing) = m"
  by (cases m) (simp_all add: toNullableNumber_def converted_def)

lemma candidate_read_back:
  "finite_candidate p \<Longrightarrow> normalizeDiscoveryProduct (raw_candidate p) = p"
  by (simp add: finite_candidate_def normalizeDiscoveryProduct_def raw_candidate_def nullable_back)

lemma response_read_back:
  assumes "finite_response r"
  shows "normalizeDiscoveryResponse (raw_response r) = r"
proof -
  have "map (\<lambda>p. normalizeDiscoveryProduct (raw_candidate p)) (dr_items r) = dr_items r"
    using assms by (intro map_idI) (auto simp: finite_response_def list_all_iff candidate_read_back)
  then show ?thesis
    using assms by (simp add: finite_response_def normalizeDiscoveryResponse_def raw_response_def comp_def)
qed

lemma prefs_read_back: "up_visibleColumns u \<noteq> [] \<Longrightarrow> normalizeUiPrefs (Some (as_patch u)) = u"
  by (cases "up_visibleColumns u") (simp_all add: normalizeUiPrefs_def as_patch_def)

lemma prefs_have_columns: "up_visibleColumns (normalizeUiPrefs p) \<noteq> []"
  by (auto simp: normalizeUiPrefs_def DEFAULT_VISIBLE_COLUMNS_def split: option.splits list.splits)

text \<open>A stored discovery session is restored as it was: with any JSON codec that reads back what it
  wrote, loading what was saved gives the same session, for every session with columns to show and
  an answer in normal form, and what the server's answers and the recommendations are turned into
  is in normal form.\<close>

theorem discovery_session_restored:
  assumes "json_parse (json_stringify (stored_snapshot s)) = Some (stored_snapshot s)"
    and "json_stringify (stored_snapshot s) \<noteq> []" "up_visibleColumns (uiPrefs s) \<noteq> []"
    and "lastResponse s \<in> {None, Some (normalizeDiscoveryResponse raw), Some (recommended_response rec)}"
  shows "loadDiscoverySession True json_parse (saveDiscoverySession True json_stringify s item) = s"
proof -
  have "map_option normalizeDiscoveryResponse (map_option raw_response (lastResponse s)) = lastResponse s"
    using assms(4) normal_response_finite recommended_response_finite
    by (auto simp: response_read_back)
  then show ?thesis
    using assms(1-3) by (simp add: loadDiscoverySession_def saveDiscoverySession_def
        stored_snapshot_def prefs_read_back)
qed

lemma discovery_session_restored_witness:
  "loadDiscoverySession True (\<lambda>_. Some (stored_snapshot emptySession))
     (saveDiscoverySession True (\<lambda>_. js ''{}'') emptySession None) = emptySession"
  by (rule discovery_session_restored)
    (simp_all add: emptySession_def DEFAULT_UI_PREFS_def DEFAULT_VISIBLE_COLUMNS_def)

section \<open>Requests\<close>

text \<open>What passes the check of the filters can be requested, and goes where its mode says: a search
  with valid filters never fails before the request, a category search names its category in the
  path, recommendations are asked with a number of results, and only parameters that can be asked
  for are refused.\<close>

theorem valid_draft_has_request:
  "(case discoverProducts p of
      None \<Rightarrow> validateDiscoveryDraft p = Some choose_category_text
    | Some (Recommendations q) \<Rightarrow> dq_mode p = Some Recommended \<and> validateDiscoveryDraft p = None \<and>
        rq_top_n q = or_default (dq_top_n p) 10
    | Some (Discover path q) \<Rightarrow> dq_mode p \<noteq> Some Recommended \<and> validateDiscoveryDraft p = None \<and>
        (path = js ''/products/discover'') = (or_default (dq_mode p) General = General) \<and>
        (case dq_category_id p of
           None \<Rightarrow> dq_mode p \<noteq> Some CategoryMode
         | Some c \<Rightarrow> (dq_mode p = Some CategoryMode) \<le> (path = js ''/products/discover/category/'' @ c)))"
  by (cases "dq_mode p"; cases "dq_category_id p")
    (auto simp: discoverProducts_def validateDiscoveryDraft_def recommend_request_def Let_def
      discover_path_def truthy_def trim_eq_Nil_iff js_def split: DiscoveryMode.splits)

text \<open>The exported candidates can be read back like the inventory.\<close>

theorem discovery_csv_round_trip:
  "parse_csv (exportDiscoveryProductsCsv num_text products) =
     discovery_headers # map (\<lambda>p. map (\<lambda>v. or_default v []) (discovery_cells num_text p)) products"
proof -
  have h: "join [44] discovery_headers = join [44] (map escapeCsv (map Some discovery_headers))"
    by code_simp
  have "discovery_headers \<noteq> []" by (simp add: discovery_headers_def)
  then have "parse_csv (exportDiscoveryProductsCsv num_text products) =
      map (map (\<lambda>v. or_default v []))
        (map Some discovery_headers # map (discovery_cells num_text) products)"
    using parse_csv_rows [of "map Some discovery_headers # map (discovery_cells num_text) products"]
    by (simp add: exportDiscoveryProductsCsv_def csv_lines_def h comp_def discovery_cells_def
        del: join.simps)
  then show ?thesis by (simp add: comp_def)
qed

end
