(* ===== verification/ProductScreen.thy ===== *)
theory ProductScreen
  imports ProductData QueueTable CallLoops
begin

text \<open>
  The inventory screen: \<open>useProductInventoryState\<close> of
  \<open>frontend/src/features/products/hooks/useProducts.ts\<close> and the state and handlers of
  \<open>components/ProductsView.tsx\<close>.  The selection hooks repeat the code of the publishing table, so
  its functions (\<open>toggle_id\<close>, \<open>toggle_all_ids\<close>, \<open>prune_ids\<close>) are used again.  What the server
  answers is a parameter that may depend on every call made before.
\<close>

section \<open>useProductInventoryState\<close>

definition DEFAULT_PRODUCT_COLUMNS :: "ProductTableColumn list" where
  "DEFAULT_PRODUCT_COLUMNS =
     [ColProduct, ColPrice, ColRating, ColSales, ColScore, ColStatus, ColActions]"

record inventory_state =
  selectedProductIds :: "jstring list"
  tableDensity :: ProductTableDensity
  visibleColumns :: "ProductTableColumn list"
  inv_sort :: ProductSort
  clientSearch :: jstring

definition initial_inventory :: inventory_state where
  "initial_inventory =
     \<lparr>selectedProductIds = [], tableDensity = PComfortable, visibleColumns = DEFAULT_PRODUCT_COLUMNS,
      inv_sort = SortNewest, clientSearch = []\<rparr>"

definition product_matches :: "host \<Rightarrow> jstring \<Rightarrow> Product \<Rightarrow> bool" where
  "product_matches h query p =
     list_ex (\<lambda>value. includes_sub query (lower h value))
       (filter (\<lambda>v. v \<noteq> [])
         (List.map_filter id
           [Some (p_title p), p_category p, p_store_name p, p_aliexpress_product_id p, Some (p_id p)]))"

definition product_compare :: "host \<Rightarrow> ProductSort \<Rightarrow> Product \<Rightarrow> Product \<Rightarrow> jsnum" where
  "product_compare h srt left right = (case srt of
     ScoreDesc \<Rightarrow> num_minus (p_score right) (p_score left)
   | SalesDesc \<Rightarrow> num_minus (p_sales right) (p_sales left)
   | RatingDesc \<Rightarrow> num_minus (p_rating right) (p_rating left)
   | PriceAsc \<Rightarrow> num_minus (p_price left) (p_price right)
   | PriceDesc \<Rightarrow> num_minus (p_price right) (p_price left)
   | SortNewest \<Rightarrow>
       num_minus (date_parse h (p_created_at right)) (date_parse h (p_created_at left)))"

definition filteredProducts :: "host \<Rightarrow> inventory_state \<Rightarrow> Product list \<Rightarrow> Product list" where
  "filteredProducts h v items =
     (let query = lower h (trim (clientSearch v));
          filtered = (if query \<noteq> [] then filter (product_matches h query) items else items)
      in sort_by (product_compare h (inv_sort v)) filtered)"

definition selectedProducts :: "inventory_state \<Rightarrow> Product list \<Rightarrow> Product list" where
  "selectedProducts v items = filter (\<lambda>item. p_id item \<in> set (selectedProductIds v)) items"

definition allVisibleSelected :: "host \<Rightarrow> inventory_state \<Rightarrow> Product list \<Rightarrow> bool" where
  "allVisibleSelected h v items =
     (filteredProducts h v items \<noteq> [] \<and>
      list_all (\<lambda>item. p_id item \<in> set (selectedProductIds v)) (filteredProducts h v items))"

definition toggleAllProducts :: "host \<Rightarrow> Product list \<Rightarrow> inventory_state \<Rightarrow> inventory_state" where
  "toggleAllProducts h items v =
     v\<lparr>selectedProductIds :=
         toggle_all_ids (map p_id (filteredProducts h v items)) (selectedProductIds v)\<rparr>"

definition toggleColumn :: "ProductTableColumn \<Rightarrow> inventory_state \<Rightarrow> inventory_state" where
  "toggleColumn column v =
     (if column = ColProduct \<or> column = ColActions then v
      else v\<lparr>visibleColumns :=
        (if column \<in> set (visibleColumns v) then filter (\<lambda>item. item \<noteq> column) (visibleColumns v)
         else visibleColumns v @ [column])\<rparr>)"

text \<open>The effect: the selection keeps the ids that are available.\<close>

definition available_effect :: "Product list \<Rightarrow> inventory_state \<Rightarrow> inventory_state" where
  "available_effect items v =
     v\<lparr>selectedProductIds := prune_ids (map p_id items) (selectedProductIds v)\<rparr>"

definition clear_products :: "inventory_state \<Rightarrow> inventory_state" where
  "clear_products v = v\<lparr>selectedProductIds := []\<rparr>"

section \<open>ProductsView\<close>

datatype product_call =
  CreateQueueItem QueueUpdate
| UpdateProduct jstring ProductStatus
| DeleteProduct jstring

record product_server =
  pv_create :: "product_call list \<Rightarrow> QueueUpdate \<Rightarrow> thrown option"
  pv_update :: "product_call list \<Rightarrow> jstring \<Rightarrow> ProductStatus \<Rightarrow> thrown + Product"
  pv_delete :: "product_call list \<Rightarrow> jstring \<Rightarrow> thrown option"

definition product_error :: "product_server \<Rightarrow> product_call list \<Rightarrow> product_call \<Rightarrow> thrown option" where
  "product_error srv past c = (case c of
     CreateQueueItem input \<Rightarrow> pv_create srv past input
   | UpdateProduct i status \<Rightarrow> (case pv_update srv past i status of Inl e \<Rightarrow> Some e | Inr _ \<Rightarrow> None)
   | DeleteProduct i \<Rightarrow> pv_delete srv past i)"

record products_screen =
  prs_workspace :: "jstring option"
  prs_items :: "Product list"
  prs_total :: nat
  prs_status :: "ProductStatus option"
  prs_page :: nat
  prs_pageSize :: nat
  prs_inventory :: inventory_state
  activeProduct :: "Product option"
  prs_deleteTargets :: "Product list"
  actionError :: "jstring option"
  actionMessage :: "jstring option"
  prs_calls :: "product_call list"
  prs_invalidated :: "query_key list"
  prs_details :: "Product list"
  prs_routes :: "jstring list"
  prs_downloads :: "jstring list"

text \<open>The refetches after a successful call, and the product an update puts in the cache.\<close>

definition products_key :: query_key where
  "products_key = [KeyText (js ''products'')]"

definition call_succeeded :: "product_server \<Rightarrow> product_call list \<Rightarrow> product_call \<Rightarrow> products_screen
    \<Rightarrow> products_screen" where
  "call_succeeded srv past c s = (case c of
     CreateQueueItem _ \<Rightarrow>
       if truthy (prs_workspace s)
       then s\<lparr>prs_invalidated := prs_invalidated s @ [queueKey (the (prs_workspace s))]\<rparr> else s
   | UpdateProduct i status \<Rightarrow>
       (case pv_update srv past i status of
          Inr product \<Rightarrow> s\<lparr>prs_details := prs_details s @ [product],
                           prs_invalidated := prs_invalidated s @ [products_key]\<rparr>
        | Inl _ \<Rightarrow> s)
   | DeleteProduct _ \<Rightarrow> s\<lparr>prs_invalidated := prs_invalidated s @ [products_key]\<rparr>)"

definition run_calls ::
  "product_server \<Rightarrow> product_call list \<Rightarrow> products_screen \<Rightarrow> thrown option \<times> products_screen" where
  "run_calls srv cs s =
     (let r = await_all (product_error srv) (prs_calls s) cs;
          n = succeeded (prs_calls s) r
      in (fst r,
          foldl (\<lambda>s' j. call_succeeded srv (prs_calls s @ take j cs) (cs ! j) s')
            (s\<lparr>prs_calls := snd r\<rparr>) [0..<n]))"

definition buy_now_text :: jstring where
  "buy_now_text =
    [1575, 1588, 1578, 1585, 1610, 32, 1575, 1604, 1570, 1606]"

definition added_prefix :: jstring where
  "added_prefix =
    [1578, 1605, 1578, 32, 1573, 1590, 1575, 1601, 1577, 32]"

definition added_suffix :: jstring where
  "added_suffix =
    [32, 1605, 1606, 1578, 1580, 32, 1573, 1604, 1609, 32, 1602, 1575, 1574, 1605, 1577, 32,
     1575, 1604, 1606, 1588, 1585, 46]"

definition add_failed_text :: jstring where
  "add_failed_text =
    [1578, 1593, 1584, 1585, 32, 1573, 1590, 1575, 1601, 1577, 32, 1575, 1604, 1605, 1606,
     1578, 1580, 1575, 1578, 32, 1573, 1604, 1609, 32, 1575, 1604, 1602, 1575, 1574, 1605,
     1577, 46]"

definition products_status_text :: jstring where
  "products_status_text =
    [1578, 1605, 32, 1578, 1581, 1583, 1610, 1579, 32, 1581, 1575, 1604, 1577, 32, 1575,
     1604, 1605, 1606, 1578, 1580, 1575, 1578, 32, 1575, 1604, 1605, 1581, 1583, 1583, 1577,
     46]"

definition products_status_failed_text :: jstring where
  "products_status_failed_text =
    [1578, 1593, 1584, 1585, 32, 1578, 1581, 1583, 1610, 1579, 32, 1575, 1604, 1581, 1575,
     1604, 1577, 46]"

definition products_deleted_prefix :: jstring where
  "products_deleted_prefix =
    [1578, 1605, 32, 1581, 1584, 1601, 32]"

definition products_deleted_suffix :: jstring where
  "products_deleted_suffix =
    [32, 1605, 1606, 1578, 1580, 32, 1605, 1606, 32, 1575, 1604, 1605, 1582, 1586, 1608,
     1606, 46]"

definition products_delete_failed_text :: jstring where
  "products_delete_failed_text =
    [1578, 1593, 1584, 1585, 32, 1581, 1584, 1601, 32, 1575, 1604, 1605, 1606, 1578, 1580,
     1575, 1578, 46]"

text \<open>\<open>error instanceof Error ? error.message : fallback\<close>\<close>

definition instance_message :: "thrown \<Rightarrow> jstring \<Rightarrow> jstring" where
  "instance_message e fallback = (if instance_of_Error e then thrown_message e else fallback)"

definition given_if :: "bool \<Rightarrow> 'a \<Rightarrow> 'a field" where
  "given_if b x = (if b then Given x else Absent)"

definition queue_input_of :: "Product \<Rightarrow> QueueUpdate" where
  "queue_input_of p =
     no_update
       \<lparr>u_title := Given (p_title p),
        u_content := Given (join [10, 10] (filter (\<lambda>v. v \<noteq> [])
          (List.map_filter id [Some (p_title p), p_description p, p_affiliate_url p]))),
        u_status := Given Queued,
        u_product_id := Given (p_id p),
        u_image_url := given_if (p_image_url p \<noteq> []) (p_image_url p),
        u_button_text := given_if (truthy (p_affiliate_url p)) buy_now_text,
        u_button_url := (case p_affiliate_url p of None \<Rightarrow> Absent | Some u \<Rightarrow> Given u)\<rparr>"

definition failed_with :: "thrown \<Rightarrow> jstring \<Rightarrow> products_screen \<Rightarrow> products_screen" where
  "failed_with e fallback s = s\<lparr>actionError := Some (instance_message e fallback)\<rparr>"

definition clear_inventory :: "products_screen \<Rightarrow> products_screen" where
  "clear_inventory s = s\<lparr>prs_inventory := clear_products (prs_inventory s)\<rparr>"

definition addProductsToQueue ::
  "(nat \<Rightarrow> jstring) \<Rightarrow> product_server \<Rightarrow> Product list \<Rightarrow> products_screen \<Rightarrow> products_screen" where
  "addProductsToQueue ar srv selected s =
     (if selected = [] then s
      else (case run_calls srv (map (\<lambda>p. CreateQueueItem (queue_input_of p)) selected)
                   (s\<lparr>actionError := None\<rparr>) of
              (Some e, s1) \<Rightarrow> failed_with e add_failed_text s1
            | (None, s1) \<Rightarrow>
                clear_inventory
                  (s1\<lparr>actionMessage := Some (added_prefix @ ar (length selected) @ added_suffix)\<rparr>)))"

definition changeSelectedStatus ::
  "product_server \<Rightarrow> ProductStatus \<Rightarrow> products_screen \<Rightarrow> products_screen" where
  "changeSelectedStatus srv nextStatus s =
     (case run_calls srv
             (map (\<lambda>p. UpdateProduct (p_id p) nextStatus)
                (selectedProducts (prs_inventory s) (prs_items s)))
             (s\<lparr>actionError := None\<rparr>) of
        (Some e, s1) \<Rightarrow> failed_with e products_status_failed_text s1
      | (None, s1) \<Rightarrow> clear_inventory (s1\<lparr>actionMessage := Some products_status_text\<rparr>))"

definition confirmDeleteProducts ::
  "(nat \<Rightarrow> jstring) \<Rightarrow> product_server \<Rightarrow> products_screen \<Rightarrow> products_screen" where
  "confirmDeleteProducts ar srv s =
     (let targets = prs_deleteTargets s in
      (case run_calls srv (map (\<lambda>p. DeleteProduct (p_id p)) targets) (s\<lparr>actionError := None\<rparr>) of
         (Some e, s1) \<Rightarrow> failed_with e products_delete_failed_text s1
       | (None, s1) \<Rightarrow>
           (let s2 = s1\<lparr>actionMessage :=
                          Some (products_deleted_prefix @ ar (length targets) @ products_deleted_suffix)\<rparr>;
                s3 = (if list_ex (\<lambda>p. Some (p_id p) = map_option p_id (activeProduct s)) targets
                      then s2\<lparr>activeProduct := None\<rparr> else s2)
            in (clear_inventory s3)\<lparr>prs_deleteTargets := []\<rparr>)))"

definition sendToAi :: "(jstring \<Rightarrow> jstring) \<Rightarrow> Product \<Rightarrow> products_screen \<Rightarrow> products_screen" where
  "sendToAi encode p s = s\<lparr>prs_routes := prs_routes s @ [js ''/ai?product='' @ encode (p_id p)]\<rparr>"

text \<open>What the screen shows instead of the table.\<close>

definition isEmptyInventory :: "bool \<Rightarrow> products_screen \<Rightarrow> bool" where
  "isEmptyInventory loaded s \<longleftrightarrow> loaded \<and> prs_items s = [] \<and> prs_status s = None"

definition isFilteredEmpty :: "host \<Rightarrow> bool \<Rightarrow> products_screen \<Rightarrow> bool" where
  "isFilteredEmpty h loaded s \<longleftrightarrow> loaded \<and>
     (filteredProducts h (prs_inventory s) (prs_items s) = [] \<or>
      (prs_items s = [] \<and> prs_status s \<noteq> None))"

text \<open>The part below the toolbar, and the two buttons of the pager under the table.\<close>

datatype products_body = LoadingBody | ErrorBody | EmptyInventory | FilteredEmpty | ProductsBody

definition products_body_of :: "host \<Rightarrow> bool \<Rightarrow> bool \<Rightarrow> products_screen \<Rightarrow> products_body" where
  "products_body_of h isPending isError s =
     (let loaded = (\<not> isPending \<and> \<not> isError) in
      if isPending then LoadingBody else if isError then ErrorBody
      else if isEmptyInventory loaded s then EmptyInventory
      else if isFilteredEmpty h loaded s then FilteredEmpty
      else ProductsBody)"

definition previous_disabled :: "products_screen \<Rightarrow> bool" where
  "previous_disabled s = (prs_page s = 0)"

definition next_disabled :: "products_screen \<Rightarrow> bool" where
  "next_disabled s = (prs_total s \<le> (prs_page s + 1) * prs_pageSize s)"

datatype products_action =
  ProductsArrived "Product list" nat
| SearchProducts jstring | FilterStatus "ProductStatus option" | SortProducts ProductSort
| SetTableDensity ProductTableDensity | ToggleColumn ProductTableColumn | SetProductsPageSize nat
| ToggleProduct jstring | ToggleAllProducts | ClearProducts | PreviousPage | NextPage | ClearFilters
| Preview Product | ClosePreview | SendToAi Product | SendSelectedToAi | ExportSelected
| AddToQueue "Product list" | ChangeSelectedStatus ProductStatus
| AskDeleteProducts "Product list" | CancelDeleteProducts | ConfirmDeleteProducts | DismissMessage

definition products_step ::
  "host \<Rightarrow> (nat \<Rightarrow> jstring) \<Rightarrow> (jsnum \<Rightarrow> jstring) \<Rightarrow> (jstring \<Rightarrow> jstring) \<Rightarrow> product_server
     \<Rightarrow> products_screen \<Rightarrow> products_action \<Rightarrow> products_screen" where
  "products_step h ar num_text encode srv s a =
     (let v = prs_inventory s; items = prs_items s in
      (case a of
         ProductsArrived items' amount \<Rightarrow>
           s\<lparr>prs_items := items', prs_total := amount, prs_inventory := available_effect items' v\<rparr>
       | SearchProducts value \<Rightarrow> clear_inventory (s\<lparr>prs_inventory := v\<lparr>clientSearch := value\<rparr>\<rparr>)
       | FilterStatus value \<Rightarrow> clear_inventory (s\<lparr>prs_status := value, prs_page := 0\<rparr>)
       | SortProducts value \<Rightarrow> s\<lparr>prs_inventory := v\<lparr>inv_sort := value\<rparr>\<rparr>
       | SetTableDensity value \<Rightarrow> s\<lparr>prs_inventory := v\<lparr>tableDensity := value\<rparr>\<rparr>
       | ToggleColumn column \<Rightarrow> s\<lparr>prs_inventory := toggleColumn column v\<rparr>
       | SetProductsPageSize value \<Rightarrow> clear_inventory (s\<lparr>prs_pageSize := value, prs_page := 0\<rparr>)
       | ToggleProduct i \<Rightarrow>
           s\<lparr>prs_inventory := v\<lparr>selectedProductIds := toggle_id i (selectedProductIds v)\<rparr>\<rparr>
       | ToggleAllProducts \<Rightarrow> s\<lparr>prs_inventory := toggleAllProducts h items v\<rparr>
       | ClearProducts \<Rightarrow> clear_inventory s
       | PreviousPage \<Rightarrow> clear_inventory (s\<lparr>prs_page := prs_page s - 1\<rparr>)
       | NextPage \<Rightarrow> clear_inventory (s\<lparr>prs_page := prs_page s + 1\<rparr>)
       | ClearFilters \<Rightarrow>
           s\<lparr>prs_inventory := v\<lparr>clientSearch := []\<rparr>, prs_status := None, prs_page := 0\<rparr>
       | Preview p \<Rightarrow> s\<lparr>activeProduct := Some p\<rparr>
       | ClosePreview \<Rightarrow> s\<lparr>activeProduct := None\<rparr>
       | SendToAi p \<Rightarrow> sendToAi encode p s
       | SendSelectedToAi \<Rightarrow>
           (case selectedProducts v items of [] \<Rightarrow> s | p # _ \<Rightarrow> sendToAi encode p s)
       | ExportSelected \<Rightarrow>
           s\<lparr>prs_downloads := prs_downloads s @ [exportProductsCsv num_text (selectedProducts v items)]\<rparr>
       | AddToQueue selected \<Rightarrow> addProductsToQueue ar srv selected s
       | ChangeSelectedStatus status \<Rightarrow> changeSelectedStatus srv status s
       | AskDeleteProducts targets \<Rightarrow> s\<lparr>prs_deleteTargets := targets\<rparr>
       | CancelDeleteProducts \<Rightarrow> s\<lparr>prs_deleteTargets := []\<rparr>
       | ConfirmDeleteProducts \<Rightarrow> confirmDeleteProducts ar srv s
       | DismissMessage \<Rightarrow> s\<lparr>actionError := None, actionMessage := None\<rparr>))"

definition fresh_products :: "jstring option \<Rightarrow> products_screen" where
  "fresh_products ws =
     \<lparr>prs_workspace = ws, prs_items = [], prs_total = 0, prs_status = None, prs_page = 0,
      prs_pageSize = 25, prs_inventory = initial_inventory, activeProduct = None,
      prs_deleteTargets = [], actionError = None, actionMessage = None, prs_calls = [],
      prs_invalidated = [], prs_details = [], prs_routes = [], prs_downloads = []\<rparr>"

section \<open>Loops of calls\<close>

text \<open>What a loop of calls leaves alone.\<close>

definition same_view :: "products_screen \<Rightarrow> products_screen \<Rightarrow> bool" where
  "same_view s s1 \<longleftrightarrow>
     prs_inventory s1 = prs_inventory s \<and> prs_items s1 = prs_items s \<and>
     prs_page s1 = prs_page s \<and> prs_pageSize s1 = prs_pageSize s \<and>
     prs_deleteTargets s1 = prs_deleteTargets s \<and> activeProduct s1 = activeProduct s \<and>
     actionMessage s1 = actionMessage s \<and> actionError s1 = actionError s"

lemma call_succeeded_keeps:
  "same_view s (call_succeeded srv past c s)" "prs_calls (call_succeeded srv past c s) = prs_calls s"
  by (auto simp: same_view_def call_succeeded_def split: product_call.splits sum.splits)

lemma fold_succeeded_keeps:
  "same_view s (foldl (\<lambda>s' j. call_succeeded srv (f j) (g j) s') s ns) \<and>
   prs_calls (foldl (\<lambda>s' j. call_succeeded srv (f j) (g j) s') s ns) = prs_calls s"
proof (induction ns arbitrary: s)
  case Nil
  then show ?case by (simp add: same_view_def)
next
  case (Cons j ns)
  from Cons [of "call_succeeded srv (f j) (g j) s"] call_succeeded_keeps [where s = s and srv = srv
      and past = "f j" and c = "g j"]
  show ?case by (simp add: same_view_def)
qed

lemma run_calls_cases:
  obtains (Done) s1 where "run_calls srv cs s = (None, s1)"
      "all_succeed (product_error srv) (prs_calls s) cs" "prs_calls s1 = prs_calls s @ cs"
      "same_view s s1"
  | (Stopped) s1 k e where "run_calls srv cs s = (Some e, s1)"
      "\<not> all_succeed (product_error srv) (prs_calls s) cs"
      "fails_at (product_error srv) (prs_calls s) cs k e"
      "prs_calls s1 = prs_calls s @ take (Suc k) cs" "same_view s s1"
proof -
  let ?r = "await_all (product_error srv) (prs_calls s) cs"
  let ?s1 = "snd (run_calls srv cs s)"
  have k: "same_view s ?s1" "prs_calls ?s1 = snd ?r"
    using fold_succeeded_keeps [of "s\<lparr>prs_calls := snd ?r\<rparr>" srv "\<lambda>j. prs_calls s @ take j cs"
        "\<lambda>j. cs ! j" "[0..<succeeded (prs_calls s) ?r]"]
    by (simp_all add: run_calls_def Let_def same_view_def)
  have "fst (run_calls srv cs s) = fst ?r" by (simp add: run_calls_def Let_def)
  then show thesis
    using k that by (cases rule: await_all_cases [of "product_error srv" "prs_calls s" cs])
      (metis fst_conv snd_conv prod.collapse)+
qed


text \<open>What a handler that failed leaves: the calls up to the failing one, and the message.\<close>

lemma failed_with_simps [simp]:
  "prs_calls (failed_with e m s) = prs_calls s" "prs_inventory (failed_with e m s) = prs_inventory s"
  "prs_items (failed_with e m s) = prs_items s"
  "prs_deleteTargets (failed_with e m s) = prs_deleteTargets s"
  "actionError (failed_with e m s) = Some (instance_message e m)"
  by (simp_all add: failed_with_def)

lemma clear_inventory_simps [simp]:
  "prs_calls (clear_inventory s) = prs_calls s" "prs_items (clear_inventory s) = prs_items s"
  "selectedProductIds (prs_inventory (clear_inventory s)) = []"
  "visibleColumns (prs_inventory (clear_inventory s)) = visibleColumns (prs_inventory s)"
  "prs_deleteTargets (clear_inventory s) = prs_deleteTargets s"
  "actionError (clear_inventory s) = actionError s"
  "actionMessage (clear_inventory s) = actionMessage s"
  "activeProduct (clear_inventory s) = activeProduct s"
  by (simp_all add: clear_inventory_def clear_products_def)

section \<open>Adding products to the queue\<close>

text \<open>Moving products to the publishing queue makes one create call per product, in their order:
  either all are accepted, then the success is reported and the selection is cleared, or the loop
  stops at the first one refused, nothing is asked for the later ones, the selection stays and an
  error is shown; and a queue item carries a button text exactly when it has a link to go to.\<close>

theorem addProductsToQueue_all_or_first_failure:
  "let cs = map (\<lambda>p. CreateQueueItem (queue_input_of p)) selected;
       past = prs_calls s;
       s' = addProductsToQueue ar srv selected s
   in (if selected = [] then s' = s
       else if all_succeed (product_error srv) past cs
       then prs_calls s' = past @ cs \<and> selectedProductIds (prs_inventory s') = [] \<and>
         actionError s' = None \<and>
         actionMessage s' = Some (added_prefix @ ar (length selected) @ added_suffix)
       else (\<exists>k e. fails_at (product_error srv) past cs k e \<and>
         prs_calls s' = past @ take (Suc k) cs \<and> prs_inventory s' = prs_inventory s \<and>
         actionError s' = Some (instance_message e add_failed_text) \<and>
         actionMessage s' = actionMessage s)) \<and>
      list_all (\<lambda>p. (u_button_text (queue_input_of p) = Given buy_now_text) =
        (\<exists>u. u_button_url (queue_input_of p) = Given u \<and> u \<noteq> [])) selected"
proof -
  let ?cs = "map (\<lambda>p. CreateQueueItem (queue_input_of p)) selected"
  let ?s = "s\<lparr>actionError := None\<rparr>"
  have b: "(u_button_text (queue_input_of p) = Given buy_now_text) =
        (\<exists>u. u_button_url (queue_input_of p) = Given u \<and> u \<noteq> [])" for p
    by (auto simp: queue_input_of_def given_if_def truthy_def no_update_def split: option.splits)
  show ?thesis
  proof (cases rule: run_calls_cases [of srv ?cs ?s])
    case (Done s1)
    then show ?thesis
      by (auto simp: addProductsToQueue_def Let_def same_view_def b list_all_iff)
  next
    case (Stopped s1 k e)
    then show ?thesis
      by (auto simp: addProductsToQueue_def Let_def same_view_def b list_all_iff failed_with_def
          intro!: exI)
  qed
qed

text \<open>A retry repeats what was done: when moving products to the queue was refused at some product
  and the user, whose selection is still there, presses the button again and all goes well, every
  product before the refused one has been created twice.\<close>

theorem add_retry_duplicates:
  assumes "selected = selectedProducts (prs_inventory s) (prs_items s)"
    and "fails_at (product_error srv) (prs_calls s)
           (map (\<lambda>p. CreateQueueItem (queue_input_of p)) selected) k e"
    and "all_succeed (product_error srv)
           (prs_calls s @ map (\<lambda>p. CreateQueueItem (queue_input_of p)) (take (Suc k) selected))
           (map (\<lambda>p. CreateQueueItem (queue_input_of p)) selected)"
  shows "let s1 = addProductsToQueue ar srv selected s;
             again = selectedProducts (prs_inventory s1) (prs_items s1);
             s2 = addProductsToQueue ar srv again s1
    in again = selected \<and>
       (\<exists>tail. prs_calls s2 = prs_calls s @
          map (\<lambda>p. CreateQueueItem (queue_input_of p)) (take (Suc k) selected) @
          map (\<lambda>p. CreateQueueItem (queue_input_of p)) (take k selected) @ tail) \<and>
       list_all (\<lambda>p. 2 \<le> count_list (prs_calls s2) (CreateQueueItem (queue_input_of p)))
         (take k selected)"
proof -
  let ?c = "\<lambda>p. CreateQueueItem (queue_input_of p)"
  let ?s1 = "addProductsToQueue ar srv selected s"
  have ne: "selected \<noteq> []" using assms(2) by (auto simp: fails_at_def)
  have nall: "\<not> all_succeed (product_error srv) (prs_calls s) (map ?c selected)"
    by (rule fails_at_not_all [OF assms(2)])
  have s1: "prs_calls ?s1 = prs_calls s @ map ?c (take (Suc k) selected) \<and>
      prs_inventory ?s1 = prs_inventory s \<and> prs_items ?s1 = prs_items s"
  proof (cases rule: run_calls_cases [of srv "map ?c selected" "s\<lparr>actionError := None\<rparr>"])
    case (Done s1)
    then show ?thesis using nall by simp
  next
    case (Stopped s1 k' e')
    with assms(2) have "k' = k" using fails_at_unique by fastforce
    with Stopped ne show ?thesis
      by (simp add: addProductsToQueue_def same_view_def take_map)
  qed
  have s2: "prs_calls (addProductsToQueue ar srv selected ?s1) =
      prs_calls s @ map ?c (take (Suc k) selected) @ map ?c selected"
  proof (cases rule: run_calls_cases [of srv "map ?c selected" "?s1\<lparr>actionError := None\<rparr>"])
    case (Done s')
    then show ?thesis using ne s1 by (simp add: addProductsToQueue_def)
  next
    case (Stopped s' k' e')
    then show ?thesis using assms(3) s1 by simp
  qed
  have split: "map ?c selected = map ?c (take k selected) @ map ?c (drop k selected)"
    by (simp flip: map_append)
  have two: "2 \<le> count_list (prs_calls s @ map ?c (take (Suc k) selected) @ map ?c selected) (?c p)"
    if "p \<in> set (take k selected)" for p
    using that count_list_member [of p "take (Suc k) selected" ?c] count_list_member [of p selected ?c]
      set_take_subset_set_take [of k "Suc k" selected] set_take_subset [of k selected] by fastforce
  show ?thesis
    using s1 s2 assms(1) two split by (auto simp: Let_def list_all_iff)
qed

text \<open>What the server says about a refusal is not shown on this screen: an API error is a plain
  object, not an instance of \<open>Error\<close>, so a status change or a deletion that the API refuses shows
  the generic text, whatever the error's message, although the products are left as they were.\<close>

theorem product_error_detail_lost:
  assumes "prs_deleteTargets s = p # targets"
    and "pv_delete srv (prs_calls s) (p_id p) = Some (ThrownApi e)"
  shows "let s' = confirmDeleteProducts ar srv s
    in actionError s' = Some products_delete_failed_text \<and>
       getApiErrorMessage (ThrownApi e) products_delete_failed_text =
         (if ae_message e = [] then products_delete_failed_text else ae_message e) \<and>
       prs_calls s' = prs_calls s @ [DeleteProduct (p_id p)] \<and>
       prs_items s' = prs_items s \<and> prs_deleteTargets s' = prs_deleteTargets s"
proof -
  let ?cs = "map (\<lambda>p. DeleteProduct (p_id p)) (p # targets)"
  have first: "product_error srv (prs_calls s) (?cs ! 0) = Some (ThrownApi e)"
    using assms(2) by (simp add: product_error_def)
  then have f: "fails_at (product_error srv) (prs_calls s) ?cs 0 (ThrownApi e)"
    by (simp add: fails_at_def)
  show ?thesis
  proof (cases rule: run_calls_cases [of srv ?cs "s\<lparr>actionError := None\<rparr>"])
    case (Done s1)
    then show ?thesis using fails_at_not_all [OF f] by simp
  next
    case (Stopped s1 k e')
    then have "fails_at (product_error srv) (prs_calls s) ?cs k e'" by simp
    note u = fails_at_unique [OF f this]
    from Stopped show ?thesis
      by (auto simp: confirmDeleteProducts_def assms(1) Let_def u instance_message_def
          instance_of_Error_def getApiErrorMessage_def isApiError_def thrown_message_def same_view_def)
  qed
qed

section \<open>The invariant of the screen\<close>

definition inventory_inv :: "Product list \<Rightarrow> inventory_state \<Rightarrow> bool" where
  "inventory_inv items v \<longleftrightarrow>
     set (selectedProductIds v) \<subseteq> p_id ` set items \<and> distinct (selectedProductIds v) \<and>
     {ColProduct, ColActions} \<subseteq> set (visibleColumns v) \<and> distinct (visibleColumns v)"

definition products_inv :: "products_screen \<Rightarrow> bool" where
  "products_inv s \<longleftrightarrow> inventory_inv (prs_items s) (prs_inventory s)"

definition products_ok :: "products_screen \<Rightarrow> products_action \<Rightarrow> bool" where
  "products_ok s a = (case a of ToggleProduct i \<Rightarrow> i \<in> p_id ` set (prs_items s) | _ \<Rightarrow> True)"

lemmas products_inv_defs = products_inv_def inventory_inv_def

lemma clear_inventory_inv: "products_inv s \<Longrightarrow> products_inv (clear_inventory s)"
  by (simp add: products_inv_defs)

lemma same_view_inv: "same_view s s1 \<Longrightarrow> products_inv s \<Longrightarrow> products_inv s1"
  by (simp add: products_inv_def same_view_def)

lemma run_calls_inv: "run_calls srv cs s = (r, s1) \<Longrightarrow> products_inv s \<Longrightarrow> products_inv s1"
  by (cases rule: run_calls_cases [of srv cs s]) (auto intro: same_view_inv)

lemma messages_inv [simp]:
  "products_inv (s\<lparr>actionError := e\<rparr>) = products_inv s"
  "products_inv (s\<lparr>actionMessage := m\<rparr>) = products_inv s"
  "products_inv (s\<lparr>activeProduct := p\<rparr>) = products_inv s"
  "products_inv (s\<lparr>prs_deleteTargets := ts\<rparr>) = products_inv s"
  "products_inv (failed_with e' f s) = products_inv s"
  by (simp_all add: products_inv_def failed_with_def)

lemma handlers_inv:
  assumes "products_inv s"
  shows "products_inv (addProductsToQueue ar srv selected s)"
    and "products_inv (changeSelectedStatus srv nextStatus s)"
    and "products_inv (confirmDeleteProducts ar srv s)"
  using assms
  by (auto simp: addProductsToQueue_def changeSelectedStatus_def confirmDeleteProducts_def Let_def
      intro!: clear_inventory_inv dest: run_calls_inv split: prod.splits option.splits)

lemma filteredProducts_subset: "set (filteredProducts h v items) \<subseteq> set items"
  by (auto simp: filteredProducts_def Let_def)

lemma toggleColumn_inv: "inventory_inv items v \<Longrightarrow> inventory_inv items (toggleColumn column v)"
  by (auto simp: toggleColumn_def inventory_inv_def)

lemma products_step_inv:
  assumes "products_inv s" "products_ok s a"
  shows "products_inv (products_step h ar num_text encode srv s a)"
proof (cases a)
  case (ProductsArrived items amount)
  then show ?thesis
    using assms queue_rows.prune_valid [of "map p_id items" "selectedProductIds (prs_inventory s)"]
      queue_rows.prune_distinct [of "selectedProductIds (prs_inventory s)" "map p_id items"]
    by (simp add: products_step_def Let_def products_inv_defs available_effect_def)
next
  case (ToggleProduct i)
  then show ?thesis
    using assms queue_rows.toggle_in_valid [of "selectedProductIds (prs_inventory s)"
        "map p_id (prs_items s)" i]
    by (simp add: products_step_def Let_def products_inv_defs products_ok_def toggle_id_distinct)
next
  case ToggleAllProducts
  then show ?thesis
    using assms filteredProducts_subset [of h "prs_inventory s" "prs_items s"]
    by (auto simp: products_step_def Let_def products_inv_defs toggleAllProducts_def toggle_all_set
        toggle_all_distinct)
next
  case (ToggleColumn column)
  then show ?thesis
    using assms toggleColumn_inv [of "prs_items s" "prs_inventory s" column]
    by (simp add: products_step_def Let_def products_inv_def)
next
  case SendSelectedToAi
  then show ?thesis
    using assms by (auto simp: products_step_def Let_def products_inv_defs sendToAi_def split: list.splits)
qed (use assms in \<open>simp_all add: products_step_def Let_def handlers_inv\<close>,
  (simp add: products_inv_defs clear_inventory_def clear_products_def sendToAi_def)+)

interpretation products_machine: state_machine "products_step h ar num_text encode srv" products_ok
  products_inv for h ar num_text encode srv
  by unfold_locales (rule products_step_inv)

text \<open>Through any use of the inventory screen and any answers of the server, the selected ids are
  distinct ids of products that are loaded, so the actions on the selection get exactly the
  selected products, and the columns that carry the name and the actions cannot be hidden.\<close>

theorem products_screen_invariant:
  assumes "admissible (products_step h ar num_text encode srv) products_ok (fresh_products ws) actions"
  shows "let s = run (products_step h ar num_text encode srv) (fresh_products ws) actions;
             v = prs_inventory s
    in set (selectedProductIds v) = set (map p_id (selectedProducts v (prs_items s))) \<and>
       distinct (selectedProductIds v) \<and>
       {ColProduct, ColActions} \<subseteq> set (visibleColumns v) \<and> distinct (visibleColumns v)"
proof -
  have "products_inv (fresh_products ws)"
    by (simp add: products_inv_defs fresh_products_def initial_inventory_def DEFAULT_PRODUCT_COLUMNS_def)
  from products_machine.run_inv [OF this assms] show ?thesis
    by (auto simp: Let_def products_inv_defs selectedProducts_def)
qed

section \<open>Order and pages\<close>

definition num_key :: "jsnum \<Rightarrow> rat" where
  "num_key n = (case n of Num q \<Rightarrow> q | _ \<Rightarrow> 0)"

text \<open>What the chosen order compares, and whether it grows down the table.\<close>

definition product_field :: "host \<Rightarrow> ProductSort \<Rightarrow> Product \<Rightarrow> jsnum" where
  "product_field h srt p = (case srt of
     ScoreDesc \<Rightarrow> p_score p | SalesDesc \<Rightarrow> p_sales p | RatingDesc \<Rightarrow> p_rating p
   | PriceAsc \<Rightarrow> p_price p | PriceDesc \<Rightarrow> p_price p
   | SortNewest \<Rightarrow> date_parse h (p_created_at p))"

definition product_key :: "host \<Rightarrow> ProductSort \<Rightarrow> Product \<Rightarrow> rat" where
  "product_key h srt p =
     (if srt = PriceAsc then num_key (product_field h srt p) else - num_key (product_field h srt p))"

lemma product_compare_key:
  assumes "is_finite (product_field h srt x)" "is_finite (product_field h srt y)"
  shows "num_positive (product_compare h srt x y) \<longleftrightarrow> product_key h srt y < product_key h srt x"
  using assms
  by (cases srt)
    (auto simp: product_field_def product_compare_def product_key_def num_key_def is_finite_iff
      num_positive_minus num_positive_def)

interpretation product_order: keyed_comparator "product_compare h srt" "product_key h srt"
  "\<lambda>p. is_finite (product_field h srt p)" for h srt
  by unfold_locales (rule product_compare_key)

text \<open>The inventory shown is what the server sent, filtered and ordered: the rows are exactly the
  products that match the search, and when their numbers and dates can be read they stand in the
  chosen order, products of equal key as the server listed them; products in normal form are
  always in order by price, score, rating and sales.\<close>

theorem filteredProducts_correct:
  assumes "list_all (\<lambda>p. is_finite (product_field h (inv_sort v) p)) items"
  shows "let query = lower h (trim (clientSearch v));
             wanted = (\<lambda>p. query = [] \<or> product_matches h query p);
             key = product_key h (inv_sort v);
             rows = filteredProducts h v items
    in mset rows = filter_mset wanted (mset items) \<and> sorted (map key rows) \<and>
       filter (\<lambda>p. key p = k) rows = filter (\<lambda>p. key p = k) (filter wanted items)"
proof -
  let ?q = "lower h (trim (clientSearch v))"
  let ?w = "\<lambda>p. ?q = [] \<or> product_matches h ?q p"
  have rows: "filteredProducts h v items = sort_by (product_compare h (inv_sort v)) (filter ?w items)"
    by (auto simp: filteredProducts_def Let_def)
  have "list_all (\<lambda>p. is_finite (product_field h (inv_sort v) p)) (filter ?w items)"
    using assms by (auto simp: list_all_iff)
  then show ?thesis
    using product_order.sort_by_sorted product_order.sort_by_stable by (simp add: rows mset_sort_by Let_def)
qed

text \<open>Emptying the last page hides the inventory: when the products of a later page are gone and
  the refetched page is empty, the screen says that the whole inventory is empty, without the
  table or its pager, although every earlier page still has its products; the page is not stepped
  back.\<close>

theorem emptied_page_hides_inventory:
  assumes "0 < prs_page s" "0 < prs_pageSize s" "prs_status s = None"
    and "length rest = prs_page s * prs_pageSize s"
  shows "let arrived = take (prs_pageSize s) (drop (prs_page s * prs_pageSize s) rest);
             s' = products_step h ar num_text encode srv s (ProductsArrived arrived (length rest))
    in products_body_of h False False s' = EmptyInventory \<and> 0 < prs_total s' \<and>
       prs_page s' = prs_page s"
  using assms by (auto simp: products_step_def products_body_of_def isEmptyInventory_def Let_def)

section \<open>A small inventory\<close>

definition sample_product :: "jstring \<Rightarrow> rat \<Rightarrow> Product" where
  "sample_product i price =
     \<lparr>p_id = i, p_aliexpress_product_id = None, p_title = js ''Lamp'', p_description = None,
      p_price = Num price, p_original_price = None, p_discount = Num 0, p_rating = Num 4,
      p_sales = Num 10, p_reviews = Num 2, p_image_url = [], p_gallery_images = None,
      p_product_url = js ''u'', p_affiliate_url = None, p_category = None, p_store_name = None,
      p_currency = js ''USD'', p_commission_rate = None, p_shipping_info = None, p_score = Num 60,
      p_status = PActive, p_last_synced_at = None, p_created_at = js ''2024-01-01'',
      p_updated_at = js ''2024-01-01''\<rparr>"

definition sample_products :: "Product list" where
  "sample_products = [sample_product (js ''a'') 2, sample_product (js ''b'') 1]"

text \<open>A server that refuses its second call, and everything but creations.\<close>

definition second_refused :: product_server where
  "second_refused =
     \<lparr>pv_create = (\<lambda>past _. if length past = 1 then Some ThrownOther else None),
      pv_update = (\<lambda>_ _ _. Inl ThrownOther), pv_delete = (\<lambda>_ _. Some (ThrownApi MISSING_WORKSPACE_ERROR))\<rparr>"

definition sample_inventory :: products_screen where
  "sample_inventory = (fresh_products (Some (js ''w'')))
     \<lparr>prs_items := sample_products, prs_deleteTargets := sample_products,
      prs_inventory := initial_inventory\<lparr>selectedProductIds := [js ''a'', js ''b'']\<rparr>\<rparr>"

lemma add_retry_duplicates_witness:
  "let s1 = addProductsToQueue (\<lambda>_. []) second_refused sample_products sample_inventory;
       s2 = addProductsToQueue (\<lambda>_. []) second_refused (selectedProducts (prs_inventory s1) (prs_items s1)) s1
   in 2 \<le> count_list (prs_calls s2) (CreateQueueItem (queue_input_of (hd sample_products)))"
proof -
  let ?cs = "map (\<lambda>p. CreateQueueItem (queue_input_of p)) sample_products"
  have sel: "sample_products = selectedProducts (prs_inventory sample_inventory) (prs_items sample_inventory)"
    by code_simp
  have calls: "prs_calls sample_inventory = []"
    by (simp add: sample_inventory_def fresh_products_def)
  have f: "fails_at (product_error second_refused) (prs_calls sample_inventory) ?cs 1 ThrownOther"
    by (simp add: fails_at_def sample_products_def calls product_error_def second_refused_def)
  have a: "all_succeed (product_error second_refused)
      (prs_calls sample_inventory @ map (\<lambda>p. CreateQueueItem (queue_input_of p)) (take (Suc 1) sample_products)) ?cs"
    by (simp add: sample_products_def calls product_error_def second_refused_def)
  have t: "take (Suc 0) sample_products = [hd sample_products]" by (simp add: sample_products_def)
  show ?thesis
    using add_retry_duplicates [OF sel f a, of "\<lambda>_. []"] by (auto simp: Let_def t)
qed

lemma product_error_detail_lost_witness:
  "actionError (confirmDeleteProducts (\<lambda>_. []) second_refused sample_inventory) =
     Some products_delete_failed_text"
proof -
  have t: "prs_deleteTargets sample_inventory =
      sample_product (js ''a'') 2 # [sample_product (js ''b'') 1]"
    by (simp add: sample_inventory_def sample_products_def)
  have "pv_delete second_refused (prs_calls sample_inventory) (p_id (sample_product (js ''a'') 2)) =
      Some (ThrownApi MISSING_WORKSPACE_ERROR)" by (simp add: second_refused_def)
  from product_error_detail_lost [where ar = "\<lambda>_. []", OF t this] show ?thesis by (simp add: Let_def)
qed

lemma products_screen_invariant_witness:
  "let s = run (products_step (utc_host 0) (\<lambda>_. []) (\<lambda>_. []) (\<lambda>u. u) second_refused)
       (fresh_products None)
       [ProductsArrived sample_products 2, ToggleAllProducts, ToggleProduct (js ''a''),
        ToggleColumn ColActions, ProductsArrived [] 0]
   in selectedProductIds (prs_inventory s) = []"
proof -
  let ?step = "products_step (utc_host 0) (\<lambda>_. []) (\<lambda>_. []) (\<lambda>u. u) second_refused"
  let ?as = "[ProductsArrived sample_products 2, ToggleAllProducts, ToggleProduct (js ''a''),
        ToggleColumn ColActions, ProductsArrived [] 0]"
  have i: "p_id ` set sample_products = {js ''a'', js ''b''}"
    by (simp add: sample_products_def sample_product_def)
  have a: "admissible ?step products_ok (fresh_products None) ?as"
    by (simp add: products_ok_def products_step_def i toggleAllProducts_def Let_def)
  have "prs_items (run ?step (fresh_products None) ?as) = []"
    by (simp add: products_step_def)
  with products_screen_invariant [OF a] show ?thesis by (simp add: Let_def selectedProducts_def)
qed

lemma filteredProducts_correct_witness:
  "let v = initial_inventory\<lparr>inv_sort := PriceAsc\<rparr>
   in sorted (map (product_key (utc_host 0) PriceAsc) (filteredProducts (utc_host 0) v sample_products))"
proof -
  let ?v = "initial_inventory\<lparr>inv_sort := PriceAsc\<rparr>"
  have "list_all (\<lambda>p. is_finite (product_field (utc_host 0) (inv_sort ?v) p)) sample_products"
    by (simp add: sample_products_def sample_product_def product_field_def)
  from filteredProducts_correct [OF this] show ?thesis by (simp add: Let_def)
qed

lemma emptied_page_hides_inventory_witness:
  "products_body_of (utc_host 0) False False
     (products_step (utc_host 0) (\<lambda>_. []) (\<lambda>_. []) (\<lambda>u. u) second_refused
        (sample_inventory\<lparr>prs_page := 1, prs_pageSize := 2\<rparr>) (ProductsArrived [] 2)) = EmptyInventory"
proof -
  let ?s = "sample_inventory\<lparr>prs_page := 1, prs_pageSize := 2\<rparr>"
  have "0 < prs_page ?s" "0 < prs_pageSize ?s" "prs_status ?s = None"
    "length sample_products = prs_page ?s * prs_pageSize ?s"
    by (simp_all add: sample_inventory_def fresh_products_def sample_products_def)
  from emptied_page_hides_inventory [OF this, of "utc_host 0" "\<lambda>_. []" "\<lambda>_. []" "\<lambda>u. u" second_refused]
  show ?thesis by (simp add: Let_def sample_products_def numeral_2_eq_2)
qed

end
