(* ===== verification/DiscoveryScreen.thy ===== *)
theory DiscoveryScreen
  imports DiscoveryData ProductScreen
begin

text \<open>
  The discovery screen: the hooks of \<open>frontend/src/features/discovery/hooks/useDiscovery.ts\<close>, the
  checks of \<open>components/ImageSearchPanel.tsx\<close>, and the state, effects and handlers of
  \<open>components/DiscoveryView.tsx\<close>.  What the two queries report to a render is not computed but given
  with every action; the calls of the handlers are answered by a parameter that may depend on every
  call made before.  \<open>lower_case\<close> is \<open>toLowerCase\<close>.
\<close>

section \<open>Image searches\<close>

datatype image_source = FromUrl | FromUpload

record ProductImageSearchKey =
  ik_source :: image_source
  ik_image_url :: "jstring option"
  ik_fingerprint :: "jstring option"
  ik_page :: nat

record ProductImageSearchRequest =
  ir_image_url :: "jstring option"
  ir_image_base64 :: "jstring option"
  ir_page :: "nat option"
  ir_page_size :: "nat option"

record upload_file =
  uf_name :: jstring
  uf_type :: jstring
  uf_size :: nat
  uf_lastModified :: nat

definition imageSearchFingerprint :: "upload_file \<Rightarrow> jstring" where
  "imageSearchFingerprint file =
     js ''upload:'' @ uf_name file @ js '':'' @ decimal (uf_size file) @ js '':'' @
     decimal (uf_lastModified file)"

definition toImageSearchRequest ::
  "(jstring \<rightharpoonup> jstring) \<Rightarrow> ProductImageSearchKey \<Rightarrow> ProductImageSearchRequest" where
  "toImageSearchRequest bodies input =
     (let page = (if ik_page input = 0 then 1 else ik_page input) in
      if ik_source input = FromUrl
      then \<lparr>ir_image_url = ik_image_url input, ir_image_base64 = None, ir_page = Some page,
            ir_page_size = Some 20\<rparr>
      else \<lparr>ir_image_url = None,
            ir_image_base64 = (if truthy (ik_fingerprint input)
                               then bodies (the (ik_fingerprint input)) else None),
            ir_page = Some page, ir_page_size = Some 20\<rparr>)"

definition image_can_run :: "(jstring \<rightharpoonup> jstring) \<Rightarrow> ProductImageSearchKey option \<Rightarrow> bool" where
  "image_can_run bodies input = (case input of
     None \<Rightarrow> False
   | Some k \<Rightarrow>
       if ik_source k = FromUrl then truthy (ik_image_url k)
       else truthy (ik_fingerprint k) \<and> truthy (bodies (the (ik_fingerprint k))))"

text \<open>The panel: the error it shows, or the search it hands on.  \<open>url_protocol\<close> is the protocol the URL
  constructor reads, \<open>None\<close> where it throws.\<close>

definition need_image_text :: jstring where
  "need_image_text =
    [1571, 1583, 1582, 1604, 32, 1585, 1575, 1576, 1591, 32, 1589, 1608, 1585, 1577, 32,
     1571, 1608, 32, 1575, 1585, 1601, 1593, 32, 1605, 1604, 1601, 1611, 1575, 46]"

definition bad_image_url_text :: jstring where
  "bad_image_url_text =
    [1571, 1583, 1582, 1604, 32, 1585, 1575, 1576, 1591, 32, 1589, 1608, 1585, 1577, 32,
     1589, 1575, 1604, 1581, 1611, 1575, 46]"

definition images_only_text :: jstring where
  "images_only_text =
    [1575, 1585, 1601, 1593, 32, 1605, 1604, 1601, 32, 1589, 1608, 1585, 1577, 32, 1601,
     1602, 1591, 46]"

definition too_large_text :: jstring where
  "too_large_text =
    [1581, 1580, 1605, 32, 1575, 1604, 1589, 1608, 1585, 1577, 32, 1571, 1603, 1576, 1585,
     32, 1605, 1606, 32, 53, 77, 66, 46]"

definition MAX_UPLOAD_BYTES :: nat where
  "MAX_UPLOAD_BYTES = 5 * 1024 * 1024"

definition isHttpUrl :: "(jstring \<Rightarrow> jstring option) \<Rightarrow> jstring \<Rightarrow> bool" where
  "isHttpUrl url_protocol v = (url_protocol v \<in> {Some (js ''http:''), Some (js ''https:'')})"

definition after_comma :: "jstring \<Rightarrow> jstring" where
  "after_comma result = (case find_index (\<lambda>c. c = 44) result of
     Some i \<Rightarrow> drop (i + 1) result | None \<Rightarrow> result)"

definition submitUrl ::
  "(jstring \<Rightarrow> jstring option) \<Rightarrow> jstring \<Rightarrow> jstring + ProductImageSearchRequest" where
  "submitUrl url_protocol imageUrl =
     (let trimmed = trim imageUrl in
      if trimmed = [] then Inl need_image_text
      else if \<not> isHttpUrl url_protocol trimmed then Inl bad_image_url_text
      else Inr \<lparr>ir_image_url = Some trimmed, ir_image_base64 = None, ir_page = Some 1,
                ir_page_size = Some 20\<rparr>)"

text \<open>\<open>data_url\<close> is what the reader makes of the file.\<close>

definition submitFile :: "jstring \<Rightarrow> upload_file \<Rightarrow> jstring + ProductImageSearchRequest" where
  "submitFile data_url file =
     (if \<not> starts_with (js ''image/'') (uf_type file) then Inl images_only_text
      else if uf_size file > MAX_UPLOAD_BYTES then Inl too_large_text
      else Inr \<lparr>ir_image_url = None, ir_image_base64 = Some (after_comma data_url),
                ir_page = Some 1, ir_page_size = Some 20\<rparr>)"

section \<open>State\<close>

text \<open>What a query reports: whether a request is under way, and how the last one ended.\<close>

datatype query_status = QueryPending | QueryDone DiscoveryResponse | QueryFailed thrown "DiscoveryResponse option"

record query_report =
  qr_fetching :: bool
  qr_status :: query_status

definition query_data :: "query_report \<Rightarrow> DiscoveryResponse option" where
  "query_data q = (case qr_status q of
     QueryPending \<Rightarrow> None | QueryDone r \<Rightarrow> Some r | QueryFailed _ r \<Rightarrow> r)"

datatype discovery_call =
  ImportOne jstring
| ImportBatch "jstring list"
| CreateDraft QueueUpdate
| GenerateFor "jstring + jstring"

record batch_result =
  br_imported :: nat
  br_updated :: nat
  br_failed :: nat

record discovery_server =
  dsv_import :: "discovery_call list \<Rightarrow> jstring \<Rightarrow> thrown option"
  dsv_batch :: "discovery_call list \<Rightarrow> jstring list \<Rightarrow> thrown + batch_result"
  dsv_create :: "discovery_call list \<Rightarrow> QueueUpdate \<Rightarrow> thrown option"
  dsv_generate :: "discovery_call list \<Rightarrow> jstring + jstring \<Rightarrow> thrown + jstring"

record discovery_view =
  dv_session :: DiscoverySessionSnapshot
  dv_hydrated :: bool
  runToken :: nat
  dv_message :: "jstring option"
  dv_error :: "jstring option"
  inspectorId :: "jstring option"
  dv_advancedOpen :: bool
  imageSearchInput :: "ProductImageSearchKey option"
  imageSearchBodies :: "jstring \<rightharpoonup> jstring"
  dv_selected :: "jstring list"
  dv_query :: query_report
  dv_imageQuery :: query_report
  canImport :: bool
  dv_defaultMode :: "DiscoveryMode option"
  dv_calls :: "discovery_call list"
  dv_invalidated :: "query_key list"
  dv_routes :: "jstring list"
  dv_downloads :: "jstring list"

section \<open>useDiscoverySession\<close>

definition with_session ::
  "(DiscoverySessionSnapshot \<Rightarrow> DiscoverySessionSnapshot) \<Rightarrow> discovery_view \<Rightarrow> discovery_view" where
  "with_session f s = s\<lparr>dv_session := f (dv_session s)\<rparr>"

text \<open>The patched draft is handed over whole.\<close>

definition updateDraft :: "DiscoveryParams \<Rightarrow> DiscoverySessionSnapshot \<Rightarrow> DiscoverySessionSnapshot" where
  "updateDraft patched e = e\<lparr>draftParams := patched\<rparr>"

definition updateUiPrefs ::
  "(DiscoveryUiPrefs \<Rightarrow> DiscoveryUiPrefs) \<Rightarrow> DiscoverySessionSnapshot \<Rightarrow> DiscoverySessionSnapshot" where
  "updateUiPrefs patch e =
     e\<lparr>uiPrefs := normalizeUiPrefs (Some (as_patch
         (patch (normalizeUiPrefs (Some (as_patch (uiPrefs e)))))))\<rparr>"

definition resetDraftFilters :: "DiscoverySessionSnapshot \<Rightarrow> DiscoverySessionSnapshot" where
  "resetDraftFilters e =
     (let d = draftParams e in
      e\<lparr>draftParams := no_params
          \<lparr>dq_mode := Some (or_default (dq_mode d) Hot), dq_sort := Some OrdersDesc, dq_page := Some 1,
           dq_page_size := Some (or_default (dq_page_size d) 20),
           dq_category_id := (if dq_mode d = Some CategoryMode then dq_category_id d else None)\<rparr>\<rparr>)"

definition markRunning :: "DiscoveryParams \<Rightarrow> DiscoverySessionSnapshot \<Rightarrow> DiscoverySessionSnapshot" where
  "markRunning params e =
     e\<lparr>committedParams := Some params, draftParams := params, lastRunStatus := Running,
       lastError := None\<rparr>"

definition markSuccess ::
  "jstring \<Rightarrow> DiscoveryParams \<Rightarrow> DiscoveryResponse \<Rightarrow> DiscoverySessionSnapshot
     \<Rightarrow> DiscoverySessionSnapshot" where
  "markSuccess time params response e =
     e\<lparr>committedParams := Some params, draftParams := params, lastResponse := Some response,
       lastRunAt := Some time, lastRunStatus := RunSuccess, lastError := None\<rparr>"

definition markError :: "jstring \<Rightarrow> jstring \<Rightarrow> DiscoverySessionSnapshot \<Rightarrow> DiscoverySessionSnapshot" where
  "markError time message e =
     e\<lparr>lastRunStatus := RunError, lastError := Some message, lastRunAt := Some time\<rparr>"

definition trackImported :: "jstring list \<Rightarrow> DiscoverySessionSnapshot \<Rightarrow> DiscoverySessionSnapshot" where
  "trackImported ids e = e\<lparr>importedIds := unique (importedIds e @ ids)\<rparr>"

section \<open>Rows\<close>

definition dv_items :: "discovery_view \<Rightarrow> DiscoveryProduct list" where
  "dv_items s =
     (if imageSearchInput s \<noteq> None
      then (case query_data (dv_imageQuery s) of Some r \<Rightarrow> dr_items r | None \<Rightarrow> [])
      else (case qr_status (dv_query s) of
              QueryDone r \<Rightarrow> dr_items r
            | _ \<Rightarrow> (case lastResponse (dv_session s) of Some r \<Rightarrow> dr_items r | None \<Rightarrow> [])))"

definition dv_filtered :: "(jstring \<Rightarrow> jstring) \<Rightarrow> discovery_view \<Rightarrow> DiscoveryProduct list" where
  "dv_filtered lower_case s =
     (let q = lower_case (trim (up_resultSearch (uiPrefs (dv_session s)))) in
      if q = [] then dv_items s
      else filter (\<lambda>item. includes_sub q (lower_case (dp_title item))) (dv_items s))"

definition dv_keys :: "(jstring \<Rightarrow> jstring) \<Rightarrow> discovery_view \<Rightarrow> jstring list" where
  "dv_keys lower_case s = map dp_key (dv_filtered lower_case s)"

definition pendingReview :: "discovery_view \<Rightarrow> nat" where
  "pendingReview s =
     length (filter (\<lambda>item. dp_key item \<notin> set (importedIds (dv_session s))) (dv_items s))"

definition dv_selectedProducts :: "(jstring \<Rightarrow> jstring) \<Rightarrow> discovery_view \<Rightarrow> DiscoveryProduct list" where
  "dv_selectedProducts lower_case s =
     filter (\<lambda>item. dp_key item \<in> set (dv_selected s)) (dv_filtered lower_case s)"

definition dv_allSelected :: "(jstring \<Rightarrow> jstring) \<Rightarrow> discovery_view \<Rightarrow> bool" where
  "dv_allSelected lower_case s \<longleftrightarrow>
     dv_filtered lower_case s \<noteq> [] \<and> length (dv_selected s) = length (dv_filtered lower_case s)"

definition dv_toggleAll :: "(jstring \<Rightarrow> jstring) \<Rightarrow> discovery_view \<Rightarrow> discovery_view" where
  "dv_toggleAll lower_case s =
     s\<lparr>dv_selected :=
        (if length (dv_selected s) = length (dv_filtered lower_case s) then []
         else dv_keys lower_case s)\<rparr>"

definition clear_rows :: "discovery_view \<Rightarrow> discovery_view" where
  "clear_rows s = s\<lparr>dv_selected := []\<rparr>"

section \<open>Effects\<close>

definition discovery_failed_text :: jstring where
  "discovery_failed_text =
    [1578, 1593, 1584, 1585, 32, 1578, 1588, 1594, 1610, 1604, 32, 1575, 1604, 1575, 1603,
     1578, 1588, 1575, 1601, 46]"

definition image_failed_text :: jstring where
  "image_failed_text =
    [1578, 1593, 1584, 1585, 32, 1575, 1604, 1576, 1581, 1579, 32, 1576, 1575, 1604, 1589,
     1608, 1585, 1577, 46]"

definition query_effect :: "jstring \<Rightarrow> discovery_view \<Rightarrow> discovery_view" where
  "query_effect time s =
     (if imageSearchInput s \<noteq> None \<or> qr_fetching (dv_query s) \<or> runToken s = 0 then s
      else (case (committedParams (dv_session s), qr_status (dv_query s)) of
              (Some committed, QueryDone r) \<Rightarrow> with_session (markSuccess time committed r) s
            | (Some _, QueryFailed e _) \<Rightarrow>
                with_session (markError time (getApiErrorMessage e discovery_failed_text)) s
            | _ \<Rightarrow> s))"

definition image_effect :: "jstring \<Rightarrow> discovery_view \<Rightarrow> discovery_view" where
  "image_effect time s =
     (case imageSearchInput s of
        None \<Rightarrow> s
      | Some input \<Rightarrow>
          if qr_fetching (dv_imageQuery s) then s
          else (case qr_status (dv_imageQuery s) of
                  QueryDone r \<Rightarrow>
                    with_session (markSuccess time
                      (no_params\<lparr>dq_mode := Some (or_default
                                   (nullish (Option.bind (committedParams (dv_session s)) dq_mode)
                                            (dq_mode (draftParams (dv_session s)))) Hot),
                                 dq_page := Some (ik_page input), dq_page_size := Some 20\<rparr>) r) s
                | QueryFailed e _ \<Rightarrow>
                    with_session (markError time (getApiErrorMessage e image_failed_text)) s
                | QueryPending \<Rightarrow> s))"

definition default_mode_effect :: "discovery_view \<Rightarrow> discovery_view" where
  "default_mode_effect s =
     (if \<not> dv_hydrated s \<or> dv_defaultMode s = None \<or> committedParams (dv_session s) \<noteq> None \<or>
         lastResponse (dv_session s) \<noteq> None \<or> dq_mode (draftParams (dv_session s)) = dv_defaultMode s
      then s
      else with_session (\<lambda>e. updateDraft ((draftParams e)\<lparr>dq_mode := dv_defaultMode s\<rparr>) e) s)"

text \<open>What each effect depends on; the selection is pruned by the rows, and pruning it again changes
  nothing.\<close>

definition query_deps :: "discovery_view \<Rightarrow> bool \<times> query_report \<times> nat \<times> DiscoveryParams option" where
  "query_deps s =
     (imageSearchInput s \<noteq> None, dv_query s, runToken s, committedParams (dv_session s))"

definition image_deps :: "discovery_view \<Rightarrow> query_report \<times> ProductImageSearchKey option \<times>
    DiscoveryMode option \<times> DiscoveryMode option" where
  "image_deps s =
     (dv_imageQuery s, imageSearchInput s, Option.bind (committedParams (dv_session s)) dq_mode,
      dq_mode (draftParams (dv_session s)))"

text \<open>One commit: each effect whose values changed, in the order of the code.\<close>

definition dv_effects ::
  "(jstring \<Rightarrow> jstring) \<Rightarrow> jstring \<Rightarrow> discovery_view \<Rightarrow> discovery_view \<Rightarrow> discovery_view" where
  "dv_effects lower_case time old s =
     (let s1 = (if query_deps s = query_deps old then s else query_effect time s);
          s2 = (if image_deps s = image_deps old then s1 else image_effect time s1);
          s3 = s2\<lparr>dv_selected := prune_ids (dv_keys lower_case s) (dv_selected s2)\<rparr>
      in default_mode_effect s3)"

text \<open>The writes of the effects are rendered in turn; the third commit of an action has nothing left
  to do.\<close>

definition dv_commit ::
  "(jstring \<Rightarrow> jstring) \<Rightarrow> jstring \<Rightarrow> discovery_view \<Rightarrow> discovery_view \<Rightarrow> discovery_view" where
  "dv_commit lower_case time old s =
     (let s1 = dv_effects lower_case time old s; s2 = dv_effects lower_case time s s1
      in dv_effects lower_case time s1 s2)"

section \<open>Handlers\<close>

definition runDiscovery :: "DiscoveryParams \<Rightarrow> discovery_view \<Rightarrow> discovery_view" where
  "runDiscovery params s =
     (case validateDiscoveryDraft params of
        Some error \<Rightarrow> s\<lparr>dv_error := Some error\<rparr>
      | None \<Rightarrow>
          (let next_params = params\<lparr>dq_page := Some (or_default (dq_page params) 1),
                                    dq_page_size := Some (or_default (dq_page_size params) 20)\<rparr>
           in clear_rows (with_session (markRunning next_params)
                (s\<lparr>dv_error := None, dv_message := None, imageSearchInput := None,
                   runToken := runToken s + 1\<rparr>))))"

definition runImageSearch ::
  "ProductImageSearchRequest \<Rightarrow> upload_file option \<Rightarrow> discovery_view \<Rightarrow> discovery_view" where
  "runImageSearch payload file s =
     (let s0 = s\<lparr>dv_error := None, dv_message := None, inspectorId := None\<rparr>;
          page = or_default (ir_page payload) 1;
          start = (\<lambda>k s1. clear_rows (with_session
            (markRunning (no_params\<lparr>dq_mode := Some (or_default (dq_mode (draftParams (dv_session s))) Hot),
                                    dq_page := Some page, dq_page_size := Some 20\<rparr>))
            (s1\<lparr>imageSearchInput := Some k\<rparr>)))
      in if truthy (ir_image_url payload)
         then start \<lparr>ik_source = FromUrl, ik_image_url = ir_image_url payload,
                     ik_fingerprint = None, ik_page = page\<rparr> s0
         else (case (ir_image_base64 payload, file) of
                 (Some (c # body), Some f) \<Rightarrow>
                   start \<lparr>ik_source = FromUpload, ik_image_url = None,
                          ik_fingerprint = Some (imageSearchFingerprint f), ik_page = page\<rparr>
                     (s0\<lparr>imageSearchBodies :=
                           (imageSearchBodies s0)(imageSearchFingerprint f \<mapsto> c # body)\<rparr>)
               | _ \<Rightarrow> s0\<lparr>dv_error := Some need_image_text\<rparr>))"

definition onPageChange :: "nat \<Rightarrow> discovery_view \<Rightarrow> discovery_view" where
  "onPageChange n s = (case imageSearchInput s of
     Some k \<Rightarrow> s\<lparr>imageSearchInput := Some (k\<lparr>ik_page := n\<rparr>)\<rparr>
   | None \<Rightarrow>
       (case committedParams (dv_session s) of
          None \<Rightarrow> s
        | Some committed \<Rightarrow> runDiscovery (committed\<lparr>dq_page := Some n\<rparr>) s))"

definition imported_one_prefix :: jstring where
  "imported_one_prefix =
    [1578, 1605, 32, 1575, 1587, 1578, 1610, 1585, 1575, 1583, 58, 32]"

definition import_failed_text :: jstring where
  "import_failed_text =
    [1578, 1593, 1584, 1585, 32, 1575, 1604, 1575, 1587, 1578, 1610, 1585, 1575, 1583, 46]"

definition batch_prefix :: jstring where
  "batch_prefix =
    [1575, 1587, 1578, 1610, 1585, 1575, 1583, 32, 1580, 1605, 1575, 1593, 1610, 58, 32]"

definition batch_new :: jstring where
  "batch_new =
    [32, 1580, 1583, 1610, 1583, 32, 183, 32]"

definition batch_updated :: jstring where
  "batch_updated =
    [32, 1605, 1581, 1583, 1617, 1579, 32, 183, 32]"

definition batch_failed :: jstring where
  "batch_failed =
    [32, 1601, 1588, 1604]"

definition batch_failed_text :: jstring where
  "batch_failed_text =
    [1578, 1593, 1584, 1585, 32, 1575, 1604, 1575, 1587, 1578, 1610, 1585, 1575, 1583, 32,
     1575, 1604, 1580, 1605, 1575, 1593, 1610, 46]"

definition drafts_added_suffix :: jstring where
  "drafts_added_suffix =
    [32, 1605, 1587, 1608, 1583, 1577, 32, 1573, 1604, 1609, 32, 1602, 1575, 1574, 1605,
     1577, 32, 1575, 1604, 1606, 1588, 1585, 46]"

definition drafts_failed_text :: jstring where
  "drafts_failed_text =
    [1578, 1593, 1584, 1585, 32, 1575, 1604, 1573, 1590, 1575, 1601, 1577, 32, 1573, 1604,
     1609, 32, 1602, 1575, 1574, 1605, 1577, 32, 1575, 1604, 1606, 1588, 1585, 46]"

definition generated_prefix :: jstring where
  "generated_prefix =
    [1578, 1605, 32, 1578, 1608, 1604, 1610, 1583, 32, 65, 73, 32, 1608, 1573, 1590, 1575,
     1601, 1577, 32]"

definition generated_suffix :: jstring where
  "generated_suffix =
    [32, 1605, 1587, 1608, 1583, 1577, 32, 1573, 1604, 1609, 32, 1575, 1604, 1602, 1575,
     1574, 1605, 1577, 46]"

definition generation_failed_text :: jstring where
  "generation_failed_text =
    [1578, 1593, 1584, 1585, 32, 1578, 1608, 1604, 1610, 1583, 32, 1575, 1604, 1605, 1581,
     1578, 1608, 1609, 46]"

definition exported_rows_prefix :: jstring where
  "exported_rows_prefix =
    [1578, 1605, 32, 1578, 1589, 1583, 1610, 1585, 32]"

definition exported_rows_suffix :: jstring where
  "exported_rows_suffix =
    [32, 1605, 1606, 1578, 1580, 46]"

definition handleImportOne :: "discovery_server \<Rightarrow> DiscoveryProduct \<Rightarrow> discovery_view \<Rightarrow> discovery_view" where
  "handleImportOne srv product s =
     (if \<not> canImport s then s
      else (let s0 = s\<lparr>dv_error := None, dv_calls := dv_calls s @ [ImportOne (dp_key product)]\<rparr> in
            (case dsv_import srv (dv_calls s) (dp_key product) of
               Some e \<Rightarrow> s0\<lparr>dv_error := Some (getApiErrorMessage e import_failed_text)\<rparr>
             | None \<Rightarrow>
                 with_session (trackImported [dp_key product])
                   (s0\<lparr>dv_invalidated := dv_invalidated s @ [products_key],
                       dv_message := Some (imported_one_prefix @ dp_title product)\<rparr>))))"

definition handleImportSelected ::
  "(jstring \<Rightarrow> jstring) \<Rightarrow> discovery_server \<Rightarrow> discovery_view \<Rightarrow> discovery_view" where
  "handleImportSelected lower_case srv s =
     (if \<not> canImport s \<or> dv_selectedProducts lower_case s = [] then s
      else (let ids = map dp_key (dv_selectedProducts lower_case s);
                s0 = s\<lparr>dv_error := None, dv_calls := dv_calls s @ [ImportBatch ids]\<rparr>
            in (case dsv_batch srv (dv_calls s) ids of
                  Inl e \<Rightarrow> s0\<lparr>dv_error := Some (getApiErrorMessage e batch_failed_text)\<rparr>
                | Inr r \<Rightarrow>
                    clear_rows (with_session (trackImported ids)
                      (s0\<lparr>dv_invalidated := dv_invalidated s @ [products_key],
                          dv_message := Some (batch_prefix @ decimal (br_imported r) @ batch_new @
                            decimal (br_updated r) @ batch_updated @ decimal (br_failed r) @
                            batch_failed)\<rparr>)))))"

definition draft_input :: "DiscoveryProduct \<Rightarrow> jstring \<Rightarrow> QueueUpdate" where
  "draft_input product content =
     no_update
       \<lparr>u_title := Given (take 500 (dp_title product)), u_content := Given content,
        u_status := Given Draft,
        u_product_id := given_if (truthy (dp_id product)) (or_default (dp_id product) []),
        u_image_url := Given (dp_image_url product),
        u_button_text := given_if (truthy (dp_affiliate_url product)) buy_now_text,
        u_button_url := (case dp_affiliate_url product of None \<Rightarrow> Absent | Some u \<Rightarrow> Given u)\<rparr>"

definition draft_content :: "DiscoveryProduct \<Rightarrow> jstring" where
  "draft_content product =
     join [10, 10] (filter (\<lambda>v. v \<noteq> [])
       [dp_title product, or_default (dp_description product) [], or_default (dp_affiliate_url product) []])"

definition draft_error :: "discovery_server \<Rightarrow> discovery_call list \<Rightarrow> discovery_call \<Rightarrow> thrown option" where
  "draft_error srv past c = (case c of CreateDraft input \<Rightarrow> dsv_create srv past input | _ \<Rightarrow> None)"

definition handleAddToQueue ::
  "(nat \<Rightarrow> jstring) \<Rightarrow> discovery_server \<Rightarrow> DiscoveryProduct list \<Rightarrow> discovery_view \<Rightarrow> discovery_view" where
  "handleAddToQueue ar srv products s =
     (if products = [] then s
      else (let (r, calls) = await_all (draft_error srv) (dv_calls s)
                  (map (\<lambda>p. CreateDraft (draft_input p (draft_content p))) products);
                s0 = s\<lparr>dv_error := None, dv_calls := calls\<rparr>
            in (case r of
                  Some e \<Rightarrow> s0\<lparr>dv_error := Some (getApiErrorMessage e drafts_failed_text)\<rparr>
                | None \<Rightarrow> clear_rows (s0\<lparr>dv_message :=
                    Some (added_prefix @ ar (length products) @ drafts_added_suffix)\<rparr>))))"

text \<open>What is generated for: the product's id, or its link.\<close>

definition generate_target :: "DiscoveryProduct \<Rightarrow> jstring + jstring" where
  "generate_target product =
     (if truthy (dp_id product) then Inl (the (dp_id product)) else Inr (dp_product_url product))"

fun generate_all ::
  "discovery_server \<Rightarrow> discovery_call list \<Rightarrow> DiscoveryProduct list \<Rightarrow> thrown option \<times> discovery_call list" where
  "generate_all srv past [] = (None, past)"
| "generate_all srv past (p # ps) =
     (let past1 = past @ [GenerateFor (generate_target p)] in
      (case dsv_generate srv past (generate_target p) of
         Inl e \<Rightarrow> (Some e, past1)
       | Inr content \<Rightarrow>
           (let past2 = past1 @ [CreateDraft (draft_input p content)] in
            (case dsv_create srv past1 (draft_input p content) of
               Some e \<Rightarrow> (Some e, past2)
             | None \<Rightarrow> generate_all srv past2 ps))))"

definition handleGenerateAi ::
  "(nat \<Rightarrow> jstring) \<Rightarrow> (jstring \<Rightarrow> jstring) \<Rightarrow> discovery_server \<Rightarrow> DiscoveryProduct list
     \<Rightarrow> discovery_view \<Rightarrow> discovery_view" where
  "handleGenerateAi ar encode srv products s = (case products of
     [] \<Rightarrow> s
   | [p] \<Rightarrow>
       s\<lparr>dv_routes := dv_routes s @
           [case generate_target p of
              Inl i \<Rightarrow> js ''/ai?product='' @ encode i
            | Inr u \<Rightarrow> js ''/ai?url='' @ encode u]\<rparr>
   | _ \<Rightarrow>
       (let (r, calls) = generate_all srv (dv_calls s) products;
            s0 = s\<lparr>dv_error := None, dv_calls := calls\<rparr>
        in (case r of
              Some e \<Rightarrow> s0\<lparr>dv_error := Some (getApiErrorMessage e generation_failed_text)\<rparr>
            | None \<Rightarrow> clear_rows (s0\<lparr>dv_message :=
                Some (generated_prefix @ ar (length products) @ generated_suffix)\<rparr>))))"

definition handleExport ::
  "(jstring \<Rightarrow> jstring) \<Rightarrow> (nat \<Rightarrow> jstring) \<Rightarrow> (jsnum \<Rightarrow> jstring) \<Rightarrow> discovery_view \<Rightarrow> discovery_view" where
  "handleExport lower_case ar num_text s =
     (let rows = (if dv_selectedProducts lower_case s \<noteq> [] then dv_selectedProducts lower_case s
                  else dv_filtered lower_case s)
      in if rows = [] then s
         else s\<lparr>dv_downloads := dv_downloads s @ [exportDiscoveryProductsCsv num_text rows],
                dv_message := Some (exported_rows_prefix @ ar (length rows) @ exported_rows_suffix)\<rparr>)"

definition toggleDiscoveryColumn :: "DiscoveryTableColumn \<Rightarrow> DiscoverySessionSnapshot \<Rightarrow> DiscoverySessionSnapshot" where
  "toggleDiscoveryColumn column e =
     (if column = DColProduct \<or> column = DColActions then e
      else (let current = up_visibleColumns (uiPrefs e);
                next_columns = (if column \<in> set current then filter (\<lambda>item. item \<noteq> column) current
                                else current @ [column])
            in updateUiPrefs (\<lambda>u. u\<lparr>up_visibleColumns :=
                 (if next_columns \<noteq> [] then next_columns else DEFAULT_VISIBLE_COLUMNS)\<rparr>) e))"

definition switchMode :: "DiscoveryMode \<Rightarrow> DiscoverySessionSnapshot \<Rightarrow> DiscoverySessionSnapshot" where
  "switchMode mode e =
     (let d = draftParams e in
      updateDraft (d\<lparr>dq_mode := Some mode,
                     dq_category_id := (if mode = CategoryMode then dq_category_id d else None),
                     dq_top_n := (if mode = Recommended then Some (or_default (dq_top_n d) 10) else None),
                     dq_page := Some 1\<rparr>) e)"

section \<open>What is shown\<close>

datatype discovery_body =
  InitialEmpty | DiscoveryLoading | DiscoveryFailed | NoImages | NoResults | NoMatches | ResultsBody

definition shouldFetch :: "discovery_view \<Rightarrow> bool" where
  "shouldFetch s \<longleftrightarrow>
     imageSearchInput s = None \<and> runToken s > 0 \<and> committedParams (dv_session s) \<noteq> None"

definition activeFetching :: "discovery_view \<Rightarrow> bool" where
  "activeFetching s \<longleftrightarrow>
     (if imageSearchInput s \<noteq> None then qr_fetching (dv_imageQuery s) else qr_fetching (dv_query s))"

fun query_failed :: "query_status \<Rightarrow> bool" where
  "query_failed (QueryFailed _ _) = True"
| "query_failed _ = False"

fun query_done :: "query_status \<Rightarrow> bool" where
  "query_done (QueryDone _) = True"
| "query_done _ = False"

definition showInitialEmpty :: "discovery_view \<Rightarrow> bool" where
  "showInitialEmpty s \<longleftrightarrow>
     dv_hydrated s \<and> lastResponse (dv_session s) = None \<and> \<not> shouldFetch s \<and>
     imageSearchInput s = None \<and> \<not> activeFetching s"

definition showLoading :: "discovery_view \<Rightarrow> bool" where
  "showLoading s \<longleftrightarrow> activeFetching s \<or> lastRunStatus (dv_session s) = Running"

definition showError :: "discovery_view \<Rightarrow> bool" where
  "showError s \<longleftrightarrow>
     \<not> activeFetching s \<and>
     (imageSearchInput s \<noteq> None \<and> query_failed (qr_status (dv_imageQuery s)) \<or>
      imageSearchInput s = None \<and> runToken s > 0 \<and> query_failed (qr_status (dv_query s)) \<or>
      lastRunStatus (dv_session s) = RunError) \<and>
     dv_items s = []"

definition showNoImages :: "discovery_view \<Rightarrow> bool" where
  "showNoImages s \<longleftrightarrow>
     imageSearchInput s \<noteq> None \<and> \<not> activeFetching s \<and> query_done (qr_status (dv_imageQuery s)) \<and>
     dv_items s = []"

definition discovery_body_of :: "(jstring \<Rightarrow> jstring) \<Rightarrow> discovery_view \<Rightarrow> discovery_body" where
  "discovery_body_of lower_case s =
     (if showInitialEmpty s then InitialEmpty
      else if showLoading s \<and> dv_items s = [] then DiscoveryLoading
      else if showError s then DiscoveryFailed
      else if showNoImages s then NoImages
      else if dv_items s = [] then NoResults
      else if dv_filtered lower_case s = [] then NoMatches
      else ResultsBody)"

lemmas discovery_body_defs =
  discovery_body_of_def showInitialEmpty_def showLoading_def activeFetching_def shouldFetch_def

section \<open>The screen as a machine\<close>

datatype discovery_action =
  SessionLoaded DiscoverySessionSnapshot | UserLoaded bool | SettingsLoaded DiscoveryMode
| ReportOnly
| UpdateDraft DiscoveryParams | SwitchMode DiscoveryMode | ResetFilters
| RunDraft | RefreshResults | ChangePage nat
| SearchImage ProductImageSearchRequest "upload_file option" | LeaveImages
| SearchResults jstring | SetDiscoveryDensity TableDensity | ToggleDiscoveryColumn DiscoveryTableColumn
| ToggleRow jstring | ToggleAllRows | ClearRows
| InspectRow jstring | CloseRow | ShowAdvanced bool
| ImportProduct DiscoveryProduct | ImportSelected
| AddDrafts "DiscoveryProduct list" | GenerateDrafts "DiscoveryProduct list" | ExportRows

definition discovery_handler ::
  "(jstring \<Rightarrow> jstring) \<Rightarrow> (nat \<Rightarrow> jstring) \<Rightarrow> (jsnum \<Rightarrow> jstring) \<Rightarrow> (jstring \<Rightarrow> jstring)
     \<Rightarrow> discovery_server \<Rightarrow> discovery_view \<Rightarrow> discovery_action \<Rightarrow> discovery_view" where
  "discovery_handler lower_case ar num_text encode srv s a = (case a of
     SessionLoaded loaded \<Rightarrow> s\<lparr>dv_session := loaded, dv_hydrated := True\<rparr>
   | UserLoaded admin \<Rightarrow> s\<lparr>canImport := admin\<rparr>
   | SettingsLoaded mode \<Rightarrow> s\<lparr>dv_defaultMode := Some mode\<rparr>
   | ReportOnly \<Rightarrow> s
   | UpdateDraft patched \<Rightarrow> with_session (updateDraft patched) s
   | SwitchMode mode \<Rightarrow> with_session (switchMode mode) s
   | ResetFilters \<Rightarrow> with_session resetDraftFilters s
   | RunDraft \<Rightarrow> runDiscovery ((draftParams (dv_session s))\<lparr>dq_page := Some 1\<rparr>) s
   | RefreshResults \<Rightarrow>
       (if imageSearchInput s \<noteq> None then s
        else (case committedParams (dv_session s) of
                Some committed \<Rightarrow> runDiscovery committed s | None \<Rightarrow> s))
   | ChangePage n \<Rightarrow> onPageChange n s
   | SearchImage payload file \<Rightarrow> runImageSearch payload file s
   | LeaveImages \<Rightarrow> with_session resetDraftFilters (s\<lparr>imageSearchInput := None\<rparr>)
   | SearchResults text' \<Rightarrow> with_session (updateUiPrefs (\<lambda>u. u\<lparr>up_resultSearch := text'\<rparr>)) s
   | SetDiscoveryDensity d \<Rightarrow> with_session (updateUiPrefs (\<lambda>u. u\<lparr>up_density := d\<rparr>)) s
   | ToggleDiscoveryColumn column \<Rightarrow> with_session (toggleDiscoveryColumn column) s
   | ToggleRow i \<Rightarrow> s\<lparr>dv_selected := toggle_id i (dv_selected s)\<rparr>
   | ToggleAllRows \<Rightarrow> dv_toggleAll lower_case s
   | ClearRows \<Rightarrow> clear_rows s
   | InspectRow i \<Rightarrow> s\<lparr>inspectorId := Some i\<rparr>
   | CloseRow \<Rightarrow> s\<lparr>inspectorId := None\<rparr>
   | ShowAdvanced shown \<Rightarrow> s\<lparr>dv_advancedOpen := shown\<rparr>
   | ImportProduct product \<Rightarrow> handleImportOne srv product s
   | ImportSelected \<Rightarrow> handleImportSelected lower_case srv s
   | AddDrafts products \<Rightarrow> handleAddToQueue ar srv products s
   | GenerateDrafts products \<Rightarrow> handleGenerateAi ar encode srv products s
   | ExportRows \<Rightarrow> handleExport lower_case ar num_text s)"

text \<open>Every action comes with the time and with what the two queries report after it.\<close>

definition discovery_step ::
  "(jstring \<Rightarrow> jstring) \<Rightarrow> (nat \<Rightarrow> jstring) \<Rightarrow> (jsnum \<Rightarrow> jstring) \<Rightarrow> (jstring \<Rightarrow> jstring)
     \<Rightarrow> discovery_server \<Rightarrow> discovery_view
     \<Rightarrow> jstring \<times> discovery_action \<times> query_report \<times> query_report \<Rightarrow> discovery_view" where
  "discovery_step lower_case ar num_text encode srv s act =
     (case act of (time, a, q, iq) \<Rightarrow>
        dv_commit lower_case time s
          ((discovery_handler lower_case ar num_text encode srv s a)
             \<lparr>dv_query := q, dv_imageQuery := iq\<rparr>))"

definition no_report :: query_report where
  "no_report = \<lparr>qr_fetching = False, qr_status = QueryPending\<rparr>"

definition fresh_discovery :: discovery_view where
  "fresh_discovery =
     \<lparr>dv_session = emptySession, dv_hydrated = False, runToken = 0, dv_message = None,
      dv_error = None, inspectorId = None, dv_advancedOpen = False, imageSearchInput = None,
      imageSearchBodies = Map.empty, dv_selected = [], dv_query = no_report,
      dv_imageQuery = no_report, canImport = False, dv_defaultMode = None, dv_calls = [],
      dv_invalidated = [], dv_routes = [], dv_downloads = []\<rparr>"

section \<open>The selection, the columns and the imported products\<close>

lemmas session_updates =
  with_session_def updateDraft_def updateUiPrefs_def resetDraftFilters_def markRunning_def
  markSuccess_def markError_def trackImported_def

text \<open>What the effects leave alone.\<close>

definition same_rows :: "discovery_view \<Rightarrow> discovery_view \<Rightarrow> bool" where
  "same_rows s s' \<longleftrightarrow>
     dv_items s' = dv_items s \<and> uiPrefs (dv_session s') = uiPrefs (dv_session s) \<and>
     importedIds (dv_session s') = importedIds (dv_session s) \<and>
     dv_query s' = dv_query s \<and> dv_imageQuery s' = dv_imageQuery s \<and>
     imageSearchInput s' = imageSearchInput s \<and> dv_calls s' = dv_calls s \<and>
     canImport s' = canImport s \<and> runToken s' = runToken s"

lemma same_rows_trans: "same_rows s s1 \<Longrightarrow> same_rows s1 s2 \<Longrightarrow> same_rows s s2"
  by (simp add: same_rows_def)

lemma query_effect_rows: "same_rows s (query_effect time s)"
  by (auto simp: query_effect_def same_rows_def session_updates dv_items_def
      split: option.splits query_status.splits)

lemma image_effect_rows: "same_rows s (image_effect time s)"
  by (auto simp: image_effect_def same_rows_def session_updates dv_items_def
      split: option.splits query_status.splits)

lemma default_mode_effect_rows: "same_rows s (default_mode_effect s)"
  by (auto simp: default_mode_effect_def same_rows_def session_updates dv_items_def
      split: query_status.splits)

lemma pruned_rows: "same_rows s (s\<lparr>dv_selected := sel\<rparr>)"
  by (auto simp: same_rows_def dv_items_def split: query_status.splits)

lemma same_rows_refl: "same_rows s s"
  by (simp add: same_rows_def)

lemma dv_effects_rows: "same_rows s (dv_effects lower_case time old s)"
proof -
  let ?s1 = "if query_deps s = query_deps old then s else query_effect time s"
  let ?s2 = "if image_deps s = image_deps old then ?s1 else image_effect time ?s1"
  have "same_rows s ?s1" by (simp add: same_rows_refl query_effect_rows)
  moreover have "same_rows ?s1 ?s2" by (simp add: same_rows_refl image_effect_rows)
  ultimately have "same_rows s ?s2" by (rule same_rows_trans)
  then show ?thesis
    by (auto simp: dv_effects_def Let_def
        intro: same_rows_trans [OF _ same_rows_trans [OF pruned_rows default_mode_effect_rows]])
qed

lemma same_rows_keys: "same_rows s s' \<Longrightarrow> dv_keys lower_case s' = dv_keys lower_case s"
  by (simp add: same_rows_def dv_keys_def dv_filtered_def Let_def)

lemma effects_selected:
  "dv_selected (query_effect time s) = dv_selected s"
  "dv_selected (image_effect time s) = dv_selected s"
  "dv_selected (default_mode_effect s) = dv_selected s"
  by (auto simp: query_effect_def image_effect_def default_mode_effect_def with_session_def
      split: option.splits query_status.splits)

lemma dv_effects_selected:
  "dv_selected (dv_effects lower_case time old s) = prune_ids (dv_keys lower_case s) (dv_selected s)"
  by (simp add: dv_effects_def Let_def effects_selected)

lemma prune_again: "prune_ids valid (prune_ids valid sel) = prune_ids valid sel"
  by (simp add: prune_ids_def)

lemma dv_commit_rows: "same_rows s (dv_commit lower_case time old s)"
  unfolding dv_commit_def Let_def 
  by (rule same_rows_trans [OF dv_effects_rows same_rows_trans [OF dv_effects_rows dv_effects_rows]])

lemma dv_commit_selected:
  "dv_selected (dv_commit lower_case time old s) = prune_ids (dv_keys lower_case s) (dv_selected s)"
  by (simp add: dv_commit_def Let_def dv_effects_selected prune_again
      same_rows_keys [OF dv_effects_rows])


text \<open>The third round of effects would change nothing a fourth could see.\<close>

definition distinct_response :: "DiscoveryResponse \<Rightarrow> bool" where
  "distinct_response r = distinct (map dp_key (dr_items r))"

definition distinct_report :: "query_report \<Rightarrow> bool" where
  "distinct_report q = pred_option distinct_response (query_data q)"

definition session_inv :: "DiscoverySessionSnapshot \<Rightarrow> bool" where
  "session_inv e \<longleftrightarrow>
     pred_option distinct_response (lastResponse e) \<and> distinct (importedIds e) \<and>
     {DColProduct, DColActions} \<subseteq> set (up_visibleColumns (uiPrefs e))"

definition discovery_inv :: "(jstring \<Rightarrow> jstring) \<Rightarrow> discovery_view \<Rightarrow> bool" where
  "discovery_inv lower_case s \<longleftrightarrow>
     session_inv (dv_session s) \<and> distinct_report (dv_query s) \<and> distinct_report (dv_imageQuery s) \<and>
     set (dv_selected s) \<subseteq> set (dv_keys lower_case s) \<and> distinct (dv_selected s)"

text \<open>What the screen is used on: sessions and answers that list no product twice, and rows it shows.\<close>

definition discovery_ok ::
  "(jstring \<Rightarrow> jstring) \<Rightarrow> discovery_view
     \<Rightarrow> jstring \<times> discovery_action \<times> query_report \<times> query_report \<Rightarrow> bool" where
  "discovery_ok lower_case s act = (case act of (time, a, q, iq) \<Rightarrow>
     distinct_report q \<and> distinct_report iq \<and>
     (case a of SessionLoaded loaded \<Rightarrow> session_inv loaded | _ \<Rightarrow> True))"

lemma keys_distinct:
  assumes "session_inv (dv_session s)" "distinct_report (dv_query s)" "distinct_report (dv_imageQuery s)"
  shows "distinct (dv_keys lower_case s)"
proof -
  have "distinct (map dp_key (dv_items s))"
    using assms
    by (auto simp: dv_items_def session_inv_def distinct_report_def distinct_response_def query_data_def
        split: option.splits query_status.splits)
  then show ?thesis
    by (auto simp: dv_keys_def dv_filtered_def Let_def distinct_map_filter)
qed

lemma columns_kept:
  "{DColProduct, DColActions} \<subseteq> set (up_visibleColumns u) \<Longrightarrow>
   {DColProduct, DColActions} \<subseteq> set (up_visibleColumns (normalizeUiPrefs (Some (as_patch u))))"
  by (cases "up_visibleColumns u") (simp_all add: normalizeUiPrefs_def as_patch_def)

lemma prefs_kept:
  "{DColProduct, DColActions} \<subseteq> set (up_visibleColumns u) \<Longrightarrow>
   normalizeUiPrefs (Some (as_patch u)) = u"
  by (rule prefs_read_back) auto

lemma session_updates_inv:
  assumes "session_inv e"
  shows "session_inv (updateDraft d e)" "session_inv (resetDraftFilters e)"
    "session_inv (markRunning d e)" "session_inv (markError t m e)"
    "session_inv (trackImported ids e)" "session_inv (switchMode mode e)"
    "session_inv (toggleDiscoveryColumn column e)"
    "session_inv (updateUiPrefs (\<lambda>u. u\<lparr>up_resultSearch := q\<rparr>) e)"
    "session_inv (updateUiPrefs (\<lambda>u. u\<lparr>up_density := d'\<rparr>) e)"
    "distinct_response r \<Longrightarrow> session_inv (markSuccess t d r e)"
  using assms
  by (auto simp: session_inv_def session_updates switchMode_def toggleDiscoveryColumn_def Let_def
      prefs_kept prefs_read_back DEFAULT_VISIBLE_COLUMNS_def)


text \<open>The handlers keep the session's invariant, and the calls they make are imports only for those who
  may import.\<close>

definition session_kept :: "discovery_view \<Rightarrow> discovery_view \<Rightarrow> bool" where
  "session_kept s s' \<longleftrightarrow>
     (session_inv (dv_session s) \<longrightarrow> session_inv (dv_session s')) \<and>
     (distinct (dv_selected s) \<longrightarrow> distinct (dv_selected s'))"

lemma session_kept_refl: "session_kept s s"
  by (simp add: session_kept_def)

lemma runDiscovery_kept: "session_kept s (runDiscovery params s)"
  by (auto simp: session_kept_def runDiscovery_def clear_rows_def with_session_def Let_def
      session_updates_inv split: option.splits)

lemma runImageSearch_kept: "session_kept s (runImageSearch payload file s)"
  by (auto simp: session_kept_def runImageSearch_def clear_rows_def with_session_def Let_def
      session_updates_inv split: option.splits list.splits)

lemma onPageChange_kept: "session_kept s (onPageChange n s)"
  by (auto simp: onPageChange_def session_kept_def
      intro: runDiscovery_kept [unfolded session_kept_def, THEN conjunct1, rule_format]
        runDiscovery_kept [unfolded session_kept_def, THEN conjunct2, rule_format]
      split: option.splits)

lemma imports_kept:
  "session_kept s (handleImportOne srv product s)"
  "session_kept s (handleImportSelected lower_case srv s)"
  by (auto simp: session_kept_def handleImportOne_def handleImportSelected_def clear_rows_def
      with_session_def Let_def session_updates_inv split: option.splits sum.splits)

lemma drafts_kept:
  "session_kept s (handleAddToQueue ar srv products s)"
  "session_kept s (handleGenerateAi ar encode srv products s)"
  "session_kept s (handleExport lower_case ar num_text s)"
  by (auto simp: session_kept_def handleAddToQueue_def handleGenerateAi_def handleExport_def
      clear_rows_def Let_def split: option.splits list.splits prod.splits)


definition reports_inv :: "discovery_view \<Rightarrow> bool" where
  "reports_inv s \<longleftrightarrow>
     session_inv (dv_session s) \<and> distinct_report (dv_query s) \<and> distinct_report (dv_imageQuery s)"

lemma effects_reports_inv:
  assumes "reports_inv s"
  shows "reports_inv (query_effect time s)" "reports_inv (image_effect time s)"
    "reports_inv (default_mode_effect s)" "reports_inv (s\<lparr>dv_selected := sel\<rparr>)"
  using assms
  by (auto simp: reports_inv_def query_effect_def image_effect_def default_mode_effect_def
      with_session_def session_updates_inv distinct_report_def query_data_def
      split: option.splits query_status.splits)

lemma dv_effects_reports_inv: "reports_inv s \<Longrightarrow> reports_inv (dv_effects lower_case time old s)"
  by (auto simp: dv_effects_def Let_def effects_reports_inv)

lemma dv_commit_reports_inv: "reports_inv s \<Longrightarrow> reports_inv (dv_commit lower_case time old s)"
  by (simp add: dv_commit_def Let_def dv_effects_reports_inv)

lemma handler_kept:
  assumes "reports_inv s" "distinct (dv_selected s)" "discovery_ok lower_case s (time, a, q, iq)"
  shows "session_inv (dv_session (discovery_handler lower_case ar num_text encode srv s a))"
    "distinct (dv_selected (discovery_handler lower_case ar num_text encode srv s a))"
proof -
  have keys: "distinct (dv_keys lower_case s)"
    using assms(1) by (simp add: reports_inv_def keys_distinct)
  have kept: "session_kept s s' \<Longrightarrow> session_inv (dv_session s') \<and> distinct (dv_selected s')" for s'
    using assms(1,2) by (simp add: session_kept_def reports_inv_def)
  have "session_inv (dv_session (discovery_handler lower_case ar num_text encode srv s a)) \<and>
      distinct (dv_selected (discovery_handler lower_case ar num_text encode srv s a))"
  proof (cases a)
    case RefreshResults
    then show ?thesis
      using kept [OF session_kept_refl] kept [OF runDiscovery_kept]
      by (simp add: discovery_handler_def split: option.splits)
  qed (use assms keys kept [OF session_kept_refl] in
      \<open>simp_all add: discovery_handler_def discovery_ok_def kept runDiscovery_kept runImageSearch_kept
        onPageChange_kept imports_kept drafts_kept reports_inv_def session_updates_inv
        with_session_def toggle_id_distinct dv_toggleAll_def clear_rows_def\<close>)
  then show "session_inv (dv_session (discovery_handler lower_case ar num_text encode srv s a))"
    "distinct (dv_selected (discovery_handler lower_case ar num_text encode srv s a))"
    by auto
qed

lemma discovery_step_inv:
  assumes "discovery_inv lower_case s" "discovery_ok lower_case s act"
  shows "discovery_inv lower_case (discovery_step lower_case ar num_text encode srv s act)"
proof -
  obtain time a q iq where act: "act = (time, a, q, iq)" by (cases act)
  let ?h = "(discovery_handler lower_case ar num_text encode srv s a)\<lparr>dv_query := q, dv_imageQuery := iq\<rparr>"
  let ?c = "dv_commit lower_case time s ?h"
  have "reports_inv s" "distinct (dv_selected s)"
    using assms(1) by (simp_all add: discovery_inv_def reports_inv_def)
  from handler_kept [OF this assms(2) [unfolded act]] assms(2) [unfolded act]
  have "reports_inv ?h" and sel: "distinct (dv_selected ?h)"
    by (simp_all add: reports_inv_def discovery_ok_def)
  then have "reports_inv ?c" by (simp add: dv_commit_reports_inv)
  moreover have "set (dv_selected ?c) \<subseteq> set (dv_keys lower_case ?c)"
    by (simp add: dv_commit_selected same_rows_keys [OF dv_commit_rows] queue_rows.prune_valid)
  moreover have "distinct (dv_selected ?c)"
    by (simp only: dv_commit_selected) (rule queue_rows.prune_distinct [OF sel])
  ultimately show ?thesis
    by (simp add: act discovery_step_def discovery_inv_def reports_inv_def)
qed

interpretation discovery_machine: state_machine
  "discovery_step lower_case ar num_text encode srv" "discovery_ok lower_case" "discovery_inv lower_case"
  for lower_case ar num_text encode srv
  by unfold_locales (rule discovery_step_inv)

lemma fresh_discovery_inv: "discovery_inv lower_case fresh_discovery"
  by (simp add: discovery_inv_def fresh_discovery_def session_inv_def emptySession_def
      distinct_report_def query_data_def no_report_def DEFAULT_UI_PREFS_def DEFAULT_VISIBLE_COLUMNS_def)

text \<open>C12: through any use of the discovery screen and any answers of the server that list no product
  twice, the selected ids are distinct ids of rows shown, so the bar's count of selected products is
  what the batch actions get; the box that says everything is selected, which compares two lengths, is
  right; the columns that carry the name and the actions stay; and no imported id is kept twice.\<close>

theorem discovery_screen_invariant:
  assumes "admissible (discovery_step lower_case ar num_text encode srv) (discovery_ok lower_case)
      fresh_discovery actions"
  shows "let s = run (discovery_step lower_case ar num_text encode srv) fresh_discovery actions
    in length (dv_selectedProducts lower_case s) = length (dv_selected s) \<and>
       distinct (dv_selected s) \<and>
       (dv_allSelected lower_case s \<longleftrightarrow>
          dv_keys lower_case s \<noteq> [] \<and> set (dv_selected s) = set (dv_keys lower_case s)) \<and>
       {DColProduct, DColActions} \<subseteq> set (up_visibleColumns (uiPrefs (dv_session s))) \<and>
       distinct (importedIds (dv_session s))"
proof -
  define s where "s = run (discovery_step lower_case ar num_text encode srv) fresh_discovery actions"
  have inv: "discovery_inv lower_case s"
    unfolding s_def using fresh_discovery_inv assms by (rule discovery_machine.run_inv)
  then have sub: "set (dv_selected s) \<subseteq> set (dv_keys lower_case s)" and d: "distinct (dv_selected s)"
    by (simp_all add: discovery_inv_def)
  have keys: "distinct (dv_keys lower_case s)"
    using inv by (simp add: discovery_inv_def keys_distinct)
  have "map dp_key (dv_selectedProducts lower_case s) =
      filter (\<lambda>k. k \<in> set (dv_selected s)) (dv_keys lower_case s)"
    by (simp add: dv_selectedProducts_def dv_keys_def filter_map comp_def)
  then have "length (dv_selectedProducts lower_case s) =
      length (filter (\<lambda>k. k \<in> set (dv_selected s)) (dv_keys lower_case s))"
    by (metis length_map)
  also have "\<dots> = card (set (dv_selected s) \<inter> set (dv_keys lower_case s))"
    using keys by (simp add: distinct_length_filter)
  also have "\<dots> = length (dv_selected s)"
    using sub d by (simp add: Int_absorb2 distinct_card)
  finally have "length (dv_selectedProducts lower_case s) = length (dv_selected s)" .
  moreover have "dv_allSelected lower_case s \<longleftrightarrow>
      dv_keys lower_case s \<noteq> [] \<and> set (dv_selected s) = set (dv_keys lower_case s)"
  proof -
    have "length (dv_filtered lower_case s) = card (set (dv_keys lower_case s))"
      using distinct_card [OF keys] by (simp add: dv_keys_def)
    moreover have "length (dv_selected s) = card (set (dv_selected s))"
      using d by (simp add: distinct_card)
    ultimately show ?thesis
      using sub card_subset_eq [OF finite_set sub]
      by (auto simp: dv_allSelected_def dv_keys_def)
  qed
  ultimately show ?thesis
    using inv d by (simp add: s_def [symmetric] discovery_inv_def session_inv_def)
qed


section \<open>Who may import\<close>

fun is_import :: "discovery_call \<Rightarrow> bool" where
  "is_import (ImportOne _) = True"
| "is_import (ImportBatch _) = True"
| "is_import _ = False"

definition no_import :: "discovery_view \<Rightarrow> bool" where
  "no_import s \<longleftrightarrow> \<not> canImport s \<and> list_all (\<lambda>c. \<not> is_import c) (dv_calls s)"

text \<open>The user's role is loaded, and it is not that of an administrator.\<close>

definition member_only :: "jstring \<times> discovery_action \<times> query_report \<times> query_report \<Rightarrow> bool" where
  "member_only act = (case act of (_, a, _) \<Rightarrow> a \<noteq> UserLoaded True)"

lemma no_import_kept:
  "same_rows s s' \<Longrightarrow> no_import s' = no_import s"
  by (simp add: no_import_def same_rows_def)

lemma drafts_are_no_imports:
  "list_all (\<lambda>c. \<not> is_import c) past \<Longrightarrow>
   list_all (\<lambda>c. \<not> is_import c) (snd (await_all err past (map (\<lambda>p. CreateDraft (f p)) ps)))"
  by (induction ps arbitrary: past) (auto split: option.splits)

lemma generated_are_no_imports:
  "list_all (\<lambda>c. \<not> is_import c) past \<Longrightarrow>
   list_all (\<lambda>c. \<not> is_import c) (snd (generate_all srv past ps))"
  by (induction srv past ps rule: generate_all.induct) (auto simp: Let_def split: sum.splits option.splits)

lemma no_import_drafts:
  assumes "no_import s"
  shows "no_import (handleAddToQueue ar srv products s)"
    "no_import (handleGenerateAi ar encode srv products s)"
  using assms drafts_are_no_imports [of "dv_calls s" "draft_error srv"
      "\<lambda>p. draft_input p (draft_content p)" products]
    generated_are_no_imports [of "dv_calls s" srv products]
  by (auto simp: no_import_def handleAddToQueue_def handleGenerateAi_def clear_rows_def Let_def
      split: option.splits list.splits prod.splits)

lemma no_import_runs:
  "no_import (runDiscovery params s) = no_import s"
  "no_import (runImageSearch payload file s) = no_import s"
  "no_import (onPageChange n s) = no_import s"
  by (auto simp: no_import_def runDiscovery_def runImageSearch_def onPageChange_def clear_rows_def
      with_session_def Let_def split: option.splits list.splits)

lemma no_import_handler:
  assumes "no_import s" "a \<noteq> UserLoaded True"
  shows "no_import (discovery_handler lower_case ar num_text encode srv s a)"
  using assms
  by (cases a)
    (simp_all add: discovery_handler_def no_import_drafts no_import_runs split: option.splits,
     simp_all add: no_import_def with_session_def dv_toggleAll_def clear_rows_def
       handleImportOne_def handleImportSelected_def handleExport_def Let_def)

lemma no_import_step:
  assumes "no_import s" "member_only act"
  shows "no_import (discovery_step lower_case ar num_text encode srv s act)"
proof -
  obtain time a q iq where act: "act = (time, a, q, iq)" by (cases act)
  have "no_import (discovery_handler lower_case ar num_text encode srv s a)"
    using assms by (simp add: act member_only_def no_import_handler)
  then show ?thesis
    by (simp add: act discovery_step_def no_import_kept [OF dv_commit_rows]) (simp add: no_import_def)
qed

interpretation discovery_members: state_machine
  "discovery_step lower_case ar num_text encode srv" "\<lambda>_. member_only" no_import
  for lower_case ar num_text encode srv
  by unfold_locales (rule no_import_step)

text \<open>Only an administrator imports: as long as the user is not known to be one, no use of the
  screen sends an import, of one product or of many, however the buttons are used.\<close>

theorem discovery_imports_need_admin:
  assumes "list_all member_only actions"
  shows "list_all (\<lambda>c. \<not> is_import c)
    (dv_calls (run (discovery_step lower_case ar num_text encode srv) fresh_discovery actions))"
proof -
  have "no_import fresh_discovery" by (simp add: no_import_def fresh_discovery_def)
  moreover have "admissible (discovery_step lower_case ar num_text encode srv) (\<lambda>_. member_only)
      fresh_discovery actions"
    using assms by (simp add: admissible_always)
  ultimately have "no_import (run (discovery_step lower_case ar num_text encode srv) fresh_discovery actions)"
    by (rule discovery_members.run_inv)
  then show ?thesis by (simp add: no_import_def)
qed

section \<open>Running a search\<close>

text \<open>A commit whose effects have nothing to do.\<close>

lemma commit_fetching:
  assumes "imageSearchInput s = None" "qr_fetching (dv_query s)" "committedParams (dv_session s) \<noteq> None"
  shows "dv_commit lower_case time old s =
    s\<lparr>dv_selected := prune_ids (dv_keys lower_case s) (dv_selected s)\<rparr>"
proof -
  have idle: "dv_effects lower_case time o' s' = s'\<lparr>dv_selected := prune_ids (dv_keys lower_case s') (dv_selected s')\<rparr>"
    if "imageSearchInput s' = None" "qr_fetching (dv_query s')" "committedParams (dv_session s') \<noteq> None"
    for o' s'
    using that
    by (auto simp: dv_effects_def Let_def query_effect_def image_effect_def default_mode_effect_def)
  have keys: "dv_keys lower_case (s\<lparr>dv_selected := sel\<rparr>) = dv_keys lower_case s" for sel
    by (rule same_rows_keys [OF pruned_rows])
  show ?thesis
    using assms by (simp add: dv_commit_def Let_def idle keys prune_again)
qed


lemma same_deps:
  "query_deps (with_session f s) = query_deps s" if
    "committedParams (f (dv_session s)) = committedParams (dv_session s)"
  using that by (simp add: query_deps_def with_session_def)

text \<open>The commit that brings the answer to a run.\<close>

definition answered :: "jstring \<Rightarrow> DiscoveryParams \<Rightarrow> discovery_view \<Rightarrow> DiscoverySessionSnapshot" where
  "answered time committed s = (case qr_status (dv_query s) of
     QueryDone r \<Rightarrow> markSuccess time committed r (dv_session s)
   | QueryFailed e _ \<Rightarrow>
       markError time (getApiErrorMessage e discovery_failed_text) (dv_session s)
   | QueryPending \<Rightarrow> dv_session s)"

lemma answered_committed:
  "committedParams (dv_session s) = Some c \<Longrightarrow> committedParams (answered time c s) = Some c"
  by (simp add: answered_def markSuccess_def markError_def split: query_status.splits)

lemma commit_answered:
  assumes "imageSearchInput s = None" "\<not> qr_fetching (dv_query s)" "0 < runToken s"
    "committedParams (dv_session s) = Some c" "query_deps s \<noteq> query_deps old"
  shows "dv_commit lower_case time old s =
    s\<lparr>dv_session := answered time c s, dv_selected := prune_ids (dv_keys lower_case s) (dv_selected s)\<rparr>"
proof -
  let ?s1 = "s\<lparr>dv_session := answered time c s,
    dv_selected := prune_ids (dv_keys lower_case s) (dv_selected s)\<rparr>"
  have committed: "committedParams (answered time c s) = Some c"
    using assms(4) by (rule answered_committed)
  have effect: "query_effect time s = s\<lparr>dv_session := answered time c s\<rparr>"
    using assms
    by (cases "qr_status (dv_query s)") (auto simp: query_effect_def with_session_def answered_def)
  have first: "dv_effects lower_case time old s = ?s1"
    using assms committed
    by (auto simp: dv_effects_def Let_def effect image_effect_def default_mode_effect_def)
  have keys: "dv_keys lower_case ?s1 = dv_keys lower_case s"
    using same_rows_keys [OF dv_effects_rows [of s lower_case time old]] by (simp only: first)
  have deps: "query_deps ?s1 = query_deps s"
    using committed assms(4) by (simp add: query_deps_def)
  have later: "dv_effects lower_case time s ?s1 = ?s1" "dv_effects lower_case time ?s1 ?s1 = ?s1"
    using assms committed
    by (auto simp: dv_effects_def Let_def deps keys prune_again image_effect_def default_mode_effect_def)
  show ?thesis by (simp add: dv_commit_def Let_def first later)
qed

text \<open>C13: a run of valid filters, from the click to the answer: the filters run are those of the form on
  its first page, the selection and the error are gone while it runs, and then the answer's rows are
  shown and remembered with the time, or the failure is remembered with its message while the rows
  of the last good answer stay.\<close>

theorem discovery_run_outcome:
  assumes "validateDiscoveryDraft ((draftParams (dv_session s))\<lparr>dq_page := Some 1\<rparr>) = None"
    and "qr_fetching q1" "\<not> qr_fetching q2"
  shows "let step = discovery_step lower_case ar num_text encode srv;
             s2 = step (step s (t1, RunDraft, q1, iq1)) (t2, ReportOnly, q2, iq2);
             e2 = dv_session s2;
             d = draftParams (dv_session s);
             p = d\<lparr>dq_page := Some 1, dq_page_size := Some (or_default (dq_page_size d) 20)\<rparr>
    in committedParams e2 = Some p \<and> draftParams e2 = p \<and> dv_selected s2 = [] \<and> dv_error s2 = None \<and>
       (case qr_status q2 of
          QueryDone r \<Rightarrow> lastResponse e2 = Some r \<and> dv_items s2 = dr_items r \<and>
            lastRunStatus e2 = RunSuccess \<and> lastRunAt e2 = Some t2 \<and> lastError e2 = None
        | QueryFailed e _ \<Rightarrow> lastResponse e2 = lastResponse (dv_session s) \<and>
            lastRunStatus e2 = RunError \<and> lastRunAt e2 = Some t2 \<and>
            lastError e2 = Some (getApiErrorMessage e discovery_failed_text)
        | QueryPending \<Rightarrow> lastRunStatus e2 = Running)"
proof -
  let ?step = "discovery_step lower_case ar num_text encode srv"
  define d where "d = draftParams (dv_session s)"
  define p where "p = d\<lparr>dq_page := Some 1, dq_page_size := Some (or_default (dq_page_size d) 20)\<rparr>"
  define s1 where "s1 = s\<lparr>dv_error := None, dv_message := None, imageSearchInput := None,
      runToken := runToken s + 1, dv_session := markRunning p (dv_session s), dv_selected := [],
      dv_query := q1, dv_imageQuery := iq1\<rparr>"
  define r1 where "r1 = s1\<lparr>dv_query := q2, dv_imageQuery := iq2\<rparr>"
  have run: "runDiscovery (d\<lparr>dq_page := Some 1\<rparr>) s = s\<lparr>dv_error := None, dv_message := None,
      imageSearchInput := None, runToken := runToken s + 1,
      dv_session := markRunning p (dv_session s), dv_selected := []\<rparr>"
    using assms(1) by (simp add: runDiscovery_def d_def p_def clear_rows_def with_session_def or_default_def)
  have one: "?step s (t1, RunDraft, q1, iq1) = s1"
    using assms(2)
    by (simp add: discovery_step_def discovery_handler_def run [unfolded d_def] commit_fetching
        markRunning_def prune_ids_def s1_def del: One_nat_def)
  have two: "?step s1 (t2, ReportOnly, q2, iq2) = r1\<lparr>dv_session := answered t2 p r1\<rparr>"
    using assms(2,3)
    by (simp add: discovery_step_def discovery_handler_def r1_def [symmetric])
       (subst commit_answered [where c = p], auto simp: r1_def s1_def markRunning_def query_deps_def prune_ids_def)
  show ?thesis
    unfolding Let_def one two d_def [symmetric] p_def [symmetric]
    by (cases "qr_status q2")
      (simp_all add: answered_def r1_def s1_def markRunning_def markSuccess_def markError_def
        dv_items_def)
qed


section \<open>Where the screen goes wrong\<close>

text \<open>Until something has been run, the kind of search cannot be changed: whatever mode the user
  picks in the tabs, the form is back at the workspace's default mode when the click has been rendered,
  with the filters of the mode picked.\<close>

theorem mode_cannot_be_changed_before_first_run:
  assumes "dv_hydrated s" "dv_defaultMode s = Some m" "committedParams (dv_session s) = None"
    "lastResponse (dv_session s) = None" "imageSearchInput s = None"
  shows "let s' = discovery_step lower_case ar num_text encode srv s (time, SwitchMode mode, dv_query s, iq)
    in dq_mode (draftParams (dv_session s')) = Some m \<and>
       dq_page (draftParams (dv_session s')) = Some 1 \<and>
       dq_top_n (draftParams (dv_session s')) =
         (if mode = Recommended then Some (or_default (dq_top_n (draftParams (dv_session s))) 10) else None)"
proof -
  let ?good = "\<lambda>s'. dv_hydrated s' \<and> dv_defaultMode s' = Some m \<and> committedParams (dv_session s') = None \<and>
    lastResponse (dv_session s') = None \<and> imageSearchInput s' = None \<and>
    dq_page (draftParams (dv_session s')) = Some 1 \<and>
    dq_top_n (draftParams (dv_session s')) =
      (if mode = Recommended then Some (or_default (dq_top_n (draftParams (dv_session s))) 10) else None)"
  have effects: "?good (dv_effects lower_case time old s') \<and>
      dq_mode (draftParams (dv_session (dv_effects lower_case time old s'))) = Some m" if "?good s'" for old s'
    using that
    by (auto simp: dv_effects_def Let_def query_effect_def image_effect_def default_mode_effect_def
        with_session_def updateDraft_def)
  let ?h = "(with_session (switchMode mode) s)\<lparr>dv_query := dv_query s, dv_imageQuery := iq\<rparr>"
  have "?good ?h"
    using assms by (simp add: with_session_def switchMode_def updateDraft_def Let_def)
  from effects [OF effects [OF effects [OF this, THEN conjunct1], THEN conjunct1]]
  show ?thesis
    by (simp add: discovery_step_def discovery_handler_def dv_commit_def Let_def del: One_nat_def)
qed

text \<open>A batch import that is answered counts as an import of every product of the batch, those the
  server counted as failed too: they are all marked as imported, so that none of them is offered for
  import any more, and the message that tells of the failures names none of them.\<close>

theorem batch_import_marks_failed_products:
  assumes "canImport s" "dv_selectedProducts lower_case s \<noteq> []"
    and "dsv_batch srv (dv_calls s) (map dp_key (dv_selectedProducts lower_case s)) = Inr r"
  shows "let s' = handleImportSelected lower_case srv s
    in set (importedIds (dv_session s')) =
         set (importedIds (dv_session s)) \<union> dp_key ` set (dv_selectedProducts lower_case s) \<and>
       dv_selected s' = [] \<and> dv_error s' = None \<and>
       dv_message s' = Some (batch_prefix @ decimal (br_imported r) @ batch_new @
         decimal (br_updated r) @ batch_updated @ decimal (br_failed r) @ batch_failed)"
  using assms
  by (simp add: handleImportSelected_def Let_def clear_rows_def with_session_def trackImported_def)

text \<open>A page that is reloaded while a search runs again after one that found nothing shows the
  loading placeholder although nothing is being loaded, and goes on showing it through every later
  render until the user runs a search.\<close>

theorem reload_while_running_loads_forever:
  assumes "lastRunStatus loaded = Running" "lastResponse loaded = Some r" "dr_items r = []"
    and "list_all (\<lambda>act. \<exists>time iq. act = (time, ReportOnly, no_report, iq)) later"
  shows "let step = discovery_step lower_case ar num_text encode srv;
             s = run step fresh_discovery ((t0, SessionLoaded loaded, no_report, no_report) # later)
    in discovery_body_of lower_case s = DiscoveryLoading \<and> \<not> activeFetching s"
proof -
  let ?step = "discovery_step lower_case ar num_text encode srv"
  let ?waits = "\<lambda>s. dv_session s = loaded \<and> runToken s = 0 \<and> imageSearchInput s = None \<and>
    dv_query s = no_report"
  have effects: "?waits (dv_effects lower_case time old s)" if "?waits s" for time old s
    using that assms(2)
    by (auto simp: dv_effects_def Let_def query_effect_def image_effect_def default_mode_effect_def)
  have commit: "?waits (dv_commit lower_case time old s)" if "?waits s" for time old s
    unfolding dv_commit_def Let_def by (rule effects [OF effects [OF effects [OF that]]])
  have later: "?waits (run ?step s as)"
    if "?waits s" "list_all (\<lambda>act. \<exists>time iq. act = (time, ReportOnly, no_report, iq)) as" for s as
    using that
  proof (induction as arbitrary: s)
    case (Cons a as)
    then obtain time iq where a: "a = (time, ReportOnly, no_report, iq)" by auto
    have "?waits (?step s a)"
      unfolding a discovery_step_def prod.case
      by (rule commit) (use Cons.prems(1) in \<open>simp add: discovery_handler_def\<close>)
    then show ?case using Cons.IH [of "?step s a"] Cons.prems(2) by simp
  qed simp
  have start: "?waits (?step fresh_discovery (t0, SessionLoaded loaded, no_report, no_report))"
    by (simp only: discovery_step_def prod.case, rule commit)
      (simp add: discovery_handler_def fresh_discovery_def)
  from later [OF start assms(4)] show ?thesis
    using assms(1-3)
    by (simp add: Let_def discovery_body_defs dv_items_def no_report_def)
qed


text \<open>Searching again for the image whose results are shown never ends: nothing is fetched, no
  effect runs, and the run stays marked as running through every later render, so that a search
  that found nothing turns from its own empty state into the loading placeholder.\<close>

theorem repeated_image_search_stays_running:
  assumes "imageSearchInput s =
      Some \<lparr>ik_source = FromUrl, ik_image_url = Some url, ik_fingerprint = None, ik_page = 1\<rparr>"
    and "url \<noteq> []" "\<not> qr_fetching (dv_imageQuery s)" "qr_status (dv_imageQuery s) = QueryDone r"
    and "Option.bind (committedParams (dv_session s)) dq_mode = Some m"
    and "dq_mode (draftParams (dv_session s)) = Some m"
    and "payload = \<lparr>ir_image_url = Some url, ir_image_base64 = None, ir_page = Some 1, ir_page_size = Some 20\<rparr>"
    and "list_all (\<lambda>act. \<exists>time q. act = (time, ReportOnly, q, dv_imageQuery s)) later"
  shows "let s' = run (discovery_step lower_case ar num_text encode srv) s
             ((t0, SearchImage payload None, q0, dv_imageQuery s) # later)
    in lastRunStatus (dv_session s') = Running \<and> \<not> activeFetching s' \<and> dv_items s' = dr_items r \<and>
       (if dr_items r = [] then discovery_body_of lower_case s' = DiscoveryLoading else True)"
proof -
  let ?step = "discovery_step lower_case ar num_text encode srv"
  define iq where "iq = dv_imageQuery s"
  define k where
    "k = \<lparr>ik_source = FromUrl, ik_image_url = Some url, ik_fingerprint = None, ik_page = (1::nat)\<rparr>"
  let ?waits = "\<lambda>s'. lastRunStatus (dv_session s') = Running \<and> dv_imageQuery s' = iq \<and>
    imageSearchInput s' = Some k \<and> committedParams (dv_session s') \<noteq> None \<and>
    Option.bind (committedParams (dv_session s')) dq_mode = Some m \<and>
    dq_mode (draftParams (dv_session s')) = Some m"
  let ?deps = "(iq, Some k, Some m, Some m)"
  have deps: "image_deps s' = ?deps" if "?waits s'" for s'
    using that by (simp add: image_deps_def)
  have effects: "?waits (dv_effects lower_case time old s')" if "?waits s'" "image_deps old = ?deps" for time old s'
    using that(1) deps [OF that(1)] that(2)
    by (auto simp: dv_effects_def Let_def query_effect_def default_mode_effect_def)
  have commit: "?waits (dv_commit lower_case time old s')" if "?waits s'" "image_deps old = ?deps" for time old s'
  proof -
    let ?s1 = "dv_effects lower_case time old s'"
    have 1: "?waits ?s1" by (rule effects [OF that])
    have 2: "?waits (dv_effects lower_case time s' ?s1)" by (rule effects [OF 1 deps [OF that(1)]])
    show ?thesis unfolding dv_commit_def Let_def by (rule effects [OF 2 deps [OF 1]])
  qed
  have later: "?waits (run ?step s' as)"
    if "?waits s'" "list_all (\<lambda>act. \<exists>time q. act = (time, ReportOnly, q, iq)) as" for s' as
    using that
  proof (induction as arbitrary: s')
    case (Cons a as)
    then obtain time q where a: "a = (time, ReportOnly, q, iq)" by auto
    have "?waits (?step s' a)"
      unfolding a discovery_step_def prod.case
      by (rule commit [OF _ deps [OF Cons.prems(1)]])
        (use Cons.prems(1) in \<open>simp add: discovery_handler_def\<close>)
    then show ?case using Cons.IH [of "?step s' a"] Cons.prems(2) by simp
  qed simp
  have old: "image_deps s = ?deps"
    using assms(1,5,6) by (simp add: image_deps_def iq_def k_def)
  have start: "?waits (?step s (t0, SearchImage payload None, q0, iq))"
    unfolding discovery_step_def prod.case
    by (rule commit [OF _ old])
      (simp add: discovery_handler_def runImageSearch_def Let_def assms(2,6,7) or_default_def k_def
        clear_rows_def with_session_def markRunning_def no_params_def truthy_def)
  from later [OF start assms(8) [folded iq_def]] show ?thesis
    using assms(3,4)
    by (simp add: Let_def discovery_body_defs dv_items_def query_data_def iq_def [symmetric])
qed


section \<open>Examples\<close>

definition sample_candidate :: "jstring \<Rightarrow> DiscoveryProduct" where
  "sample_candidate k =
     \<lparr>dp_id = None, dp_key = k, dp_title = k, dp_description = None, dp_price = Num 10,
      dp_original_price = None, dp_discount = Num 0, dp_rating = Num 4, dp_sales = Num 7,
      dp_reviews = Num 3, dp_image_url = [], dp_gallery_images = [], dp_product_url = js ''/p'',
      dp_affiliate_url = None, dp_category = None, dp_store_name = None, dp_currency = js ''USD'',
      dp_commission_rate = None, dp_shipping_info = None, dp_score = Num 1, dp_rank = None,
      dp_recommendation_score = None, dp_recommendation_breakdown = None,
      dp_lacks_affiliate_url = None\<rparr>"

definition sample_response :: "jstring list \<Rightarrow> DiscoveryResponse" where
  "sample_response ks =
     \<lparr>dr_items = map sample_candidate ks, dr_total = Num 2, dr_skip = Num 0, dr_limit = Num 20,
      dr_page = Num 1, dr_total_pages = Num 1, dr_mode = Hot, dr_sort = OrdersDesc,
      dr_persisted_count = Num 0\<rparr>"

definition report_of :: "DiscoveryResponse \<Rightarrow> query_report" where
  "report_of r = \<lparr>qr_fetching = False, qr_status = QueryDone r\<rparr>"

definition fetching_report :: query_report where
  "fetching_report = \<lparr>qr_fetching = True, qr_status = QueryPending\<rparr>"

definition partly_failing :: discovery_server where
  "partly_failing =
     \<lparr>dsv_import = \<lambda>_ _. None,
      dsv_batch = \<lambda>_ ids. Inr \<lparr>br_imported = length ids - 1, br_updated = 0, br_failed = 1\<rparr>,
      dsv_create = \<lambda>_ _. None, dsv_generate = \<lambda>_ _. Inr []\<rparr>"

lemmas sample_discovery_defs =
  sample_candidate_def sample_response_def report_of_def fetching_report_def partly_failing_def
  no_report_def

lemma discovery_screen_invariant_witness:
  "let s = run (discovery_step (\<lambda>t. t) (\<lambda>_. []) (\<lambda>_. []) (\<lambda>t. t) partly_failing) fresh_discovery
       [(js ''t1'', RunDraft, fetching_report, no_report),
        (js ''t2'', ReportOnly, report_of (sample_response [js ''a'', js ''b'']), no_report),
        (js ''t3'', ToggleAllRows, report_of (sample_response [js ''a'', js ''b'']), no_report)]
   in length (dv_selectedProducts (\<lambda>t. t) s) = length (dv_selected s) \<and> distinct (dv_selected s)"
proof -
  let ?step = "discovery_step (\<lambda>t. t) (\<lambda>_. []) (\<lambda>_. []) (\<lambda>t. t) partly_failing"
  let ?as = "[(js ''t1'', RunDraft, fetching_report, no_report),
        (js ''t2'', ReportOnly, report_of (sample_response [js ''a'', js ''b'']), no_report),
        (js ''t3'', ToggleAllRows, report_of (sample_response [js ''a'', js ''b'']), no_report)]"
  have "admissible ?step (discovery_ok (\<lambda>t. t)) fresh_discovery ?as"
    by (simp add: discovery_ok_def distinct_report_def query_data_def distinct_response_def
        sample_discovery_defs js_def)
  from discovery_screen_invariant [OF this] show ?thesis by (simp add: Let_def)
qed

lemma discovery_imports_need_admin_witness:
  "list_all (\<lambda>c. \<not> is_import c)
     (dv_calls (run (discovery_step (\<lambda>t. t) (\<lambda>_. []) (\<lambda>_. []) (\<lambda>t. t) partly_failing) fresh_discovery
        [(js ''t1'', UserLoaded False, no_report, no_report),
         (js ''t2'', ImportProduct (sample_candidate (js ''a'')), no_report, no_report)]))"
  by (rule discovery_imports_need_admin) (simp add: member_only_def)

lemma discovery_run_outcome_witness:
  "let step = discovery_step (\<lambda>t. t) (\<lambda>_. []) (\<lambda>_. []) (\<lambda>t. t) partly_failing;
       s2 = step (step fresh_discovery (js ''t1'', RunDraft, fetching_report, no_report))
              (js ''t2'', ReportOnly, report_of (sample_response [js ''a'']), no_report)
   in lastRunStatus (dv_session s2) = RunSuccess \<and> map dp_key (dv_items s2) = [js ''a'']"
proof -
  have "validateDiscoveryDraft ((draftParams (dv_session fresh_discovery))\<lparr>dq_page := Some 1\<rparr>) = None"
    by code_simp
  from discovery_run_outcome [OF this, of fetching_report "report_of (sample_response [js ''a''])"
      "\<lambda>t. t" "\<lambda>_. []" "\<lambda>_. []" "\<lambda>t. t" partly_failing "js ''t1''" no_report "js ''t2''" no_report]
  show ?thesis by (simp add: Let_def sample_discovery_defs)
qed

lemma mode_cannot_be_changed_before_first_run_witness:
  "let s = fresh_discovery\<lparr>dv_hydrated := True, dv_defaultMode := Some Hot\<rparr>;
       s' = discovery_step (\<lambda>t. t) (\<lambda>_. []) (\<lambda>_. []) (\<lambda>t. t) partly_failing s
              (js ''t1'', SwitchMode Deals, no_report, no_report)
   in dq_mode (draftParams (dv_session s')) = Some Hot"
  using mode_cannot_be_changed_before_first_run [of
      "fresh_discovery\<lparr>dv_hydrated := True, dv_defaultMode := Some Hot\<rparr>" Hot "\<lambda>t. t" "\<lambda>_. []" "\<lambda>_. []"
      "\<lambda>t. t" partly_failing "js ''t1''" Deals no_report]
  by (simp add: Let_def fresh_discovery_def emptySession_def)

lemma batch_import_marks_failed_products_witness:
  "let s = fresh_discovery\<lparr>canImport := True,
         dv_query := report_of (sample_response [js ''a'', js ''b'']), dv_selected := [js ''a'', js ''b'']\<rparr>
   in set (importedIds (dv_session (handleImportSelected (\<lambda>t. t) partly_failing s))) =
      {js ''a'', js ''b''}"
proof -
  let ?s = "fresh_discovery\<lparr>canImport := True,
         dv_query := report_of (sample_response [js ''a'', js ''b'']), dv_selected := [js ''a'', js ''b'']\<rparr>"
  have sel: "dv_selectedProducts (\<lambda>t. t) ?s = map sample_candidate [js ''a'', js ''b'']"
    by (simp add: dv_selectedProducts_def dv_filtered_def Let_def trim_eq_Nil_iff dv_items_def
        fresh_discovery_def emptySession_def DEFAULT_UI_PREFS_def sample_discovery_defs)
  have "canImport ?s" "dv_selectedProducts (\<lambda>t. t) ?s \<noteq> []"
    and "dsv_batch partly_failing (dv_calls ?s) (map dp_key (dv_selectedProducts (\<lambda>t. t) ?s)) =
      Inr \<lparr>br_imported = 1, br_updated = 0, br_failed = 1\<rparr>"
    unfolding sel by (simp_all add: partly_failing_def)
  from batch_import_marks_failed_products [OF this] show ?thesis
    unfolding Let_def sel
    by (simp add: fresh_discovery_def emptySession_def sample_candidate_def)
qed

lemma reload_while_running_loads_forever_witness:
  "let s = run (discovery_step (\<lambda>t. t) (\<lambda>_. []) (\<lambda>_. []) (\<lambda>t. t) partly_failing) fresh_discovery
       [(js ''t0'', SessionLoaded (emptySession\<lparr>lastRunStatus := Running,
           lastResponse := Some (sample_response [])\<rparr>), no_report, no_report),
        (js ''t1'', ReportOnly, no_report, no_report)]
   in discovery_body_of (\<lambda>t. t) s = DiscoveryLoading \<and> \<not> activeFetching s"
  using reload_while_running_loads_forever [of "emptySession\<lparr>lastRunStatus := Running,
      lastResponse := Some (sample_response [])\<rparr>" "sample_response []"
      "[(js ''t1'', ReportOnly, no_report, no_report)]" "\<lambda>t. t" "\<lambda>_. []" "\<lambda>_. []" "\<lambda>t. t" partly_failing
      "js ''t0''"]
  by (simp only: Let_def) (simp add: sample_response_def)

lemma repeated_image_search_stays_running_witness:
  "let s = fresh_discovery\<lparr>dv_hydrated := True, dv_imageQuery := report_of (sample_response []),
         imageSearchInput := Some \<lparr>ik_source = FromUrl, ik_image_url = Some (js ''u''),
           ik_fingerprint = None, ik_page = 1\<rparr>,
         dv_session := emptySession\<lparr>committedParams := Some (no_params\<lparr>dq_mode := Some Hot\<rparr>)\<rparr>\<rparr>;
       s' = run (discovery_step (\<lambda>t. t) (\<lambda>_. []) (\<lambda>_. []) (\<lambda>t. t) partly_failing) s
         [(js ''t0'', SearchImage \<lparr>ir_image_url = Some (js ''u''), ir_image_base64 = None,
             ir_page = Some 1, ir_page_size = Some 20\<rparr> None, no_report, report_of (sample_response []))]
   in discovery_body_of (\<lambda>t. t) s' = DiscoveryLoading"
  using repeated_image_search_stays_running [of
      "fresh_discovery\<lparr>dv_hydrated := True, dv_imageQuery := report_of (sample_response []),
         imageSearchInput := Some \<lparr>ik_source = FromUrl, ik_image_url = Some (js ''u''),
           ik_fingerprint = None, ik_page = 1\<rparr>,
         dv_session := emptySession\<lparr>committedParams := Some (no_params\<lparr>dq_mode := Some Hot\<rparr>)\<rparr>\<rparr>"
      "js ''u''" "sample_response []" Hot "\<lparr>ir_image_url = Some (js ''u''), ir_image_base64 = None,
             ir_page = Some 1, ir_page_size = Some 20\<rparr>" "[]" "\<lambda>t. t" "\<lambda>_. []" "\<lambda>_. []" "\<lambda>t. t" partly_failing
      "js ''t0''" no_report]
  by (simp only: Let_def)
    (simp add: report_of_def sample_response_def js_def emptySession_def no_params_def)

end
