(* ===== verification/ProductControls.thy ===== *)
theory ProductControls
  imports ProductScreen Widgets
begin

text \<open>
  What the inventory screen shows, and what can be pressed on it: \<open>frontend/src/features/products/components\<close>
  (\<open>ProductsTable\<close>, \<open>ProductActionsMenu\<close>, \<open>ProductsSelectionBar\<close>, \<open>ProductsToolbar\<close>,
  \<open>ProductDetailsDrawer\<close>, the badges), the score cells of \<open>components/common\<close>, and the markup of
  \<open>ProductsView.tsx\<close>.  A control carries the action of \<open>ProductScreen\<close> that its handler starts.
  Writing an amount in a currency that is no currency code throws; a view that throws is \<open>None\<close>.
\<close>

section \<open>Badges and scores\<close>

text \<open>\<open>formatMoney\<close>, \<open>toFixed(2)\<close>, \<open>formatCompactNumber\<close>, \<open>toLocaleString\<close> and \<open>String\<close> of numbers.\<close>

record product_formats =
  pf_money :: "jsnum \<Rightarrow> jstring \<Rightarrow> jstring option"
  pf_fixed :: "jsnum \<Rightarrow> jstring"
  pf_compact :: "jsnum \<Rightarrow> jstring"
  pf_number :: "jsnum \<Rightarrow> jstring"
  pf_string :: "jsnum \<Rightarrow> jstring"

fun badge_of_tone :: "score_tone \<Rightarrow> badge_tone" where
  "badge_of_tone TSuccess = BadgeSuccess"
| "badge_of_tone TInfo = BadgeInfo"
| "badge_of_tone TWarning = BadgeWarning"
| "badge_of_tone TError = BadgeError"
| "badge_of_tone TNeutral = BadgeNeutral"

definition product_draft_label :: jstring where
  "product_draft_label =
    [1605, 1587, 1608, 1583, 1577]"

definition product_active_label :: jstring where
  "product_active_label =
    [1606, 1588, 1591]"

definition product_inactive_label :: jstring where
  "product_inactive_label =
    [1594, 1610, 1585, 32, 1606, 1588, 1591]"

definition product_archived_label :: jstring where
  "product_archived_label =
    [1605, 1572, 1585, 1588, 1601]"

fun productStatusLabels :: "ProductStatus \<Rightarrow> jstring" where
  "productStatusLabels PDraft = product_draft_label"
| "productStatusLabels PActive = product_active_label"
| "productStatusLabels PInactive = product_inactive_label"
| "productStatusLabels PArchived = product_archived_label"

definition status_badge :: "Product \<Rightarrow> jstring \<times> badge_tone" where
  "status_badge p =
     (productStatusLabels (p_status p), if p_status p = PActive then BadgeSuccess else BadgeNeutral)"

definition health_published :: jstring where
  "health_published =
    [1605, 1606, 1588, 1608, 1585]"

definition health_queued :: jstring where
  "health_queued =
    [1601, 1610, 32, 1575, 1604, 1602, 1575, 1574, 1605, 1577]"

definition health_content :: jstring where
  "health_content =
    [1605, 1581, 1578, 1608, 1609, 32, 65, 73]"

definition health_no_content :: jstring where
  "health_no_content =
    [1610, 1606, 1602, 1589, 1607, 32, 1605, 1581, 1578, 1608, 1609]"

definition health_low_score :: jstring where
  "health_low_score =
    [1606, 1578, 1610, 1580, 1577, 32, 1605, 1606, 1582, 1601, 1590, 1577]"

definition ProductHealthBadges :: "ProductPipelineState \<Rightarrow> (jstring \<times> badge_tone) list" where
  "ProductHealthBadges state =
     (if ps_published state then [(health_published, BadgeSuccess)]
      else (if ps_queued state then [(health_queued, BadgeInfo)] else []) @
           [if hasContent state then (health_content, BadgeSuccess)
            else (health_no_content, BadgeWarning)] @
           (if lowScore state then [(health_low_score, BadgeError)] else []))"

text \<open>\<open>Math.round\<close>, and \<open>Math.min(100, Math.max(0, n))\<close>.\<close>

definition num_round :: "jsnum \<Rightarrow> jsnum" where
  "num_round n = (case n of Num q \<Rightarrow> Num (of_int \<lfloor>q + 1 / 2\<rfloor>) | _ \<Rightarrow> n)"

definition meterWidth :: "jsnum \<Rightarrow> jsnum" where
  "meterWidth n = (case n of
     Num q \<Rightarrow> Num (min 100 (max 0 q)) | PInf \<Rightarrow> Num 100 | NInf \<Rightarrow> Num 0 | NaN \<Rightarrow> NaN)"

definition ProductScoreCell :: "jsnum \<Rightarrow> jsnum \<times> jstring \<times> badge_tone" where
  "ProductScoreCell score =
     (num_round score, fst (getScoreQuality score), badge_of_tone (snd (getScoreQuality score)))"

record breakdown_view =
  bv_total :: jsnum
  bv_badge :: "jstring \<times> badge_tone"
  bv_meter :: jsnum
  bv_factors :: "(factor_key \<times> nat) list"

definition quality_badge :: "jsnum \<Rightarrow> jstring \<times> badge_tone" where
  "quality_badge score =
     (sq_label (getProductScoreQuality score), badge_of_tone (sq_tone (getProductScoreQuality score)))"

definition ProductScoreBreakdown :: "ProductScoreBreakdown \<Rightarrow> breakdown_view" where
  "ProductScoreBreakdown b =
     \<lparr>bv_total = num_round (sb_total b), bv_badge = quality_badge (sb_total b),
      bv_meter = meterWidth (sb_total b),
      bv_factors = map (\<lambda>f. (sf_key f, weightPercent f)) (sb_factors b)\<rparr>"

text \<open>The button of the cell, and the breakdown in its popover; products carry no breakdown of their
  own.\<close>

definition score_input :: "Product \<Rightarrow> ProductScoreInput" where
  "score_input p =
     \<lparr>si_score = p_score p, si_rating = p_rating p, si_sales = p_sales p, si_discount = p_discount p,
      si_reviews = p_reviews p, score_breakdown = None\<rparr>"

definition ProductAiScoreCell ::
  "ProductScoreInput \<Rightarrow> (jsnum \<times> (jstring \<times> badge_tone) \<times> jsnum) \<times> breakdown_view" where
  "ProductAiScoreCell p =
     ((num_round (si_score p), quality_badge (si_score p), meterWidth (si_score p)),
      ProductScoreBreakdown (getProductScoreBreakdown p))"

section \<open>ProductActionsMenu.tsx, ProductsTable.tsx\<close>

definition preview_label :: jstring where
  "preview_label =
    [1593, 1585, 1590, 32, 1575, 1604, 1578, 1601, 1575, 1589, 1610, 1604]"

definition generate_label :: jstring where
  "generate_label =
    [1573, 1606, 1588, 1575, 1569, 32, 1605, 1581, 1578, 1608, 1609]"

definition duplicate_label :: jstring where
  "duplicate_label =
    [1578, 1603, 1585, 1575, 1585, 32, 1575, 1604, 1605, 1606, 1578, 1580, 32, 8212, 32,
     1602, 1585, 1610, 1576, 1611, 1575]"

definition archive_label :: jstring where
  "archive_label =
    [1571, 1585, 1588, 1601, 1577, 32, 1575, 1604, 1605, 1606, 1578, 1580, 32, 8212, 32,
     1602, 1585, 1610, 1576, 1611, 1575]"

definition delete_product_label :: jstring where
  "delete_product_label =
    [1581, 1584, 1601, 32, 1575, 1604, 1605, 1606, 1578, 1580]"

text \<open>The items for duplicating and archiving have no handler and are always disabled: their action is
  that of closing nothing.\<close>

definition ProductActionsMenu :: "bool \<Rightarrow> Product \<Rightarrow> bool \<Rightarrow> products_action control list" where
  "ProductActionsMenu is_open p canDelete =
     (if \<not> is_open then []
      else [Button preview_label False False (Preview p), Button generate_label False False (SendToAi p),
            Button duplicate_label True False ClosePreview, Button archive_label True False ClosePreview,
            Button delete_product_label (\<not> canDelete) False (AskDeleteProducts [p])])"

record product_row =
  pw_title :: jstring
  pw_subtitle :: jstring
  pw_image :: "jstring option"
  pw_cells :: "ProductTableColumn list"
  pw_price :: "jstring option"
  pw_rating :: jstring
  pw_sales :: jstring
  pw_score :: "(jsnum \<times> (jstring \<times> badge_tone) \<times> jsnum) \<times> breakdown_view"
  pw_badges :: "(jstring \<times> badge_tone) list"
  pw_selected :: bool
  pw_link :: jstring
  pw_controls :: "products_action control list"

definition product_subtitle :: "Product \<Rightarrow> jstring" where
  "product_subtitle p =
     (let parts = filter (\<lambda>v. v \<noteq> []) (List.map_filter id [p_category p, p_store_name p]);
          line = join [32, 183, 32] parts
      in if line \<noteq> [] then line
         else if truthy (p_aliexpress_product_id p) then the (p_aliexpress_product_id p)
         else p_id p)"

definition product_row_controls ::
  "ProductTableColumn list \<Rightarrow> Product \<Rightarrow> bool \<Rightarrow> bool \<Rightarrow> products_action control list" where
  "product_row_controls columns p canManage menu_open =
     [Button (p_title p) False False (Preview p), Button (p_title p) False False (ToggleProduct (p_id p))] @
     (if ColProduct \<in> set columns then [Button (p_title p) False False (Preview p)] else []) @
     (if ColActions \<in> set columns then ProductActionsMenu menu_open p canManage else [])"

text \<open>What the queries bring besides the page of products.\<close>

record products_report =
  pr_pending :: bool
  pr_error :: bool
  pr_queue :: "QueueItem list"
  pr_canManage :: bool
  pr_busy :: bool
  pr_deleting :: bool
  pr_menus :: "jstring \<Rightarrow> bool"

text \<open>The columns stand in the order of the markup, whatever the order in which they were made visible.\<close>

definition shown_columns :: "inventory_state \<Rightarrow> ProductTableColumn list" where
  "shown_columns v = filter (\<lambda>c. c \<in> set (visibleColumns v)) DEFAULT_PRODUCT_COLUMNS"

definition ProductsTable_row ::
  "product_formats \<Rightarrow> products_report \<Rightarrow> inventory_state \<Rightarrow> Product \<Rightarrow> product_row option" where
  "ProductsTable_row pf r v p =
     (let columns = shown_columns v;
          price = (if ColPrice \<in> set columns then map_option Some (pf_money pf (p_price p) (p_currency p))
                   else Some None)
      in map_option (\<lambda>price.
           \<lparr>pw_title = p_title p, pw_subtitle = product_subtitle p,
            pw_image = (if p_image_url p \<noteq> [] then Some (p_image_url p) else None),
            pw_cells = columns, pw_price = price, pw_rating = pf_fixed pf (p_rating p),
            pw_sales = pf_compact pf (p_sales p),
            pw_score = ProductAiScoreCell (score_input p),
            pw_badges = status_badge p #
              ProductHealthBadges (getProductPipelineState p (indexQueueByProduct (pr_queue r))),
            pw_selected = (p_id p \<in> set (selectedProductIds v)),
            pw_link = or_default (p_affiliate_url p) (p_product_url p),
            pw_controls = product_row_controls columns p (pr_canManage r) (pr_menus r (p_id p))\<rparr>) price)"

section \<open>ProductsSelectionBar.tsx, ProductsToolbar.tsx\<close>

definition bar_clear_label :: jstring where
  "bar_clear_label =
    [1605, 1587, 1581, 32, 1575, 1604, 1578, 1581, 1583, 1610, 1583]"

definition bar_delete_label :: jstring where
  "bar_delete_label =
    [1581, 1584, 1601, 32, 1575, 1604, 1605, 1581, 1583, 1583]"

definition bar_ai_label :: jstring where
  "bar_ai_label =
    [1573, 1585, 1587, 1575, 1604, 32, 1573, 1604, 1609, 32, 65, 73, 32, 83, 116, 117, 100,
     105, 111]"

definition bar_queue_label :: jstring where
  "bar_queue_label =
    [1606, 1602, 1604, 32, 1573, 1604, 1609, 32, 1575, 1604, 1602, 1575, 1574, 1605, 1577]"

definition bar_export_label :: jstring where
  "bar_export_label =
    [1578, 1589, 1583, 1610, 1585]"

definition PRODUCT_STATUSES :: "ProductStatus list" where
  "PRODUCT_STATUSES = [PDraft, PActive, PInactive, PArchived]"

definition ProductsSelectionBar ::
  "nat \<Rightarrow> bool \<Rightarrow> bool \<Rightarrow> Product list \<Rightarrow> products_action control list" where
  "ProductsSelectionBar amount busy canManage selected =
     (if amount = 0 then []
      else [Button bar_clear_label False False ClearProducts,
            Button bar_delete_label (\<not> canManage \<or> busy) False (AskDeleteProducts selected)] @
           map (\<lambda>st. Button (productStatusLabels st) (\<not> canManage \<or> busy) False (ChangeSelectedStatus st))
             PRODUCT_STATUSES @
           [Button bar_ai_label (amount \<noteq> 1 \<or> busy) False SendSelectedToAi,
            Button bar_queue_label busy busy (AddToQueue selected),
            Button bar_export_label busy False ExportSelected])"

text \<open>The choices of the toolbar; the boxes of two columns are disabled, the search box takes any text.\<close>

definition ProductsToolbar_choices :: "products_action list" where
  "ProductsToolbar_choices =
     map FilterStatus (None # map Some PRODUCT_STATUSES) @
     map SortProducts [SortNewest, ScoreDesc, SalesDesc, RatingDesc, PriceAsc, PriceDesc] @
     map SetTableDensity [PComfortable, PCompact] @
     map ToggleColumn (filter (\<lambda>c. \<not> (c = ColProduct \<or> c = ColActions)) DEFAULT_PRODUCT_COLUMNS) @
     map SetProductsPageSize [10, 25, 50, 100]"

section \<open>ProductDetailsDrawer.tsx\<close>

record product_drawer =
  pd_title :: jstring
  pd_image :: "jstring option"
  pd_status :: "jstring \<times> badge_tone"
  pd_category :: jstring
  pd_price :: jstring
  pd_rating :: jstring
  pd_sales :: jstring
  pd_score :: "jsnum \<times> jstring \<times> badge_tone"
  pd_health :: "(jstring \<times> badge_tone) list"
  pd_description :: "jstring + (jstring \<times> jstring \<times> jstring \<times> jstring)"
  pd_breakdown :: breakdown_view
  pd_sku :: jstring
  pd_discount :: jstring
  pd_commission :: jstring
  pd_link :: jstring
  pd_controls :: "products_action control list"

definition uncategorized_label :: jstring where
  "uncategorized_label =
    [1594, 1610, 1585, 32, 1605, 1589, 1606, 1601]"

definition undefined_label :: jstring where
  "undefined_label =
    [1594, 1610, 1585, 32, 1605, 1581, 1583, 1583]"

definition unavailable_label :: jstring where
  "unavailable_label =
    [1594, 1610, 1585, 32, 1605, 1578, 1575, 1581, 1577]"

definition drawer_generate_label :: jstring where
  "drawer_generate_label =
    [1573, 1606, 1588, 1575, 1569, 32, 1605, 1581, 1578, 1608, 1609, 32, 65, 73]"

definition drawer_queue_label :: jstring where
  "drawer_queue_label =
    [1573, 1590, 1575, 1601, 1577, 32, 1573, 1604, 1609, 32, 1602, 1575, 1574, 1605, 1577,
     32, 1575, 1604, 1606, 1588, 1585]"

definition drawer_close_label :: jstring where
  "drawer_close_label =
    [1573, 1594, 1604, 1575, 1602]"

definition drawer_category :: "Product \<Rightarrow> jstring" where
  "drawer_category p =
     (let line = join [32, 183, 32]
            (filter (\<lambda>v. v \<noteq> []) (List.map_filter id [p_category p, p_store_name p]))
      in if line = [] then uncategorized_label else line)"

definition percent_text :: "product_formats \<Rightarrow> jsnum option \<Rightarrow> jstring \<Rightarrow> jstring" where
  "percent_text pf n fallback = (case n of None \<Rightarrow> fallback | Some x \<Rightarrow> pf_string pf x @ js ''%'')"

definition ProductDetailsDrawer ::
  "product_formats \<Rightarrow> products_report \<Rightarrow> Product \<Rightarrow> product_drawer option" where
  "ProductDetailsDrawer pf r p =
     map_option (\<lambda>price.
       \<lparr>pd_title = p_title p,
        pd_image = (if p_image_url p \<noteq> [] then Some (p_image_url p) else None),
        pd_status = status_badge p, pd_category = drawer_category p, pd_price = price,
        pd_rating = [11088, 32] @ pf_fixed pf (p_rating p), pd_sales = pf_number pf (p_sales p),
        pd_score = ProductScoreCell (p_score p),
        pd_health =
          ProductHealthBadges (getProductPipelineState p (indexQueueByProduct (pr_queue r))),
        pd_description =
          (if truthy (p_description p) then Inl (the (p_description p))
           else Inr (or_default (p_store_name p) undefined_label,
                     or_default (p_category p) uncategorized_label,
                     or_default (p_aliexpress_product_id p) (p_id p),
                     percent_text pf (p_commission_rate p) unavailable_label)),
        pd_breakdown = ProductScoreBreakdown (getProductScoreBreakdown (score_input p)),
        pd_sku = or_default (p_aliexpress_product_id p) (p_id p),
        pd_discount = pf_string pf (p_discount p) @ js ''%'',
        pd_commission = percent_text pf (p_commission_rate p) [8212],
        pd_link = or_default (p_affiliate_url p) (p_product_url p),
        pd_controls =
          [Button drawer_close_label False False ClosePreview,
           Button drawer_generate_label False False (SendToAi p),
           Button drawer_queue_label False False (AddToQueue [p])]\<rparr>)
       (pf_money pf (p_price p) (p_currency p))"

section \<open>The markup of ProductsView.tsx\<close>

definition page_previous_label :: jstring where
  "page_previous_label =
    [1575, 1604, 1587, 1575, 1576, 1602]"

definition page_next_label :: jstring where
  "page_next_label =
    [1575, 1604, 1578, 1575, 1604, 1610]"

definition filters_clear_label :: jstring where
  "filters_clear_label =
    [1605, 1587, 1581, 32, 1593, 1608, 1575, 1605, 1604, 32, 1575, 1604, 1578, 1589, 1601,
     1610, 1577]"

definition select_all_label :: jstring where
  "select_all_label =
    [1578, 1581, 1583, 1610, 1583, 32, 1603, 1604, 32, 1575, 1604, 1605, 1606, 1578, 1580,
     1575, 1578, 32, 1575, 1604, 1605, 1593, 1585, 1608, 1590, 1577]"

definition dialog_cancel_label :: jstring where
  "dialog_cancel_label =
    [1573, 1604, 1594, 1575, 1569]"

definition dialog_delete_label :: jstring where
  "dialog_delete_label =
    [1581, 1584, 1601]"

definition pager_controls :: "products_screen \<Rightarrow> products_action control list" where
  "pager_controls s =
     [Button page_previous_label (previous_disabled s) False PreviousPage,
      Button page_next_label (next_disabled s) False NextPage]"

text \<open>First, last and number of the products the page shows.\<close>

definition pager_range :: "products_screen \<Rightarrow> nat \<times> nat \<times> nat" where
  "pager_range s =
     (prs_page s * prs_pageSize s + 1, min ((prs_page s + 1) * prs_pageSize s) (prs_total s), prs_total s)"

record products_shown =
  sp_body :: products_body
  sp_rows :: "product_row list"
  sp_hasSearch :: bool
  sp_drawer :: "product_drawer option"
  sp_controls :: "products_action control list"
  sp_toast :: "(jstring \<times> bool) option"

definition body_controls :: "host \<Rightarrow> products_screen \<Rightarrow> products_body \<Rightarrow> product_row list
    \<Rightarrow> products_action control list" where
  "body_controls h s body rows = (case body of
     FilteredEmpty \<Rightarrow> [Button filters_clear_label False False ClearFilters]
   | ProductsBody \<Rightarrow>
       Button select_all_label False False ToggleAllProducts # concat (map pw_controls rows) @
       pager_controls s
   | _ \<Rightarrow> [])"

definition ProductsView_shown ::
  "product_formats \<Rightarrow> host \<Rightarrow> products_report \<Rightarrow> products_screen \<Rightarrow> products_shown option" where
  "ProductsView_shown pf h r s =
     (let v = prs_inventory s;
          body = products_body_of h (pr_pending r) (pr_error r) s;
          rows = (if body = ProductsBody
                  then those (map (ProductsTable_row pf r v) (filteredProducts h v (prs_items s)))
                  else Some []);
          drawer = (case activeProduct s of
              None \<Rightarrow> Some None
            | Some p \<Rightarrow> map_option Some (ProductDetailsDrawer pf r p))
      in (case (rows, drawer) of
            (Some rows', Some drawer') \<Rightarrow>
              Some \<lparr>sp_body = body, sp_rows = rows', sp_hasSearch = (trim (clientSearch v) \<noteq> []),
                    sp_drawer = drawer',
                    sp_controls = body_controls h s body rows' @
                      ProductsSelectionBar (length (selectedProductIds v)) (pr_busy r) (pr_canManage r)
                        (selectedProducts v (prs_items s)) @
                      (case drawer' of None \<Rightarrow> [] | Some dr \<Rightarrow> pd_controls dr) @
                      ConfirmDialog (prs_deleteTargets s \<noteq> []) dialog_cancel_label dialog_delete_label
                        (pr_deleting r) CancelDeleteProducts ConfirmDeleteProducts,
                    sp_toast =
                      (let message = nullish (actionError s) (actionMessage s) in
                       if truthy message then Some (the message, truthy (actionError s)) else None)\<rparr>
          | _ \<Rightarrow> None))"

definition products_offers ::
  "product_formats \<Rightarrow> host \<Rightarrow> products_report \<Rightarrow> products_screen \<Rightarrow> products_action \<Rightarrow> bool" where
  "products_offers pf h r s a =
     (case ProductsView_shown pf h r s of
        None \<Rightarrow> False
      | Some v \<Rightarrow>
          a \<in> set (offered (sp_controls v)) \<or> a \<in> set ProductsToolbar_choices \<or>
          (case a of SearchProducts _ \<Rightarrow> True | DismissMessage \<Rightarrow> sp_toast v \<noteq> None | _ \<Rightarrow> False))"

definition products_press ::
  "host \<Rightarrow> (nat \<Rightarrow> jstring) \<Rightarrow> (jsnum \<Rightarrow> jstring) \<Rightarrow> (jstring \<Rightarrow> jstring) \<Rightarrow> product_server
     \<Rightarrow> products_screen \<Rightarrow> products_report \<times> products_action \<Rightarrow> products_screen" where
  "products_press h ar num_text encode srv s ra = products_step h ar num_text encode srv s (snd ra)"

definition products_press_ok ::
  "product_formats \<Rightarrow> host \<Rightarrow> products_screen \<Rightarrow> products_report \<times> products_action \<Rightarrow> bool" where
  "products_press_ok pf h s ra =
     (case snd ra of ProductsArrived _ _ \<Rightarrow> True | a \<Rightarrow> products_offers pf h (fst ra) s a)"

section \<open>What is offered\<close>

text \<open>An action that may be offered in a state, to a user who may or may not manage the inventory.\<close>

definition product_fits :: "products_report \<Rightarrow> products_screen \<Rightarrow> products_action \<Rightarrow> bool" where
  "product_fits r s a = (case a of
     ToggleProduct i \<Rightarrow> i \<in> p_id ` set (prs_items s)
   | ProductsArrived _ _ \<Rightarrow> False
   | AskDeleteProducts _ \<Rightarrow> pr_canManage r
   | ChangeSelectedStatus _ \<Rightarrow> pr_canManage r
   | ConfirmDeleteProducts \<Rightarrow> prs_deleteTargets s \<noteq> []
   | _ \<Rightarrow> True)"

abbreviation offers_fit :: "products_report \<Rightarrow> products_screen \<Rightarrow> products_action control list \<Rightarrow> bool" where
  "offers_fit r s \<equiv> controls_fit (product_fits r s)"

lemma row_offers_fit:
  "p \<in> set (prs_items s) \<Longrightarrow> offers_fit r s (product_row_controls columns p (pr_canManage r) is_open)"
  by (simp add: product_row_controls_def ProductActionsMenu_def product_fits_def)

lemma bar_offers_fit: "offers_fit r s (ProductsSelectionBar amount busy (pr_canManage r) selected)"
  by (simp add: ProductsSelectionBar_def PRODUCT_STATUSES_def product_fits_def)

lemma rows_offer_fit:
  assumes "those (map (ProductsTable_row pf r v) (filteredProducts h v (prs_items s))) = Some rows"
  shows "offers_fit r s (concat (map pw_controls rows))"
proof (rule controls_fit_concat)
  fix row assume "row \<in> set rows"
  then have "Some row \<in> set (map Some rows)" by simp
  then obtain p where p: "p \<in> set (filteredProducts h v (prs_items s))"
      "ProductsTable_row pf r v p = Some row"
    unfolding assms [unfolded those_Some, symmetric] by auto
  then have "p \<in> set (prs_items s)" using filteredProducts_subset by auto
  with p(2) show "offers_fit r s (pw_controls row)"
    by (auto simp: ProductsTable_row_def Let_def intro: row_offers_fit split: if_splits)
qed

lemma drawer_offers_fit: "ProductDetailsDrawer pf r p = Some dr \<Longrightarrow> offers_fit r s (pd_controls dr)"
  by (auto simp: ProductDetailsDrawer_def product_fits_def)

lemma shown_offers_fit:
  assumes "ProductsView_shown pf h r s = Some v"
  shows "offers_fit r s (sp_controls v)"
proof -
  let ?v = "prs_inventory s"
  let ?body = "products_body_of h (pr_pending r) (pr_error r) s"
  have rows: "?body = ProductsBody \<Longrightarrow>
      those (map (ProductsTable_row pf r ?v) (filteredProducts h ?v (prs_items s))) = Some (sp_rows v)"
    and drawer: "\<And>dr. sp_drawer v = Some dr \<Longrightarrow> \<exists>p. ProductDetailsDrawer pf r p = Some dr"
    and v: "sp_controls v = body_controls h s ?body (sp_rows v) @
      ProductsSelectionBar (length (selectedProductIds ?v)) (pr_busy r) (pr_canManage r)
        (selectedProducts ?v (prs_items s)) @
      (case sp_drawer v of None \<Rightarrow> [] | Some dr \<Rightarrow> pd_controls dr) @
      ConfirmDialog (prs_deleteTargets s \<noteq> []) dialog_cancel_label dialog_delete_label
        (pr_deleting r) CancelDeleteProducts ConfirmDeleteProducts"
    using assms by (auto simp: ProductsView_shown_def Let_def split: option.splits if_splits)
  have "offers_fit r s (body_controls h s ?body (sp_rows v))"
    using rows by (auto simp: body_controls_def pager_controls_def product_fits_def intro: rows_offer_fit
        split: products_body.splits)
  moreover have "offers_fit r s (case sp_drawer v of None \<Rightarrow> [] | Some dr \<Rightarrow> pd_controls dr)"
    using drawer by (auto intro: drawer_offers_fit split: option.splits)
  ultimately show ?thesis
    unfolding v by (simp add: bar_offers_fit ConfirmDialog_def product_fits_def)
qed

lemma products_offers_fit:
  assumes "products_offers pf h r s a"
  shows "product_fits r s a"
proof -
  from assms obtain v where v: "ProductsView_shown pf h r s = Some v"
    by (auto simp: products_offers_def split: option.splits)
  show ?thesis
  proof (cases "a \<in> set (offered (sp_controls v))")
    case True
    with shown_offers_fit [OF v] show ?thesis by (rule offered_fits)
  next
    case False
    with assms v show ?thesis
      by (auto simp: products_offers_def ProductsToolbar_choices_def product_fits_def
          split: products_action.splits)
  qed
qed

lemma products_pressed_ok: "products_press_ok pf h s ra \<Longrightarrow> products_ok s (snd ra)"
  using products_offers_fit [of pf h "fst ra" s "snd ra"]
  by (auto simp: products_press_ok_def products_ok_def product_fits_def split: products_action.splits)

interpretation pressed_products: state_machine "products_press h ar num_text encode srv"
  "products_press_ok pf h" products_inv for h ar num_text encode srv pf
  by unfold_locales (auto simp: products_press_def intro!: products_step_inv products_pressed_ok)

section \<open>Who changes the inventory\<close>

fun only_adds :: "product_call \<Rightarrow> bool" where
  "only_adds (CreateQueueItem _) = True"
| "only_adds _ = False"

text \<open>Nothing has been changed, and nothing is about to be deleted.\<close>

definition unmanaged :: "products_screen \<Rightarrow> bool" where
  "unmanaged s \<longleftrightarrow> list_all only_adds (prs_calls s) \<and> prs_deleteTargets s = []"

lemma addProductsToQueue_unmanaged:
  "unmanaged s \<Longrightarrow> unmanaged (addProductsToQueue ar srv selected s)"
proof (cases "selected = []")
  case False
  assume u: "unmanaged s"
  let ?cs = "map (\<lambda>p. CreateQueueItem (queue_input_of p)) selected"
  have adds: "list_all only_adds (take k ?cs)" for k
    by (auto simp: list_all_iff dest!: in_set_takeD)
  show ?thesis
  proof (cases rule: run_calls_cases [of srv ?cs "s\<lparr>actionError := None\<rparr>"])
    case (Done s1)
    with u adds [of "length ?cs"] False show ?thesis
      by (auto simp: addProductsToQueue_def unmanaged_def same_view_def clear_inventory_def)
  next
    case (Stopped s1 k e)
    with u adds [of "Suc k"] False show ?thesis
      by (auto simp: addProductsToQueue_def unmanaged_def same_view_def failed_with_def)
  qed
qed (simp add: addProductsToQueue_def)

lemma products_press_unmanaged:
  assumes "unmanaged s" "products_press_ok pf h s ra" "\<not> pr_canManage (fst ra)"
  shows "unmanaged (products_press h ar num_text encode srv s ra)"
proof -
  obtain r a where ra: "ra = (r, a)" by fastforce
  have fits: "product_fits r s a" if "\<And>xs n. a \<noteq> ProductsArrived xs n"
    using assms(2) that by (cases a) (auto simp: ra products_press_ok_def intro: products_offers_fit)
  show ?thesis
  proof (cases a)
    case (AddToQueue selected)
    with assms(1) show ?thesis
      by (simp add: ra products_press_def products_step_def Let_def addProductsToQueue_unmanaged)
  next
    case SendSelectedToAi
    with assms(1) show ?thesis
      by (simp add: ra products_press_def products_step_def Let_def sendToAi_def unmanaged_def split: list.split)
  next
    case (ProductsArrived xs n)
    with assms(1) show ?thesis
      by (simp add: ra products_press_def products_step_def Let_def unmanaged_def)
  qed (use assms fits in \<open>simp_all add: ra products_press_def products_step_def Let_def unmanaged_def
      product_fits_def clear_inventory_def sendToAi_def\<close>)
qed

definition products_member_ok ::
  "product_formats \<Rightarrow> host \<Rightarrow> products_screen \<Rightarrow> products_report \<times> products_action \<Rightarrow> bool" where
  "products_member_ok pf h s ra \<longleftrightarrow> products_press_ok pf h s ra \<and> \<not> pr_canManage (fst ra)"

interpretation member_products: state_machine "products_press h ar num_text encode srv"
  "products_member_ok pf h" unmanaged for h ar num_text encode srv pf
  by unfold_locales (auto simp: products_member_ok_def intro: products_press_unmanaged)

text \<open>C17: only an administrator changes the inventory: as long as the user is not one, nothing that can be
  pressed on the screen deletes a product or changes its status (no such request is made and no
  deletion is prepared), while the requests that are made only add items to the publishing queue,
  and the selection stays within the loaded products.\<close>

theorem inventory_changed_by_admins_only:
  assumes "admissible (products_press h ar num_text encode srv) (products_member_ok pf h)
      (fresh_products ws) actions"
  shows "let s = run (products_press h ar num_text encode srv) (fresh_products ws) actions
    in list_all only_adds (prs_calls s) \<and> prs_deleteTargets s = []"
proof -
  have "unmanaged (fresh_products ws)" by (simp add: unmanaged_def fresh_products_def)
  from member_products.run_inv [OF this assms] show ?thesis by (simp add: unmanaged_def Let_def)
qed

text \<open>The drawer of a product names its score twice, with the words of two scales: in its figures and
  in the breakdown below them.  They agree for an excellent and for a moderate score and differ for
  every other finite one, and a low score is marked as an error above and as neutral below.\<close>

theorem drawer_names_scores_differently:
  "case (ProductDetailsDrawer pf r p, p_score p) of
     (Some dr, Num q) \<Rightarrow>
       (fst (snd (pd_score dr)) = fst (bv_badge (pd_breakdown dr)) \<longleftrightarrow>
          85 \<le> q \<or> 55 \<le> q \<and> q < 70) \<and>
       (snd (snd (pd_score dr)) = snd (bv_badge (pd_breakdown dr)) \<longleftrightarrow> 55 \<le> q) \<and>
       bv_total (pd_breakdown dr) = fst (pd_score dr)
   | _ \<Rightarrow> True"
proof -
  have "fst (getScoreQuality (Num q)) = sq_label (getProductScoreQuality (Num q)) \<longleftrightarrow>
      85 \<le> q \<or> 55 \<le> q \<and> q < 70"
    "snd (getScoreQuality (Num q)) =
      (if 55 \<le> q then sq_tone (getProductScoreQuality (Num q)) else TError)"
    "q < 55 \<Longrightarrow> sq_tone (getProductScoreQuality (Num q)) = TNeutral"
    "sq_tone (getProductScoreQuality (Num q)) \<noteq> TError" for q
    by (auto simp: getScoreQuality_def getProductScoreQuality_def QUALITY_BANDS_def
        excellent_text_def high_potential_text_def moderate_text_def low_text_def
        high_possibility_text_def needs_review_text_def)
  then show ?thesis
    by (auto simp: ProductDetailsDrawer_def ProductScoreCell_def ProductScoreBreakdown_def
        quality_badge_def getProductScoreBreakdown_def score_input_def split: jsnum.split option.split)
qed

section \<open>A small session\<close>

definition plain_product_formats :: product_formats where
  "plain_product_formats =
     \<lparr>pf_money = (\<lambda>_ _. Some []), pf_fixed = (\<lambda>_. []), pf_compact = (\<lambda>_. []), pf_number = (\<lambda>_. []),
      pf_string = (\<lambda>_. [])\<rparr>"

definition member_report :: products_report where
  "member_report =
     \<lparr>pr_pending = False, pr_error = False, pr_queue = [], pr_canManage = False, pr_busy = False,
      pr_deleting = False, pr_menus = (\<lambda>_. True)\<rparr>"

text \<open>Two products arrive, the box of the page is ticked, and the selection is put in the queue.\<close>

definition member_session :: "(products_report \<times> products_action) list" where
  "member_session = map (Pair member_report)
     [ProductsArrived sample_products 2, ToggleAllProducts, AddToQueue sample_products]"

lemma rows_shown:
  assumes "\<And>n c. pf_money pf n c \<noteq> None"
  shows "\<exists>rows. those (map (ProductsTable_row pf r v) ps) = Some rows"
proof (induction ps)
  case (Cons p ps)
  then obtain rows where "those (map (ProductsTable_row pf r v) ps) = Some rows" by blast
  moreover have "ProductsTable_row pf r v p \<noteq> None"
    using assms [of "p_price p" "p_currency p"] by (simp add: ProductsTable_row_def Let_def)
  ultimately show ?case by (auto simp del: not_None_eq split: option.split)
qed simp

lemma products_view_shown:
  assumes "\<And>n c. pf_money pf n c \<noteq> None" "activeProduct s = None"
  obtains v where "ProductsView_shown pf h r s = Some v"
    "sp_controls v = body_controls h s (products_body_of h (pr_pending r) (pr_error r) s) (sp_rows v) @
      ProductsSelectionBar (length (selectedProductIds (prs_inventory s))) (pr_busy r) (pr_canManage r)
        (selectedProducts (prs_inventory s) (prs_items s)) @
      ConfirmDialog (prs_deleteTargets s \<noteq> []) dialog_cancel_label dialog_delete_label
        (pr_deleting r) CancelDeleteProducts ConfirmDeleteProducts"
proof -
  obtain rows where "those (map (ProductsTable_row pf r (prs_inventory s))
      (filteredProducts h (prs_inventory s) (prs_items s))) = Some rows"
    using rows_shown [OF assms(1)] by blast
  with assms(2) show thesis
    by (intro that [of "the (ProductsView_shown pf h r s)"]) (simp_all add: ProductsView_shown_def Let_def)
qed

lemma select_all_offered:
  assumes "\<And>n c. pf_money pf n c \<noteq> None" "activeProduct s = None"
    "products_body_of h (pr_pending r) (pr_error r) s = ProductsBody"
  shows "products_offers pf h r s ToggleAllProducts"
  by (rule products_view_shown [OF assms(1,2), of h r])
    (simp add: products_offers_def body_controls_def assms(3))

lemma selection_bar_offered:
  assumes "\<And>n c. pf_money pf n c \<noteq> None" "activeProduct s = None"
    "a \<in> set (offered (ProductsSelectionBar (length (selectedProductIds (prs_inventory s))) (pr_busy r)
       (pr_canManage r) (selectedProducts (prs_inventory s) (prs_items s))))"
  shows "products_offers pf h r s a"
  by (rule products_view_shown [OF assms(1,2), of h r]) (use assms(3) in \<open>simp add: products_offers_def\<close>)

lemma member_session_pressed:
  "admissible (products_press (utc_host 0) (\<lambda>_. []) (\<lambda>_. []) id second_refused)
     (products_member_ok plain_product_formats (utc_host 0)) (fresh_products (Some (js ''w''))) member_session"
proof -
  let ?step = "products_step (utc_host 0) (\<lambda>_. []) (\<lambda>_. []) id second_refused"
  let ?offers = "products_offers plain_product_formats (utc_host 0) member_report"
  let ?s1 = "?step (fresh_products (Some (js ''w''))) (ProductsArrived sample_products 2)"
  let ?s2 = "?step ?s1 ToggleAllProducts"
  have money: "\<And>n c. pf_money plain_product_formats n c \<noteq> None" by (simp add: plain_product_formats_def)
  have r: "pr_pending member_report = False" "pr_error member_report = False"
    "pr_busy member_report = False" "pr_canManage member_report = False"
    by (simp_all add: member_report_def)
  have body: "products_body_of (utc_host 0) False False ?s1 = ProductsBody" by code_simp
  have active: "activeProduct ?s1 = None" "activeProduct ?s2 = None"
    by (simp_all add: products_step_def Let_def fresh_products_def)
  have sel: "selectedProducts (prs_inventory ?s2) (prs_items ?s2) = sample_products"
    "selectedProductIds (prs_inventory ?s2) \<noteq> []" by code_simp+
  have "?offers ?s1 ToggleAllProducts"
    by (rule select_all_offered [OF money active(1)]) (simp add: r body)
  moreover have "?offers ?s2 (AddToQueue sample_products)"
    by (rule selection_bar_offered [OF money active(2)]) (simp add: r sel ProductsSelectionBar_def)
  ultimately show ?thesis
    by (simp add: member_session_def products_member_ok_def products_press_ok_def products_press_def r)
qed

lemma inventory_changed_by_admins_only_witness:
  "list_all only_adds (prs_calls (run (products_press (utc_host 0) (\<lambda>_. []) (\<lambda>_. []) id second_refused)
     (fresh_products (Some (js ''w''))) member_session))"
  using inventory_changed_by_admins_only [OF member_session_pressed] by (simp add: Let_def)

end
