(* ===== verification/DiscoveryControls.thy ===== *)
theory DiscoveryControls
  imports DiscoveryScreen ProductControls
begin

text \<open>
  What the discovery screen shows, and what can be done on it: \<open>frontend/src/features/discovery/components\<close>
  (\<open>DiscoveryFilterBar\<close>, \<open>DiscoveryAdvancedFiltersDrawer\<close>, \<open>DiscoveryIntentTabs\<close>, \<open>DiscoveryHeader\<close>,
  \<open>DiscoveryStats\<close>, \<open>DiscoveryResultsToolbar\<close>, \<open>DiscoveryResultsTable\<close>, \<open>RecommendationScoreCell\<close>,
  \<open>DiscoveryProductInspector\<close>, \<open>DiscoverySelectionBar\<close>, \<open>DiscoveryEmptyState\<close>) and the markup of
  \<open>DiscoveryView.tsx\<close>.  A control carries the action of \<open>DiscoveryScreen\<close> that its handler starts, an
  input the text or choice the user gives.  Writing an amount in no currency, or a date that cannot be
  read, throws; a view that throws is \<open>None\<close>.
\<close>

section \<open>DiscoveryFilterBar.tsx\<close>

text \<open>\<open>event.target.value === "" ? undefined : Number(event.target.value)\<close>\<close>

definition number_field :: "jstring \<Rightarrow> jsnum option" where
  "number_field v = (if v = [] then None else Some (string_to_number v))"

definition PRICE_PRESETS :: "(jsnum option \<times> jsnum option) list" where
  "PRICE_PRESETS =
     [(None, None), (Some (Num 0), Some (Num 25)), (Some (Num 0), Some (Num 50)),
      (Some (Num 0), Some (Num 100)), (Some (Num 0), Some (Num 500))]"

definition RATING_PRESETS :: "jsnum option list" where
  "RATING_PRESETS = [None, Some (Num 4), Some (Num (9 / 2)), Some (Num (47 / 10))]"

definition ORDERS_PRESETS :: "jsnum option list" where
  "ORDERS_PRESETS = [None, Some (Num 1000), Some (Num 5000), Some (Num 10000)]"

definition COMMISSION_PRESETS :: "jsnum option list" where
  "COMMISSION_PRESETS = [None, Some (Num 5), Some (Num 8), Some (Num 12)]"

datatype filter_input =
  ChooseCategory jstring | ChoosePrice "jsnum option \<times> jsnum option"
| TypeMinPrice jstring | TypeMaxPrice jstring
| ChooseRating "jsnum option" | ChooseOrders "jsnum option" | ChooseCommission "jsnum option"
| TypeMinCommission jstring | TypeMaxCommission jstring
| ChooseTopN nat | ChooseSort DiscoverySort

text \<open>The draft with the patch the bar hands to \<open>onChange\<close>.\<close>

fun bar_patch :: "filter_input \<Rightarrow> DiscoveryParams \<Rightarrow> DiscoveryParams" where
  "bar_patch (ChooseCategory i) p =
     (if i = [] then p\<lparr>dq_mode := Some Hot, dq_category_id := None, dq_page := Some 1\<rparr>
      else p\<lparr>dq_mode := Some CategoryMode, dq_category_id := Some i, dq_page := Some 1\<rparr>)"
| "bar_patch (ChoosePrice b) p =
     p\<lparr>dq_min_price := fst b, dq_max_price := snd b, dq_page := Some 1\<rparr>"
| "bar_patch (TypeMinPrice v) p = p\<lparr>dq_min_price := number_field v, dq_page := Some 1\<rparr>"
| "bar_patch (TypeMaxPrice v) p = p\<lparr>dq_max_price := number_field v, dq_page := Some 1\<rparr>"
| "bar_patch (ChooseRating v) p = p\<lparr>dq_min_rating := v, dq_page := Some 1\<rparr>"
| "bar_patch (ChooseOrders v) p = p\<lparr>dq_min_orders := v, dq_page := Some 1\<rparr>"
| "bar_patch (ChooseCommission v) p = p\<lparr>dq_min_commission := v, dq_page := Some 1\<rparr>"
| "bar_patch (TypeMinCommission v) p = p\<lparr>dq_min_commission := number_field v, dq_page := Some 1\<rparr>"
| "bar_patch (TypeMaxCommission v) p = p\<lparr>dq_max_commission := number_field v, dq_page := Some 1\<rparr>"
| "bar_patch (ChooseTopN n) p = p\<lparr>dq_top_n := Some n, dq_page := Some 1\<rparr>"
| "bar_patch (ChooseSort v) p = p\<lparr>dq_sort := Some v, dq_page := Some 1\<rparr>"

text \<open>The inputs that are there; categories come as the text of their id and their name.\<close>

definition bar_takes :: "(jstring \<times> jstring) list \<Rightarrow> DiscoveryParams \<Rightarrow> filter_input \<Rightarrow> bool" where
  "bar_takes categories p i = (case i of
     ChooseCategory c \<Rightarrow> c \<in> set ([] # map fst categories)
   | ChoosePrice b \<Rightarrow> b \<in> set PRICE_PRESETS
   | ChooseRating v \<Rightarrow> v \<in> set RATING_PRESETS
   | ChooseOrders v \<Rightarrow> v \<in> set ORDERS_PRESETS
   | ChooseCommission v \<Rightarrow> v \<in> set COMMISSION_PRESETS
   | TypeMinCommission _ \<Rightarrow> dq_mode p = Some Recommended
   | TypeMaxCommission _ \<Rightarrow> dq_mode p = Some Recommended
   | ChooseTopN n \<Rightarrow> dq_mode p = Some Recommended \<and> n \<in> set [5, 10, 20, 50]
   | _ \<Rightarrow> True)"

text \<open>How numbers and dates are written: \<open>formatMoney\<close>, \<open>toFixed\<close>, \<open>toLocaleString\<close>, \<open>String\<close>, \<open>formatDate\<close>.\<close>

record discovery_formats =
  df_money :: "jsnum \<Rightarrow> jstring \<Rightarrow> jstring option"
  df_fixed1 :: "jsnum \<Rightarrow> jstring"
  df_fixed2 :: "jsnum \<Rightarrow> jstring"
  df_number :: "jsnum \<Rightarrow> jstring"
  df_en :: "jsnum \<Rightarrow> jstring"
  df_string :: "jsnum \<Rightarrow> jstring"
  df_date :: "jstring \<Rightarrow> jstring option"

text \<open>The values on the chips, in their order.\<close>

definition filter_chips ::
  "discovery_formats \<Rightarrow> (jstring \<times> jstring) list \<Rightarrow> DiscoveryParams \<Rightarrow> jstring list" where
  "filter_chips df categories p =
     [formatCategoryChip p categories, formatPriceChip (df_string df) p, formatRatingChip (df_string df) p,
      formatOrdersChip (df_en df) p, formatCommissionChip (df_string df) p] @
     (if dq_mode p = Some Recommended then [decimal (or_default (dq_top_n p) 10)] else []) @
     [formatSortChip p]"

section \<open>DiscoveryAdvancedFiltersDrawer.tsx\<close>

text \<open>The inputs that are always disabled (\<open>exclude_keywords\<close>, \<open>max_orders\<close>, \<open>max_discount\<close>,
  \<open>max_commission\<close>, \<open>store_rating\<close>) are left out.\<close>

datatype advanced_input =
  TypeKeywords jstring | TypeMinOrders jstring | TypeMinDiscount jstring | TypeAdvancedCommission jstring
| TypeCountry jstring | CheckFreeShipping bool | CheckChoice bool | ChoosePageSize nat

fun advanced_patch :: "(jstring \<Rightarrow> jstring) \<Rightarrow> advanced_input \<Rightarrow> DiscoveryParams \<Rightarrow> DiscoveryParams" where
  "advanced_patch upper (TypeKeywords v) p = p\<lparr>dq_keywords := truthy_or_none (Some v)\<rparr>"
| "advanced_patch upper (TypeMinOrders v) p = p\<lparr>dq_min_orders := number_field v\<rparr>"
| "advanced_patch upper (TypeMinDiscount v) p = p\<lparr>dq_min_discount := number_field v\<rparr>"
| "advanced_patch upper (TypeAdvancedCommission v) p = p\<lparr>dq_min_commission := number_field v\<rparr>"
| "advanced_patch upper (TypeCountry v) p =
     p\<lparr>dq_shipping_country := truthy_or_none (Some (upper (trim v)))\<rparr>"
| "advanced_patch upper (CheckFreeShipping b) p = p\<lparr>dq_free_shipping := (if b then Some True else None)\<rparr>"
| "advanced_patch upper (CheckChoice b) p = p\<lparr>dq_choice_only := (if b then Some True else None)\<rparr>"
| "advanced_patch upper (ChoosePageSize n) p = p\<lparr>dq_page_size := Some n, dq_page := Some 1\<rparr>"

definition advanced_takes :: "advanced_input \<Rightarrow> bool" where
  "advanced_takes i = (case i of
     TypeCountry v \<Rightarrow> length v \<le> 2
   | ChoosePageSize n \<Rightarrow> n \<in> set [10, 20, 30, 50]
   | _ \<Rightarrow> True)"

definition advanced_label :: jstring where
  "advanced_label =
    [1601, 1604, 1575, 1578, 1585, 32, 1605, 1578, 1602, 1583, 1605, 1577]"

definition close_drawer_label :: jstring where
  "close_drawer_label =
    [1573, 1594, 1604, 1575, 1602]"

definition reset_label :: jstring where
  "reset_label =
    [1573, 1593, 1575, 1583, 1577, 32, 1578, 1593, 1610, 1610, 1606]"

definition apply_label :: jstring where
  "apply_label =
    [1578, 1591, 1576, 1610, 1602, 32, 1575, 1604, 1601, 1604, 1575, 1578, 1585]"

text \<open>The button that applies also closes; here these are two presses.\<close>

definition advanced_controls :: "bool \<Rightarrow> discovery_action control list" where
  "advanced_controls is_open =
     (if \<not> is_open then []
      else [Button close_drawer_label False False (ShowAdvanced False),
            Button reset_label False False ResetFilters,
            Button apply_label False False RunDraft,
            Button apply_label False False (ShowAdvanced False)])"

section \<open>DiscoveryIntentTabs.tsx, DiscoveryHeader.tsx, DiscoveryStats.tsx\<close>

definition intent_recommended :: jstring where
  "intent_recommended =
    [1575, 1604, 1578, 1608, 1589, 1610, 1575, 1578]"

definition intent_hot :: jstring where
  "intent_hot =
    [1575, 1604, 1571, 1603, 1579, 1585, 32, 1585, 1608, 1575, 1580, 1611, 1575]"

definition intent_trending :: jstring where
  "intent_trending =
    [1575, 1604, 1589, 1575, 1593, 1583, 1577]"

definition intent_deals :: jstring where
  "intent_deals =
    [1575, 1604, 1593, 1585, 1608, 1590]"

definition intent_category :: jstring where
  "intent_category =
    [1601, 1574, 1577]"

definition intent_general :: jstring where
  "intent_general =
    [1603, 1604, 1605, 1575, 1578, 32, 1605, 1601, 1578, 1575, 1581, 1610, 1577]"

definition INTENTS :: "(DiscoveryMode \<times> jstring) list" where
  "INTENTS =
     [(Recommended, intent_recommended), (Hot, intent_hot), (Trending, intent_trending),
      (Deals, intent_deals), (CategoryMode, intent_category), (General, intent_general)]"

definition DiscoveryIntentTabs :: "discovery_action control list" where
  "DiscoveryIntentTabs = map (\<lambda>(m, label). Button label False False (SwitchMode m)) INTENTS"

definition idle_label :: jstring where
  "idle_label =
    [1604, 1605, 32, 1610, 1615, 1588, 1594, 1614, 1617, 1604]"

definition running_label :: jstring where
  "running_label =
    [1580, 1575, 1585, 1613, 32, 1575, 1604, 1578, 1588, 1594, 1610, 1604]"

definition success_label :: jstring where
  "success_label =
    [1606, 1575, 1580, 1581]"

definition run_failed_label :: jstring where
  "run_failed_label =
    [1601, 1588, 1604]"

fun statusLabel :: "DiscoveryRunStatus \<Rightarrow> jstring" where
  "statusLabel Idle = idle_label"
| "statusLabel Running = running_label"
| "statusLabel RunSuccess = success_label"
| "statusLabel RunError = run_failed_label"

definition dv_response :: "discovery_view \<Rightarrow> DiscoveryResponse option" where
  "dv_response s =
     (if imageSearchInput s \<noteq> None
      then nullish (query_data (dv_imageQuery s)) (lastResponse (dv_session s))
      else nullish (query_data (dv_query s)) (lastResponse (dv_session s)))"

text \<open>Discovered, last run, waiting for review, imported.\<close>

definition DiscoveryStats :: "discovery_view \<Rightarrow> jsnum \<times> jstring \<times> nat \<times> nat" where
  "DiscoveryStats s =
     (case dv_response s of None \<Rightarrow> Num 0 | Some r \<Rightarrow> dr_total r,
      statusLabel (lastRunStatus (dv_session s)), pendingReview s,
      length (importedIds (dv_session s)))"

definition last_run_prefix :: jstring where
  "last_run_prefix =
    [1570, 1582, 1585, 32, 1578, 1588, 1594, 1610, 1604, 58, 32]"

definition failed_suffix :: jstring where
  "failed_suffix =
    [32, 183, 32, 1601, 1588, 1604]"

definition never_run_text :: jstring where
  "never_run_text =
    [1605, 1587, 1575, 1581, 1577, 32, 1573, 1583, 1582, 1575, 1604, 32, 1575, 1604, 1605,
     1606, 1578, 1580, 1575, 1578, 32, 1573, 1604, 1609, 32, 1605, 1587, 1575, 1585, 32,
     1575, 1604, 1571, 1578, 1605, 1578, 1577, 46, 32, 1588, 1594, 1617, 1604, 32, 1575,
     1604, 1575, 1603, 1578, 1588, 1575, 1601, 32, 1589, 1585, 1575, 1581, 1577, 1611, 32,
     1593, 1606, 1583, 32, 1575, 1604, 1580, 1575, 1607, 1586, 1610, 1577, 46]"

definition header_description :: "discovery_formats \<Rightarrow> DiscoverySessionSnapshot \<Rightarrow> jstring option" where
  "header_description df e = (case lastRunAt e of
     None \<Rightarrow> Some never_run_text
   | Some stamp \<Rightarrow>
       map_option (\<lambda>d. last_run_prefix @ d @ (if lastRunStatus e = RunError then failed_suffix else []))
         (if stamp = [] then Some [8212] else df_date df stamp))"

definition run_label :: jstring where
  "run_label =
    [1578, 1588, 1594, 1610, 1604, 32, 1575, 1604, 1575, 1603, 1578, 1588, 1575, 1601]"

definition DiscoveryHeader :: "discovery_view \<Rightarrow> discovery_action control list" where
  "DiscoveryHeader s =
     [Button run_label
        (\<not> (validateDiscoveryDraft (draftParams (dv_session s)) = None \<and> \<not> activeFetching s))
        (activeFetching s) RunDraft]"

section \<open>DiscoveryResultsToolbar.tsx\<close>

text \<open>\<open>Math.max(n, 1)\<close>, and the page number as a count; the backend numbers pages with whole numbers.\<close>

definition at_least_one :: "jsnum \<Rightarrow> jsnum" where
  "at_least_one n = (case n of Num q \<Rightarrow> Num (max q 1) | PInf \<Rightarrow> PInf | NInf \<Rightarrow> Num 1 | NaN \<Rightarrow> NaN)"

definition whole :: "jsnum \<Rightarrow> nat" where
  "whole n = (case n of Num q \<Rightarrow> nat \<lfloor>q\<rfloor> | _ \<Rightarrow> 0)"

definition refresh_label :: jstring where
  "refresh_label =
    [1578, 1581, 1583, 1610, 1579]"

definition results_previous_label :: jstring where
  "results_previous_label =
    [1575, 1604, 1587, 1575, 1576, 1602]"

definition results_next_label :: jstring where
  "results_next_label =
    [1575, 1604, 1578, 1575, 1604, 1610]"

definition toolbar_pager :: "DiscoveryResponse option \<Rightarrow> discovery_action control list" where
  "toolbar_pager response = (case response of
     None \<Rightarrow> []
   | Some r \<Rightarrow>
       (let p = dr_page r; totalPages = at_least_one (dr_total_pages r) in
        [Button results_previous_label (num_ge (Num 1) p) False (ChangePage (whole p - 1)),
         Button results_next_label (num_ge p totalPages) False (ChangePage (whole p + 1))]))"

text \<open>The boxes of two columns are disabled; the search box takes any text.\<close>

definition DiscoveryResultsToolbar :: "discovery_view \<Rightarrow> discovery_action control list" where
  "DiscoveryResultsToolbar s =
     map (\<lambda>d. Button [] False False (SetDiscoveryDensity d)) [DComfortable, DCompact] @
     map (\<lambda>c. Button [] (c = DColProduct \<or> c = DColActions) False (ToggleDiscoveryColumn c))
       DEFAULT_VISIBLE_COLUMNS @
     [Button refresh_label False (activeFetching s) RefreshResults] @ toolbar_pager (dv_response s)"

section \<open>RecommendationScoreCell.tsx, DiscoveryResultsTable.tsx\<close>

text \<open>\<open>score_breakdown\<close> is a reserved field of the candidates that no answer has.\<close>

definition candidate_score_input :: "DiscoveryProduct \<Rightarrow> ProductScoreInput" where
  "candidate_score_input p =
     \<lparr>si_score = dp_score p, si_rating = dp_rating p, si_sales = dp_sales p,
      si_discount = dp_discount p, si_reviews = dp_reviews p, score_breakdown = None\<rparr>"

text \<open>\<open>Math.round(weight * 100)\<close>\<close>

definition percent_of :: "jsnum \<Rightarrow> jsnum" where
  "percent_of w = (case w of Num q \<Rightarrow> num_round (Num (q * 100)) | _ \<Rightarrow> w)"

record factor_view =
  fv_key :: rec_factor_key
  fv_weight :: jsnum
  fv_raw :: jstring
  fv_contribution :: jstring

definition rec_factor_view ::
  "discovery_formats \<Rightarrow> (jsnum, jsnum option) rec_factor_of \<Rightarrow> factor_view" where
  "rec_factor_view df f =
     \<lparr>fv_key = rf_key f, fv_weight = percent_of (rf_weight f),
      fv_raw = (if rf_missing f then js ''missing''
                else (case rf_raw_value f of Some v \<Rightarrow> df_string df v | None \<Rightarrow> [8212])),
      fv_contribution = [43] @ df_fixed2 df (rf_contribution f)\<rparr>"

text \<open>The rounded score, the width of its bar, and the factors in the popover.\<close>

definition RecommendationScoreCell ::
  "discovery_formats \<Rightarrow> DiscoveryProduct \<Rightarrow> jsnum \<times> jsnum \<times> factor_view list option" where
  "RecommendationScoreCell df p =
     (let score = or_default (dp_recommendation_score p) (Num 0) in
      (num_round score, score,
       map_option (\<lambda>b. map (rec_factor_view df) (rb_factors b)) (dp_recommendation_breakdown p)))"

datatype score_view =
  CatalogScore "(jsnum \<times> (jstring \<times> badge_tone) \<times> jsnum) \<times> breakdown_view"
| RecommendationScore "jsnum \<times> jsnum \<times> factor_view list option"

text \<open>The price of a normal candidate is finite.\<close>

definition commission_value :: "DiscoveryProduct \<Rightarrow> jsnum option" where
  "commission_value p = (case dp_price p of
     Num q \<Rightarrow> map_option Num (estimateCommissionValue q (dp_commission_rate p))
   | _ \<Rightarrow> None)"

text \<open>The rate and the estimated amount; the outer \<open>None\<close> is the exception of an unknown currency.\<close>

definition commission_cell ::
  "discovery_formats \<Rightarrow> DiscoveryProduct \<Rightarrow> (jstring \<times> jstring option) option option" where
  "commission_cell df p = (case dp_commission_rate p of
     None \<Rightarrow> Some None
   | Some rate \<Rightarrow>
       (case commission_value p of
          None \<Rightarrow> Some (Some (df_string df rate @ js ''%'', None))
        | Some v \<Rightarrow>
            map_option (\<lambda>m. Some (df_string df rate @ js ''%'', Some m))
              (df_money df v (dp_currency p))))"

record discovery_row =
  rd_title :: jstring
  rd_subtitle :: jstring
  rd_lacks_link :: bool
  rd_image :: jstring
  rd_cells :: "DiscoveryTableColumn list"
  rd_price :: "jstring option"
  rd_discount :: "jstring option"
  rd_rating :: jstring
  rd_orders :: jstring
  rd_commission :: "(jstring \<times> jstring option) option"
  rd_score :: score_view
  rd_imported :: bool
  rd_selected :: bool
  rd_controls :: "discovery_action control list"

definition row_inspect_label :: jstring where
  "row_inspect_label =
    [1605, 1593, 1575, 1610, 1606, 1577]"

definition row_import_label :: jstring where
  "row_import_label =
    [1575, 1587, 1578, 1610, 1585, 1575, 1583]"

definition row_queue_label :: jstring where
  "row_queue_label =
    [1602, 1575, 1574, 1605, 1577]"

definition discovery_row_controls ::
  "DiscoveryTableColumn list \<Rightarrow> DiscoveryProduct \<Rightarrow> bool \<Rightarrow> bool \<Rightarrow> bool \<Rightarrow> discovery_action control list" where
  "discovery_row_controls columns p may_import imported importing =
     [Button (dp_title p) False False (InspectRow (dp_key p)),
      Button (dp_title p) False False (ToggleRow (dp_key p))] @
     (if DColActions \<in> set columns
      then [Button row_inspect_label False False (InspectRow (dp_key p)),
            Button row_import_label (\<not> may_import \<or> imported) importing (ImportProduct p),
            Button (js ''AI'') False False (GenerateDrafts [p]),
            Button row_queue_label False False (AddDrafts [p])]
      else [])"

text \<open>What the queries and mutations report besides the answers, and the picture picked in the
  inspector.\<close>

record discovery_report =
  dc_categories :: "(jstring \<times> jstring) list"
  dc_importing :: "jstring option"
  dc_busy :: bool
  dc_image :: jstring

definition row_columns :: "discovery_view \<Rightarrow> DiscoveryTableColumn list" where
  "row_columns s =
     filter (\<lambda>c. c \<in> set (up_visibleColumns (uiPrefs (dv_session s)))) DEFAULT_VISIBLE_COLUMNS"

definition is_imported :: "discovery_view \<Rightarrow> DiscoveryProduct \<Rightarrow> bool" where
  "is_imported s p \<longleftrightarrow> dp_key p \<in> set (importedIds (dv_session s))"

definition candidate_subtitle :: "DiscoveryProduct \<Rightarrow> jstring" where
  "candidate_subtitle p =
     (let line = join [32, 183, 32]
        (filter (\<lambda>v. v \<noteq> []) (List.map_filter id [dp_category p, dp_store_name p]))
      in if line = [] then dp_key p else line)"

definition DiscoveryResultsTable_row ::
  "discovery_formats \<Rightarrow> discovery_report \<Rightarrow> discovery_view \<Rightarrow> DiscoveryProduct \<Rightarrow> discovery_row option" where
  "DiscoveryResultsTable_row df r s p =
     (let columns = row_columns s;
          price = (if DColPrice \<in> set columns
                   then map_option Some (df_money df (dp_price p) (dp_currency p)) else Some None);
          commission = (if DColCommission \<in> set columns then commission_cell df p else Some None)
      in (case (price, commission) of
            (Some price', Some commission') \<Rightarrow>
              Some \<lparr>rd_title = dp_title p,
                    rd_subtitle = candidate_subtitle p,
                    rd_lacks_link = (dp_lacks_affiliate_url p = Some True),
                    rd_image = dp_image_url p, rd_cells = columns, rd_price = price',
                    rd_discount = (if num_less (Num 0) (dp_discount p)
                                   then Some (df_string df (dp_discount p)) else None),
                    rd_rating = df_fixed1 df (dp_rating p), rd_orders = df_number df (dp_sales p),
                    rd_commission = commission',
                    rd_score = (if dp_recommendation_score p \<noteq> None
                      then RecommendationScore (RecommendationScoreCell df p)
                      else CatalogScore (ProductAiScoreCell (candidate_score_input p))),
                    rd_imported = is_imported s p,
                    rd_selected = (dp_key p \<in> set (dv_selected s)),
                    rd_controls = discovery_row_controls columns p (canImport s) (is_imported s p)
                      (dc_importing r = Some (dp_key p))\<rparr>
          | _ \<Rightarrow> None))"

section \<open>DiscoveryProductInspector.tsx\<close>

text \<open>The picked picture goes back to the product's when another product, or picture, is shown.\<close>

definition image_picked ::
  "DiscoveryProduct option \<Rightarrow> DiscoveryProduct option \<Rightarrow> jstring \<Rightarrow> jstring" where
  "image_picked old new image_url =
     (if map_option dp_key old = map_option dp_key new \<and>
         map_option dp_image_url old = map_option dp_image_url new then image_url
      else (case new of None \<Rightarrow> [] | Some p \<Rightarrow> dp_image_url p))"

record inspector_view =
  iv_title :: jstring
  iv_price :: jstring
  iv_image :: jstring
  iv_gallery :: "jstring list"
  iv_score :: "jsnum \<times> jstring \<times> badge_tone"
  iv_figures :: "jstring list"
  iv_commission :: "(jstring \<times> jstring option) option"
  iv_description :: "jstring option"
  iv_factors :: "(rec_factor_key \<times> jstring) list option"
  iv_breakdown :: breakdown_view
  iv_store :: jstring
  iv_category :: jstring
  iv_key :: jstring
  iv_links :: "jstring option \<times> jstring"
  iv_controls :: "discovery_action control list"

definition recommendation_label :: jstring where
  "recommendation_label =
    [1578, 1608, 1589, 1610, 1577]"

definition inspector_import_label :: jstring where
  "inspector_import_label =
    [1575, 1587, 1578, 1610, 1585, 1575, 1583, 32, 1575, 1604, 1605, 1606, 1578, 1580]"

definition inspector_generate_label :: jstring where
  "inspector_generate_label =
    [1573, 1606, 1588, 1575, 1569, 32, 1605, 1581, 1578, 1608, 1609, 32, 65, 73]"

definition inspector_queue_label :: jstring where
  "inspector_queue_label =
    [1573, 1590, 1575, 1601, 1577, 32, 1573, 1604, 1609, 32, 1602, 1575, 1574, 1605, 1577,
     32, 1575, 1604, 1606, 1588, 1585]"

definition inspector_similar_label :: jstring where
  "inspector_similar_label =
    [1576, 1581, 1579, 32, 1576, 1605, 1606, 1578, 1580, 1575, 1578, 32, 1605, 1588, 1575,
     1576, 1607, 1577]"

definition shown_image :: "jstring \<Rightarrow> DiscoveryProduct \<Rightarrow> jstring" where
  "shown_image selectedImage p = (if selectedImage \<noteq> [] then selectedImage else dp_image_url p)"

definition inspector_gallery :: "DiscoveryProduct \<Rightarrow> jstring list" where
  "inspector_gallery p =
     (let images = (if dp_gallery_images p \<noteq> [] then dp_gallery_images p else [dp_image_url p])
      in if length images > 1 then take 6 images else [])"

definition inspector_controls ::
  "DiscoveryProduct \<Rightarrow> jstring \<Rightarrow> bool \<Rightarrow> bool \<Rightarrow> discovery_action control list" where
  "inspector_controls p selectedImage may_import importing =
     [Button close_drawer_label False False CloseRow,
      Button inspector_import_label (\<not> may_import) importing (ImportProduct p),
      Button inspector_generate_label False False (GenerateDrafts [p]),
      Button inspector_queue_label False False
        (AddDrafts [p\<lparr>dp_image_url := shown_image selectedImage p\<rparr>])] @
     (if shown_image selectedImage p \<noteq> []
      then [Button inspector_similar_label False False
              (SearchImage \<lparr>ir_image_url = Some (shown_image selectedImage p), ir_image_base64 = None,
                            ir_page = Some 1, ir_page_size = Some 20\<rparr> None)]
      else [])"

definition DiscoveryProductInspector ::
  "discovery_formats \<Rightarrow> discovery_report \<Rightarrow> discovery_view \<Rightarrow> DiscoveryProduct \<Rightarrow> inspector_view option" where
  "DiscoveryProductInspector df r s p =
     (case (df_money df (dp_price p) (dp_currency p), commission_cell df p) of
        (Some price, Some commission) \<Rightarrow>
          Some \<lparr>iv_title = dp_title p, iv_price = price, iv_image = shown_image (dc_image r) p,
                iv_gallery = inspector_gallery p,
                iv_score = (case dp_recommendation_score p of
                    Some score \<Rightarrow> (num_round score, recommendation_label, BadgeInfo)
                  | None \<Rightarrow> (num_round (dp_score p), quality_badge (dp_score p))),
                iv_figures = [df_fixed1 df (dp_rating p), df_number df (dp_sales p),
                  df_string df (dp_discount p) @ js ''%''],
                iv_commission = commission,
                iv_description = truthy_or_none (dp_description p),
                iv_factors = map_option
                  (\<lambda>b. map (\<lambda>f. (rf_key f, [43] @ df_fixed2 df (rf_contribution f))) (rb_factors b))
                  (dp_recommendation_breakdown p),
                iv_breakdown = ProductScoreBreakdown (getProductScoreBreakdown (candidate_score_input p)),
                iv_store = or_default (dp_store_name p) [8212],
                iv_category = or_default (dp_category p) [8212], iv_key = dp_key p,
                iv_links = (truthy_or_none (dp_affiliate_url p), dp_product_url p),
                iv_controls = inspector_controls p (dc_image r) (canImport s \<and> \<not> is_imported s p)
                  (dc_importing r = Some (dp_key p))\<rparr>
      | _ \<Rightarrow> None)"

section \<open>DiscoverySelectionBar.tsx, DiscoveryEmptyState.tsx\<close>

definition rows_clear_label :: jstring where
  "rows_clear_label =
    [1605, 1587, 1581, 32, 1575, 1604, 1578, 1581, 1583, 1610, 1583]"

definition rows_export_label :: jstring where
  "rows_export_label =
    [1578, 1589, 1583, 1610, 1585]"

definition rows_queue_label :: jstring where
  "rows_queue_label =
    [1573, 1590, 1575, 1601, 1577, 32, 1573, 1604, 1609, 32, 1575, 1604, 1602, 1575, 1574,
     1605, 1577]"

definition rows_generate_label :: jstring where
  "rows_generate_label =
    [1573, 1606, 1588, 1575, 1569, 32, 65, 73]"

definition rows_import_label :: jstring where
  "rows_import_label =
    [1575, 1587, 1578, 1610, 1585, 1575, 1583, 32, 1575, 1604, 1605, 1581, 1583, 1583]"

definition DiscoverySelectionBar ::
  "nat \<Rightarrow> bool \<Rightarrow> bool \<Rightarrow> DiscoveryProduct list \<Rightarrow> discovery_action control list" where
  "DiscoverySelectionBar amount may_import busy selected =
     (if amount = 0 then []
      else [Button rows_clear_label busy False ClearRows, Button rows_export_label busy False ExportRows,
            Button rows_queue_label busy busy (AddDrafts selected),
            Button rows_generate_label busy busy (GenerateDrafts selected),
            Button rows_import_label (\<not> may_import \<or> busy) busy ImportSelected])"

definition search_again_label :: jstring where
  "search_again_label =
    [1573, 1593, 1575, 1583, 1577, 32, 1575, 1604, 1576, 1581, 1579]"

definition back_to_discovery_label :: jstring where
  "back_to_discovery_label =
    [1575, 1604, 1593, 1608, 1583, 1577, 32, 1604, 1604, 1575, 1603, 1578, 1588, 1575, 1601]"

definition best_sellers_label :: jstring where
  "best_sellers_label =
    [1575, 1604, 1571, 1603, 1579, 1585, 32, 1605, 1576, 1610, 1593, 1611, 1575]"

definition deals_label :: jstring where
  "deals_label =
    [1575, 1604, 1593, 1585, 1608, 1590]"

definition run_again_label :: jstring where
  "run_again_label =
    [1573, 1593, 1575, 1583, 1577, 32, 1575, 1604, 1578, 1588, 1594, 1610, 1604]"

definition reset_filters_label :: jstring where
  "reset_filters_label =
    [1573, 1593, 1575, 1583, 1577, 32, 1578, 1593, 1610, 1610, 1606, 32, 1575, 1604, 1601,
     1604, 1575, 1578, 1585]"

definition try_trending_label :: jstring where
  "try_trending_label =
    [1580, 1585, 1617, 1576, 32, 1575, 1604, 1585, 1575, 1574, 1580]"

definition error_retry_label :: jstring where
  "error_retry_label =
    [1573, 1593, 1575, 1583, 1577, 32, 1575, 1604, 1605, 1581, 1575, 1608, 1604, 1577]"

definition initial_controls :: "discovery_action \<Rightarrow> discovery_action control list" where
  "initial_controls onRun =
     [Button run_label False False onRun, Button best_sellers_label False False (SwitchMode Hot),
      Button deals_label False False (SwitchMode Deals)]"

definition no_images_controls ::
  "discovery_action \<Rightarrow> discovery_action \<Rightarrow> discovery_action control list" where
  "no_images_controls onRun onResetFilters =
     [Button search_again_label False False onRun,
      Button back_to_discovery_label False False onResetFilters]"

definition no_results_controls ::
  "discovery_action \<Rightarrow> discovery_action \<Rightarrow> discovery_action control list" where
  "no_results_controls onRun onResetFilters =
     [Button run_again_label False False onRun,
      Button reset_filters_label False False onResetFilters,
      Button try_trending_label False False (SwitchMode Trending)]"

section \<open>The markup of DiscoveryView.tsx\<close>

definition select_results_label :: jstring where
  "select_results_label =
    [1578, 1581, 1583, 1610, 1583, 32, 1603, 1604, 32, 1575, 1604, 1606, 1578, 1575, 1574,
     1580]"

text \<open>Refetching the image search has no action of its own: \<open>RefreshResults\<close> does the same there.\<close>

definition discovery_body_controls ::
  "discovery_body \<Rightarrow> discovery_row list \<Rightarrow> discovery_action control list" where
  "discovery_body_controls body rows = (case body of
     InitialEmpty \<Rightarrow> initial_controls RunDraft
   | DiscoveryLoading \<Rightarrow> []
   | DiscoveryFailed \<Rightarrow> [Button error_retry_label False False RefreshResults]
   | NoImages \<Rightarrow> no_images_controls RefreshResults LeaveImages
   | NoResults \<Rightarrow> no_results_controls RunDraft ResetFilters
   | NoMatches \<Rightarrow> no_results_controls (SearchResults []) (SearchResults [])
   | ResultsBody \<Rightarrow>
       Button select_results_label False False ToggleAllRows # concat (map rd_controls rows))"

definition inspectorProduct :: "discovery_view \<Rightarrow> DiscoveryProduct option" where
  "inspectorProduct s =
     (case inspectorId s of
        None \<Rightarrow> None
      | Some i \<Rightarrow> List.find (\<lambda>item. dp_key item = i) (dv_items s))"

record discovery_shown =
  ds_description :: jstring
  ds_stats :: "jsnum \<times> jstring \<times> nat \<times> nat"
  ds_chips :: "jstring list"
  ds_readOnly :: bool
  ds_error :: "jstring option"
  ds_message :: "jstring option"
  ds_body :: discovery_body
  ds_rows :: "discovery_row list"
  ds_inspector :: "inspector_view option"
  ds_controls :: "discovery_action control list"

definition DiscoveryView_shown ::
  "discovery_formats \<Rightarrow> (jstring \<Rightarrow> jstring) \<Rightarrow> discovery_report \<Rightarrow> discovery_view \<Rightarrow> discovery_shown option" where
  "DiscoveryView_shown df lower_case r s =
     (let body = discovery_body_of lower_case s;
          rows = (if body = ResultsBody
                  then those (map (DiscoveryResultsTable_row df r s) (dv_filtered lower_case s))
                  else Some []);
          inspector = (case inspectorProduct s of
              None \<Rightarrow> Some None
            | Some p \<Rightarrow> map_option Some (DiscoveryProductInspector df r s p))
      in (case (header_description df (dv_session s), rows, inspector) of
            (Some description, Some rows', Some inspector') \<Rightarrow>
              Some \<lparr>ds_description = description, ds_stats = DiscoveryStats s,
                    ds_chips = filter_chips df (dc_categories r) (draftParams (dv_session s)),
                    ds_readOnly = (\<not> canImport s), ds_error = truthy_or_none (dv_error s),
                    ds_message = truthy_or_none (dv_message s), ds_body = body, ds_rows = rows',
                    ds_inspector = inspector',
                    ds_controls =
                      DiscoveryHeader s @ DiscoveryIntentTabs @
                      [Button advanced_label False False (ShowAdvanced True)] @
                      DiscoveryResultsToolbar s @ discovery_body_controls body rows' @
                      DiscoverySelectionBar (length (dv_selected s)) (canImport s) (dc_busy r)
                        (dv_selectedProducts lower_case s) @
                      advanced_controls (dv_advancedOpen s) @
                      (case inspector' of None \<Rightarrow> [] | Some v \<Rightarrow> iv_controls v)\<rparr>
          | _ \<Rightarrow> None))"

section \<open>What a user can do\<close>

text \<open>Pressing a control, filling in a field, and what the world does: the stored session is loaded
  once, the user's role and the settings arrive, the queries report.\<close>

datatype discovery_press =
  Press discovery_action | FillFilter filter_input | FillAdvanced advanced_input | TypeSearch jstring
| SearchUrl jstring | SearchFile jstring upload_file
| Loads DiscoverySessionSnapshot | RoleArrives bool | DefaultArrives DiscoveryMode | QueriesReport

text \<open>The action it starts; an image that is refused only changes the panel.\<close>

definition press_action ::
  "(jstring \<Rightarrow> jstring) \<Rightarrow> (jstring \<Rightarrow> jstring option) \<Rightarrow> discovery_view \<Rightarrow> discovery_press \<Rightarrow> discovery_action" where
  "press_action upper url_protocol s b = (case b of
     Press a \<Rightarrow> a
   | FillFilter i \<Rightarrow> UpdateDraft (bar_patch i (draftParams (dv_session s)))
   | FillAdvanced i \<Rightarrow> UpdateDraft (advanced_patch upper i (draftParams (dv_session s)))
   | TypeSearch v \<Rightarrow> SearchResults v
   | SearchUrl v \<Rightarrow>
       (case submitUrl url_protocol v of Inl _ \<Rightarrow> ReportOnly | Inr q \<Rightarrow> SearchImage q None)
   | SearchFile data_url f \<Rightarrow>
       (case submitFile data_url f of Inl _ \<Rightarrow> ReportOnly | Inr q \<Rightarrow> SearchImage q (Some f))
   | Loads e \<Rightarrow> SessionLoaded e
   | RoleArrives admin \<Rightarrow> UserLoaded admin
   | DefaultArrives m \<Rightarrow> SettingsLoaded m
   | QueriesReport \<Rightarrow> ReportOnly)"

text \<open>The button and the file input of the image panel wait for a search to end, the Enter key in its
  address does not.\<close>

definition discovery_press_ok ::
  "discovery_formats \<Rightarrow> (jstring \<Rightarrow> jstring) \<Rightarrow> discovery_view
     \<Rightarrow> discovery_report \<times> discovery_press \<times> jstring \<times> query_report \<times> query_report \<Rightarrow> bool" where
  "discovery_press_ok df lower_case s e =
     (case e of (r, b, time, q, iq) \<Rightarrow>
        (case b of
           Loads _ \<Rightarrow> \<not> dv_hydrated s
         | RoleArrives _ \<Rightarrow> True
         | DefaultArrives _ \<Rightarrow> True
         | QueriesReport \<Rightarrow> True
         | _ \<Rightarrow>
             dv_hydrated s \<and>
             (case DiscoveryView_shown df lower_case r s of
                None \<Rightarrow> False
              | Some v \<Rightarrow>
                  (case b of
                     Press a \<Rightarrow> a \<in> set (offered (ds_controls v))
                   | FillFilter i \<Rightarrow> bar_takes (dc_categories r) (draftParams (dv_session s)) i
                   | FillAdvanced i \<Rightarrow> dv_advancedOpen s \<and> advanced_takes i
                   | SearchFile _ _ \<Rightarrow> \<not> qr_fetching (dv_imageQuery s)
                   | _ \<Rightarrow> True))))"

definition discovery_press_step ::
  "(jstring \<Rightarrow> jstring) \<Rightarrow> (jstring \<Rightarrow> jstring) \<Rightarrow> (jstring \<Rightarrow> jstring option) \<Rightarrow> (nat \<Rightarrow> jstring)
     \<Rightarrow> (jsnum \<Rightarrow> jstring) \<Rightarrow> (jstring \<Rightarrow> jstring) \<Rightarrow> discovery_server \<Rightarrow> discovery_view
     \<Rightarrow> discovery_report \<times> discovery_press \<times> jstring \<times> query_report \<times> query_report \<Rightarrow> discovery_view" where
  "discovery_press_step lower_case upper url_protocol ar num_text encode srv s e =
     (case e of (r, b, time, q, iq) \<Rightarrow>
        discovery_step lower_case ar num_text encode srv s
          (time, press_action upper url_protocol s b, q, iq))"

section \<open>What is offered\<close>

text \<open>An action that may be offered: imports of one product only to administrators and for products not
  imported yet, and nothing that only the world does.\<close>

definition discovery_fits :: "discovery_view \<Rightarrow> discovery_action \<Rightarrow> bool" where
  "discovery_fits s a = (case a of
     ImportProduct p \<Rightarrow> canImport s \<and> \<not> is_imported s p
   | ImportSelected \<Rightarrow> canImport s
   | SessionLoaded _ \<Rightarrow> False
   | UserLoaded _ \<Rightarrow> False
   | _ \<Rightarrow> True)"

abbreviation all_offered_fit :: "discovery_view \<Rightarrow> discovery_action control list \<Rightarrow> bool" where
  "all_offered_fit s \<equiv> controls_fit (discovery_fits s)"

lemma controls_fit_map: "(\<And>x. x \<in> set xs \<Longrightarrow> ct_disabled (f x) \<or> P (ct_action (f x))) \<Longrightarrow> controls_fit P (map f xs)"
  by (induction xs) auto

lemma candidate_row_fits:
  "all_offered_fit s (discovery_row_controls columns p (canImport s) (is_imported s p) importing)"
  by (auto simp: discovery_row_controls_def discovery_fits_def)

lemma inspector_fits:
  "DiscoveryProductInspector df r s p = Some v \<Longrightarrow> all_offered_fit s (iv_controls v)"
  by (auto simp: DiscoveryProductInspector_def inspector_controls_def discovery_fits_def is_imported_def
      split: option.splits)

lemma table_row_controls:
  "DiscoveryResultsTable_row df r s p = Some row \<Longrightarrow>
     rd_controls row = discovery_row_controls (row_columns s) p (canImport s) (is_imported s p)
       (dc_importing r = Some (dp_key p))"
  unfolding DiscoveryResultsTable_row_def Let_def prod.case
  by (auto split: option.split_asm)

lemma candidate_rows_fit:
  assumes "those (map (DiscoveryResultsTable_row df r s) ps) = Some rows"
  shows "all_offered_fit s (concat (map rd_controls rows))"
proof (rule controls_fit_concat)
  fix row assume "row \<in> set rows"
  then have "Some row \<in> set (map Some rows)" by simp
  then obtain p where "DiscoveryResultsTable_row df r s p = Some row"
    unfolding assms [unfolded those_Some, symmetric] by auto
  then show "all_offered_fit s (rd_controls row)"
    by (simp add: table_row_controls candidate_row_fits)
qed

lemma body_fits:
  "body = ResultsBody \<longrightarrow> all_offered_fit s (concat (map rd_controls rows)) \<Longrightarrow>
     all_offered_fit s (discovery_body_controls body rows)"
  by (cases body) (auto simp: discovery_body_controls_def initial_controls_def no_images_controls_def
      no_results_controls_def discovery_fits_def)

lemma toolbar_fits:
  "all_offered_fit s (DiscoveryHeader s)" "all_offered_fit s DiscoveryIntentTabs"
  "all_offered_fit s (DiscoveryResultsToolbar s)" "all_offered_fit s (advanced_controls b)"
  "all_offered_fit s (DiscoverySelectionBar n (canImport s) busy ps)"
  by (auto simp: DiscoveryHeader_def DiscoveryIntentTabs_def INTENTS_def DiscoveryResultsToolbar_def
      toolbar_pager_def DEFAULT_VISIBLE_COLUMNS_def advanced_controls_def DiscoverySelectionBar_def
      discovery_fits_def Let_def split: option.splits)

lemma discovery_shown_fits:
  assumes "DiscoveryView_shown df lower_case r s = Some v"
  shows "all_offered_fit s (ds_controls v)"
proof -
  let ?body = "discovery_body_of lower_case s"
  have rows: "?body = ResultsBody \<Longrightarrow>
      those (map (DiscoveryResultsTable_row df r s) (dv_filtered lower_case s)) = Some (ds_rows v)"
    and inspector: "\<And>i. ds_inspector v = Some i \<Longrightarrow> \<exists>p. DiscoveryProductInspector df r s p = Some i"
    and v: "ds_controls v = DiscoveryHeader s @ DiscoveryIntentTabs @
      [Button advanced_label False False (ShowAdvanced True)] @
      DiscoveryResultsToolbar s @ discovery_body_controls ?body (ds_rows v) @
      DiscoverySelectionBar (length (dv_selected s)) (canImport s) (dc_busy r)
        (dv_selectedProducts lower_case s) @
      advanced_controls (dv_advancedOpen s) @
      (case ds_inspector v of None \<Rightarrow> [] | Some i \<Rightarrow> iv_controls i)"
    using assms by (auto simp: DiscoveryView_shown_def Let_def split: option.splits if_splits)
  have "all_offered_fit s (discovery_body_controls ?body (ds_rows v))"
    using rows by (intro body_fits) (auto intro: candidate_rows_fit)
  moreover have "all_offered_fit s (case ds_inspector v of None \<Rightarrow> [] | Some i \<Rightarrow> iv_controls i)"
    using inspector by (auto intro: inspector_fits split: option.splits)
  ultimately show ?thesis
    unfolding v by (simp add: toolbar_fits discovery_fits_def)
qed

lemma press_fits_view:
  assumes "discovery_press_ok df lower_case s (r, b, rest)"
  shows "(case b of Loads _ \<Rightarrow> \<not> dv_hydrated s | RoleArrives _ \<Rightarrow> True
    | _ \<Rightarrow> discovery_fits s (press_action upper url_protocol s b))"
proof (cases b)
  case (Press a)
  with assms obtain v where "DiscoveryView_shown df lower_case r s = Some v"
      "a \<in> set (offered (ds_controls v))"
    by (cases rest) (auto simp: discovery_press_ok_def split: option.splits)
  with discovery_shown_fits [of df lower_case r s v] Press show ?thesis
    by (auto simp: press_action_def dest: offered_fits)
qed (use assms in \<open>auto simp: discovery_press_ok_def press_action_def discovery_fits_def split: sum.splits\<close>)

section \<open>Which products are imported twice\<close>

text \<open>The products whose own import was answered without an error.\<close>

fun imported_alone :: "discovery_server \<Rightarrow> discovery_call list \<Rightarrow> discovery_call list \<Rightarrow> jstring list" where
  "imported_alone srv past [] = []"
| "imported_alone srv past (c # cs) =
     (case c of ImportOne k \<Rightarrow> if dsv_import srv past k = None then [k] else [] | _ \<Rightarrow> []) @
     imported_alone srv (past @ [c]) cs"

fun is_single :: "discovery_call \<Rightarrow> bool" where
  "is_single (ImportOne _) = True"
| "is_single _ = False"

lemma imported_alone_append:
  "imported_alone srv past (cs @ ds) = imported_alone srv past cs @ imported_alone srv (past @ cs) ds"
  by (induction cs arbitrary: past) simp_all

lemma imported_alone_none:
  "list_all (\<lambda>c. \<not> is_single c) cs \<Longrightarrow> imported_alone srv past cs = []"
  by (induction cs arbitrary: past) (auto split: discovery_call.splits)

text \<open>Steps that import no single product.\<close>

definition no_single :: "discovery_view \<Rightarrow> discovery_view \<Rightarrow> bool" where
  "no_single s s' \<longleftrightarrow>
     (\<exists>cs. dv_calls s' = dv_calls s @ cs \<and> list_all (\<lambda>c. \<not> is_single c) cs) \<and>
     set (importedIds (dv_session s)) \<subseteq> set (importedIds (dv_session s')) \<and>
     dv_hydrated s' = dv_hydrated s"

lemma no_single_same:
  "dv_calls s' = dv_calls s \<Longrightarrow> importedIds (dv_session s') = importedIds (dv_session s) \<Longrightarrow>
     dv_hydrated s' = dv_hydrated s \<Longrightarrow> no_single s s'"
  by (simp add: no_single_def)

lemma drafts_no_single:
  "\<exists>cs. snd (await_all err past (map (\<lambda>p. CreateDraft (f p)) ps)) = past @ cs \<and>
     list_all (\<lambda>c. \<not> is_single c) cs"
proof -
  have none: "list_all (\<lambda>c. \<not> is_single c) (take k (map (\<lambda>p. CreateDraft (f p)) ps))" for k
    by (simp add: take_map list_all_iff)
  show ?thesis
    by (cases rule: await_all_cases [of err past "map (\<lambda>p. CreateDraft (f p)) ps"])
      (use none [of "length ps"] none in auto)
qed

lemma generated_no_single:
  "\<exists>cs. snd (generate_all srv past ps) = past @ cs \<and> list_all (\<lambda>c. \<not> is_single c) cs"
  by (induction srv past ps rule: generate_all.induct) (force simp: Let_def split: sum.splits option.splits)+

lemma searches_no_single:
  "no_single s (runDiscovery params s)" "no_single s (runImageSearch payload file s)"
  "no_single s (onPageChange n s)"
  by (auto simp: runDiscovery_def runImageSearch_def onPageChange_def no_single_def session_updates
      clear_rows_def Let_def split: option.splits list.splits)

lemma batch_no_single:
  "no_single s (handleImportSelected lower_case srv s)"
  by (auto simp: handleImportSelected_def no_single_def session_updates clear_rows_def Let_def
      split: sum.splits)

lemma queued_no_single: "no_single s (handleAddToQueue ar srv ps s)"
  using drafts_no_single [of "draft_error srv" "dv_calls s" "\<lambda>p. draft_input p (draft_content p)" ps]
  by (auto simp: handleAddToQueue_def no_single_def clear_rows_def Let_def
      split: option.splits prod.splits)

lemma generate_no_single: "no_single s (handleGenerateAi ar encode srv ps s)"
  using generated_no_single [of srv "dv_calls s" ps]
  by (auto simp: handleGenerateAi_def no_single_def clear_rows_def Let_def
      split: list.splits option.splits prod.splits)

lemma handler_no_single:
  assumes "\<And>p. a \<noteq> ImportProduct p" "\<And>e. a \<noteq> SessionLoaded e"
  shows "no_single s (discovery_handler lower_case ar num_text encode srv s a)"
  using assms
  by (cases a)
    (auto simp: discovery_handler_def searches_no_single batch_no_single queued_no_single
      generate_no_single updateDraft_def switchMode_def resetDraftFilters_def updateUiPrefs_def
      toggleDiscoveryColumn_def Let_def dv_toggleAll_def clear_rows_def handleExport_def with_session_def
      intro: no_single_same split: option.splits)

text \<open>What the effects and the reports leave alone.\<close>

lemma effects_hydrated:
  "dv_hydrated (query_effect time s) = dv_hydrated s"
  "dv_hydrated (image_effect time s) = dv_hydrated s"
  "dv_hydrated (default_mode_effect s) = dv_hydrated s"
  by (auto simp: query_effect_def image_effect_def default_mode_effect_def with_session_def
      split: option.splits query_status.splits)

lemma commit_hydrated: "dv_hydrated (dv_commit lower_case time old s) = dv_hydrated s"
  by (simp add: dv_commit_def dv_effects_def Let_def effects_hydrated)

text \<open>No product has been imported alone twice; those that were are remembered, which the first load of
  the stored session cannot undo.\<close>

definition alone_inv :: "discovery_server \<Rightarrow> discovery_view \<Rightarrow> bool" where
  "alone_inv srv s \<longleftrightarrow>
     (dv_hydrated s \<or> dv_calls s = []) \<and> distinct (imported_alone srv [] (dv_calls s)) \<and>
     set (imported_alone srv [] (dv_calls s)) \<subseteq> set (importedIds (dv_session s))"

lemma no_single_alone: "no_single s s' \<Longrightarrow> alone_inv srv s \<Longrightarrow> dv_hydrated s \<Longrightarrow> alone_inv srv s'"
  by (auto simp: no_single_def alone_inv_def imported_alone_append imported_alone_none)

lemma import_alone:
  assumes "alone_inv srv s" "\<not> is_imported s p" "dv_hydrated s"
  shows "alone_inv srv (handleImportOne srv p s)"
  using assms
  by (auto simp: alone_inv_def handleImportOne_def is_imported_def imported_alone_append
      session_updates Let_def split: option.splits)

lemma commit_alone:
  "alone_inv srv (dv_commit lower_case time old s) \<longleftrightarrow> alone_inv srv s"
  using dv_commit_rows [of s lower_case time old]
  by (simp add: alone_inv_def commit_hydrated same_rows_def)

lemma reports_alone: "alone_inv srv (s\<lparr>dv_query := q, dv_imageQuery := iq\<rparr>) \<longleftrightarrow> alone_inv srv s"
  by (simp add: alone_inv_def)

lemma handler_alone:
  assumes "alone_inv srv s" "discovery_press_ok df lower_case s (r, b, rest)"
  shows "alone_inv srv (discovery_handler lower_case ar num_text encode srv s
    (press_action upper url_protocol s b))"
proof -
  let ?a = "press_action upper url_protocol s b"
  let ?s' = "discovery_handler lower_case ar num_text encode srv s ?a"
  consider (load) e where "b = Loads e" | (role) "\<exists>admin. b = RoleArrives admin"
    | (default) "\<exists>m. b = DefaultArrives m" | (report) "b = QueriesReport"
    | (user) "dv_hydrated s" "discovery_fits s ?a"
    using assms(2) press_fits_view [OF assms(2), of upper url_protocol]
    by (cases b) (auto simp: discovery_press_ok_def)
  then show ?thesis
  proof cases
    case load
    with assms show ?thesis
      by (auto simp: alone_inv_def discovery_press_ok_def press_action_def discovery_handler_def)
  next
    case user
    show ?thesis
    proof (cases "\<exists>p. ?a = ImportProduct p")
      case True
      with user assms(1) show ?thesis
        by (auto simp: discovery_handler_def discovery_fits_def intro!: import_alone)
    next
      case False
      with user(2) have "no_single s ?s'"
        by (intro handler_no_single) (auto simp: discovery_fits_def)
      then show ?thesis using assms(1) user(1) by (rule no_single_alone)
    qed
  qed (use assms(1) in \<open>auto simp: alone_inv_def press_action_def discovery_handler_def\<close>)
qed

interpretation pressed_discovery: state_machine
  "discovery_press_step lower_case upper url_protocol ar num_text encode srv"
  "discovery_press_ok df lower_case" "alone_inv srv"
  for lower_case upper url_protocol ar num_text encode srv df
proof unfold_locales
  fix s e assume s: "alone_inv srv s" "discovery_press_ok df lower_case s e"
  obtain r b rest where e: "e = (r, b, rest)" by (cases e)
  show "alone_inv srv (discovery_press_step lower_case upper url_protocol ar num_text encode srv s e)"
    using handler_alone [OF s [unfolded e]]
    by (cases rest) (simp add: e discovery_press_step_def discovery_step_def commit_alone reports_alone)
qed

section \<open>Properties\<close>


text \<open>C40: what a search depends on, exactly: two drafts become the same request if and only if they are
  both refused, or agree on the mode, the words, the prices and the least rating, orders and discount,
  and, for recommendations, on the commissions and the number asked for, otherwise on the shipping, the
  order and the page (and on the category in its mode).  So the order, the shipping and the page chosen
  for recommendations, and the commissions chosen elsewhere, change nothing.\<close>

theorem search_request_reads:
  "discoverProducts p = discoverProducts q \<longleftrightarrow>
     (let mode = (\<lambda>p. or_default (dq_mode p) General);
          refused = (\<lambda>p. mode p = CategoryMode \<and> \<not> truthy (map_option trim (dq_category_id p)))
      in if refused p \<or> refused q then refused p = refused q
         else mode p = mode q \<and> dq_keywords p = dq_keywords q \<and> dq_min_price p = dq_min_price q \<and>
           dq_max_price p = dq_max_price q \<and> dq_min_rating p = dq_min_rating q \<and>
           dq_min_orders p = dq_min_orders q \<and> dq_min_discount p = dq_min_discount q \<and>
           (if mode p = Recommended
            then dq_min_commission p = dq_min_commission q \<and> dq_max_commission p = dq_max_commission q \<and>
              or_default (dq_top_n p) 10 = or_default (dq_top_n q) 10
            else (if mode p = CategoryMode then dq_category_id p = dq_category_id q else True) \<and>
              dq_shipping_country p = dq_shipping_country q \<and>
              (dq_free_shipping p = Some True) = (dq_free_shipping q = Some True) \<and>
              (dq_choice_only p = Some True) = (dq_choice_only q = Some True) \<and>
              dq_sort p = dq_sort q \<and> dq_page p = dq_page q \<and> dq_page_size p = dq_page_size q))"
proof -
  let ?mode = "\<lambda>p. or_default (dq_mode p) General"
  let ?refused = "\<lambda>p. ?mode p = CategoryMode \<and> \<not> truthy (map_option trim (dq_category_id p))"
  have refused: "discoverProducts p = None \<longleftrightarrow> ?refused p" for p
    by (simp add: discoverProducts_def Let_def)
  have category: "truthy (dq_category_id p)" if "\<not> ?refused p" "?mode p = CategoryMode" for p
    using that by (cases "dq_category_id p") (auto simp: trim_eq_Nil_iff)
  have path: "discover_path (?mode p) (dq_category_id p) = discover_path (?mode q) (dq_category_id q) \<longleftrightarrow>
      ?mode p = ?mode q \<and> (if ?mode p = CategoryMode then dq_category_id p = dq_category_id q else True)"
    if "\<not> ?refused p" "\<not> ?refused q" "?mode p \<noteq> Recommended" "?mode q \<noteq> Recommended"
    using that category [of p] category [of q]
    by (cases "?mode p"; cases "?mode q"; cases "dq_category_id p"; cases "dq_category_id q")
      (simp_all add: discover_path_def js_def)
  show ?thesis
  proof (cases "?refused p \<or> ?refused q")
    case True
    with refused [of p] refused [of q] show ?thesis by (auto simp: Let_def)
  next
    case False
    then have "\<not> ?refused p" "\<not> ?refused q" by simp_all
    with path show ?thesis
      by (cases "?mode p = Recommended"; cases "?mode q = Recommended")
        (auto simp: discoverProducts_def recommend_request_def Let_def)
  qed
qed

text \<open>The button of the header is offered exactly when pressing it starts a run and none is under
  way; the button of the drawer is always offered, and then a draft without its category is refused
  with a message, and nothing else changes.\<close>

theorem run_button_offered_when_it_runs:
  "let d = (draftParams (dv_session s))\<lparr>dq_page := Some 1\<rparr>; s' = runDiscovery d s;
       runs = (committedParams (dv_session s') = Some (d\<lparr>dq_page_size := Some (or_default (dq_page_size d) 20)\<rparr>) \<and>
               runToken s' = runToken s + 1 \<and> dv_error s' = None \<and> dv_selected s' = [])
   in (RunDraft \<in> set (offered (DiscoveryHeader s)) \<longleftrightarrow> runs \<and> \<not> activeFetching s) \<and>
      (runs \<or> s' = s\<lparr>dv_error := Some choose_category_text\<rparr>) \<and>
      RunDraft \<in> set (offered (advanced_controls True))"
  by (auto simp: DiscoveryHeader_def advanced_controls_def runDiscovery_def validateDiscoveryDraft_def
      session_updates clear_rows_def Let_def)

section \<open>A small session\<close>

definition plain_discovery_formats :: discovery_formats where
  "plain_discovery_formats =
     \<lparr>df_money = (\<lambda>_ _. Some []), df_fixed1 = (\<lambda>_. []), df_fixed2 = (\<lambda>_. []), df_number = (\<lambda>_. []),
      df_en = (\<lambda>_. []), df_string = (\<lambda>_. []), df_date = (\<lambda>_. Some [])\<rparr>"

definition quiet_discovery :: discovery_report where
  "quiet_discovery = \<lparr>dc_categories = [], dc_importing = None, dc_busy = False, dc_image = []\<rparr>"

lemma candidate_rows_shown:
  assumes "\<And>n c. df_money df n c \<noteq> None"
  shows "\<exists>rows. those (map (DiscoveryResultsTable_row df r s) ps) = Some rows \<and>
    list_all2 (\<lambda>p row. rd_controls row = discovery_row_controls (row_columns s) p (canImport s)
      (is_imported s p) (dc_importing r = Some (dp_key p))) ps rows"
proof (induction ps)
  case (Cons p ps)
  have "commission_cell df p \<noteq> None" "df_money df (dp_price p) (dp_currency p) \<noteq> None"
    using assms by (simp_all add: commission_cell_def split: option.splits)
  then have "DiscoveryResultsTable_row df r s p \<noteq> None"
    by (cases "DColPrice \<in> set (row_columns s)"; cases "DColCommission \<in> set (row_columns s)")
      (auto simp: DiscoveryResultsTable_row_def Let_def)
  then obtain row where "DiscoveryResultsTable_row df r s p = Some row" by blast
  with Cons table_row_controls [OF this] show ?case by auto
qed simp

lemma row_import_offered:
  assumes "\<And>n c. df_money df n c \<noteq> None" "\<And>d. df_date df d \<noteq> None" "inspectorId s = None"
    and "discovery_body_of lower_case s = ResultsBody" "p \<in> set (dv_filtered lower_case s)"
    and "dv_hydrated s" "canImport s" "\<not> is_imported s p" "dc_importing r = None"
    and "DColActions \<in> set (row_columns s)"
  shows "discovery_press_ok df lower_case s (r, Press (ImportProduct p), rest)"
proof -
  obtain rows where rows: "those (map (DiscoveryResultsTable_row df r s) (dv_filtered lower_case s)) = Some rows"
    and controls: "list_all2 (\<lambda>p row. rd_controls row = discovery_row_controls (row_columns s) p (canImport s)
      (is_imported s p) (dc_importing r = Some (dp_key p))) (dv_filtered lower_case s) rows"
    using candidate_rows_shown [OF assms(1)] by blast
  obtain i where i: "i < length (dv_filtered lower_case s)" "dv_filtered lower_case s ! i = p"
    using assms(5) by (auto simp: in_set_conv_nth)
  define row where "row = rows ! i"
  have "rd_controls row = discovery_row_controls (row_columns s) p (canImport s) (is_imported s p)
      (dc_importing r = Some (dp_key p))"
    using list_all2_nthD [OF controls i(1)] by (simp add: i(2) row_def)
  moreover have "row \<in> set rows"
    using i(1) list_all2_lengthD [OF controls] by (simp add: row_def)
  ultimately have "ImportProduct p \<in> set (offered (rd_controls row))" "row \<in> set rows"
    using assms(7-10) by (simp_all add: discovery_row_controls_def)
  then have "ImportProduct p \<in> set (offered (concat (map rd_controls rows)))"
    by (auto simp: offered_def)
  then have offered: "ImportProduct p \<in> set (offered (discovery_body_controls ResultsBody rows))"
    by (simp add: discovery_body_controls_def)
  have "header_description df (dv_session s) \<noteq> None"
    using assms(2) by (simp add: header_description_def split: option.split)
  then obtain description where "header_description df (dv_session s) = Some description" by blast
  with assms(3,4) rows obtain v where v: "DiscoveryView_shown df lower_case r s = Some v"
    and "\<exists>cs ds. ds_controls v = cs @ discovery_body_controls ResultsBody rows @ ds"
    by (simp add: DiscoveryView_shown_def inspectorProduct_def) (metis append_assoc append_Cons)
  with offered have "ImportProduct p \<in> set (offered (ds_controls v))" by auto
  with v assms(6) show ?thesis by (cases rest) (simp add: discovery_press_ok_def)
qed

text \<open>A stored session is loaded, the user is an administrator, and imports the first row.\<close>

definition admin_session ::
  "(discovery_report \<times> discovery_press \<times> jstring \<times> query_report \<times> query_report) list" where
  "admin_session =
     [(quiet_discovery, Loads (emptySession\<lparr>lastResponse := Some (sample_response [js ''a'', js ''b''])\<rparr>),
       js ''t0'', no_report, no_report),
      (quiet_discovery, RoleArrives True, js ''t1'', no_report, no_report),
      (quiet_discovery, Press (ImportProduct (sample_candidate (js ''a''))), js ''t2'', no_report, no_report)]"

abbreviation sample_press ::
  "discovery_view \<Rightarrow> discovery_report \<times> discovery_press \<times> jstring \<times> query_report \<times> query_report \<Rightarrow> discovery_view" where
  "sample_press \<equiv> discovery_press_step id id (\<lambda>_. None) (\<lambda>_. []) (\<lambda>_. []) id partly_failing"

lemma idle_effects:
  assumes "runToken s = 0" "imageSearchInput s = None" "dv_defaultMode s = None" "dv_selected s = []"
  shows "dv_effects lower_case time old s = s"
proof -
  have q: "query_effect time s = s" and i: "image_effect time s = s" and d: "default_mode_effect s = s"
    using assms by (simp_all add: query_effect_def image_effect_def default_mode_effect_def)
  have "s\<lparr>dv_selected := prune_ids keys (dv_selected s)\<rparr> = s" for keys
    using assms(4) by (cases s) (simp add: prune_ids_def)
  then show ?thesis by (simp add: dv_effects_def Let_def q i d)
qed

lemma idle_commit:
  "runToken s = 0 \<Longrightarrow> imageSearchInput s = None \<Longrightarrow> dv_defaultMode s = None \<Longrightarrow> dv_selected s = [] \<Longrightarrow>
     dv_commit lower_case time old s = s"
  by (simp add: dv_commit_def idle_effects)

lemma admin_session_pressed:
  "admissible sample_press (discovery_press_ok plain_discovery_formats id) fresh_discovery admin_session"
proof -
  let ?e = "emptySession\<lparr>lastResponse := Some (sample_response [js ''a'', js ''b''])\<rparr>"
  let ?s2 = "fresh_discovery\<lparr>dv_session := ?e, dv_hydrated := True, canImport := True\<rparr>"
  let ?p = "Press (ImportProduct (sample_candidate (js ''a'')))"
  have items: "dv_items ?s2 = map sample_candidate [js ''a'', js ''b'']"
    by (simp add: dv_items_def fresh_discovery_def no_report_def sample_response_def)
  then have filtered: "dv_filtered id ?s2 = map sample_candidate [js ''a'', js ''b'']"
    by (simp add: dv_filtered_def fresh_discovery_def emptySession_def DEFAULT_UI_PREFS_def trim_eq_Nil_iff)
  have "discovery_press_ok plain_discovery_formats id ?s2 (quiet_discovery, ?p, rest)" for rest
  proof (rule row_import_offered)
    show "df_money plain_discovery_formats n c \<noteq> None" "df_date plain_discovery_formats d \<noteq> None" for n c d
      by (simp_all add: plain_discovery_formats_def)
    show "discovery_body_of id ?s2 = ResultsBody"
      using items filtered
      by (simp add: discovery_body_defs showError_def showNoImages_def fresh_discovery_def emptySession_def
          no_report_def)
  qed (use filtered in \<open>simp_all add: quiet_discovery_def fresh_discovery_def emptySession_def is_imported_def
      row_columns_def DEFAULT_UI_PREFS_def DEFAULT_VISIBLE_COLUMNS_def\<close>)
  moreover have "run sample_press fresh_discovery (take 2 admin_session) = ?s2"
    by (simp add: admin_session_def discovery_press_step_def discovery_step_def press_action_def
        discovery_handler_def idle_commit fresh_discovery_def)
  ultimately show ?thesis
    by (simp add: admin_session_def discovery_press_ok_def fresh_discovery_def numeral_2_eq_2)
qed


end
