(* ===== verification/AiDocument.thy ===== *)
theory AiDocument
  imports JsPrelude
begin

text \<open>
  \<open>frontend/src/features/ai/lib/document.ts\<close>: the marketing text as a document of headings,
  paragraphs, lists and calls to action, and its plain-text form.  The regular expressions are
  written out: \<open>\s\<close> is \<open>is_space\<close>, and \<open>.\<close> stops at a line terminator.
\<close>

section \<open>Blocks and lines\<close>

datatype DocumentBlock =
  Heading nat jstring
| Paragraph jstring
| UnorderedList "jstring list"
| OrderedList "jstring list"
| Cta jstring "jstring option"

text \<open>\<open>content.replace(/\r\n/g, "\n")\<close>.\<close>

fun crlf_to_lf :: "jstring \<Rightarrow> jstring" where
  "crlf_to_lf [] = []"
| "crlf_to_lf [c] = [c]"
| "crlf_to_lf (c # d # s) =
     (if c = 13 \<and> d = 10 then 10 # crlf_to_lf s else c # crlf_to_lf (d # s))"

definition is_line_terminator :: "nat \<Rightarrow> bool" where
  "is_line_terminator c \<longleftrightarrow> c = 10 \<or> c = 13 \<or> c = 8232 \<or> c = 8233"

text \<open>\<open>/^#{n}\s+/\<close>: the rest of the line after the marks and the white space.\<close>

definition heading_text :: "nat \<Rightarrow> jstring \<Rightarrow> jstring option" where
  "heading_text n line =
     (if take n line = replicate n 35 \<and> length line > n \<and> is_space (line ! n)
      then Some (dropWhile is_space (drop n line)) else None)"

text \<open>\<open>\s+(.+)\<close> at the end of a list marker.\<close>

definition item_text :: "jstring \<Rightarrow> jstring option" where
  "item_text rest =
     (if rest \<noteq> [] \<and> is_space (hd rest) \<and> dropWhile is_space rest \<noteq> []
      then Some (takeWhile (\<lambda>c. \<not> is_line_terminator c) (dropWhile is_space rest)) else None)"

definition unordered_match :: "jstring \<Rightarrow> jstring option" where
  "unordered_match line = (case line of
     [] \<Rightarrow> None
   | c # rest \<Rightarrow> if c = 45 \<or> c = 42 \<or> c = 8226 then item_text rest else None)"

definition ordered_match :: "jstring \<Rightarrow> jstring option" where
  "ordered_match line =
     (let rest = dropWhile is_digit line in
      if takeWhile is_digit line = [] then None
      else (case rest of
              [] \<Rightarrow> None
            | c # r \<Rightarrow> if c = 46 \<or> c = 41 then item_text r else None))"

definition cta_hathth :: jstring where
  "cta_hathth =
    [1581, 1579]"

definition cta_press :: jstring where
  "cta_press =
    [1575, 1590, 1594, 1591]"

definition cta_buy :: jstring where
  "cta_buy =
    [1575, 1588, 1578, 1585, 1610]"

definition cta_buy_marked :: jstring where
  "cta_buy_marked =
    [1575, 1588, 1578, 1585, 1616]"

definition cta_order_now :: jstring where
  "cta_order_now =
    [1575, 1591, 1604, 1576, 32, 1575, 1604, 1570, 1606]"

definition cta_words :: "jstring list" where
  "cta_words =
     [js ''cta'', cta_hathth, cta_press, cta_buy, cta_buy_marked, cta_order_now, js ''shop now'']"

definition cta_like :: "jstring \<Rightarrow> bool" where
  "cta_like line \<longleftrightarrow>
     list_ex (\<lambda>w. starts_with w (ascii_lower line)) cta_words \<or>
     (includes_sub (js ''http'') line \<and> length line < 180)"

text \<open>The length of a match of \<open>/https?:\/\/\S+/\<close> at the head of a string.\<close>

definition url_at :: "jstring \<Rightarrow> nat option" where
  "url_at s =
     (if starts_with (js ''http'') s then
        let r = drop 4 s;
            k = (if r \<noteq> [] \<and> hd r = 115 then 5 else 4);
            body = takeWhile (\<lambda>c. \<not> is_space c) (drop (k + 3) s)
        in (if starts_with (js ''://'') (drop k s) \<and> body \<noteq> [] then Some (k + 3 + length body)
            else None)
      else None)"

fun first_url :: "jstring \<Rightarrow> jstring option" where
  "first_url [] = None"
| "first_url (c # s) = (case url_at (c # s) of Some n \<Rightarrow> Some (take n (c # s)) | None \<Rightarrow> first_url s)"

function remove_urls :: "jstring \<Rightarrow> jstring" where
  "remove_urls [] = []"
| "remove_urls (c # s) =
     (case url_at (c # s) of
        Some n \<Rightarrow> remove_urls (drop (max 1 n) (c # s))
      | None \<Rightarrow> c # remove_urls s)"
  by pat_completeness auto
termination by (relation "measure length") auto

section \<open>parseMarketingDocument\<close>

datatype list_type = UnorderedType | OrderedType

record doc_state =
  ds_blocks :: "DocumentBlock list"
  ds_paragraph :: "jstring list"
  ds_items :: "jstring list"
  ds_listType :: "list_type option"

definition flushParagraph :: "doc_state \<Rightarrow> doc_state" where
  "flushParagraph s =
     (if ds_paragraph s = [] then s
      else
        let text = trim (join [32] (ds_paragraph s)) in
        s\<lparr>ds_blocks := (if text \<noteq> [] then ds_blocks s @ [Paragraph text] else ds_blocks s),
          ds_paragraph := []\<rparr>)"

definition list_block :: "list_type \<Rightarrow> jstring list \<Rightarrow> DocumentBlock" where
  "list_block ty items =
     (case ty of UnorderedType \<Rightarrow> UnorderedList items | OrderedType \<Rightarrow> OrderedList items)"

definition flushList :: "doc_state \<Rightarrow> doc_state" where
  "flushList s = (case ds_listType s of
     None \<Rightarrow> s\<lparr>ds_items := [], ds_listType := None\<rparr>
   | Some ty \<Rightarrow>
       if ds_items s = [] then s\<lparr>ds_items := [], ds_listType := None\<rparr>
       else s\<lparr>ds_blocks := ds_blocks s @ [list_block ty (ds_items s)],
              ds_items := [], ds_listType := None\<rparr>)"

definition push_block :: "DocumentBlock \<Rightarrow> doc_state \<Rightarrow> doc_state" where
  "push_block b s = s\<lparr>ds_blocks := ds_blocks s @ [b]\<rparr>"

definition add_item :: "list_type \<Rightarrow> jstring \<Rightarrow> doc_state \<Rightarrow> doc_state" where
  "add_item ty item s =
     (let s1 = flushParagraph s;
          s2 = (if ds_listType s1 \<noteq> None \<and> ds_listType s1 \<noteq> Some ty then flushList s1 else s1)
      in s2\<lparr>ds_listType := Some ty, ds_items := ds_items s2 @ [item]\<rparr>)"

definition cta_block :: "jstring \<Rightarrow> DocumentBlock" where
  "cta_block line =
     (let text = trim (remove_urls line) in
      Cta (if text \<noteq> [] then text else line) (first_url line))"

definition doc_line :: "doc_state \<Rightarrow> jstring \<Rightarrow> doc_state" where
  "doc_line s raw =
     (let line = trim raw in
      if line = [] then flushList (flushParagraph s)
      else (case heading_text 2 line of
        Some text \<Rightarrow> push_block (Heading 2 text) (flushList (flushParagraph s))
      | None \<Rightarrow>
      (case heading_text 3 line of
        Some text \<Rightarrow> push_block (Heading 3 text) (flushList (flushParagraph s))
      | None \<Rightarrow>
      (case unordered_match line of
        Some item \<Rightarrow> add_item UnorderedType item s
      | None \<Rightarrow>
      (case ordered_match line of
        Some item \<Rightarrow> add_item OrderedType item s
      | None \<Rightarrow>
          if cta_like line then push_block (cta_block line) (flushList (flushParagraph s))
          else
            let s1 = (if ds_listType s \<noteq> None then flushList s else s)
            in s1\<lparr>ds_paragraph := ds_paragraph s1 @ [line]\<rparr>)))))"

definition empty_doc :: doc_state where
  "empty_doc = \<lparr>ds_blocks = [], ds_paragraph = [], ds_items = [], ds_listType = None\<rparr>"

definition document_lines :: "jstring \<Rightarrow> jstring list" where
  "document_lines content = split_on 10 (crlf_to_lf content)"

definition parseMarketingDocument :: "jstring \<Rightarrow> DocumentBlock list" where
  "parseMarketingDocument content =
     (let s = foldl doc_line empty_doc (document_lines content);
          blocks = ds_blocks (flushList (flushParagraph s))
      in if blocks \<noteq> [] then blocks else [Paragraph (trim content)])"

section \<open>serializeDocument\<close>

definition block_lines :: "DocumentBlock \<Rightarrow> jstring list" where
  "block_lines block = (case block of
     Heading level text \<Rightarrow> [replicate level 35 @ js '' '' @ text]
   | Paragraph text \<Rightarrow> [text]
   | UnorderedList items \<Rightarrow> map (\<lambda>item. js ''- '' @ item) items
   | OrderedList items \<Rightarrow>
       map (\<lambda>(index, item). decimal (index + 1) @ js ''. '' @ item) (enumerate 0 items)
   | Cta text url \<Rightarrow> if truthy url then [text, the url] else [text])"

definition serialize_block :: "DocumentBlock \<Rightarrow> jstring" where
  "serialize_block block = join [10] (block_lines block)"

definition serializeDocument :: "DocumentBlock list \<Rightarrow> jstring" where
  "serializeDocument blocks =
     join ([10, 10]) (filter (\<lambda>s. s \<noteq> []) (map serialize_block blocks))"

section \<open>What a parsed document looks like\<close>

text \<open>Blocks are never empty: lists have items, texts have characters.\<close>

fun block_solid :: "DocumentBlock \<Rightarrow> bool" where
  "block_solid (Heading n t) = ((n = 2 \<or> n = 3) \<and> t \<noteq> [])"
| "block_solid (Paragraph t) = (t \<noteq> [])"
| "block_solid (UnorderedList items) = (items \<noteq> [] \<and> [] \<notin> set items)"
| "block_solid (OrderedList items) = (items \<noteq> [] \<and> [] \<notin> set items)"
| "block_solid (Cta t u) = (t \<noteq> [] \<and> u \<noteq> Some [])"

definition doc_ok :: "doc_state \<Rightarrow> bool" where
  "doc_ok s \<longleftrightarrow>
     list_all block_solid (ds_blocks s) \<and> [] \<notin> set (ds_items s) \<and>
     (ds_items s = [] \<or> ds_listType s \<noteq> None)"

lemma flushParagraph_ok: "doc_ok s \<Longrightarrow> doc_ok (flushParagraph s)"
  by (auto simp: flushParagraph_def Let_def doc_ok_def)

lemma flushList_ok: "doc_ok s \<Longrightarrow> doc_ok (flushList s)"
  by (auto simp: flushList_def doc_ok_def list_block_def split: option.splits list_type.splits)

lemma push_block_ok: "doc_ok s \<Longrightarrow> block_solid b \<Longrightarrow> doc_ok (push_block b s)"
  by (simp add: push_block_def doc_ok_def)

lemma add_item_ok: "doc_ok s \<Longrightarrow> item \<noteq> [] \<Longrightarrow> doc_ok (add_item ty item s)"
  using flushParagraph_ok [of s] flushList_ok [of "flushParagraph s"]
  by (auto simp: add_item_def Let_def doc_ok_def)

lemma item_text_nonempty: "item_text r = Some t \<Longrightarrow> t \<noteq> []"
proof -
  assume "item_text r = Some t"
  then have t: "t = takeWhile (\<lambda>c. \<not> is_line_terminator c) (dropWhile is_space r)"
    and ne: "dropWhile is_space r \<noteq> []" by (auto simp: item_text_def split: if_splits)
  from ne obtain c cs where c: "dropWhile is_space r = c # cs" by (cases "dropWhile is_space r") auto
  then have "\<not> is_space c" using trim_start_hd [of r c cs] by (simp add: trim_start_def)
  then have "\<not> is_line_terminator c" by (auto simp: is_line_terminator_def is_space_def)
  with t c show ?thesis by simp
qed

lemma markers_nonempty:
  "unordered_match l \<noteq> Some []" "ordered_match l \<noteq> Some []"
  by (auto simp: unordered_match_def ordered_match_def Let_def dest: item_text_nonempty
      split: list.splits if_splits)

text \<open>A trimmed line does not end in white space, so something follows a heading's marks.\<close>

lemma trimmed_last:
  assumes "trim l = l" "l \<noteq> []"
  shows "\<not> is_space (last l)"
proof
  assume sp: "is_space (last l)"
  have "trim_end (trim_start l) = l" using assms(1) by (simp add: trim_def)
  then have "dropWhile is_space (rev (trim_start l)) = rev l" by (metis trim_end_def rev_rev_ident)
  moreover have "rev l = last l # rev (butlast l)" using assms(2)
    by (metis append_butlast_last_id rev.simps(2) rev_append rev_rev_ident rev_singleton_conv
        append_Cons append_Nil)
  ultimately have "dropWhile is_space (rev (trim_start l)) = last l # rev (butlast l)" by simp
  then have "\<not> is_space (last l)" by (simp add: dropWhile_eq_Cons_conv)
  with sp show False by simp
qed

lemma heading_text_nonempty:
  assumes "trim l = l"
  shows "heading_text n l \<noteq> Some []"
proof
  assume "heading_text n l = Some []"
  then have all: "\<forall>c \<in> set (drop n l). is_space c" and len: "length l > n"
    by (auto simp: heading_text_def dropWhile_eq_Nil_conv split: if_splits)
  from len have "drop n l \<noteq> []" by simp
  then have "last l \<in> set (drop n l)" by (metis last_drop last_in_set len)
  moreover from len have "l \<noteq> []" by auto
  ultimately show False using all trimmed_last [OF assms] by blast
qed

lemma first_url_nonempty: "first_url l \<noteq> Some []"
proof (induction l)
  case (Cons c s)
  have "url_at (c # s) = Some n \<Longrightarrow> n \<noteq> 0" for n
    by (auto simp: url_at_def Let_def split: if_splits)
  with Cons show ?case by (auto split: option.splits)
qed simp

lemma doc_line_ok: "doc_ok s \<Longrightarrow> doc_ok (doc_line s raw)"
proof -
  assume ok: "doc_ok s"
  note f = flushList_ok [OF flushParagraph_ok [OF ok]] flushList_ok [OF ok]
  have t: "trim (trim raw) = trim raw" by simp
  have cta: "trim raw \<noteq> [] \<Longrightarrow> block_solid (cta_block (trim raw))"
    by (simp add: cta_block_def Let_def first_url_nonempty)
  have par: "doc_ok s' \<Longrightarrow> doc_ok (s'\<lparr>ds_paragraph := p\<rparr>)" for s' p by (simp add: doc_ok_def)
  show ?thesis
    using ok f cta heading_text_nonempty [OF t] markers_nonempty
    by (auto simp: doc_line_def Let_def intro!: push_block_ok add_item_ok par split: option.split)
qed

text \<open>Parsing is total and leaves no empty blocks: for every text that is not blank the document
  has at least one block, every list has items, no item, heading, paragraph or call to action is
  empty, and headings have level 2 or 3.\<close>

theorem parseMarketingDocument_solid:
  "parseMarketingDocument content \<noteq> [] \<and>
   (trim content \<noteq> [] \<longrightarrow> list_all block_solid (parseMarketingDocument content))"
proof -
  have "doc_ok s \<Longrightarrow> doc_ok (foldl doc_line s ls)" for s ls
    by (induction ls arbitrary: s) (simp_all add: doc_line_ok)
  from this [of empty_doc "document_lines content"]
  have "doc_ok (foldl doc_line empty_doc (document_lines content))"
    by (simp add: doc_ok_def empty_doc_def)
  then have "list_all block_solid (ds_blocks (flushList (flushParagraph
      (foldl doc_line empty_doc (document_lines content)))))"
    using flushList_ok flushParagraph_ok by (simp add: doc_ok_def)
  then show ?thesis by (auto simp: parseMarketingDocument_def Let_def)
qed

lemma parseMarketingDocument_solid_witness:
  "list_all block_solid (parseMarketingDocument (js ''## a''))"
proof -
  have "trim (js ''## a'') \<noteq> []" by (simp add: trim_eq_Nil_iff js_def is_space_def)
  then show ?thesis using parseMarketingDocument_solid [of "js ''## a''"] by simp
qed

section \<open>Parsing what was serialized\<close>

text \<open>One line of text, as a block holds it.\<close>

definition plain_line :: "jstring \<Rightarrow> bool" where
  "plain_line l \<longleftrightarrow> l \<noteq> [] \<and> trim l = l \<and> list_all (\<lambda>c. \<not> is_line_terminator c) l"

definition ordinary_line :: "jstring \<Rightarrow> bool" where
  "ordinary_line l \<longleftrightarrow> plain_line l \<and> heading_text 2 l = None \<and> heading_text 3 l = None \<and>
     unordered_match l = None \<and> ordered_match l = None"

text \<open>The blocks that have a plain-text form of their own.\<close>

fun canonical_block :: "DocumentBlock \<Rightarrow> bool" where
  "canonical_block (Heading n t) = ((n = 2 \<or> n = 3) \<and> plain_line t)"
| "canonical_block (Paragraph t) = (ordinary_line t \<and> \<not> cta_like t)"
| "canonical_block (UnorderedList items) = (items \<noteq> [] \<and> list_all plain_line items)"
| "canonical_block (OrderedList items) = (items \<noteq> [] \<and> list_all plain_line items)"
| "canonical_block (Cta t u) = (ordinary_line t \<and> cta_like t \<and> first_url t = None \<and> u = None)"

definition base :: "DocumentBlock list \<Rightarrow> doc_state" where
  "base bs = \<lparr>ds_blocks = bs, ds_paragraph = [], ds_items = [], ds_listType = None\<rparr>"

abbreviation flushed :: "doc_state \<Rightarrow> doc_state" where
  "flushed s \<equiv> flushList (flushParagraph s)"

lemma flushed_base [simp]: "flushed (base bs) = base bs"
  by (simp add: flushParagraph_def flushList_def base_def)

lemma dropWhile_trimmed: "trim l = l \<Longrightarrow> dropWhile is_space l = l"
proof -
  assume t: "trim l = l"
  show ?thesis
  proof (cases "trim_start l")
    case Nil
    then have "l = []" using t by (simp add: trim_def trim_end_def)
    then show ?thesis by simp
  next
    case (Cons c cs)
    have "\<not> is_space c" using trim_start_hd [OF Cons] .
    then have "trim l = c # trim_end cs" using Cons by (simp add: trim_def trim_end_Cons_nonspace)
    with t have "l = c # trim_end cs" by simp
    with \<open>\<not> is_space c\<close> show ?thesis by (metis dropWhile.simps(2))
  qed
qed

lemma trim_marker:
  assumes "trim l = l" "l \<noteq> []" "pre \<noteq> []" "\<not> is_space (hd pre)"
  shows "trim (pre @ l) = pre @ l"
proof -
  obtain c ps where pre: "pre = c # ps" using assms(3) by (cases pre) auto
  have c: "\<not> is_space c" using assms(4) pre by simp
  obtain l' x where l: "l = l' @ [x]" using assms(2) by (cases l rule: rev_cases) auto
  have "\<not> is_space x" using trimmed_last [OF assms(1,2)] l by simp
  then have "trim_end ((c # ps @ l') @ [x]) = (c # ps @ l') @ [x]"
    by (rule trim_end_append_nonspace)
  with c show ?thesis by (simp add: trim_def trim_start_def pre l)
qed

lemma item_text_space: "plain_line item \<Longrightarrow> item_text (32 # item) = Some item"
proof -
  assume p: "plain_line item"
  then have "dropWhile is_space item = item" by (simp add: plain_line_def dropWhile_trimmed)
  moreover have "takeWhile (\<lambda>c. \<not> is_line_terminator c) item = item"
    using p by (simp add: plain_line_def list_all_iff takeWhile_eq_all_conv)
  moreover have "is_space 32" by (simp add: is_space_def)
  ultimately show ?thesis using p by (simp add: item_text_def plain_line_def)
qed

lemma heading_text_line:
  assumes "plain_line t" "n = 2 \<or> n = 3"
  shows "heading_text n (replicate n 35 @ 32 # t) = Some t"
    "n = 3 \<Longrightarrow> heading_text 2 (replicate n 35 @ 32 # t) = None"
    "trim (replicate n 35 @ 32 # t) = replicate n 35 @ 32 # t"
proof -
  have sp: "is_space 32" "\<not> is_space 35" by (simp_all add: is_space_def)
  have d: "dropWhile is_space t = t" using assms(1) by (simp add: plain_line_def dropWhile_trimmed)
  show "heading_text n (replicate n 35 @ 32 # t) = Some t"
    using assms(2) sp d by (auto simp: heading_text_def nth_append)
  show "n = 3 \<Longrightarrow> heading_text 2 (replicate n 35 @ 32 # t) = None"
    using sp by (simp add: heading_text_def numeral_3_eq_3)
  have "hd (replicate n (35::nat) @ [32]) = 35" using assms(2) by (auto simp: numeral_2_eq_2 numeral_3_eq_3)
  then show "trim (replicate n 35 @ 32 # t) = replicate n 35 @ 32 # t"
    using trim_marker [of t "replicate n 35 @ [32]"] assms(1) sp by (simp add: plain_line_def)
qed

lemma no_heading: "l \<noteq> [] \<Longrightarrow> hd l \<noteq> 35 \<Longrightarrow> 0 < n \<Longrightarrow> heading_text n l = None"
  by (cases l; cases n) (auto simp: heading_text_def)

text \<open>Each kind of line, read in a state.\<close>

lemma doc_line_heading:
  assumes "plain_line t" "n = 2 \<or> n = 3"
  shows "doc_line (base bs) (replicate n 35 @ 32 # t) = base (bs @ [Heading n t])"
  using assms heading_text_line [OF assms]
  by (auto simp: doc_line_def Let_def push_block_def) (simp_all add: base_def)

lemma bullet_line:
  assumes "plain_line item"
  shows "doc_line s (45 # 32 # item) = add_item UnorderedType item s"
proof -
  have t: "trim (45 # 32 # item) = 45 # 32 # item"
    using trim_marker [of item "[45, 32]"] assms by (simp add: plain_line_def is_space_def)
  have "unordered_match (45 # 32 # item) = Some item"
    using item_text_space [OF assms] by (simp add: unordered_match_def)
  then show ?thesis by (simp add: doc_line_def Let_def t no_heading)
qed

lemma numbered_line:
  assumes "plain_line item" "ds \<noteq> []" "list_all is_digit ds"
  shows "doc_line s (ds @ 46 # 32 # item) = add_item OrderedType item s"
proof -
  obtain d ds' where ds: "ds = d # ds'" using assms(2) by (cases ds) auto
  then have d: "is_digit d" using assms(3) by simp
  then have hd: "\<not> is_space d" "d \<noteq> 35" "d \<noteq> 45" "d \<noteq> 42" "d \<noteq> 8226"
    by (auto simp: is_digit_def is_space_def)
  have t: "trim (ds @ 46 # 32 # item) = ds @ 46 # 32 # item"
    using trim_marker [of item "ds @ [46, 32]"] assms hd ds by (simp add: plain_line_def)
  have "takeWhile is_digit (ds @ 46 # 32 # item) = ds"
    and "dropWhile is_digit (ds @ 46 # 32 # item) = 46 # 32 # item"
    using assms(3) by (simp_all add: list_all_iff is_digit_def)
  then have "ordered_match (ds @ 46 # 32 # item) = Some item"
    using item_text_space [OF assms(1)] assms(2) by (simp add: ordered_match_def)
  moreover have "unordered_match (ds @ 46 # 32 # item) = None"
    using ds hd by (simp add: unordered_match_def)
  moreover have "heading_text 2 (ds @ 46 # 32 # item) = None"
    and "heading_text 3 (ds @ 46 # 32 # item) = None"
    using ds hd by (auto intro!: no_heading)
  ultimately show ?thesis using assms(2) by (simp add: doc_line_def Let_def t)
qed

lemma list_items_run:
  "foldl (\<lambda>s item. add_item ty item s)
     \<lparr>ds_blocks = bs, ds_paragraph = [], ds_items = acc, ds_listType = Some ty\<rparr> items =
   \<lparr>ds_blocks = bs, ds_paragraph = [], ds_items = acc @ items, ds_listType = Some ty\<rparr>"
  by (induction items arbitrary: acc) (simp_all add: add_item_def Let_def flushParagraph_def)

lemma list_run:
  assumes "items \<noteq> []"
  shows "flushed (foldl (\<lambda>s item. add_item ty item s) (base bs) items) =
    base (bs @ [list_block ty items])"
proof -
  obtain i items' where items: "items = i # items'" using assms by (cases items) auto
  have "add_item ty i (base bs) =
      \<lparr>ds_blocks = bs, ds_paragraph = [], ds_items = [i], ds_listType = Some ty\<rparr>"
    by (simp add: add_item_def Let_def flushParagraph_def base_def)
  then show ?thesis
    by (simp add: items list_items_run) (simp add: flushParagraph_def flushList_def base_def)
qed

lemma remove_urls_none: "first_url l = None \<Longrightarrow> remove_urls l = l"
  by (induction l) (auto split: option.splits)

lemma ordinary_run:
  assumes "ordinary_line t"
  shows "\<not> cta_like t \<Longrightarrow> flushed (doc_line (base bs) t) = base (bs @ [Paragraph t])"
    "cta_like t \<Longrightarrow> first_url t = None \<Longrightarrow>
       flushed (doc_line (base bs) t) = base (bs @ [Cta t None])"
proof -
  have p: "trim t = t" "t \<noteq> []" "heading_text 2 t = None" "heading_text 3 t = None"
    "unordered_match t = None" "ordered_match t = None"
    using assms by (simp_all add: ordinary_line_def plain_line_def)
  show "\<not> cta_like t \<Longrightarrow> flushed (doc_line (base bs) t) = base (bs @ [Paragraph t])"
    using p by (simp add: doc_line_def Let_def)
      (simp add: base_def flushParagraph_def flushList_def)
  show "cta_like t \<Longrightarrow> first_url t = None \<Longrightarrow>
       flushed (doc_line (base bs) t) = base (bs @ [Cta t None])"
    using p by (simp add: doc_line_def Let_def cta_block_def remove_urls_none push_block_def)
      (simp add: base_def flushParagraph_def flushList_def)
qed

lemma enumerate_items_run:
  assumes "list_all plain_line items"
  shows "foldl doc_line s (map (\<lambda>(index, item). decimal (index + 1) @ js ''. '' @ item)
      (enumerate k items)) = foldl (\<lambda>s item. add_item OrderedType item s) s items"
  using assms
proof (induction items arbitrary: k s)
  case Nil
  then show ?case by simp
next
  case (Cons item items)
  have "js ''. '' = [46, 32]" by (simp add: js_def)
  then have "doc_line s (decimal (k + 1) @ js ''. '' @ item) = add_item OrderedType item s"
    using numbered_line [of item "decimal (k + 1)" s] decimal_digits [of "k + 1"] Cons.prems
    by simp
  with Cons show ?case by simp
qed

lemma bullet_items_run:
  assumes "list_all plain_line items"
  shows "foldl doc_line s (map (\<lambda>item. js ''- '' @ item) items) =
    foldl (\<lambda>s item. add_item UnorderedType item s) s items"
proof -
  have m: "js ''- '' @ item = 45 # 32 # item" for item by (simp add: js_def)
  show ?thesis
    unfolding m using assms
    by (induction items arbitrary: s) (simp_all add: bullet_line)
qed

lemma block_run:
  assumes "canonical_block b"
  shows "flushed (foldl doc_line (base bs) (block_lines b)) = base (bs @ [b])"
proof (cases b)
  case (Heading n t)
  have "replicate n 35 @ js '' '' @ t = replicate n 35 @ 32 # t" by (simp add: js_def)
  then show ?thesis
    using assms Heading doc_line_heading [of t n bs] by (auto simp: block_lines_def)
next
  case (Paragraph t)
  then show ?thesis using assms ordinary_run(1) [of t bs] by (simp add: block_lines_def)
next
  case (UnorderedList items)
  then show ?thesis
    using assms list_run [of items UnorderedType bs]
    by (simp add: block_lines_def bullet_items_run list_block_def)
next
  case (OrderedList items)
  then show ?thesis
    using assms list_run [of items OrderedType bs] enumerate_items_run [of items "base bs" 0]
    by (simp add: block_lines_def list_block_def)
next
  case (Cta t u)
  then show ?thesis using assms ordinary_run(2) [of t bs] by (simp add: block_lines_def)
qed

text \<open>The lines of a whole document: the blocks with a blank line between.\<close>

fun spaced :: "jstring list list \<Rightarrow> jstring list" where
  "spaced [] = []"
| "spaced [ls] = ls"
| "spaced (ls # ms # rest) = ls @ [] # spaced (ms # rest)"

lemma blank_line: "doc_line s [] = flushed s"
proof -
  have "trim [] = []" by (simp add: trim_eq_Nil_iff)
  then show ?thesis by (simp add: doc_line_def Let_def)
qed

lemma spaced_run:
  assumes "list_all canonical_block blocks" "blocks \<noteq> []"
  shows "flushed (foldl doc_line (base bs) (spaced (map block_lines blocks))) =
    base (bs @ blocks)"
  using assms
proof (induction blocks arbitrary: bs rule: induct_list012)
  case 1
  then show ?case by simp
next
  case (2 b)
  then show ?case using block_run [of b bs] by simp
next
  case (3 b c rest)
  have "foldl doc_line (base bs) (spaced (map block_lines (b # c # rest))) =
      foldl doc_line (base (bs @ [b])) (spaced (map block_lines (c # rest)))"
    using 3(3) block_run [of b bs] by (simp add: blank_line)
  then show ?case using 3 by simp
qed

lemma join_append:
  "xs \<noteq> [] \<Longrightarrow> ys \<noteq> [] \<Longrightarrow> join sep (xs @ ys) = join sep xs @ sep @ join sep ys"
  by (induction sep xs rule: join.induct) (auto simp: neq_Nil_conv)

lemma join_blank: "ys \<noteq> [] \<Longrightarrow> join sep ([] # ys) = sep @ join sep ys"
  by (cases ys) simp_all

lemma spaced_neq_Nil: "list_all (\<lambda>ls. ls \<noteq> []) lss \<Longrightarrow> lss \<noteq> [] \<Longrightarrow> spaced lss \<noteq> []"
  by (induction lss rule: spaced.induct) auto

lemma join_spaced:
  "list_all (\<lambda>ls. ls \<noteq> []) lss \<Longrightarrow>
     join [10, 10] (map (join [10]) lss) = join [10] (spaced lss)"
proof (induction lss rule: spaced.induct)
  case (3 ls ms rest)
  then show ?case
    using spaced_neq_Nil [of "ms # rest"] by (simp add: join_append join_blank)
qed simp_all

lemma block_lines_neq_Nil: "canonical_block b \<Longrightarrow> block_lines b \<noteq> []"
  by (cases b) (auto simp: block_lines_def enumerate_eq_zip)

definition clean :: "jstring \<Rightarrow> bool" where
  "clean l \<longleftrightarrow> 10 \<notin> set l \<and> 13 \<notin> set l"

lemma clean_plain: "plain_line l \<Longrightarrow> clean l"
  by (auto simp: plain_line_def clean_def list_all_iff is_line_terminator_def)

lemma clean_append: "clean (a @ b) \<longleftrightarrow> clean a \<and> clean b"
  by (auto simp: clean_def)

lemma clean_decimal: "clean (decimal n)"
  using decimal_digits [of n] by (auto simp: clean_def list_all_iff is_digit_def)

lemma clean_markers: "clean (js ''- '')" "clean (js ''. '')" "clean (js '' '')" "clean (replicate n 35)"
  by (simp_all add: clean_def js_def)

lemma block_lines_clean: "canonical_block b \<Longrightarrow> l \<in> set (block_lines b) \<Longrightarrow> clean l"
  by (cases b)
    (auto simp: block_lines_def clean_append clean_markers clean_decimal clean_plain
      ordinary_line_def list_all_iff in_set_enumerate_eq)

lemma block_lines_ne: "canonical_block b \<Longrightarrow> l \<in> set (block_lines b) \<Longrightarrow> l \<noteq> []"
  by (cases b) (auto simp: block_lines_def ordinary_line_def plain_line_def)

lemma crlf_clean: "13 \<notin> set s \<Longrightarrow> crlf_to_lf s = s"
  by (induction s rule: crlf_to_lf.induct) auto

lemma set_spaced: "l \<in> set (spaced lss) \<Longrightarrow> l = [] \<or> (\<exists>ls \<in> set lss. l \<in> set ls)"
  by (induction lss rule: spaced.induct) auto

lemma set_join: "c \<in> set (join [d] ls) \<Longrightarrow> c = d \<or> (\<exists>l \<in> set ls. c \<in> set l)"
  by (induction "[d]" ls rule: join.induct) auto

lemma serialize_block_neq_Nil:
  assumes "canonical_block b"
  shows "serialize_block b \<noteq> []"
proof -
  obtain l ls where l: "block_lines b = l # ls"
    using block_lines_neq_Nil [OF assms] by (cases "block_lines b") auto
  then have "l \<noteq> []" using block_lines_ne [OF assms] by simp
  then show ?thesis by (cases ls) (simp_all add: serialize_block_def l)
qed

lemma serialized_lines:
  assumes "list_all canonical_block blocks" "blocks \<noteq> []"
  shows "document_lines (serializeDocument blocks) = spaced (map block_lines blocks)"
proof -
  let ?ls = "spaced (map block_lines blocks)"
  have all: "list_all (\<lambda>ls. ls \<noteq> []) (map block_lines blocks)"
    using assms(1) block_lines_neq_Nil by (auto simp: list_all_iff)
  have cl: "\<forall>l \<in> set ?ls. clean l"
  proof
    fix l
    assume "l \<in> set ?ls"
    then have "l = [] \<or> (\<exists>b \<in> set blocks. l \<in> set (block_lines b))"
      using set_spaced by fastforce
    then show "clean l"
      using assms(1) block_lines_clean by (auto simp: list_all_iff clean_def)
  qed
  have "filter (\<lambda>s. s \<noteq> []) (map serialize_block blocks) = map serialize_block blocks"
    using assms(1) serialize_block_neq_Nil by (auto simp: list_all_iff filter_id_conv)
  then have "serializeDocument blocks = join [10, 10] (map (join [10]) (map block_lines blocks))"
    by (simp add: serializeDocument_def serialize_block_def [abs_def] comp_def)
  also have "\<dots> = join [10] ?ls" using all by (rule join_spaced)
  finally have ser: "serializeDocument blocks = join [10] ?ls" .
  have "13 \<notin> set (join [10] ?ls)" using cl by (auto simp: clean_def dest: set_join)
  then have "crlf_to_lf (serializeDocument blocks) = join [10] ?ls" by (simp add: ser crlf_clean)
  moreover have "?ls \<noteq> []" using all assms(2) by (intro spaced_neq_Nil) simp_all
  moreover have "\<forall>l \<in> set ?ls. 10 \<notin> set l" using cl by (simp add: clean_def)
  ultimately show ?thesis by (simp add: document_lines_def split_on_join)
qed

text \<open>C27: parsing undoes serializing: a document of headings, ordinary paragraphs, lists and calls to
  action without a separate link, whose texts are trimmed single lines, is read back as it was,
  whatever its blocks, their order and the number of list items.\<close>

theorem document_round_trip:
  assumes "list_all canonical_block blocks" "blocks \<noteq> []"
  shows "parseMarketingDocument (serializeDocument blocks) = blocks"
proof -
  have "empty_doc = base []" by (simp add: empty_doc_def base_def)
  then have "flushed (foldl doc_line empty_doc (document_lines (serializeDocument blocks))) =
      base blocks"
    using spaced_run [OF assms, of "[]"] by (simp add: serialized_lines [OF assms])
  then show ?thesis using assms(2) by (simp add: parseMarketingDocument_def base_def)
qed

lemma document_round_trip_witness:
  "parseMarketingDocument (serializeDocument
     [Heading 2 (js ''a''), UnorderedList [js ''b'', js ''c'']]) =
   [Heading 2 (js ''a''), UnorderedList [js ''b'', js ''c'']]"
proof -
  have "trim [c] = [c]" if "\<not> is_space c" for c
    using that by (intro trim_no_space) simp
  then have "list_all canonical_block [Heading 2 (js ''a''), UnorderedList [js ''b'', js ''c'']]"
    by (simp add: plain_line_def js_def is_line_terminator_def is_space_def)
  from document_round_trip [OF this] show ?thesis by simp
qed

text \<open>A call to action with a separate link does not survive: it is written as two lines, and the
  line with the link is read back as a second call to action whose text is the link itself.\<close>

theorem cta_link_becomes_second_cta:
  assumes "ordinary_line t" "cta_like t" "first_url t = None"
    and "ordinary_line u" "cta_like u" "first_url u = Some u" "trim (remove_urls u) = []"
  shows "parseMarketingDocument (serializeDocument [Cta t (Some u)]) =
    [Cta t None, Cta u (Some u)]"
proof -
  have pl: "plain_line t" "plain_line u" using assms(1,4) by (simp_all add: ordinary_line_def)
  then have ne: "t \<noteq> []" "u \<noteq> []" by (simp_all add: plain_line_def)
  have cl: "clean t" "clean u" using pl by (simp_all add: clean_plain)
  have ser: "serializeDocument [Cta t (Some u)] = t @ 10 # u"
    using ne by (simp add: serializeDocument_def serialize_block_def block_lines_def)
  have "document_lines (t @ 10 # u) = [t, u]"
    using cl by (simp add: document_lines_def crlf_clean clean_def split_on_append split_on_no_sep)
  moreover have line_t: "doc_line (base []) t = base [Cta t None]"
    using assms(1-3) pl(1)
    by (simp add: doc_line_def Let_def ordinary_line_def plain_line_def cta_block_def
        remove_urls_none push_block_def) (simp add: base_def)
  moreover have line_u: "doc_line (base [Cta t None]) u = base [Cta t None, Cta u (Some u)]"
    using assms(4-7) pl(2)
    by (simp add: doc_line_def Let_def ordinary_line_def plain_line_def cta_block_def
        push_block_def) (simp add: base_def)
  moreover have "empty_doc = base []" by (simp add: empty_doc_def base_def)
  ultimately show ?thesis
    by (simp add: ser parseMarketingDocument_def) (simp add: base_def)
qed

lemma cta_link_becomes_second_cta_witness:
  "parseMarketingDocument (serializeDocument [Cta (js ''CTA'') (Some (js ''http://a''))]) =
   [Cta (js ''CTA'') None, Cta (js ''http://a'') (Some (js ''http://a''))]"
proof -
  have t: "trim (js ''CTA'') = js ''CTA''" "trim (js ''http://a'') = js ''http://a''"
    by (rule trim_no_space, simp add: js_def is_space_def)+
  have o: "ordinary_line (js ''CTA'')" "ordinary_line (js ''http://a'')"
    unfolding ordinary_line_def plain_line_def t
    by (simp_all add: js_def is_line_terminator_def heading_text_def unordered_match_def
        ordered_match_def is_digit_def is_space_def Let_def)
  have c: "cta_like (js ''CTA'')" "cta_like (js ''http://a'')"
    by (simp_all add: cta_like_def cta_words_def js_def ascii_lower_def)
  have f: "first_url (js ''CTA'') = None" "first_url (js ''http://a'') = Some (js ''http://a'')"
    by (simp_all add: js_def url_at_def Let_def is_space_def)
  have "trim (remove_urls (js ''http://a'')) = []"
    by (simp add: js_def url_at_def Let_def is_space_def trim_eq_Nil_iff)
  then show ?thesis
    by (rule cta_link_becomes_second_cta [OF o(1) c(1) f(1) o(2) c(2) f(2)])
qed

end
