(* ===== verification/AiScores.thy ===== *)
theory AiScores
  imports AiDocument JsNumber
begin

text \<open>
  \<open>frontend/src/features/ai/lib/scores.ts\<close>: the heuristic scores of a generated text.  Ratios are
  exact rationals; \<open>lower_case\<close> is \<open>toLowerCase\<close>, used to count distinct words.
\<close>

record PerformanceScores =
  sc_arabic :: int
  sc_marketing :: int
  sc_seo :: int
  sc_readability :: int

definition is_arabic :: "nat \<Rightarrow> bool" where
  "is_arabic c \<longleftrightarrow> 1536 \<le> c \<and> c \<le> 1791"

definition score_cta_buy :: jstring where
  "score_cta_buy =
    [1575, 1588, 1578, 1585, 1610]"

definition score_cta_buy_marked :: jstring where
  "score_cta_buy_marked =
    [1575, 1588, 1578, 1585, 1616]"

definition score_cta_order :: jstring where
  "score_cta_order =
    [1575, 1591, 1604, 1576]"

definition score_cta_discover :: jstring where
  "score_cta_discover =
    [1575, 1603, 1578, 1588, 1601]"

definition score_cta_press :: jstring where
  "score_cta_press =
    [1575, 1590, 1594, 1591]"

definition CTA_RE :: "jstring \<Rightarrow> bool" where
  "CTA_RE text \<longleftrightarrow>
     list_ex (\<lambda>w. includes_sub w (ascii_lower text))
       [score_cta_buy, score_cta_buy_marked, score_cta_order, js ''shop'', js ''buy'',
        js ''order'', score_cta_discover, js ''shop now'', score_cta_press]"

text \<open>\<open>/https?:\/\/\S+/i\<close> anywhere in the text.\<close>

definition URL_RE :: "jstring \<Rightarrow> bool" where
  "URL_RE text \<longleftrightarrow> first_url (ascii_lower text) \<noteq> None"

text \<open>\<open>/^#{1,3}\s+.+/m\<close> at the start of a line; what follows the white space of a trimmed text is
  never empty.\<close>

definition heading_at :: "jstring \<Rightarrow> bool" where
  "heading_at s \<longleftrightarrow>
     (let n = length (takeWhile (\<lambda>c. c = 35) s) in
      1 \<le> n \<and> n \<le> 3 \<and> length s > n \<and> is_space (s ! n))"

fun heading_in :: "bool \<Rightarrow> jstring \<Rightarrow> bool" where
  "heading_in at_start [] = False"
| "heading_in at_start (c # s) =
     ((at_start \<and> heading_at (c # s)) \<or> heading_in (is_line_terminator c) s)"

definition HEADING_RE :: "jstring \<Rightarrow> bool" where
  "HEADING_RE text \<longleftrightarrow> heading_in True text"

definition clampScore :: "rat \<Rightarrow> int" where
  "clampScore value = max 0 (min 100 (math_round value))"

text \<open>The pieces between runs of separators that are not empty: \<open>split\<close> on one or more of them,
  then \<open>filter(Boolean)\<close>.\<close>

fun pieces :: "(nat \<Rightarrow> bool) \<Rightarrow> jstring \<Rightarrow> jstring \<Rightarrow> jstring list" where
  "pieces sep acc [] = (if acc = [] then [] else [acc])"
| "pieces sep acc (c # s) =
     (if sep c then (if acc = [] then pieces sep [] s else acc # pieces sep [] s)
      else pieces sep (acc @ [c]) s)"

definition words_of :: "jstring \<Rightarrow> jstring list" where
  "words_of text = pieces is_space [] text"

definition is_sentence_end :: "nat \<Rightarrow> bool" where
  "is_sentence_end c \<longleftrightarrow> c = 46 \<or> c = 33 \<or> c = 63 \<or> c = 1567 \<or> c = 10"

definition sentences_of :: "jstring \<Rightarrow> jstring list" where
  "sentences_of text = filter (\<lambda>part. length (trim part) > 0) (pieces is_sentence_end [] text)"

definition arabic_score :: "bool \<Rightarrow> jstring \<Rightarrow> rat" where
  "arabic_score arabic_language text =
     (let letters = filter (\<lambda>c. \<not> is_space c) text;
          arabicChars = length (filter is_arabic text);
          arabicRatio = (if length letters \<noteq> 0
            then of_nat arabicChars / of_nat (length letters) else 0)
      in of_int (if arabic_language then clampScore (arabicRatio * 100)
                 else clampScore (100 - arabicRatio * 80)))"

definition marketing_score :: "jstring \<Rightarrow> rat" where
  "marketing_score text =
     40 + (if CTA_RE text then 25 else 0) + (if URL_RE text then 20 else 0)
      + (if length (filter (\<lambda>c. c = 33 \<or> c = 65281) text) > 0 then 5 else 0)
      + (if length text > 120 then 10 else 0)"

definition seo_score :: "(jstring \<Rightarrow> jstring) \<Rightarrow> jstring \<Rightarrow> rat" where
  "seo_score lower_case text =
     (let words = words_of text; unique_size = card (set (map lower_case words)) in
      35 + (if HEADING_RE text \<or> includes_sub [10, 10] text then 20 else 0)
         + (if length words > 0
            then min 25 (of_nat unique_size / of_nat (length words) * 40) else 0)
         + (if length text \<ge> 80 \<and> length text \<le> 800 then 15 else 0))"

definition readability_score :: "jstring \<Rightarrow> rat" where
  "readability_score text =
     (let words = words_of text; sentences = sentences_of text;
          avgWords = (if length sentences > 0
            then of_nat (length words) / of_nat (length sentences)
            else of_nat (length words)) :: rat
      in 70 - (if avgWords > 28 then 20 else 0) - (if avgWords < 8 then 10 else 0)
            + (if 10 \<in> set text then 10 else 0)
            + (if length words \<ge> 40 \<and> length words \<le> 400 then 10 else 0))"

definition scoreContent :: "(jstring \<Rightarrow> jstring) \<Rightarrow> jstring \<Rightarrow> bool \<Rightarrow> PerformanceScores" where
  "scoreContent lower_case content arabic_language =
     (let text = trim content in
      if text = [] then \<lparr>sc_arabic = 0, sc_marketing = 0, sc_seo = 0, sc_readability = 0\<rparr>
      else \<lparr>sc_arabic = clampScore (arabic_score arabic_language text),
            sc_marketing = clampScore (marketing_score text),
            sc_seo = clampScore (seo_score lower_case text),
            sc_readability = clampScore (readability_score text)\<rparr>)"

lemma clampScore_id: "0 \<le> n \<Longrightarrow> n \<le> 100 \<Longrightarrow> clampScore (of_int n) = n"
  by (simp add: clampScore_def)

lemma clampScore_ge: "of_int n \<le> q \<Longrightarrow> n \<le> 100 \<Longrightarrow> n \<le> clampScore q"
  using math_round_ge [of n q] by (simp add: clampScore_def)

lemma clampScore_le: "q \<le> of_int n \<Longrightarrow> 0 \<le> n \<Longrightarrow> clampScore q \<le> n"
  using math_round_le [of q n] by (simp add: clampScore_def)

lemma clampScore_range: "0 \<le> clampScore q \<and> clampScore q \<le> 100"
  by (simp add: clampScore_def)

lemma marketing_range: "40 \<le> marketing_score text \<and> marketing_score text \<le> 100"
  by (simp add: marketing_score_def)

lemma seo_range: "35 \<le> seo_score lc text \<and> seo_score lc text \<le> 95"
proof -
  let ?w = "words_of text"
  have "0 \<le> (of_nat (card (set (map lc ?w))) / of_nat (length ?w) * 40 :: rat)" by simp
  then show ?thesis by (auto simp: seo_score_def Let_def min_def)
qed

lemma readability_range: "50 \<le> readability_score text \<and> readability_score text \<le> 90"
  by (auto simp: readability_score_def Let_def)

text \<open>C36: the scores stay on their scale: all four lie between 0 and 100; an empty text scores 0
  throughout, and any other text gets at least 40 for marketing, 35 for SEO and 50 for
  readability, and at most 95 and 90 for the latter two; an Arabic text without one Arabic
  letter gets 0 for Arabic, and in another language 100.\<close>

theorem scoreContent_bounds:
  "let s = scoreContent lc content ar
   in {sc_arabic s, sc_marketing s, sc_seo s, sc_readability s} \<subseteq> {0..100} \<and>
      (trim content = [] \<longrightarrow> {sc_arabic s, sc_marketing s, sc_seo s, sc_readability s} = {0}) \<and>
      (trim content \<noteq> [] \<longrightarrow>
         40 \<le> sc_marketing s \<and> 35 \<le> sc_seo s \<and> sc_seo s \<le> 95 \<and>
         50 \<le> sc_readability s \<and> sc_readability s \<le> 90 \<and>
         (list_all (\<lambda>c. \<not> is_arabic c) (trim content) \<longrightarrow>
            sc_arabic s = (if ar then 0 else 100)))"
proof -
  have range: "clampScore q \<in> {0..100}" for q by (simp add: clampScore_range)
  have m: "40 \<le> clampScore (marketing_score t)" for t
    using marketing_range [of t] by (intro clampScore_ge) simp_all
  have s: "35 \<le> clampScore (seo_score lc t)" "clampScore (seo_score lc t) \<le> 95" for t
    using seo_range [of lc t] by (auto intro: clampScore_ge clampScore_le)
  have r: "50 \<le> clampScore (readability_score t)" "clampScore (readability_score t) \<le> 90" for t
    using readability_range [of t] by (auto intro: clampScore_ge clampScore_le)
  have none: "clampScore (arabic_score ar t) = (if ar then 0 else 100)"
    if "list_all (\<lambda>c. \<not> is_arabic c) t" for t
  proof -
    have "filter is_arabic t = []" using that by (auto simp: list_all_iff filter_empty_conv)
    then show ?thesis
      using clampScore_id [of 0] clampScore_id [of 100] by (simp add: arabic_score_def Let_def)
  qed
  show ?thesis
    unfolding Let_def scoreContent_def using m s r none range
    by (cases "trim content = []") simp_all
qed

lemma scoreContent_bounds_witness:
  "40 \<le> sc_marketing (scoreContent ascii_lower (js ''buy'') True)"
proof -
  have "trim (js ''buy'') \<noteq> []" by (simp add: trim_eq_Nil_iff js_def is_space_def)
  then show ?thesis using scoreContent_bounds [of ascii_lower "js ''buy''" True] by (simp add: Let_def)
qed

end
