(* ===== verification/AiSession.thy ===== *)
theory AiSession
  imports AiScores Reducers
begin

text \<open>
  The content studio's session: \<open>features/ai/types/api.ts\<close>, \<open>types/session.ts\<close>,
  \<open>lib/session.ts\<close> and the updaters of \<open>hooks/useContentSession.ts\<close>.  A random UUID and the
  time an updater reads are arguments of the action that reads them.
\<close>

section \<open>types/api.ts\<close>

datatype AIProvider = OpenAI | Gemini

datatype ContentType = Social | Description | Telegram | FacebookAd | Blog | Email

datatype ToneProfile =
  Professional | Friendly | Luxury | Technical | Urgent | Minimal | Persuasive | Funny

datatype ContentLanguage = Ar | En | Fr | De

datatype ContentLength = Short | Medium | Long

datatype InstructionModifier = AddEmojis | StrengthenCta | Shorten | IncreaseUrgency | ImproveSeo

record GenerateContentInput =
  gi_provider :: "AIProvider option"
  gi_content_type :: ContentType
  gi_tone :: ToneProfile
  gi_language :: ContentLanguage
  gi_length :: ContentLength
  gi_modifiers :: "InstructionModifier list"
  gi_product_id :: "jstring option"
  gi_url :: "jstring option"

record GenerateContentResponse =
  gr_product_id :: "jstring option"
  gr_source_url :: "jstring option"
  gr_provider :: AIProvider
  gr_content :: jstring
  gr_content_type :: ContentType
  gr_tone :: ToneProfile
  gr_language :: ContentLanguage
  gr_length :: ContentLength

section \<open>types/session.ts\<close>

record SessionConfig =
  cf_contentType :: ContentType
  cf_tone :: ToneProfile
  cf_language :: ContentLanguage
  cf_length :: ContentLength
  cf_provider :: "AIProvider option"

datatype source_type = SourceProduct | SourceUrl

record ProductContextState =
  pc_sourceType :: source_type
  pc_productId :: "jstring option"
  pc_productLabel :: "jstring option"
  pc_url :: "jstring option"
  pc_imageUrl :: "jstring option"
  pc_affiliateUrl :: "jstring option"

datatype ContentVariantOrigin = ByGenerate | ByVariant | ByRestore | ByManualEdit

record ContentVariant =
  v_id :: jstring
  v_index :: nat
  v_createdAt :: jstring
  v_content :: jstring
  v_structured :: "DocumentBlock list"
  v_scores :: PerformanceScores
  v_config :: SessionConfig
  v_modifiers :: "InstructionModifier list"
  v_provider :: "AIProvider option"
  v_productId :: "jstring option"
  v_sourceUrl :: "jstring option"
  v_origin :: ContentVariantOrigin

datatype distribution = Exported | QueuedOut | PublishedOut | DraftSaved

datatype ContentSessionEvent =
  SessionCreated jstring
| ConfigChanged jstring SessionConfig
| ModifierToggled jstring InstructionModifier bool
| VariantGenerated jstring jstring
| VariantActivated jstring jstring
| VariantRestored jstring jstring jstring
| Distributed distribution jstring jstring

record ContentSession =
  cs_id :: jstring
  cs_createdAt :: jstring
  cs_updatedAt :: jstring
  cs_productContext :: ProductContextState
  cs_config :: SessionConfig
  cs_modifiers :: "InstructionModifier list"
  cs_variants :: "ContentVariant list"
  cs_activeVariantId :: "jstring option"
  cs_history :: "ContentSessionEvent list"
  cs_suggestionsOpen :: bool
  cs_advancedOpen :: bool
  cs_compareVariantIds :: "(jstring \<times> jstring) option"

section \<open>lib/session.ts\<close>

definition default_config :: SessionConfig where
  "default_config =
     \<lparr>cf_contentType = Telegram, cf_tone = Persuasive, cf_language = Ar, cf_length = Medium,
      cf_provider = None\<rparr>"

definition default_context :: ProductContextState where
  "default_context =
     \<lparr>pc_sourceType = SourceUrl, pc_productId = None, pc_productLabel = None, pc_url = Some [],
      pc_imageUrl = None, pc_affiliateUrl = None\<rparr>"

definition createEmptySession ::
  "jstring \<Rightarrow> jstring \<Rightarrow> ProductContextState option \<Rightarrow> ContentSession" where
  "createEmptySession uuid time seed =
     \<lparr>cs_id = uuid, cs_createdAt = time, cs_updatedAt = time,
      cs_productContext = or_default seed default_context, cs_config = default_config,
      cs_modifiers = [], cs_variants = [], cs_activeVariantId = None,
      cs_history = [SessionCreated time], cs_suggestionsOpen = False, cs_advancedOpen = False,
      cs_compareVariantIds = None\<rparr>"

text \<open>What \<open>JSON.parse\<close> makes of the stored text: every key may be missing.\<close>

record stored_config =
  so_contentType :: "ContentType option"
  so_tone :: "ToneProfile option"
  so_language :: "ContentLanguage option"
  so_length :: "ContentLength option"
  so_provider :: "AIProvider option option"

record stored_context =
  so_sourceType :: "source_type option"
  so_productId :: "jstring option option"
  so_productLabel :: "jstring option option"
  so_url :: "jstring option option"
  so_imageUrl :: "jstring option option"
  so_affiliateUrl :: "jstring option option"

record stored_session =
  so_id :: "jstring option"
  so_createdAt :: "jstring option"
  so_updatedAt :: "jstring option"
  so_context :: "stored_context option"
  so_config :: "stored_config option"
  so_modifiers :: "InstructionModifier list option"
  so_variants :: "ContentVariant list option"
  so_activeVariantId :: "jstring option option"
  so_history :: "ContentSessionEvent list option"
  so_suggestionsOpen :: "bool option"
  so_advancedOpen :: "bool option"
  so_compareVariantIds :: "(jstring \<times> jstring) option option"

definition merge_config :: "SessionConfig \<Rightarrow> stored_config option \<Rightarrow> SessionConfig" where
  "merge_config d p = (case p of
     None \<Rightarrow> d
   | Some c \<Rightarrow>
       \<lparr>cf_contentType = or_default (so_contentType c) (cf_contentType d),
        cf_tone = or_default (so_tone c) (cf_tone d),
        cf_language = or_default (so_language c) (cf_language d),
        cf_length = or_default (so_length c) (cf_length d),
        cf_provider = or_default (so_provider c) (cf_provider d)\<rparr>)"

definition merge_context ::
  "ProductContextState \<Rightarrow> stored_context option \<Rightarrow> ProductContextState" where
  "merge_context d p = (case p of
     None \<Rightarrow> d
   | Some c \<Rightarrow>
       \<lparr>pc_sourceType = or_default (so_sourceType c) (pc_sourceType d),
        pc_productId = or_default (so_productId c) (pc_productId d),
        pc_productLabel = or_default (so_productLabel c) (pc_productLabel d),
        pc_url = or_default (so_url c) (pc_url d),
        pc_imageUrl = or_default (so_imageUrl c) (pc_imageUrl d),
        pc_affiliateUrl = or_default (so_affiliateUrl c) (pc_affiliateUrl d)\<rparr>)"

text \<open>\<open>raw\<close> is the stored item, \<open>json_parse\<close> the parser (\<open>None\<close> where it throws).\<close>

definition loadContentSession ::
  "(jstring \<Rightarrow> stored_session option) \<Rightarrow> jstring \<Rightarrow> jstring \<Rightarrow> jstring option \<Rightarrow> ContentSession" where
  "loadContentSession json_parse uuid time raw =
     (let empty = createEmptySession uuid time None in
      if \<not> truthy raw then empty
      else (case json_parse (the raw) of
        None \<Rightarrow> empty
      | Some p \<Rightarrow>
          \<lparr>cs_id = or_default (so_id p) (cs_id empty),
           cs_createdAt = or_default (so_createdAt p) (cs_createdAt empty),
           cs_updatedAt = or_default (so_updatedAt p) (cs_updatedAt empty),
           cs_productContext = merge_context (cs_productContext empty) (so_context p),
           cs_config = merge_config (cs_config empty) (so_config p),
           cs_modifiers = or_default (so_modifiers p) [],
           cs_variants = or_default (so_variants p) [],
           cs_activeVariantId = or_default (so_activeVariantId p) (cs_activeVariantId empty),
           cs_history = or_default (so_history p) [],
           cs_suggestionsOpen = or_default (so_suggestionsOpen p) (cs_suggestionsOpen empty),
           cs_advancedOpen = or_default (so_advancedOpen p) (cs_advancedOpen empty),
           cs_compareVariantIds =
             or_default (so_compareVariantIds p) (cs_compareVariantIds empty)\<rparr>))"

text \<open>What is written: every key of the session.\<close>

definition stored_form :: "ContentSession \<Rightarrow> stored_session" where
  "stored_form s =
     \<lparr>so_id = Some (cs_id s), so_createdAt = Some (cs_createdAt s),
      so_updatedAt = Some (cs_updatedAt s),
      so_context = Some
        \<lparr>so_sourceType = Some (pc_sourceType (cs_productContext s)),
         so_productId = Some (pc_productId (cs_productContext s)),
         so_productLabel = Some (pc_productLabel (cs_productContext s)),
         so_url = Some (pc_url (cs_productContext s)),
         so_imageUrl = Some (pc_imageUrl (cs_productContext s)),
         so_affiliateUrl = Some (pc_affiliateUrl (cs_productContext s))\<rparr>,
      so_config = Some
        \<lparr>so_contentType = Some (cf_contentType (cs_config s)), so_tone = Some (cf_tone (cs_config s)),
         so_language = Some (cf_language (cs_config s)),
         so_length = Some (cf_length (cs_config s)),
         so_provider = Some (cf_provider (cs_config s))\<rparr>,
      so_modifiers = Some (cs_modifiers s), so_variants = Some (cs_variants s),
      so_activeVariantId = Some (cs_activeVariantId s), so_history = Some (cs_history s),
      so_suggestionsOpen = Some (cs_suggestionsOpen s),
      so_advancedOpen = Some (cs_advancedOpen s),
      so_compareVariantIds = Some (cs_compareVariantIds s)\<rparr>"

definition saveContentSession :: "(stored_session \<Rightarrow> jstring) \<Rightarrow> ContentSession \<Rightarrow> jstring option" where
  "saveContentSession json_stringify s = Some (json_stringify (stored_form s))"

text \<open>A session that was saved is restored as it was, for any JSON codec that reads back what it
  wrote; when nothing, or nothing readable, is stored, the studio starts from an empty session.\<close>

theorem saved_session_restored:
  assumes "json_parse (json_stringify (stored_form s)) = Some (stored_form s)"
    and "json_stringify (stored_form s) \<noteq> []"
  shows "loadContentSession json_parse uuid time (saveContentSession json_stringify s) = s"
    and "loadContentSession json_parse uuid time None = createEmptySession uuid time None"
    and "json_parse broken = None \<Longrightarrow>
      loadContentSession json_parse uuid time (Some broken) = createEmptySession uuid time None"
  using assms
  by (simp_all add: loadContentSession_def saveContentSession_def Let_def stored_form_def
      merge_config_def merge_context_def)

lemma saved_session_restored_witness:
  "loadContentSession (\<lambda>_. Some (stored_form (createEmptySession (js ''u'') (js ''t'') None)))
     (js ''x'') (js ''y'')
     (saveContentSession (\<lambda>_. js ''{}'') (createEmptySession (js ''u'') (js ''t'') None)) =
   createEmptySession (js ''u'') (js ''t'') None"
  by (rule saved_session_restored(1)) simp_all

section \<open>useContentSession\<close>

definition is_arabic_language :: "ContentLanguage \<Rightarrow> bool" where
  "is_arabic_language l \<longleftrightarrow> l = Ar"

definition touch :: "jstring \<Rightarrow> ContentSession \<Rightarrow> ContentSession" where
  "touch time s = s\<lparr>cs_updatedAt := time\<rparr>"

definition initial_session ::
  "ContentSession \<Rightarrow> jstring option \<Rightarrow> jstring option \<Rightarrow> ContentSession" where
  "initial_session loaded productId url =
     (if truthy productId then
        loaded\<lparr>cs_productContext :=
          \<lparr>pc_sourceType = SourceProduct, pc_productId = productId,
           pc_productLabel = pc_productLabel (cs_productContext loaded), pc_url = None,
           pc_imageUrl = pc_imageUrl (cs_productContext loaded),
           pc_affiliateUrl = pc_affiliateUrl (cs_productContext loaded)\<rparr>\<rparr>
      else if truthy url then
        loaded\<lparr>cs_productContext :=
          \<lparr>pc_sourceType = SourceUrl, pc_productId = None, pc_productLabel = None, pc_url = url,
           pc_imageUrl = None, pc_affiliateUrl = None\<rparr>\<rparr>
      else loaded)"

definition activeVariant :: "ContentSession \<Rightarrow> ContentVariant option" where
  "activeVariant s = List.find (\<lambda>item. Some (v_id item) = cs_activeVariantId s) (cs_variants s)"

definition buildVariant ::
  "(jstring \<Rightarrow> jstring) \<Rightarrow> jstring \<Rightarrow> jstring \<Rightarrow> ContentSession \<Rightarrow> GenerateContentResponse
     \<Rightarrow> ContentVariantOrigin \<Rightarrow> ContentVariant" where
  "buildVariant lower_case uuid time s response origin =
     \<lparr>v_id = uuid, v_index = length (cs_variants s) + 1, v_createdAt = time,
      v_content = gr_content response,
      v_structured = parseMarketingDocument (gr_content response),
      v_scores = scoreContent lower_case (gr_content response)
                   (is_arabic_language (cf_language (cs_config s))),
      v_config = cs_config s, v_modifiers = cs_modifiers s,
      v_provider = Some (gr_provider response), v_productId = gr_product_id response,
      v_sourceUrl = gr_source_url response, v_origin = origin\<rparr>"

definition updateProductContext :: "jstring \<Rightarrow> stored_context \<Rightarrow> ContentSession \<Rightarrow> ContentSession" where
  "updateProductContext time patch s =
     touch time (s\<lparr>cs_productContext := merge_context (cs_productContext s) (Some patch)\<rparr>)"

definition updateConfig :: "jstring \<Rightarrow> stored_config \<Rightarrow> ContentSession \<Rightarrow> ContentSession" where
  "updateConfig time patch s =
     (let config = merge_config (cs_config s) (Some patch) in
      touch time (s\<lparr>cs_config := config, cs_history := cs_history s @ [ConfigChanged time config]\<rparr>))"

definition toggleModifier :: "jstring \<Rightarrow> InstructionModifier \<Rightarrow> ContentSession \<Rightarrow> ContentSession" where
  "toggleModifier time modifier s =
     (let enabled = (modifier \<notin> set (cs_modifiers s));
          modifiers = (if enabled then cs_modifiers s @ [modifier]
                       else filter (\<lambda>item. item \<noteq> modifier) (cs_modifiers s))
      in touch time (s\<lparr>cs_modifiers := modifiers,
                       cs_history := cs_history s @ [ModifierToggled time modifier enabled]\<rparr>))"

definition activateVariant :: "jstring \<Rightarrow> jstring \<Rightarrow> ContentSession \<Rightarrow> ContentSession" where
  "activateVariant time variantId s =
     (if \<not> list_ex (\<lambda>item. v_id item = variantId) (cs_variants s) then s
      else touch time (s\<lparr>cs_activeVariantId := Some variantId,
                         cs_history := cs_history s @ [VariantActivated time variantId]\<rparr>))"

definition appendVariantFromResponse ::
  "(jstring \<Rightarrow> jstring) \<Rightarrow> jstring \<Rightarrow> jstring \<Rightarrow> GenerateContentResponse \<Rightarrow> ContentVariantOrigin
     \<Rightarrow> ContentSession \<Rightarrow> ContentSession" where
  "appendVariantFromResponse lower_case uuid time response origin s =
     (let variant = buildVariant lower_case uuid time s response origin in
      touch time (s\<lparr>cs_variants := cs_variants s @ [variant],
                    cs_activeVariantId := Some (v_id variant),
                    cs_history := cs_history s @
                      [VariantGenerated time (v_id variant), VariantActivated time (v_id variant)]\<rparr>))"

definition updateActiveContent ::
  "(jstring \<Rightarrow> jstring) \<Rightarrow> jstring \<Rightarrow> jstring \<Rightarrow> ContentSession \<Rightarrow> ContentSession" where
  "updateActiveContent lower_case time content s =
     (if \<not> truthy (cs_activeVariantId s) then s
      else touch time (s\<lparr>cs_variants := map (\<lambda>variant.
             if Some (v_id variant) = cs_activeVariantId s
             then variant\<lparr>v_content := content,
                          v_structured := parseMarketingDocument content,
                          v_scores := scoreContent lower_case content
                                        (is_arabic_language (cf_language (cs_config s))),
                          v_origin := ByManualEdit\<rparr>
             else variant) (cs_variants s)\<rparr>))"

definition restoreVariant :: "jstring \<Rightarrow> jstring \<Rightarrow> jstring \<Rightarrow> ContentSession \<Rightarrow> ContentSession" where
  "restoreVariant uuid time fromVariantId s =
     (case List.find (\<lambda>item. v_id item = fromVariantId) (cs_variants s) of
        None \<Rightarrow> s
      | Some source \<Rightarrow>
          let restored = source\<lparr>v_id := uuid, v_index := length (cs_variants s) + 1,
                                v_createdAt := time, v_origin := ByRestore\<rparr>
          in touch time (s\<lparr>cs_variants := cs_variants s @ [restored],
                           cs_activeVariantId := Some (v_id restored),
                           cs_history := cs_history s @
                             [VariantRestored time fromVariantId (v_id restored),
                              VariantActivated time (v_id restored)]\<rparr>))"

definition logDistribution ::
  "jstring \<Rightarrow> distribution \<Rightarrow> jstring \<Rightarrow> ContentSession \<Rightarrow> ContentSession" where
  "logDistribution time kind variantId s =
     touch time (s\<lparr>cs_history := cs_history s @ [Distributed kind time variantId]\<rparr>)"

definition buildGeneratePayload :: "ContentSession \<Rightarrow> GenerateContentInput option" where
  "buildGeneratePayload s =
     (let config = cs_config s; context = cs_productContext s;
          payload = \<lparr>gi_provider = cf_provider config, gi_content_type = cf_contentType config,
                     gi_tone = cf_tone config, gi_language = cf_language config,
                     gi_length = cf_length config, gi_modifiers = cs_modifiers s,
                     gi_product_id = None, gi_url = None\<rparr>
      in if pc_sourceType context = SourceProduct \<and> truthy (pc_productId context)
         then Some (payload\<lparr>gi_product_id := pc_productId context\<rparr>)
         else if truthy (map_option trim (pc_url context))
         then Some (payload\<lparr>gi_url := map_option trim (pc_url context)\<rparr>)
         else None)"

text \<open>Every updater as an action.\<close>

datatype session_update =
  UpdateContext jstring stored_context
| UpdateConfig jstring stored_config
| ToggleModifier jstring InstructionModifier
| SetSuggestionsOpen jstring bool
| SetAdvancedOpen jstring bool
| SetCompare jstring "(jstring \<times> jstring) option"
| Activate jstring jstring
| AppendVariant jstring jstring GenerateContentResponse ContentVariantOrigin
| UpdateContent jstring jstring
| Restore jstring jstring jstring
| LogDistribution jstring distribution jstring
| ResetStudio jstring jstring

definition studio_step ::
  "(jstring \<Rightarrow> jstring) \<Rightarrow> ContentSession \<Rightarrow> session_update \<Rightarrow> ContentSession" where
  "studio_step lower_case s a = (case a of
     UpdateContext t p \<Rightarrow> updateProductContext t p s
   | UpdateConfig t p \<Rightarrow> updateConfig t p s
   | ToggleModifier t m \<Rightarrow> toggleModifier t m s
   | SetSuggestionsOpen t is_open \<Rightarrow> touch t (s\<lparr>cs_suggestionsOpen := is_open\<rparr>)
   | SetAdvancedOpen t is_open \<Rightarrow> touch t (s\<lparr>cs_advancedOpen := is_open\<rparr>)
   | SetCompare t ids \<Rightarrow> touch t (s\<lparr>cs_compareVariantIds := ids\<rparr>)
   | Activate t i \<Rightarrow> activateVariant t i s
   | AppendVariant uuid t r origin \<Rightarrow> appendVariantFromResponse lower_case uuid t r origin s
   | UpdateContent t content \<Rightarrow> updateActiveContent lower_case t content s
   | Restore uuid t i \<Rightarrow> restoreVariant uuid t i s
   | LogDistribution t kind i \<Rightarrow> logDistribution t kind i s
   | ResetStudio uuid t \<Rightarrow> createEmptySession uuid t None)"

section \<open>The invariant of the studio\<close>

text \<open>Random UUIDs are new: an action that draws one draws an id that no variant has.\<close>

definition studio_ok :: "ContentSession \<Rightarrow> session_update \<Rightarrow> bool" where
  "studio_ok s a = (case a of
     AppendVariant uuid _ _ _ \<Rightarrow> uuid \<noteq> [] \<and> uuid \<notin> set (map v_id (cs_variants s))
   | Restore uuid _ _ \<Rightarrow> uuid \<noteq> [] \<and> uuid \<notin> set (map v_id (cs_variants s))
   | _ \<Rightarrow> True)"

definition studio_inv :: "ContentSession \<Rightarrow> bool" where
  "studio_inv s \<longleftrightarrow>
     distinct (map v_id (cs_variants s)) \<and> [] \<notin> set (map v_id (cs_variants s)) \<and>
     map v_index (cs_variants s) = [1..<Suc (length (cs_variants s))] \<and>
     (case cs_activeVariantId s of
        None \<Rightarrow> cs_variants s = []
      | Some i \<Rightarrow> i \<in> set (map v_id (cs_variants s))) \<and>
     distinct (cs_modifiers s) \<and>
     list_all (\<lambda>v. v_structured v = parseMarketingDocument (v_content v)) (cs_variants s)"

text \<open>An update that leaves the variants, the active id and the modifiers alone.\<close>

lemma studio_inv_frame:
  "studio_inv s \<Longrightarrow> cs_variants s' = cs_variants s \<Longrightarrow>
     cs_activeVariantId s' = cs_activeVariantId s \<Longrightarrow> cs_modifiers s' = cs_modifiers s \<Longrightarrow>
     studio_inv s'"
  by (simp add: studio_inv_def split: option.splits)

lemma touch_keeps [simp]:
  "cs_variants (touch t s) = cs_variants s"
  "cs_activeVariantId (touch t s) = cs_activeVariantId s"
  "cs_modifiers (touch t s) = cs_modifiers s" "cs_history (touch t s) = cs_history s"
  by (simp_all add: touch_def)

lemma studio_inv_add:
  assumes "studio_inv s" "v_id v = uuid" "uuid \<noteq> []" "uuid \<notin> set (map v_id (cs_variants s))"
    and "v_index v = length (cs_variants s) + 1"
    and "v_structured v = parseMarketingDocument (v_content v)"
    and "cs_variants s' = cs_variants s @ [v]" "cs_activeVariantId s' = Some uuid"
    and "cs_modifiers s' = cs_modifiers s"
  shows "studio_inv s'"
  using assms by (auto simp: studio_inv_def)

lemma activate_inv: "studio_inv s \<Longrightarrow> studio_inv (activateVariant t i s)"
  by (auto simp: activateVariant_def studio_inv_def list_ex_iff split: option.splits)

lemma update_content_inv:
  assumes "studio_inv s"
  shows "studio_inv (updateActiveContent lc t content s)"
proof -
  let ?f = "\<lambda>variant. if Some (v_id variant) = cs_activeVariantId s
             then variant\<lparr>v_content := content,
                          v_structured := parseMarketingDocument content,
                          v_scores := scoreContent lc content
                                        (is_arabic_language (cf_language (cs_config s))),
                          v_origin := ByManualEdit\<rparr>
             else variant"
  have ids: "map v_id (map ?f vs) = map v_id vs" and idx: "map v_index (map ?f vs) = map v_index vs"
    for vs by (induction vs) auto
  have doc: "list_all (\<lambda>v. v_structured v = parseMarketingDocument (v_content v)) (map ?f (cs_variants s))"
    using assms by (auto simp: studio_inv_def list_all_iff)
  show ?thesis
  proof (cases "truthy (cs_activeVariantId s)")
    case True
    then have v: "cs_variants (updateActiveContent lc t content s) = map ?f (cs_variants s)"
      "cs_activeVariantId (updateActiveContent lc t content s) = cs_activeVariantId s"
      "cs_modifiers (updateActiveContent lc t content s) = cs_modifiers s"
      by (simp_all add: updateActiveContent_def)
    show ?thesis
      using assms doc unfolding studio_inv_def v ids idx by (simp split: option.splits)
  next
    case False
    then show ?thesis using assms by (simp add: updateActiveContent_def)
  qed
qed

lemma restore_inv:
  assumes "studio_inv s" "uuid \<noteq> []" "uuid \<notin> set (map v_id (cs_variants s))"
  shows "studio_inv (restoreVariant uuid t i s)"
proof (cases "List.find (\<lambda>item. v_id item = i) (cs_variants s)")
  case None
  then show ?thesis using assms by (simp add: restoreVariant_def)
next
  case (Some source)
  then have "source \<in> set (cs_variants s)" using find_Some_prop by fastforce
  then have "v_structured source = parseMarketingDocument (v_content source)"
    using assms(1) by (simp add: studio_inv_def list_all_iff)
  then show ?thesis
    using Some
    by (intro studio_inv_add [OF assms(1) _ assms(2,3),
          of "source\<lparr>v_id := uuid, v_index := length (cs_variants s) + 1,
              v_createdAt := t, v_origin := ByRestore\<rparr>"])
      (simp_all add: restoreVariant_def Let_def)
qed

lemma studio_step_inv:
  assumes "studio_inv s" "studio_ok s a"
  shows "studio_inv (studio_step lc s a)"
proof (cases a)
  case (ToggleModifier t m)
  then show ?thesis
    using assms by (auto simp: studio_step_def toggleModifier_def Let_def studio_inv_def
        split: option.splits)
next
  case (Activate t i)
  then show ?thesis using assms activate_inv by (simp add: studio_step_def)
next
  case (AppendVariant uuid t r origin)
  then show ?thesis
    using assms
    by (auto intro!: studio_inv_add [OF assms(1), of "buildVariant lc uuid t s r origin" uuid]
        simp: studio_step_def studio_ok_def appendVariantFromResponse_def Let_def buildVariant_def)
next
  case (UpdateContent t content)
  then show ?thesis using assms update_content_inv by (simp add: studio_step_def)
next
  case (Restore uuid t i)
  then show ?thesis using assms restore_inv by (simp add: studio_step_def studio_ok_def)
next
  case (ResetStudio uuid t)
  then show ?thesis by (simp add: studio_step_def createEmptySession_def studio_inv_def)
qed (use studio_inv_frame [OF assms(1)] in \<open>simp_all add: studio_step_def
      updateProductContext_def updateConfig_def Let_def logDistribution_def\<close>)

interpretation studio: state_machine "studio_step lc" studio_ok studio_inv for lc
  by unfold_locales (rule studio_step_inv)

text \<open>The history of the session is only ever appended to, until the studio is reset.\<close>

definition keeps_history :: "session_update \<Rightarrow> bool" where
  "keeps_history a = (case a of ResetStudio _ _ \<Rightarrow> False | _ \<Rightarrow> True)"

lemma studio_history:
  "keeps_history a \<Longrightarrow> \<exists>new. cs_history (studio_step lc s a) = cs_history s @ new"
  by (cases a)
    (auto simp: keeps_history_def studio_step_def updateProductContext_def updateConfig_def
      toggleModifier_def activateVariant_def appendVariantFromResponse_def
      updateActiveContent_def restoreVariant_def logDistribution_def Let_def
      split: option.splits)

interpretation studio_history: growing_log "studio_step lc" keeps_history cs_history for lc
  by unfold_locales (rule studio_history)

text \<open>Through any sequence of edits the studio's session stays consistent: variants have distinct
  ids and are numbered 1 to n in order; a variant is active exactly when there is one, and it is
  one of the session's; no instruction is chosen twice; and the structured form of each variant
  is the parse of its text.\<close>

theorem content_session_invariant:
  assumes "admissible (studio_step lc) studio_ok (createEmptySession uuid time None) updates"
  shows "let s = run (studio_step lc) (createEmptySession uuid time None) updates
    in distinct (map v_id (cs_variants s)) \<and>
       map v_index (cs_variants s) = [1..<Suc (length (cs_variants s))] \<and>
       (cs_activeVariantId s = None \<longleftrightarrow> cs_variants s = []) \<and>
       (activeVariant s = None \<longleftrightarrow> cs_variants s = []) \<and>
       distinct (cs_modifiers s) \<and>
       (\<forall>v \<in> set (cs_variants s). v_structured v = parseMarketingDocument (v_content v))"
proof -
  have "studio_inv (createEmptySession uuid time None)"
    by (simp add: createEmptySession_def studio_inv_def)
  then have inv: "studio_inv (run (studio_step lc) (createEmptySession uuid time None) updates)"
    using assms by (rule studio.run_inv)
  have act: "activeVariant s = None \<longleftrightarrow> cs_variants s = []" if "studio_inv s" for s
    using that by (auto simp: activeVariant_def studio_inv_def find_None_iff split: option.splits)
  show ?thesis
    using inv act [OF inv]
    by (auto simp: Let_def studio_inv_def list_all_iff split: option.splits)
qed

text \<open>Nothing that happened in the studio is forgotten: as long as it is not reset, its history
  only grows, whatever is edited, generated, restored or sent out.\<close>

theorem content_history_grows:
  assumes "\<forall>a \<in> set updates. keeps_history a"
  shows "\<exists>new. cs_history (run (studio_step lc) s updates) = cs_history s @ new"
  using assms by (rule studio_history.run_log)

text \<open>A request to generate content names exactly one source: the product when one is chosen,
  otherwise the link, trimmed and not blank; without either no request is made.\<close>

theorem buildGeneratePayload_one_source:
  "(case buildGeneratePayload s of
      Some p \<Rightarrow> (truthy (gi_product_id p) \<noteq> truthy (gi_url p)) \<and>
        (gi_product_id p = None \<or> gi_url p = None) \<and> gi_modifiers p = cs_modifiers s \<and>
        (case gi_url p of Some u \<Rightarrow> trim u = u \<and> u \<noteq> [] | None \<Rightarrow> True)
    | None \<Rightarrow> \<not> (pc_sourceType (cs_productContext s) = SourceProduct \<and>
          truthy (pc_productId (cs_productContext s))) \<and>
        \<not> truthy (map_option trim (pc_url (cs_productContext s))))"
  by (auto simp: buildGeneratePayload_def Let_def truthy_def split: option.splits)

definition sample_response :: GenerateContentResponse where
  "sample_response =
     \<lparr>gr_product_id = None, gr_source_url = None, gr_provider = OpenAI, gr_content = [],
      gr_content_type = Blog, gr_tone = Funny, gr_language = En, gr_length = Short\<rparr>"

lemma content_session_invariant_witness:
  "let s = run (studio_step ascii_lower) (createEmptySession (js ''s'') (js ''t'') None)
       [AppendVariant (js ''v1'') (js ''t1'') sample_response ByGenerate,
        Restore (js ''v2'') (js ''t2'') (js ''v1'')]
   in map v_index (cs_variants s) = [1, 2] \<and> cs_activeVariantId s = Some (js ''v2'')"
proof -
  let ?as = "[AppendVariant (js ''v1'') (js ''t1'') sample_response ByGenerate,
        Restore (js ''v2'') (js ''t2'') (js ''v1'')]"
  let ?s = "run (studio_step ascii_lower) (createEmptySession (js ''s'') (js ''t'') None) ?as"
  have ne: "js ''v1'' \<noteq> js ''v2''" by (simp add: js_def)
  have "admissible (studio_step ascii_lower) studio_ok (createEmptySession (js ''s'') (js ''t'') None) ?as"
    using ne by (simp add: studio_ok_def studio_step_def appendVariantFromResponse_def Let_def
        createEmptySession_def touch_def buildVariant_def)
  note i = content_session_invariant [OF this]
  have "length (cs_variants ?s) = 2 \<and> cs_activeVariantId ?s = Some (js ''v2'')"
    by (simp add: studio_step_def appendVariantFromResponse_def Let_def restoreVariant_def
        createEmptySession_def touch_def buildVariant_def)
  with i show ?thesis by (simp add: Let_def upt_rec [of "Suc 0"] upt_rec [of 2] numeral_2_eq_2)
qed

lemma content_history_grows_witness:
  "\<exists>new. cs_history (run (studio_step ascii_lower) (createEmptySession (js ''s'') (js ''t'') None)
      [ToggleModifier (js ''t1'') Shorten]) = [SessionCreated (js ''t'')] @ new"
proof -
  have "\<forall>a \<in> set [ToggleModifier (js ''t1'') Shorten]. keeps_history a"
    by (simp add: keeps_history_def)
  from content_history_grows [OF this, of ascii_lower "createEmptySession (js ''s'') (js ''t'') None"]
  show ?thesis by (simp add: createEmptySession_def)
qed

end
