(* ===== verification/AiQueue.thy ===== *)
theory AiQueue
  imports QueueModel
begin

text \<open>
  What leaves the content studio: the body of the create request for the publishing queue
  (\<open>frontend/src/features/ai/lib/queue-payload.ts\<close>) and the exported file (\<open>lib/export.ts\<close>).
\<close>

section \<open>queue-payload.ts\<close>

definition DEFAULT_AFFILIATE_BUTTON_TEXT :: jstring where
  "DEFAULT_AFFILIATE_BUTTON_TEXT =
    [1575, 1588, 1578, 1585, 1610, 32, 1575, 1604, 1570, 1606]"

record affiliate_cta =
  cta_button_text :: "jstring field"
  cta_button_url :: "jstring field"

definition resolveAffiliateCta :: "jstring option \<Rightarrow> affiliate_cta" where
  "resolveAffiliateCta affiliateUrl =
     (if \<not> truthy affiliateUrl then \<lparr>cta_button_text = Absent, cta_button_url = Absent\<rparr>
      else \<lparr>cta_button_text = Given DEFAULT_AFFILIATE_BUTTON_TEXT,
            cta_button_url = Given (the affiliateUrl)\<rparr>)"

record ai_queue_input =
  aq_content :: jstring
  aq_status :: QueueStatus
  aq_productId :: "jstring option"
  aq_title :: "jstring option"
  aq_channelId :: "jstring option"
  aq_imageUrl :: "jstring option"
  aq_affiliateUrl :: "jstring option"
  aq_scheduledAt :: "jstring option"

text \<open>\<open>...(x ? { key: x } : {})\<close>\<close>

definition when_truthy :: "jstring option \<Rightarrow> jstring field" where
  "when_truthy v = (if truthy v then Given (the v) else Absent)"

definition buildAiQueueCreateInput :: "ai_queue_input \<Rightarrow> QueueUpdate" where
  "buildAiQueueCreateInput i =
     (let cta = resolveAffiliateCta (aq_affiliateUrl i) in
      no_update
        \<lparr>u_content := Given (aq_content i), u_status := Given (aq_status i),
         u_product_id := when_truthy (aq_productId i), u_title := when_truthy (aq_title i),
         u_channel_id := when_truthy (aq_channelId i), u_image_url := when_truthy (aq_imageUrl i),
         u_scheduled_at := when_truthy (aq_scheduledAt i),
         u_button_text := cta_button_text cta, u_button_url := cta_button_url cta\<rparr>)"

lemma when_truthy_simps [simp]:
  "when_truthy None = Absent" "when_truthy (Some []) = Absent" "x \<noteq> [] \<Longrightarrow> when_truthy (Some x) = Given x"
  by (simp_all add: when_truthy_def)

section \<open>export.ts\<close>

definition replace_char :: "nat \<Rightarrow> jstring \<Rightarrow> jstring \<Rightarrow> jstring" where
  "replace_char c r s = concat (map (\<lambda>d. if d = c then r else [d]) s)"

definition escapeHtml :: "jstring \<Rightarrow> jstring" where
  "escapeHtml value =
     replace_char 62 (js ''&gt;'') (replace_char 60 (js ''&lt;'') (replace_char 38 (js ''&amp;'') value))"

datatype export_format = Txt | Md | Html

fun format_text :: "export_format \<Rightarrow> jstring" where
  "format_text Txt = js ''txt''"
| "format_text Md = js ''md''"
| "format_text Html = js ''html''"

definition html_before_title :: jstring where
  "html_before_title =
    [60, 33, 100, 111, 99, 116, 121, 112, 101, 32, 104, 116, 109, 108, 62, 60, 104, 116, 109,
     108, 32, 108, 97, 110, 103, 61, 34, 97, 114, 34, 32, 100, 105, 114, 61, 34, 114, 116,
     108, 34, 62, 60, 109, 101, 116, 97, 32, 99, 104, 97, 114, 115, 101, 116, 61, 34, 117,
     116, 102, 45, 56, 34, 62, 60, 116, 105, 116, 108, 101, 62]"

definition html_before_content :: jstring where
  "html_before_content =
    [60, 47, 116, 105, 116, 108, 101, 62, 60, 98, 111, 100, 121, 62, 60, 112, 114, 101, 32,
     115, 116, 121, 108, 101, 61, 34, 119, 104, 105, 116, 101, 45, 115, 112, 97, 99, 101, 58,
     112, 114, 101, 45, 119, 114, 97, 112, 59, 102, 111, 110, 116, 45, 102, 97, 109, 105,
     108, 121, 58, 115, 97, 110, 115, 45, 115, 101, 114, 105, 102, 34, 62]"

definition html_after_content :: jstring where
  "html_after_content =
    [60, 47, 112, 114, 101, 62, 60, 47, 98, 111, 100, 121, 62, 60, 47, 104, 116, 109, 108, 62]"

record download =
  dl_body :: jstring
  dl_mime :: jstring
  dl_name :: jstring

definition downloadContent :: "jstring \<Rightarrow> export_format \<Rightarrow> jstring \<Rightarrow> download" where
  "downloadContent content fmt filenameBase =
     \<lparr>dl_body =
        (if fmt = Html
         then html_before_title @ filenameBase @ html_before_content @ escapeHtml content @ html_after_content
         else content),
      dl_mime = (if fmt = Html then js ''text/html;charset=utf-8'' else js ''text/plain;charset=utf-8''),
      dl_name = filenameBase @ js ''.'' @ format_text fmt\<rparr>"

section \<open>The exported page shows the text\<close>

text \<open>What a browser reads as the text of an element: an angle bracket would start a tag (\<open>None\<close>), an
  ampersand starts one of the three references or stands for itself.\<close>

fun element_text :: "jstring \<Rightarrow> jstring option" where
  "element_text [] = Some []"
| "element_text (c # s) =
     (if c = 60 then None
      else if c = 38 then
        (if take 4 s = js ''amp;'' then map_option ((#) 38) (element_text (drop 4 s))
         else if take 3 s = js ''lt;'' then map_option ((#) 60) (element_text (drop 3 s))
         else if take 3 s = js ''gt;'' then map_option ((#) 62) (element_text (drop 3 s))
         else map_option ((#) 38) (element_text s))
      else map_option ((#) c) (element_text s))"

text \<open>One pass over the text, character by character.\<close>

definition escape_one :: "nat \<Rightarrow> jstring" where
  "escape_one c =
     (if c = 38 then js ''&amp;'' else if c = 60 then js ''&lt;''
      else if c = 62 then js ''&gt;'' else [c])"

lemma escapeHtml_one_pass: "escapeHtml s = concat (map escape_one s)"
proof (induction s)
  case Nil
  then show ?case by (simp add: escapeHtml_def replace_char_def)
next
  case (Cons c s)
  then show ?case
    by (simp add: escapeHtml_def replace_char_def escape_one_def js_def)
qed

lemma element_text_escaped: "element_text (concat (map escape_one s)) = Some s"
  by (induction s) (simp_all add: escape_one_def js_def)

text \<open>An exported page shows the text as it was written, whatever markup is in it: between the
  fixed head and foot of the page there is no angle bracket, and a reader gets back exactly the
  text; the other formats hold the text itself.\<close>

theorem exported_page_shows_text:
  "let d = downloadContent content Html name in
   (\<exists>shown. dl_body d = html_before_title @ name @ html_before_content @ shown @ html_after_content \<and>
      60 \<notin> set shown \<and> 62 \<notin> set shown \<and> element_text shown = Some content) \<and>
   dl_body (downloadContent content Txt name) = content \<and>
   dl_body (downloadContent content Md name) = content"
proof -
  have "60 \<notin> set (escapeHtml content) \<and> 62 \<notin> set (escapeHtml content)"
    by (auto simp: escapeHtml_one_pass escape_one_def js_def split: if_splits)
  then show ?thesis
    by (auto simp: downloadContent_def escapeHtml_one_pass element_text_escaped)
qed

text \<open>A queue item made from the studio has a button exactly when the product has an affiliate
  link, and then it leads there.\<close>

lemma ai_queue_button:
  "u_button_url (buildAiQueueCreateInput i) = when_truthy (aq_affiliateUrl i)"
  "u_button_text (buildAiQueueCreateInput i) =
     (if truthy (aq_affiliateUrl i) then Given DEFAULT_AFFILIATE_BUTTON_TEXT else Absent)"
  by (auto simp: buildAiQueueCreateInput_def resolveAffiliateCta_def when_truthy_def Let_def)

lemma ai_queue_fields [simp]:
  "u_content (buildAiQueueCreateInput i) = Given (aq_content i)"
  "u_status (buildAiQueueCreateInput i) = Given (aq_status i)"
  "u_product_id (buildAiQueueCreateInput i) = when_truthy (aq_productId i)"
  "u_title (buildAiQueueCreateInput i) = when_truthy (aq_title i)"
  "u_image_url (buildAiQueueCreateInput i) = when_truthy (aq_imageUrl i)"
  "u_channel_id (buildAiQueueCreateInput i) = when_truthy (aq_channelId i)"
  by (simp_all add: buildAiQueueCreateInput_def Let_def)

end
