(* ===== verification/ContentWorkspace.thy ===== *)
theory ContentWorkspace
  imports ProductScreen AiSession AiQueue
begin

text \<open>
  The screen of the content studio: \<open>ContentWorkspaceView\<close>, the picker of the source
  (\<open>ProductSourcePicker\<close>), the guards of its buttons (\<open>DistributionHub\<close>, \<open>VariantTabs\<close>,
  \<open>AiSuggestionsPanel\<close>) and the document canvas (\<open>RichDocumentCanvas\<close>), all of
  \<open>frontend/src/features/ai/components/\<close>.  The session and its updaters are those of \<open>AiSession\<close>.
  A generation is two steps, the request and its answer; the other calls are answered within the
  handler by a parameter that may depend on every call made before.
\<close>

section \<open>State\<close>

datatype ai_call =
  GenerateContent GenerateContentInput
| CreateItem QueueUpdate
| PublishItem jstring

record ai_server =
  as_create :: "ai_call list \<Rightarrow> QueueUpdate \<Rightarrow> thrown + QueueItem"
  as_publish :: "ai_call list \<Rightarrow> jstring \<Rightarrow> thrown option"

record workspace_view =
  wv_session :: ContentSession
  wv_products :: "jstring \<Rightarrow> Product option"
  wv_channel :: "jstring option"
  wv_actionError :: "jstring option"
  wv_actionMessage :: "jstring option"
  compareOpen :: bool
  resetConfirmOpen :: bool
  wv_pending :: "(ContentVariantOrigin \<times> bool) option"
  wv_generationError :: "thrown option"
  wv_calls :: "ai_call list"
  wv_clipboard :: "jstring option"
  wv_downloads :: "download list"

text \<open>\<open>useProduct\<close>: the product of the context, once loaded.\<close>

definition selectedProduct :: "workspace_view \<Rightarrow> Product option" where
  "selectedProduct s =
     (case pc_productId (cs_productContext (wv_session s)) of
        None \<Rightarrow> None
      | Some i \<Rightarrow> if i = [] then None else wv_products s i)"

definition canGenerate :: "ContentSession \<Rightarrow> bool" where
  "canGenerate session =
     (let context = cs_productContext session in
      if pc_sourceType context = SourceProduct then truthy (pc_productId context)
      else truthy (map_option trim (pc_url context)))"

definition or_null :: "jstring option \<Rightarrow> jstring option" where
  "or_null v = (if truthy v then v else None)"

definition no_context_patch :: stored_context where
  "no_context_patch =
     \<lparr>so_sourceType = None, so_productId = None, so_productLabel = None, so_url = None,
      so_imageUrl = None, so_affiliateUrl = None\<rparr>"

section \<open>The effect that follows the product\<close>

definition product_effect :: "jstring \<Rightarrow> workspace_view \<Rightarrow> workspace_view" where
  "product_effect time s =
     (let context = cs_productContext (wv_session s) in
      (case selectedProduct s of
         None \<Rightarrow> s
       | Some product \<Rightarrow>
           if Some (p_id product) \<noteq> pc_productId context then s
           else if pc_imageUrl context = or_null (Some (p_image_url product)) \<and>
                   pc_affiliateUrl context = or_null (p_affiliate_url product) \<and>
                   pc_productLabel context = Some (p_title product) then s
           else s\<lparr>wv_session := updateProductContext time
                    (no_context_patch\<lparr>so_imageUrl := Some (or_null (Some (p_image_url product))),
                                      so_affiliateUrl := Some (p_affiliate_url product),
                                      so_productLabel := Some (Some (p_title product))\<rparr>)
                    (wv_session s)\<rparr>))"

text \<open>What the effect depends on: it runs again after a render in which one of these changed.\<close>

definition effect_deps :: "workspace_view \<Rightarrow>
    Product option \<times> jstring option \<times> jstring option \<times> jstring option \<times> jstring option" where
  "effect_deps s =
     (let context = cs_productContext (wv_session s) in
      (selectedProduct s, pc_affiliateUrl context, pc_imageUrl context, pc_productId context,
       pc_productLabel context))"

definition render_effects :: "jstring \<Rightarrow> workspace_view \<Rightarrow> workspace_view \<Rightarrow> workspace_view" where
  "render_effects time old s =
     (if effect_deps s = effect_deps old then s
      else (let s1 = product_effect time s in
            if effect_deps s1 = effect_deps s then s1 else product_effect time s1))"

section \<open>Handlers\<close>

definition comparePair :: "ContentSession \<Rightarrow> ContentVariant option \<times> ContentVariant option" where
  "comparePair session =
     (let variants = cs_variants session; n = length variants in
      if n < 2 then (None, None)
      else (let activeIndex = find_index (\<lambda>item. Some (v_id item) = cs_activeVariantId session) variants
            in (Some (variants ! (case activeIndex of Some (Suc i) \<Rightarrow> i | _ \<Rightarrow> n - 2)),
                Some (variants ! (case activeIndex of Some i \<Rightarrow> i | None \<Rightarrow> n - 1)))))"

definition choose_source_text :: jstring where
  "choose_source_text =
    [1575, 1582, 1578, 1585, 32, 1605, 1606, 1578, 1580, 1611, 1575, 32, 1571, 1608, 32,
     1575, 1604, 1589, 1602, 32, 1585, 1575, 1576, 1591, 32, 65, 108, 105, 69, 120, 112, 114,
     101, 115, 115, 32, 1602, 1576, 1604, 32, 1575, 1604, 1578, 1608, 1604, 1610, 1583, 46]"

definition first_variant_text :: jstring where
  "first_variant_text =
    [1578, 1605, 32, 1573, 1606, 1588, 1575, 1569, 32, 1575, 1604, 1606, 1587, 1582, 1577,
     32, 1575, 1604, 1571, 1608, 1604, 1609, 46]"

definition another_variant_text :: jstring where
  "another_variant_text =
    [1578, 1605, 32, 1578, 1608, 1604, 1610, 1583, 32, 1606, 1587, 1582, 1577, 32, 1576,
     1583, 1610, 1604, 1577, 32, 1608, 1573, 1590, 1575, 1601, 1578, 1607, 1575, 32, 1573,
     1604, 1609, 32, 1575, 1604, 1587, 1580, 1604, 46]"

definition generate_failed_text :: jstring where
  "generate_failed_text =
    [1578, 1593, 1584, 1585, 32, 1578, 1608, 1604, 1610, 1583, 32, 1575, 1604, 1605, 1581,
     1578, 1608, 1609, 46]"

definition published_now_text :: jstring where
  "published_now_text =
    [1578, 1605, 32, 1575, 1604, 1606, 1588, 1585, 32, 1575, 1604, 1570, 1606, 32, 1593,
     1576, 1585, 32, 1602, 1575, 1574, 1605, 1577, 32, 1575, 1604, 1606, 1588, 1585, 46]"

definition draft_saved_text :: jstring where
  "draft_saved_text =
    [1578, 1605, 32, 1581, 1601, 1592, 32, 1575, 1604, 1605, 1587, 1608, 1583, 1577, 46]"

definition queued_text :: jstring where
  "queued_text =
    [1578, 1605, 1578, 32, 1575, 1604, 1573, 1590, 1575, 1601, 1577, 32, 1573, 1604, 1609,
     32, 1580, 1583, 1608, 1604, 1577, 32, 1575, 1604, 1606, 1588, 1585, 46]"

definition operation_failed_text :: jstring where
  "operation_failed_text =
    [1578, 1593, 1584, 1585, 32, 1573, 1578, 1605, 1575, 1605, 32, 1575, 1604, 1593, 1605,
     1604, 1610, 1577, 46]"

definition copied_text :: jstring where
  "copied_text =
    [1578, 1605, 32, 1606, 1587, 1582, 32, 1575, 1604, 1606, 1589, 32, 1575, 1604, 1581,
     1575, 1604, 1610, 46]"

definition exported_prefix :: jstring where
  "exported_prefix =
    [1578, 1605, 32, 1578, 1589, 1583, 1610, 1585, 32, 1575, 1604, 1605, 1604, 1601, 32, 46]"

definition runGenerate :: "ContentVariantOrigin \<Rightarrow> workspace_view \<Rightarrow> workspace_view" where
  "runGenerate origin s =
     (case buildGeneratePayload (wv_session s) of
        None \<Rightarrow> s\<lparr>wv_actionError := Some choose_source_text\<rparr>
      | Some payload \<Rightarrow>
          s\<lparr>wv_actionError := None, wv_actionMessage := None,
            wv_calls := wv_calls s @ [GenerateContent payload],
            wv_pending := Some (origin, cs_variants (wv_session s) = []),
            wv_generationError := None\<rparr>)"

definition generation_answered ::
  "(jstring \<Rightarrow> jstring) \<Rightarrow> jstring \<Rightarrow> jstring \<Rightarrow> thrown + GenerateContentResponse \<Rightarrow> workspace_view
     \<Rightarrow> workspace_view" where
  "generation_answered lower_case uuid time answer s =
     (case wv_pending s of
        None \<Rightarrow> s
      | Some (origin, none_before) \<Rightarrow>
          (case answer of
             Inr data \<Rightarrow>
               s\<lparr>wv_session := appendVariantFromResponse lower_case uuid time data
                   (if none_before then ByGenerate else origin) (wv_session s),
                 wv_actionMessage :=
                   Some (if none_before then first_variant_text else another_variant_text),
                 wv_pending := None\<rparr>
           | Inl error \<Rightarrow>
               s\<lparr>wv_actionError := Some (if thrown_message error \<noteq> [] then thrown_message error
                                         else generate_failed_text),
                 wv_generationError := Some error, wv_pending := None\<rparr>))"

definition performReset :: "jstring \<Rightarrow> jstring \<Rightarrow> workspace_view \<Rightarrow> workspace_view" where
  "performReset uuid time s =
     s\<lparr>wv_session := createEmptySession uuid time None, wv_pending := None,
       wv_generationError := None, wv_actionError := None, wv_actionMessage := None,
       compareOpen := False, resetConfirmOpen := False\<rparr>"

definition requestReset :: "jstring \<Rightarrow> jstring \<Rightarrow> workspace_view \<Rightarrow> workspace_view" where
  "requestReset uuid time s =
     (if cs_variants (wv_session s) \<noteq> [] then s\<lparr>resetConfirmOpen := True\<rparr>
      else performReset uuid time s)"

definition queue_input :: "QueueStatus \<Rightarrow> ContentVariant \<Rightarrow> workspace_view \<Rightarrow> QueueUpdate" where
  "queue_input status variant s =
     (let context = cs_productContext (wv_session s) in
      buildAiQueueCreateInput
        \<lparr>aq_content = trim (v_content variant), aq_status = status,
         aq_productId = (case v_productId variant of
            Some i \<Rightarrow> Some i | None \<Rightarrow> pc_productId context),
         aq_title = pc_productLabel context, aq_channelId = wv_channel s,
         aq_imageUrl = pc_imageUrl context, aq_affiliateUrl = pc_affiliateUrl context,
         aq_scheduledAt = None\<rparr>)"

definition log_out :: "jstring \<Rightarrow> distribution \<Rightarrow> ContentVariant \<Rightarrow> workspace_view \<Rightarrow> workspace_view" where
  "log_out time kind variant s =
     s\<lparr>wv_session := logDistribution time kind (v_id variant) (wv_session s)\<rparr>"

definition queueFromActive ::
  "jstring \<Rightarrow> ai_server \<Rightarrow> QueueStatus \<Rightarrow> bool \<Rightarrow> workspace_view \<Rightarrow> workspace_view" where
  "queueFromActive time srv status thenPublish s =
     (case activeVariant (wv_session s) of
        None \<Rightarrow> s
      | Some variant \<Rightarrow>
          if trim (v_content variant) = [] then s
          else (let input = queue_input status variant s;
                    s0 = s\<lparr>wv_actionError := None, wv_calls := wv_calls s @ [CreateItem input]\<rparr>
                in (case as_create srv (wv_calls s) input of
                      Inl e \<Rightarrow> s0\<lparr>wv_actionError := Some (instance_message e operation_failed_text)\<rparr>
                    | Inr item \<Rightarrow>
                        (let s1 = log_out time (if status = Draft then DraftSaved else QueuedOut) variant s0
                         in if thenPublish then
                              (let s2 = s1\<lparr>wv_calls := wv_calls s1 @ [PublishItem (q_id item)]\<rparr> in
                               (case as_publish srv (wv_calls s1) (q_id item) of
                                  Some e \<Rightarrow>
                                    s2\<lparr>wv_actionError := Some (instance_message e operation_failed_text)\<rparr>
                                | None \<Rightarrow>
                                    (log_out time PublishedOut variant s2)
                                      \<lparr>wv_actionMessage := Some published_now_text\<rparr>))
                            else s1\<lparr>wv_actionMessage :=
                                      Some (if status = Draft then draft_saved_text else queued_text)\<rparr>))))"

definition restorePrevious :: "jstring \<Rightarrow> jstring \<Rightarrow> ContentSession \<Rightarrow> ContentSession" where
  "restorePrevious uuid time session =
     (case find_index (\<lambda>item. Some (v_id item) = cs_activeVariantId session) (cs_variants session) of
        Some (Suc i) \<Rightarrow> restoreVariant uuid time (v_id (cs_variants session ! i)) session
      | _ \<Rightarrow> session)"

definition copyActive :: "workspace_view \<Rightarrow> workspace_view" where
  "copyActive s =
     (case activeVariant (wv_session s) of
        None \<Rightarrow> s
      | Some variant \<Rightarrow> s\<lparr>wv_clipboard := Some (v_content variant), wv_actionMessage := Some copied_text\<rparr>)"

definition exportActive :: "jstring \<Rightarrow> export_format \<Rightarrow> workspace_view \<Rightarrow> workspace_view" where
  "exportActive time fmt s =
     (case activeVariant (wv_session s) of
        None \<Rightarrow> s
      | Some variant \<Rightarrow>
          (log_out time Exported variant
             (s\<lparr>wv_downloads := wv_downloads s @
                  [downloadContent (v_content variant) fmt (js ''marketing-content'')]\<rparr>))
            \<lparr>wv_actionMessage := Some (exported_prefix @ format_text fmt)\<rparr>)"

section \<open>Buttons\<close>

definition distribution_disabled :: "workspace_view \<Rightarrow> bool" where
  "distribution_disabled s =
     (case activeVariant (wv_session s) of
        None \<Rightarrow> True | Some variant \<Rightarrow> trim (v_content variant) = [])"

definition generating :: "workspace_view \<Rightarrow> bool" where
  "generating s \<longleftrightarrow> wv_pending s \<noteq> None"

definition generate_disabled :: "workspace_view \<Rightarrow> bool" where
  "generate_disabled s \<longleftrightarrow> \<not> canGenerate (wv_session s) \<or> generating s"

definition regenerate_disabled :: "workspace_view \<Rightarrow> bool" where
  "regenerate_disabled s \<longleftrightarrow> generate_disabled s \<or> cs_variants (wv_session s) = []"

definition apply_disabled :: "workspace_view \<Rightarrow> bool" where
  "apply_disabled s \<longleftrightarrow> generating s \<or> cs_modifiers (wv_session s) = []"

text \<open>The error the control board shows.\<close>

definition shown_error :: "workspace_view \<Rightarrow> jstring option" where
  "shown_error s =
     (case wv_actionError s of
        Some e \<Rightarrow> Some e
      | None \<Rightarrow> map_option thrown_message (wv_generationError s))"

section \<open>ProductSourcePicker\<close>

record picker_option =
  po_id :: jstring
  po_label :: jstring
  po_imageUrl :: jstring
  po_affiliateUrl :: "jstring option"

definition picker_options :: "Product list \<Rightarrow> picker_option list" where
  "picker_options items =
     map (\<lambda>p. \<lparr>po_id = p_id p, po_label = p_title p, po_imageUrl = p_image_url p,
               po_affiliateUrl = p_affiliate_url p\<rparr>) items"

definition pick_source_type :: "source_type \<Rightarrow> ProductContextState \<Rightarrow> stored_context" where
  "pick_source_type kind c =
     no_context_patch
       \<lparr>so_sourceType := Some kind,
        so_productId := Some (if kind = SourceProduct then pc_productId c else None),
        so_url := Some (if kind = SourceUrl then pc_url c else None),
        so_imageUrl := Some (if kind = SourceProduct then pc_imageUrl c else None),
        so_affiliateUrl := Some (if kind = SourceProduct then pc_affiliateUrl c else None)\<rparr>"

definition pick_product :: "picker_option list \<Rightarrow> jstring \<Rightarrow> stored_context" where
  "pick_product options value =
     (let i = (if value = [] then None else Some value);
          match = List.find (\<lambda>item. Some (po_id item) = i) options
      in no_context_patch
           \<lparr>so_productId := Some i, so_productLabel := Some (map_option po_label match),
            so_url := Some None, so_imageUrl := Some (map_option po_imageUrl match),
            so_affiliateUrl := Some (Option.bind match po_affiliateUrl)\<rparr>)"

definition type_url :: "jstring \<Rightarrow> stored_context" where
  "type_url value =
     no_context_patch
       \<lparr>so_url := Some (Some value), so_productId := Some None, so_productLabel := Some None,
        so_imageUrl := Some None, so_affiliateUrl := Some None\<rparr>"

section \<open>RichDocumentCanvas\<close>

record canvas =
  cv_content :: jstring
  cv_draft :: jstring

datatype canvas_action = ContentChanged jstring | TypeDraft jstring | BlurEditor

text \<open>Without text the canvas shows a placeholder in place of the editor.\<close>

definition editor_shown :: "canvas \<Rightarrow> bool" where
  "editor_shown c \<longleftrightarrow> trim (cv_draft c) \<noteq> []"

text \<open>The second component is the text handed to \<open>onChange\<close>.\<close>

definition canvas_step :: "canvas \<Rightarrow> canvas_action \<Rightarrow> canvas \<times> jstring option" where
  "canvas_step c a = (case a of
     ContentChanged content \<Rightarrow>
       (if content = cv_content c then c else \<lparr>cv_content = content, cv_draft = content\<rparr>, None)
   | TypeDraft value \<Rightarrow> (if editor_shown c then c\<lparr>cv_draft := value\<rparr> else c, None)
   | BlurEditor \<Rightarrow>
       (c, if editor_shown c \<and> cv_draft c \<noteq> cv_content c then Some (cv_draft c) else None))"

section \<open>The screen as a machine\<close>

datatype workspace_action =
  UseSession session_update
| ToggleSuggestions | ToggleAdvanced
| Generate ContentVariantOrigin | GenerationAnswered jstring "thrown + GenerateContentResponse"
| QueueActive QueueStatus bool
| AskReset jstring | ConfirmReset jstring | CancelReset
| Compare | CloseCompare | RestorePrevious jstring
| CopyActive | ExportActive export_format
| ProductLoaded jstring Product | ChannelLoaded "jstring option"

definition workspace_handler ::
  "(jstring \<Rightarrow> jstring) \<Rightarrow> jstring \<Rightarrow> ai_server \<Rightarrow> workspace_view \<Rightarrow> workspace_action \<Rightarrow> workspace_view" where
  "workspace_handler lower_case time srv s a =
     (let session = wv_session s in
      (case a of
         UseSession u \<Rightarrow> s\<lparr>wv_session := studio_step lower_case session u\<rparr>
       | ToggleSuggestions \<Rightarrow>
           s\<lparr>wv_session := studio_step lower_case session
               (SetSuggestionsOpen time (\<not> cs_suggestionsOpen session))\<rparr>
       | ToggleAdvanced \<Rightarrow>
           s\<lparr>wv_session := studio_step lower_case session
               (SetAdvancedOpen time (\<not> cs_advancedOpen session))\<rparr>
       | Generate origin \<Rightarrow> runGenerate origin s
       | GenerationAnswered uuid answer \<Rightarrow> generation_answered lower_case uuid time answer s
       | QueueActive status thenPublish \<Rightarrow> queueFromActive time srv status thenPublish s
       | AskReset uuid \<Rightarrow> requestReset uuid time s
       | ConfirmReset uuid \<Rightarrow> performReset uuid time s
       | CancelReset \<Rightarrow> s\<lparr>resetConfirmOpen := False\<rparr>
       | Compare \<Rightarrow> if 2 \<le> length (cs_variants session) then s\<lparr>compareOpen := True\<rparr> else s
       | CloseCompare \<Rightarrow> s\<lparr>compareOpen := False\<rparr>
       | RestorePrevious uuid \<Rightarrow> s\<lparr>wv_session := restorePrevious uuid time session\<rparr>
       | CopyActive \<Rightarrow> copyActive s
       | ExportActive fmt \<Rightarrow> exportActive time fmt s
       | ProductLoaded i p \<Rightarrow> s\<lparr>wv_products := (wv_products s)(i := Some p)\<rparr>
       | ChannelLoaded c \<Rightarrow> s\<lparr>wv_channel := c\<rparr>))"

text \<open>Every action comes with the time its updaters read.\<close>

definition workspace_step ::
  "(jstring \<Rightarrow> jstring) \<Rightarrow> ai_server \<Rightarrow> workspace_view \<Rightarrow> jstring \<times> workspace_action \<Rightarrow> workspace_view" where
  "workspace_step lower_case srv s ta =
     (case ta of (time, a) \<Rightarrow> render_effects time s (workspace_handler lower_case time srv s a))"

text \<open>The first render: the effect runs once the session is there.\<close>

definition mount_workspace :: "jstring \<Rightarrow> ContentSession \<Rightarrow> workspace_view" where
  "mount_workspace time session =
     product_effect time
       \<lparr>wv_session = session, wv_products = Map.empty, wv_channel = None, wv_actionError = None,
        wv_actionMessage = None, compareOpen = False, resetConfirmOpen = False, wv_pending = None,
        wv_generationError = None, wv_calls = [], wv_clipboard = None, wv_downloads = []\<rparr>"

section \<open>Small facts\<close>

lemma merge_no_patch [simp]:
  "pc_productId (merge_context c (Some (no_context_patch\<lparr>so_imageUrl := i, so_affiliateUrl := a, so_productLabel := l\<rparr>))) = pc_productId c"
  "pc_imageUrl (merge_context c (Some (no_context_patch\<lparr>so_imageUrl := i, so_affiliateUrl := a, so_productLabel := l\<rparr>))) = or_default i (pc_imageUrl c)"
  "pc_affiliateUrl (merge_context c (Some (no_context_patch\<lparr>so_imageUrl := i, so_affiliateUrl := a, so_productLabel := l\<rparr>))) = or_default a (pc_affiliateUrl c)"
  "pc_productLabel (merge_context c (Some (no_context_patch\<lparr>so_imageUrl := i, so_affiliateUrl := a, so_productLabel := l\<rparr>))) = or_default l (pc_productLabel c)"
  by (simp_all add: merge_context_def no_context_patch_def)

lemma touch_context [simp]: "cs_productContext (touch t s) = cs_productContext s"
  by (simp add: touch_def)

text \<open>The effect only touches the context.\<close>

lemma product_effect_keeps [simp]:
  "cs_variants (wv_session (product_effect t s)) = cs_variants (wv_session s)"
  "cs_activeVariantId (wv_session (product_effect t s)) = cs_activeVariantId (wv_session s)"
  "cs_modifiers (wv_session (product_effect t s)) = cs_modifiers (wv_session s)"
  "cs_history (wv_session (product_effect t s)) = cs_history (wv_session s)"
  "wv_calls (product_effect t s) = wv_calls s"
  "compareOpen (product_effect t s) = compareOpen s"
  "resetConfirmOpen (product_effect t s) = resetConfirmOpen s"
  "wv_actionError (product_effect t s) = wv_actionError s"
  by (auto simp: product_effect_def Let_def updateProductContext_def split: option.splits)

lemma render_effects_keeps [simp]:
  "cs_variants (wv_session (render_effects t old s)) = cs_variants (wv_session s)"
  "cs_activeVariantId (wv_session (render_effects t old s)) = cs_activeVariantId (wv_session s)"
  "cs_modifiers (wv_session (render_effects t old s)) = cs_modifiers (wv_session s)"
  "cs_history (wv_session (render_effects t old s)) = cs_history (wv_session s)"
  "wv_calls (render_effects t old s) = wv_calls s"
  "compareOpen (render_effects t old s) = compareOpen s"
  "resetConfirmOpen (render_effects t old s) = resetConfirmOpen s"
  "wv_actionError (render_effects t old s) = wv_actionError s"
  by (simp_all add: render_effects_def Let_def)

section \<open>The context follows the product\<close>

definition settled_on :: "Product option \<times> jstring option \<times> jstring option \<times> jstring option \<times> jstring option
    \<Rightarrow> bool" where
  "settled_on d = (case d of (data, link, img, i, label) \<Rightarrow>
     (\<forall>p. data = Some p \<and> i = Some (p_id p) \<longrightarrow>
        img = or_null (Some (p_image_url p)) \<and> or_null link = or_null (p_affiliate_url p) \<and>
        label = Some (p_title p)))"

definition settled :: "workspace_view \<Rightarrow> bool" where
  "settled s = settled_on (effect_deps s)"

lemma or_null_idem [simp]: "or_null (or_null v) = or_null v"
  by (simp add: or_null_def)

lemma product_effect_settles: "settled (product_effect t s)"
proof (cases "selectedProduct s")
  case None
  then show ?thesis by (simp add: product_effect_def settled_def settled_on_def effect_deps_def Let_def)
next
  case (Some p)
  then show ?thesis
    by (auto simp: product_effect_def settled_def settled_on_def effect_deps_def Let_def
        selectedProduct_def updateProductContext_def split: option.splits if_splits)
qed

lemma render_effects_settles: "settled old \<Longrightarrow> settled (render_effects t old s)"
  using product_effect_settles [of t s] product_effect_settles [of t "product_effect t s"]
  by (auto simp: render_effects_def settled_def Let_def)

section \<open>What was sent and what was logged\<close>

fun is_out :: "distribution set \<Rightarrow> ContentSessionEvent \<Rightarrow> bool" where
  "is_out kinds (Distributed kind _ _) = (kind \<in> kinds)"
| "is_out kinds _ = False"

definition logged :: "distribution set \<Rightarrow> ContentSession \<Rightarrow> nat" where
  "logged kinds session = length (filter (is_out kinds) (cs_history session))"

fun is_create :: "ai_call \<Rightarrow> bool" where
  "is_create (CreateItem _) = True"
| "is_create _ = False"

fun is_publish :: "ai_call \<Rightarrow> bool" where
  "is_publish (PublishItem _) = True"
| "is_publish _ = False"

definition tallies :: "ai_call list \<Rightarrow> ContentSession \<Rightarrow> bool" where
  "tallies calls session \<longleftrightarrow>
     logged {PublishedOut} session \<le> length (filter is_publish calls) \<and>
     logged {DraftSaved, QueuedOut} session \<le> length (filter is_create calls) \<and>
     length (filter is_publish calls) \<le> length (filter is_create calls)"

text \<open>The updaters the screen hands on to its parts.\<close>

definition edit_update :: "session_update \<Rightarrow> bool" where
  "edit_update u = (case u of
     UpdateContext _ _ \<Rightarrow> True | UpdateConfig _ _ \<Rightarrow> True | ToggleModifier _ _ \<Rightarrow> True
   | Activate _ _ \<Rightarrow> True | UpdateContent _ _ \<Rightarrow> True | _ \<Rightarrow> False)"

definition fresh_id :: "jstring \<Rightarrow> ContentSession \<Rightarrow> bool" where
  "fresh_id uuid session \<longleftrightarrow> uuid \<noteq> [] \<and> uuid \<notin> set (map v_id (cs_variants session))"

definition workspace_ok :: "workspace_view \<Rightarrow> jstring \<times> workspace_action \<Rightarrow> bool" where
  "workspace_ok s ta = (case snd ta of
     UseSession u \<Rightarrow> edit_update u
   | GenerationAnswered uuid _ \<Rightarrow> fresh_id uuid (wv_session s)
   | RestorePrevious uuid \<Rightarrow> fresh_id uuid (wv_session s)
   | _ \<Rightarrow> True)"

definition session_inv :: "workspace_view \<Rightarrow> bool" where
  "session_inv s \<longleftrightarrow> studio_inv (wv_session s) \<and>
     (compareOpen s \<longrightarrow> 2 \<le> length (cs_variants (wv_session s))) \<and>
     (resetConfirmOpen s \<longrightarrow> cs_variants (wv_session s) \<noteq> []) \<and>
     tallies (wv_calls s) (wv_session s)"

definition workspace_inv :: "workspace_view \<Rightarrow> bool" where
  "workspace_inv s \<longleftrightarrow> session_inv s \<and> settled s"

text \<open>An update of the session that keeps the invariant of the screen.\<close>

definition harmless :: "ContentSession \<Rightarrow> ContentSession \<Rightarrow> bool" where
  "harmless session session' \<longleftrightarrow> studio_inv session' \<and>
     length (cs_variants session) \<le> length (cs_variants session') \<and>
     (\<forall>kinds. logged kinds session' = logged kinds session)"

lemma harmless_inv:
  "session_inv s \<Longrightarrow> harmless (wv_session s) session' \<Longrightarrow> session_inv (s\<lparr>wv_session := session'\<rparr>)"
  by (auto simp: session_inv_def harmless_def tallies_def)

lemma edit_harmless:
  assumes "studio_inv session" "edit_update u"
  shows "harmless session (studio_step lc session u)"
proof -
  have "studio_inv (studio_step lc session u)"
    using assms by (intro studio_step_inv) (auto simp: edit_update_def studio_ok_def split: session_update.splits)
  then show ?thesis
    using assms(2)
    by (cases u) (auto simp: edit_update_def harmless_def studio_step_def logged_def Let_def
        updateProductContext_def updateConfig_def toggleModifier_def activateVariant_def
        updateActiveContent_def)
qed

lemma panel_harmless:
  assumes "studio_inv session" "u = SetSuggestionsOpen t b \<or> u = SetAdvancedOpen t b"
  shows "harmless session (studio_step lc session u)"
  using assms studio_step_inv [of session u lc]
  by (auto simp: harmless_def studio_ok_def studio_step_def logged_def)

lemma append_harmless:
  assumes "studio_inv session" "fresh_id uuid session"
  shows "harmless session (appendVariantFromResponse lc uuid t data origin session)"
  using assms studio_step_inv [of session "AppendVariant uuid t data origin" lc]
  by (simp add: harmless_def studio_ok_def studio_step_def fresh_id_def logged_def
      appendVariantFromResponse_def Let_def)

lemma restore_harmless:
  assumes "studio_inv session" "fresh_id uuid session"
  shows "harmless session (restorePrevious uuid t session)"
proof -
  have "harmless session (restoreVariant uuid t i session)" for i
    using assms studio_step_inv [of session "Restore uuid t i"]
    by (auto simp: harmless_def studio_ok_def studio_step_def fresh_id_def logged_def
        restoreVariant_def Let_def split: option.splits)
  then show ?thesis
    using assms(1) by (auto simp: restorePrevious_def harmless_def split: option.splits nat.splits)
qed

lemma log_distribution_inv [simp]: "studio_inv (logDistribution t kind i session) = studio_inv session"
  by (rule iffI; erule studio_inv_frame) (simp_all add: logDistribution_def)

lemma log_distribution_simps [simp]:
  "cs_variants (logDistribution t kind i session) = cs_variants session"
  "logged kinds (logDistribution t kind i session) =
     logged kinds session + (if kind \<in> kinds then 1 else 0)"
  by (simp_all add: logDistribution_def logged_def)

lemma unlogged_inv [simp]:
  "session_inv (s\<lparr>wv_actionError := e\<rparr>) = session_inv s"
  "session_inv (s\<lparr>wv_actionMessage := m\<rparr>) = session_inv s"
  "session_inv (s\<lparr>wv_pending := p\<rparr>) = session_inv s"
  "session_inv (s\<lparr>wv_generationError := g\<rparr>) = session_inv s"
  "session_inv (s\<lparr>wv_clipboard := c\<rparr>) = session_inv s"
  "session_inv (s\<lparr>wv_downloads := d\<rparr>) = session_inv s"
  "session_inv (s\<lparr>wv_products := ps\<rparr>) = session_inv s"
  "session_inv (s\<lparr>wv_channel := ch\<rparr>) = session_inv s"
  by (simp_all add: session_inv_def)

lemma queueFromActive_inv:
  "session_inv s \<Longrightarrow> session_inv (queueFromActive t srv status thenPublish s)"
  by (auto simp: queueFromActive_def Let_def session_inv_def log_out_def tallies_def
      split: option.splits sum.splits)

lemma runGenerate_inv: "session_inv s \<Longrightarrow> session_inv (runGenerate origin s)"
  by (auto simp: runGenerate_def session_inv_def tallies_def split: option.splits)

lemma performReset_inv: "session_inv s \<Longrightarrow> session_inv (performReset uuid t s)"
  by (auto simp: performReset_def session_inv_def tallies_def logged_def createEmptySession_def
      studio_inv_def)

lemma answered_inv:
  assumes "session_inv s" "fresh_id uuid (wv_session s)"
  shows "session_inv (generation_answered lc uuid t answer s)"
proof -
  have "harmless (wv_session s) (appendVariantFromResponse lc uuid t data origin (wv_session s))"
    for data origin using assms append_harmless by (simp add: session_inv_def)
  then show ?thesis
    using assms(1) harmless_inv by (auto simp: generation_answered_def split: option.splits sum.splits)
qed

lemma export_inv: "session_inv s \<Longrightarrow> session_inv (exportActive t fmt s)"
  by (auto simp: exportActive_def session_inv_def log_out_def tallies_def split: option.splits)

lemma copy_inv: "session_inv s \<Longrightarrow> session_inv (copyActive s)"
  by (auto simp: copyActive_def split: option.splits)

lemma workspace_handler_inv:
  assumes "session_inv s" "workspace_ok s (t, a)"
  shows "session_inv (workspace_handler lc t srv s a)"
proof -
  have inv: "studio_inv (wv_session s)" using assms(1) by (simp add: session_inv_def)
  show ?thesis
  proof (cases a)
    case (UseSession u)
    then show ?thesis
      using assms edit_harmless [OF inv, of u lc]
      by (simp add: workspace_handler_def workspace_ok_def harmless_inv)
  next
    case ToggleSuggestions
    then show ?thesis
      using assms(1) panel_harmless [OF inv, of _ t] by (simp add: workspace_handler_def Let_def harmless_inv)
  next
    case ToggleAdvanced
    then show ?thesis
      using assms(1) panel_harmless [OF inv, of _ t] by (simp add: workspace_handler_def Let_def harmless_inv)
  next
    case (RestorePrevious uuid)
    then show ?thesis
      using assms restore_harmless [OF inv, of uuid t]
      by (simp add: workspace_handler_def workspace_ok_def harmless_inv)
  next
    case (AskReset uuid)
    then show ?thesis
      using assms(1) performReset_inv [OF assms(1)]
      by (simp add: workspace_handler_def requestReset_def) (simp add: session_inv_def)
  next
    case CancelReset
    then show ?thesis using assms(1) by (simp add: workspace_handler_def session_inv_def)
  next
    case Compare
    then show ?thesis using assms(1) by (auto simp: workspace_handler_def session_inv_def)
  next
    case CloseCompare
    then show ?thesis using assms(1) by (simp add: workspace_handler_def session_inv_def)
  qed (use assms in \<open>simp_all add: workspace_handler_def workspace_ok_def answered_inv queueFromActive_inv
      runGenerate_inv performReset_inv export_inv copy_inv\<close>)
qed

lemma render_effects_inv: "session_inv s \<Longrightarrow> session_inv (render_effects t old s)"
proof -
  assume inv: "session_inv s"
  have "studio_inv (wv_session (render_effects t old s))"
    using inv by (simp add: session_inv_def studio_inv_frame [of "wv_session s"])
  then show ?thesis using inv by (simp add: session_inv_def tallies_def logged_def)
qed

lemma workspace_step_inv:
  "workspace_inv s \<Longrightarrow> workspace_ok s ta \<Longrightarrow> workspace_inv (workspace_step lc srv s ta)"
  by (cases ta)
    (simp add: workspace_step_def workspace_inv_def render_effects_settles render_effects_inv
      workspace_handler_inv)

interpretation workspace: state_machine "workspace_step lc srv" workspace_ok workspace_inv for lc srv
  by unfold_locales (rule workspace_step_inv)

lemma mounted_inv: "workspace_inv (mount_workspace t (createEmptySession uuid time None))"
proof -
  have "session_inv (mount_workspace t (createEmptySession uuid time None))"
    by (simp add: mount_workspace_def product_effect_def Let_def selectedProduct_def session_inv_def
        createEmptySession_def studio_inv_def tallies_def logged_def default_context_def)
  then show ?thesis
    by (simp add: workspace_inv_def mount_workspace_def product_effect_settles)
qed


text \<open>What is sent to the publishing queue from the studio carries the product's own data: once the
  chosen product is loaded, a queue item for it has the product's title and image, and its button
  leads to the product's affiliate link, whatever was typed or picked before, and it has no button
  when the product has no link.\<close>

theorem queued_item_matches_product:
  assumes "admissible (workspace_step lc srv) workspace_ok
      (mount_workspace t (createEmptySession uuid time None)) actions"
    and "s = run (workspace_step lc srv) (mount_workspace t (createEmptySession uuid time None)) actions"
    and "selectedProduct s = Some p" "pc_productId (cs_productContext (wv_session s)) = Some (p_id p)"
  shows "u_title (queue_input status v s) = when_truthy (Some (p_title p)) \<and>
     u_image_url (queue_input status v s) = when_truthy (Some (p_image_url p)) \<and>
     u_button_url (queue_input status v s) = when_truthy (p_affiliate_url p) \<and>
     u_button_text (queue_input status v s) =
       (if truthy (p_affiliate_url p) then Given DEFAULT_AFFILIATE_BUTTON_TEXT else Absent)"
proof -
  have "settled s" using workspace.run_inv [OF mounted_inv assms(1)] assms(2) by (simp add: workspace_inv_def)
  then have c: "pc_imageUrl (cs_productContext (wv_session s)) = or_null (Some (p_image_url p))"
    "or_null (pc_affiliateUrl (cs_productContext (wv_session s))) = or_null (p_affiliate_url p)"
    "pc_productLabel (cs_productContext (wv_session s)) = Some (p_title p)"
    using assms(3,4) by (auto simp: settled_def settled_on_def effect_deps_def Let_def)
  have n: "when_truthy (or_null u) = when_truthy u" "truthy (or_null u) = truthy u" for u
    by (auto simp: when_truthy_def or_null_def truthy_def)
  show ?thesis
    using c n(1) [of "pc_affiliateUrl (cs_productContext (wv_session s))"]
      n(2) [of "pc_affiliateUrl (cs_productContext (wv_session s))"] n
    by (simp add: queue_input_def Let_def ai_queue_button)
qed

section \<open>Generating, comparing, sending\<close>

text \<open>The button to generate is offered exactly when a request can be made from the source that is
  shown: from the product when the product source is chosen, from the trimmed link otherwise; so
  pressing it never meets the message that a source is missing.\<close>

theorem can_generate_has_request:
  "canGenerate session =
     (case buildGeneratePayload session of
        None \<Rightarrow> False
      | Some payload \<Rightarrow>
          (if pc_sourceType (cs_productContext session) = SourceProduct
           then truthy (pc_productId (cs_productContext session)) \<and>
             gi_product_id payload = pc_productId (cs_productContext session) \<and> gi_url payload = None
           else gi_product_id payload = None \<and>
             gi_url payload = map_option trim (pc_url (cs_productContext session)) \<and>
             truthy (gi_url payload)))"
  by (auto simp: canGenerate_def buildGeneratePayload_def Let_def split: option.splits)

text \<open>Comparing shows the active variant on the right and the one before it on the left; for the
  first variant it takes the last but one instead, which with exactly two variants is the first
  itself, so that the two panes show the same text.\<close>

theorem compare_pair_sides:
  assumes "distinct (map v_id (cs_variants session))" "i < length (cs_variants session)"
    and "2 \<le> length (cs_variants session)"
    and "cs_activeVariantId session = Some (v_id (cs_variants session ! i))"
  shows "let (left, right) = comparePair session; n = length (cs_variants session)
    in right = Some (cs_variants session ! i) \<and>
       left = Some (cs_variants session ! (if i = 0 then n - 2 else i - 1)) \<and>
       (left = right) = (i = 0 \<and> n = 2)"
proof -
  let ?vs = "cs_variants session"
  let ?p = "\<lambda>item. Some (v_id item) = cs_activeVariantId session"
  have same: "?vs ! j = ?vs ! k \<longleftrightarrow> j = k" if "j < length ?vs" "k < length ?vs" for j k
    using assms(1) that nth_eq_iff_index_eq [of "map v_id ?vs" j k] by fastforce
  have "find_index ?p ?vs = Some i"
  proof (cases "find_index ?p ?vs")
    case None
    then show ?thesis using assms(2,4) by (auto simp: find_index_None)
  next
    case (Some j)
    with find_index_Some [OF Some] assms nth_eq_iff_index_eq [of "map v_id ?vs" j i]
    show ?thesis by simp
  qed
  then have pair: "comparePair session =
      (Some (?vs ! (if i = 0 then length ?vs - 2 else i - 1)), Some (?vs ! i))"
    using assms(3) by (cases i) (simp_all add: comparePair_def Let_def)
  have "(if i = 0 then length ?vs - 2 else i - 1) < length ?vs" using assms(2,3) by auto
  from same [OF this assms(2)] assms(3) show ?thesis
    unfolding pair by (auto simp: Let_def split: if_splits)
qed

lemma patched_context:
  "cs_productContext (studio_step lc session (UpdateContext t patch)) =
     merge_context (cs_productContext session) (Some patch)"
  "activeVariant (studio_step lc session (UpdateContext t patch)) = activeVariant session"
  by (simp_all add: studio_step_def updateProductContext_def activeVariant_def touch_def)

text \<open>The text of one product can go out with the link of another: when a variant was generated for
  one product and the user then picks another one in the source picker, the variant stays the
  active one, and sending it makes a queue item that is about the first product but has the title
  and the affiliate button of the second.\<close>

theorem queue_item_mixes_products:
  assumes "activeVariant (wv_session s) = Some v" "v_productId v = Some a" "a \<noteq> []" "b \<noteq> []"
    and "List.find (\<lambda>item. po_id item = b) options = Some other" "wv_products s b = None"
    and "trim (v_content v) \<noteq> []"
  shows "let s1 = workspace_step lc srv s (t, UseSession (UpdateContext t (pick_product options b)));
             input = queue_input status v s1
    in activeVariant (wv_session s1) = Some v \<and> u_product_id input = Given a \<and>
       u_title input = when_truthy (Some (po_label other)) \<and>
       u_button_url input = when_truthy (po_affiliateUrl other) \<and>
       CreateItem input \<in> set (wv_calls (queueFromActive t srv status thenPublish s1))"
proof -
  let ?patch = "pick_product options b"
  let ?s1 = "s\<lparr>wv_session := studio_step lc (wv_session s) (UpdateContext t ?patch)\<rparr>"
  have c: "pc_productId (merge_context c (Some ?patch)) = Some b"
    "pc_productLabel (merge_context c (Some ?patch)) = Some (po_label other)"
    "pc_affiliateUrl (merge_context c (Some ?patch)) = po_affiliateUrl other" for c
    using assms(4,5) by (simp_all add: pick_product_def merge_context_def no_context_patch_def Let_def)
  have "selectedProduct ?s1 = None" using assms(4,6) by (simp add: selectedProduct_def patched_context c)
  then have "product_effect t ?s1 = ?s1" by (simp add: product_effect_def Let_def)
  then have s1: "workspace_step lc srv s (t, UseSession (UpdateContext t ?patch)) = ?s1"
    by (simp add: workspace_step_def workspace_handler_def render_effects_def Let_def)
  have act: "activeVariant (wv_session ?s1) = Some v" using assms(1) by (simp add: patched_context)
  have "CreateItem (queue_input status v ?s1) \<in> set (wv_calls (queueFromActive t srv status thenPublish ?s1))"
    using assms(7) unfolding queueFromActive_def act
    by (auto simp: Let_def log_out_def split: option.splits sum.splits)
  then show ?thesis
    unfolding s1 using assms(2,3) act
    by (simp add: Let_def queue_input_def ai_queue_button patched_context c)
qed

text \<open>Publishing again publishes a second item: when "publish now" created the queue item but the
  publication was refused, pressing it again, with nothing changed, creates the same item once
  more; the first one stays behind in the queue.\<close>

theorem publish_retry_creates_again:
  assumes "activeVariant (wv_session s) = Some v" "trim (v_content v) \<noteq> []"
    and "as_create srv (wv_calls s) (queue_input Queued v s) = Inr item"
    and "as_publish srv (wv_calls s @ [CreateItem (queue_input Queued v s)]) (q_id item) = Some e"
  shows "let s1 = queueFromActive t srv Queued True s; s2 = queueFromActive t' srv Queued True s1;
             input = queue_input Queued v s
    in wv_actionError s1 = Some (instance_message e operation_failed_text) \<and>
       (\<exists>tail. wv_calls s2 =
          wv_calls s @ [CreateItem input, PublishItem (q_id item), CreateItem input] @ tail)"
proof -
  let ?s1 = "queueFromActive t srv Queued True s"
  have s1: "?s1 = (log_out t QueuedOut v s)\<lparr>wv_actionError := Some (instance_message e operation_failed_text),
      wv_calls := wv_calls s @ [CreateItem (queue_input Queued v s), PublishItem (q_id item)]\<rparr>"
    using assms by (simp add: queueFromActive_def Let_def log_out_def)
  have act: "activeVariant (wv_session ?s1) = Some v"
    using assms(1) by (simp add: s1 log_out_def activeVariant_def logDistribution_def touch_def)
  have same: "queue_input Queued v ?s1 = queue_input Queued v s"
    by (simp add: s1 queue_input_def log_out_def logDistribution_def Let_def)
  have "\<exists>tail. wv_calls (queueFromActive t' srv Queued True ?s1) =
      wv_calls ?s1 @ CreateItem (queue_input Queued v ?s1) # tail"
    using assms(2) unfolding queueFromActive_def [of t' srv Queued True ?s1] act
    by (auto simp: Let_def log_out_def split: option.splits sum.splits)
  then show ?thesis unfolding same by (auto simp: Let_def s1)
qed

section \<open>The canvas\<close>

text \<open>Emptying the text takes the editor away: once the draft is blank, the canvas shows its
  placeholder, and nothing done to it brings the editor back or reports the change, so the variant
  keeps its old text, until another text comes in.\<close>

theorem blank_draft_hides_editor:
  assumes "trim value = []" "\<forall>a \<in> set actions. (case a of ContentChanged content \<Rightarrow> content = cv_content c | _ \<Rightarrow> True)"
  shows "let c1 = fst (canvas_step c (TypeDraft value));
             c2 = run (\<lambda>c a. fst (canvas_step c a)) c1 actions
    in editor_shown c1 = False \<and> c2 = c1 \<and> (\<forall>a. snd (canvas_step c2 a) = None) \<and>
       cv_content c2 = cv_content c"
proof -
  let ?c1 = "fst (canvas_step c (TypeDraft value))"
  have hidden: "\<not> editor_shown ?c1" and content: "cv_content ?c1 = cv_content c"
    using assms(1) by (auto simp: canvas_step_def editor_shown_def)
  have "run (\<lambda>c a. fst (canvas_step c a)) ?c1 actions = ?c1"
    using assms(2) hidden content
    by (induction actions) (auto simp: canvas_step_def [of ?c1] split: canvas_action.splits)
  then show ?thesis
    using hidden content by (auto simp: Let_def canvas_step_def [of ?c1] split: canvas_action.splits)
qed

section \<open>A small studio\<close>

definition linked_product :: Product where
  "linked_product = (sample_product (js ''a'') 2)\<lparr>p_affiliate_url := Some (js ''https://l'')\<rparr>"

text \<open>A server that accepts every item and refuses to publish.\<close>

definition refuses_publish :: ai_server where
  "refuses_publish =
     \<lparr>as_create = (\<lambda>_ _. Inr (sample_item (js ''q'') (js ''2024-01-01''))),
      as_publish = (\<lambda>_ _. Some ThrownOther)\<rparr>"

definition empty_studio :: workspace_view where
  "empty_studio = mount_workspace (js ''t'') (createEmptySession (js ''s'') (js ''t'') None)"

definition loading_actions :: "(jstring \<times> workspace_action) list" where
  "loading_actions =
     [(js ''t1'', ProductLoaded (js ''a'') linked_product),
      (js ''t2'', UseSession (UpdateContext (js ''t2'')
         (pick_product [\<lparr>po_id = js ''a'', po_label = [], po_imageUrl = [], po_affiliateUrl = None\<rparr>]
            (js ''a''))))]"

lemma loading_admissible: "admissible (workspace_step lc srv) workspace_ok s loading_actions"
  by (simp add: loading_actions_def workspace_ok_def edit_update_def)

text \<open>A studio whose only variant was generated for product \<open>a\<close>.\<close>

definition sample_variant :: ContentVariant where
  "sample_variant =
     buildVariant ascii_lower (js ''v1'') (js ''t'') (createEmptySession (js ''s'') (js ''t'') None)
       (sample_response\<lparr>gr_content := js ''Hello'', gr_product_id := Some (js ''a'')\<rparr>) ByGenerate"

definition sample_studio :: workspace_view where
  "sample_studio = empty_studio
     \<lparr>wv_session := (createEmptySession (js ''s'') (js ''t'') None)
        \<lparr>cs_variants := [sample_variant], cs_activeVariantId := Some (js ''v1'')\<rparr>\<rparr>"

lemma sample_studio_simps:
  "activeVariant (wv_session sample_studio) = Some sample_variant"
  "v_productId sample_variant = Some (js ''a'')" "trim (v_content sample_variant) \<noteq> []"
  by (simp_all add: sample_studio_def activeVariant_def sample_variant_def buildVariant_def
      sample_response_def trim_eq_Nil_iff is_space_def js_def)


lemma queued_item_matches_product_witness:
  "u_button_url (queue_input Queued sample_variant
     (run (workspace_step ascii_lower refuses_publish)
        (mount_workspace (js ''t'') (createEmptySession (js ''s'') (js ''t'') None)) loading_actions)) =
   Given (js ''https://l'')"
proof -
  let ?s = "run (workspace_step ascii_lower refuses_publish)
        (mount_workspace (js ''t'') (createEmptySession (js ''s'') (js ''t'') None)) loading_actions"
  have s: "selectedProduct ?s = Some linked_product"
    "pc_productId (cs_productContext (wv_session ?s)) = Some (p_id linked_product)"
    by code_simp+
  have "p_affiliate_url linked_product = Some (js ''https://l'')" by (simp add: linked_product_def)
  with queued_item_matches_product [OF loading_admissible refl s] show ?thesis by simp
qed

lemma compare_pair_sides_witness:
  "let session = (createEmptySession (js ''s'') (js ''t'') None)
       \<lparr>cs_variants := [sample_variant, sample_variant\<lparr>v_id := js ''v2''\<rparr>],
        cs_activeVariantId := Some (js ''v1'')\<rparr>
   in fst (comparePair session) = snd (comparePair session)"
proof -
  let ?s = "(createEmptySession (js ''s'') (js ''t'') None)
       \<lparr>cs_variants := [sample_variant, sample_variant\<lparr>v_id := js ''v2''\<rparr>],
        cs_activeVariantId := Some (js ''v1'')\<rparr>"
  have "distinct (map v_id (cs_variants ?s))" "0 < length (cs_variants ?s)" "2 \<le> length (cs_variants ?s)"
    "cs_activeVariantId ?s = Some (v_id (cs_variants ?s ! 0))"
    by (simp_all add: sample_variant_def buildVariant_def js_def)
  from compare_pair_sides [OF this] show ?thesis by (simp add: Let_def split_beta)
qed

lemma queue_item_mixes_products_witness:
  "let other = \<lparr>po_id = js ''b'', po_label = js ''B'', po_imageUrl = [],
                po_affiliateUrl = Some (js ''https://b'')\<rparr>;
       s1 = workspace_step ascii_lower refuses_publish sample_studio
         (js ''t1'', UseSession (UpdateContext (js ''t1'') (pick_product [other] (js ''b''))))
   in u_product_id (queue_input Queued sample_variant s1) = Given (js ''a'') \<and>
      u_button_url (queue_input Queued sample_variant s1) = Given (js ''https://b'')"
proof -
  let ?other = "\<lparr>po_id = js ''b'', po_label = js ''B'', po_imageUrl = [],
                po_affiliateUrl = Some (js ''https://b'')\<rparr>"
  have "js ''a'' \<noteq> []" "js ''b'' \<noteq> []" by simp_all
  moreover have "List.find (\<lambda>item. po_id item = js ''b'') [?other] = Some ?other" by simp
  moreover have "wv_products sample_studio (js ''b'') = None"
    by (simp add: sample_studio_def empty_studio_def mount_workspace_def product_effect_def
        selectedProduct_def createEmptySession_def default_context_def Let_def)
  ultimately show ?thesis
    using queue_item_mixes_products [OF sample_studio_simps(1,2) _ _ _ _ sample_studio_simps(3),
        of "js ''b''" "[?other]" ?other ascii_lower refuses_publish "js ''t1''" Queued False]
    by (simp add: Let_def)
qed

lemma publish_retry_creates_again_witness:
  "length (filter is_create (wv_calls (queueFromActive (js ''t2'') refuses_publish Queued True
     (queueFromActive (js ''t1'') refuses_publish Queued True sample_studio)))) \<ge> 2"
proof -
  have "as_create refuses_publish (wv_calls sample_studio) (queue_input Queued sample_variant sample_studio) =
      Inr (sample_item (js ''q'') (js ''2024-01-01''))"
    "as_publish refuses_publish (wv_calls sample_studio @
       [CreateItem (queue_input Queued sample_variant sample_studio)])
       (q_id (sample_item (js ''q'') (js ''2024-01-01''))) = Some ThrownOther"
    by (simp_all add: refuses_publish_def)
  from publish_retry_creates_again [OF sample_studio_simps(1,3) this, of "js ''t1''" "js ''t2''"]
  show ?thesis by (auto simp: Let_def)
qed

lemma blank_draft_hides_editor_witness:
  "let c1 = fst (canvas_step \<lparr>cv_content = js ''Hello'', cv_draft = js ''Hello''\<rparr> (TypeDraft []))
   in editor_shown (run (\<lambda>c a. fst (canvas_step c a)) c1 [TypeDraft (js ''x''), BlurEditor]) = False"
proof -
  have "\<forall>a \<in> set [TypeDraft (js ''x''), BlurEditor]. (case a of
      ContentChanged content \<Rightarrow> content = cv_content \<lparr>cv_content = js ''Hello'', cv_draft = js ''Hello''\<rparr>
    | _ \<Rightarrow> True)" by simp
  from blank_draft_hides_editor [OF _ this, of "[]"] show ?thesis
    by (simp add: Let_def trim_eq_Nil_iff)
qed

end
