(* ===== verification/StudioControls.thy ===== *)
theory StudioControls
  imports ContentWorkspace Widgets
begin

text \<open>
  What the content studio shows, and what can be done on it: \<open>frontend/src/features/ai/components\<close>
  (\<open>ConfigControlBoard\<close>, \<open>ContentTypeScroller\<close>, \<open>ToneMatrix\<close>, \<open>PromptPipelinePreview\<close>,
  \<open>ProductSourcePicker\<close>, \<open>VariantTabs\<close>, \<open>PerformanceScoreBadges\<close>, \<open>AiSuggestionsPanel\<close>,
  \<open>DistributionHub\<close>, \<open>VariantCompareDialog\<close>, \<open>ResetStudioDialog\<close>) and the markup of
  \<open>ContentWorkspaceView.tsx\<close>, over the state machine of \<open>ContentWorkspace\<close>.
\<close>

section \<open>The options of types/session.ts\<close>

definition type_social :: jstring where
  "type_social =
    [1605, 1606, 1588, 1608, 1585, 32, 1588, 1576, 1603, 1575, 1578]"

definition type_description :: jstring where
  "type_description =
    [1608, 1589, 1601, 32, 1605, 1606, 1578, 1580]"

definition type_telegram :: jstring where
  "type_telegram =
    [1605, 1606, 1588, 1608, 1585, 32, 1578, 1604, 1594, 1585, 1575, 1605]"

definition type_facebook :: jstring where
  "type_facebook =
    [1573, 1593, 1604, 1575, 1606, 32, 1601, 1610, 1587, 1576, 1608, 1603]"

definition type_blog :: jstring where
  "type_blog =
    [1605, 1602, 1575, 1604, 32, 1605, 1583, 1608, 1606, 1577]"

definition type_email :: jstring where
  "type_email =
    [1576, 1585, 1610, 1583, 32, 1573, 1604, 1603, 1578, 1585, 1608, 1606, 1610]"

definition CONTENT_TYPE_OPTIONS :: "(ContentType \<times> jstring) list" where
  "CONTENT_TYPE_OPTIONS =
     [(Social, type_social), (Description, type_description), (Telegram, type_telegram),
      (FacebookAd, type_facebook), (Blog, type_blog), (Email, type_email)]"

definition tone_professional :: jstring where
  "tone_professional =
    [1605, 1607, 1606, 1610]"

definition tone_friendly :: jstring where
  "tone_friendly =
    [1608, 1583, 1610]"

definition tone_luxury :: jstring where
  "tone_luxury =
    [1601, 1575, 1582, 1585]"

definition tone_technical :: jstring where
  "tone_technical =
    [1578, 1602, 1606, 1610]"

definition tone_urgent :: jstring where
  "tone_urgent =
    [1593, 1575, 1580, 1604]"

definition tone_minimal :: jstring where
  "tone_minimal =
    [1576, 1587, 1610, 1591]"

definition tone_persuasive :: jstring where
  "tone_persuasive =
    [1573, 1602, 1606, 1575, 1593, 1610]"

definition tone_funny :: jstring where
  "tone_funny =
    [1601, 1603, 1575, 1607, 1610]"

definition TONE_OPTIONS :: "(ToneProfile \<times> jstring) list" where
  "TONE_OPTIONS =
     [(Professional, tone_professional), (Friendly, tone_friendly), (Luxury, tone_luxury),
      (Technical, tone_technical), (Urgent, tone_urgent), (Minimal, tone_minimal),
      (Persuasive, tone_persuasive), (Funny, tone_funny)]"

definition language_ar :: jstring where
  "language_ar =
    [1575, 1604, 1593, 1585, 1576, 1610, 1577]"

definition language_fr :: jstring where
  "language_fr =
    [70, 114, 97, 110, 231, 97, 105, 115]"

definition LANGUAGE_OPTIONS :: "(ContentLanguage \<times> jstring) list" where
  "LANGUAGE_OPTIONS =
     [(Ar, language_ar), (En, js ''English''), (Fr, language_fr), (De, js ''Deutsch'')]"

definition length_short :: jstring where
  "length_short =
    [1602, 1589, 1610, 1585]"

definition length_medium :: jstring where
  "length_medium =
    [1605, 1578, 1608, 1587, 1591]"

definition length_long :: jstring where
  "length_long =
    [1591, 1608, 1610, 1604]"

definition LENGTH_OPTIONS :: "(ContentLength \<times> jstring) list" where
  "LENGTH_OPTIONS = [(Short, length_short), (Medium, length_medium), (Long, length_long)]"

definition modifier_emojis :: jstring where
  "modifier_emojis =
    [1573, 1590, 1575, 1601, 1577, 32, 1585, 1605, 1608, 1586, 32, 1578, 1593, 1576, 1610,
     1585, 1610, 1577]"

definition modifier_cta :: jstring where
  "modifier_cta =
    [1578, 1602, 1608, 1610, 1577, 32, 1593, 1576, 1575, 1585, 1577, 32, 67, 84, 65]"

definition modifier_shorten :: jstring where
  "modifier_shorten =
    [1578, 1602, 1589, 1610, 1585, 32, 1575, 1604, 1606, 1589]"

definition modifier_urgency :: jstring where
  "modifier_urgency =
    [1586, 1610, 1575, 1583, 1577, 32, 1591, 1575, 1576, 1593, 32, 1575, 1604, 1593, 1580,
     1604, 1577]"

definition modifier_seo :: jstring where
  "modifier_seo =
    [1578, 1581, 1587, 1610, 1606, 32, 1575, 1604, 1600, 32, 83, 69, 79]"

definition MODIFIER_OPTIONS :: "(InstructionModifier \<times> jstring) list" where
  "MODIFIER_OPTIONS =
     [(AddEmojis, modifier_emojis), (StrengthenCta, modifier_cta), (Shorten, modifier_shorten),
      (IncreaseUrgency, modifier_urgency), (ImproveSeo, modifier_seo)]"

section \<open>ConfigControlBoard.tsx, ContentTypeScroller.tsx, ToneMatrix.tsx\<close>

definition no_config_patch :: stored_config where
  "no_config_patch =
     \<lparr>so_contentType = None, so_tone = None, so_language = None, so_length = None, so_provider = None\<rparr>"

text \<open>The patch a choice hands to \<open>onConfigChange\<close>.\<close>

datatype config_choice =
  ChooseType ContentType | ChooseTone ToneProfile | ChooseLanguage ContentLanguage
| ChooseLength ContentLength | ChooseProvider "AIProvider option"

fun config_patch :: "config_choice \<Rightarrow> stored_config" where
  "config_patch (ChooseType v) = no_config_patch\<lparr>so_contentType := Some v\<rparr>"
| "config_patch (ChooseTone v) = no_config_patch\<lparr>so_tone := Some v\<rparr>"
| "config_patch (ChooseLanguage v) = no_config_patch\<lparr>so_language := Some v\<rparr>"
| "config_patch (ChooseLength v) = no_config_patch\<lparr>so_length := Some v\<rparr>"
| "config_patch (ChooseProvider v) = no_config_patch\<lparr>so_provider := Some v\<rparr>"

text \<open>The choices the board offers; the provider only when the advanced settings are open.\<close>

definition board_choices :: "ContentSession \<Rightarrow> config_choice list" where
  "board_choices session =
     map (ChooseType \<circ> fst) CONTENT_TYPE_OPTIONS @ map (ChooseTone \<circ> fst) TONE_OPTIONS @
     map (ChooseLanguage \<circ> fst) LANGUAGE_OPTIONS @ map (ChooseLength \<circ> fst) LENGTH_OPTIONS @
     (if cs_advancedOpen session then map ChooseProvider [None, Some OpenAI, Some Gemini] else [])"

section \<open>PromptPipelinePreview.tsx\<close>

text \<open>Every value of the types has a label, so that the fallback of \<open>labelOf\<close> is not needed.\<close>

definition labelOf :: "('v \<times> jstring) list \<Rightarrow> 'v \<Rightarrow> jstring option" where
  "labelOf options v = map_option snd (List.find (\<lambda>item. fst item = v) options)"

definition a_product :: jstring where
  "a_product =
    [1605, 1606, 1578, 1580]"

definition aliexpress_link :: jstring where
  "aliexpress_link =
    [1585, 1575, 1576, 1591, 32, 65, 108, 105, 69, 120, 112, 114, 101, 115, 115]"

definition no_source :: jstring where
  "no_source =
    [1576, 1583, 1608, 1606, 32, 1605, 1589, 1583, 1585]"

definition pipeline_source :: "ProductContextState \<Rightarrow> jstring" where
  "pipeline_source context =
     (if pc_sourceType context = SourceProduct
      then (if truthy (pc_productLabel context) then the (pc_productLabel context)
            else if truthy (pc_productId context) then the (pc_productId context) else a_product)
      else if truthy (map_option trim (pc_url context)) then aliexpress_link else no_source)"

definition PromptPipelinePreview :: "ContentSession \<Rightarrow> jstring option list" where
  "PromptPipelinePreview session =
     (let config = cs_config session in
      [Some (pipeline_source (cs_productContext session)),
       labelOf CONTENT_TYPE_OPTIONS (cf_contentType config), labelOf TONE_OPTIONS (cf_tone config),
       labelOf LANGUAGE_OPTIONS (cf_language config), labelOf LENGTH_OPTIONS (cf_length config)])"

section \<open>PerformanceScoreBadges.tsx\<close>

text \<open>\<open>String.repeat\<close> throws for a negative count.\<close>

definition stars :: "int \<Rightarrow> jstring option" where
  "stars score =
     (let filled = math_round (of_int score / 20) in
      if filled < 0 then None
      else Some (replicate (nat filled) 9733 @ replicate (nat (max 0 (5 - filled))) 9734))"

text \<open>The number, the stars and the width of the bar of each metric.\<close>

definition PerformanceScoreBadges :: "PerformanceScores \<Rightarrow> (int \<times> jstring option \<times> int) list" where
  "PerformanceScoreBadges scores =
     map (\<lambda>metric. (metric scores, stars (metric scores), min 100 (metric scores)))
       [sc_arabic, sc_marketing, sc_seo, sc_readability]"

section \<open>The controls\<close>

definition variant_prefix :: jstring where
  "variant_prefix =
    [1575, 1604, 1606, 1587, 1582, 1577, 32]"

definition compare_label :: jstring where
  "compare_label =
    [1605, 1602, 1575, 1585, 1606, 1577, 32, 1575, 1604, 1606, 1587, 1582]"

definition restore_label :: jstring where
  "restore_label =
    [1575, 1587, 1578, 1593, 1575, 1583, 1577, 32, 1575, 1604, 1606, 1587, 1582, 1577, 32,
     1575, 1604, 1587, 1575, 1576, 1602, 1577]"

definition active_index :: "ContentSession \<Rightarrow> nat option" where
  "active_index session =
     find_index (\<lambda>item. Some (v_id item) = cs_activeVariantId session) (cs_variants session)"

text \<open>\<open>uuid\<close> and \<open>time\<close> are what the handlers read.\<close>

definition VariantTabs :: "jstring \<Rightarrow> jstring \<Rightarrow> ContentSession \<Rightarrow> workspace_action control list" where
  "VariantTabs uuid time session =
     (if cs_variants session = [] then []
      else map (\<lambda>variant. Button (variant_prefix @ decimal (v_index variant)) False False
                  (UseSession (Activate time (v_id variant)))) (cs_variants session) @
           [Button compare_label (length (cs_variants session) < 2) False Compare,
            Button restore_label
              (case active_index session of Some (Suc i) \<Rightarrow> False | _ \<Rightarrow> True) False
              (RestorePrevious uuid)])"

definition apply_suggestions_label :: jstring where
  "apply_suggestions_label =
    [1578, 1591, 1576, 1610, 1602, 32, 1575, 1604, 1575, 1602, 1578, 1585, 1575, 1581, 1575,
     1578, 32, 1603, 1606, 1587, 1582, 1577, 32, 1576, 1583, 1610, 1604, 1577]"

definition suggestions_title :: jstring where
  "suggestions_title =
    [1575, 1602, 1578, 1585, 1575, 1581, 1575, 1578, 32, 1575, 1604, 1584, 1603, 1575, 1569,
     32, 1575, 1604, 1575, 1589, 1591, 1606, 1575, 1593, 1610]"

definition AiSuggestionsPanel :: "jstring \<Rightarrow> workspace_view \<Rightarrow> workspace_action control list" where
  "AiSuggestionsPanel time s =
     Button suggestions_title False False ToggleSuggestions #
     (if cs_suggestionsOpen (wv_session s)
      then map (\<lambda>(m, label). Button label False False (UseSession (ToggleModifier time m)))
             MODIFIER_OPTIONS @
           [Button apply_suggestions_label (apply_disabled s) False (Generate ByVariant)]
      else [])"

definition create_label :: jstring where
  "create_label =
    [1573, 1606, 1588, 1575, 1569, 32, 1575, 1604, 1605, 1581, 1578, 1608, 1609]"

definition publish_label :: jstring where
  "publish_label =
    [1606, 1588, 1585, 32, 1575, 1604, 1570, 1606]"

definition schedule_publish_label :: jstring where
  "schedule_publish_label =
    [1573, 1590, 1575, 1601, 1577, 32, 1573, 1604, 1609, 32, 1580, 1583, 1608, 1604, 1577,
     32, 1575, 1604, 1606, 1588, 1585]"

definition save_draft_label :: jstring where
  "save_draft_label =
    [1581, 1601, 1592, 32, 1603, 1605, 1587, 1608, 1583, 1577]"

definition regenerate_label :: jstring where
  "regenerate_label =
    [1578, 1608, 1604, 1610, 1583, 32, 1606, 1587, 1582, 1577, 32, 1576, 1583, 1610, 1604,
     1577]"

definition reset_studio_label :: jstring where
  "reset_studio_label =
    [1573, 1593, 1575, 1583, 1577, 32, 1578, 1593, 1610, 1610, 1606]"

definition copy_label :: jstring where
  "copy_label =
    [1606, 1587, 1582, 32, 1575, 1604, 1606, 1589, 32, 1575, 1604, 1581, 1575, 1604, 1610]"

text \<open>The menu of formats stays open when the content becomes empty; its items have no guard.\<close>

definition DistributionHub ::
  "jstring \<Rightarrow> bool \<Rightarrow> bool \<Rightarrow> workspace_view \<Rightarrow> workspace_action control list" where
  "DistributionHub uuid busy exportOpen s =
     (let disabled = distribution_disabled s; hasVariants = (cs_variants (wv_session s) \<noteq> []) in
      [Button create_label (generate_disabled s) (generating s \<and> \<not> hasVariants) (Generate ByGenerate),
       Button publish_label (disabled \<or> busy) busy (QueueActive Queued True),
       Button schedule_publish_label (disabled \<or> busy) busy (QueueActive Queued False),
       Button save_draft_label (disabled \<or> busy) busy (QueueActive Draft False),
       Button regenerate_label (regenerate_disabled s) (generating s \<and> hasVariants) (Generate ByVariant),
       Button reset_studio_label False False (AskReset uuid),
       Button copy_label disabled False CopyActive] @
      (if exportOpen
       then map (\<lambda>fmt. Button ([46] @ format_text fmt) False False (ExportActive fmt)) [Txt, Md, Html]
       else []))"

datatype export_menu = ExportButton | ExportChoice

text \<open>The button of the menu, which is disabled without content, and its items, which close it.\<close>

definition export_menu_step :: "bool \<Rightarrow> bool \<Rightarrow> export_menu \<Rightarrow> bool" where
  "export_menu_step disabled is_open e = (case e of
     ExportButton \<Rightarrow> if disabled then is_open else \<not> is_open
   | ExportChoice \<Rightarrow> False)"

definition close_compare_label :: jstring where
  "close_compare_label =
    [1573, 1594, 1604, 1575, 1602]"

definition VariantCompareDialog ::
  "workspace_view \<Rightarrow> ((nat \<times> jstring) \<times> (nat \<times> jstring)) option \<times> workspace_action control list" where
  "VariantCompareDialog s =
     (case (compareOpen s, comparePair (wv_session s)) of
        (True, Some left, Some right) \<Rightarrow>
          (Some ((v_index left, v_content left), (v_index right, v_content right)),
           [Button close_compare_label False False CloseCompare])
      | _ \<Rightarrow> (None, []))"

definition ResetStudioDialog :: "jstring \<Rightarrow> workspace_view \<Rightarrow> workspace_action control list" where
  "ResetStudioDialog uuid s =
     (if \<not> resetConfirmOpen s then []
      else [Button (js ''Cancel'') False False CancelReset,
            Button (js ''Reset'') False False (ConfirmReset uuid)])"

section \<open>The markup of ContentWorkspaceView.tsx\<close>

definition advanced_settings_title :: jstring where
  "advanced_settings_title =
    [1575, 1604, 1573, 1593, 1583, 1575, 1583, 1575, 1578, 32, 1575, 1604, 1605, 1578, 1602,
     1583, 1605, 1577]"

definition studio_controls ::
  "jstring \<Rightarrow> jstring \<Rightarrow> bool \<Rightarrow> bool \<Rightarrow> workspace_view \<Rightarrow> workspace_action control list" where
  "studio_controls uuid time busy exportOpen s =
     map (\<lambda>c. Button [] False False (UseSession (UpdateConfig time (config_patch c))))
       (board_choices (wv_session s)) @
     [Button advanced_settings_title False False ToggleAdvanced] @
     VariantTabs uuid time (wv_session s) @ AiSuggestionsPanel time s @
     DistributionHub uuid busy exportOpen s @ snd (VariantCompareDialog s) @ ResetStudioDialog uuid s"

record studio_shown =
  st_error :: "jstring option"
  st_message :: "jstring option"
  st_pipeline :: "jstring option list"
  st_scores :: "(int \<times> jstring option \<times> int) list option"
  st_document :: "DocumentBlock list"
  st_compared :: "((nat \<times> jstring) \<times> (nat \<times> jstring)) option"

text \<open>The document is that of the content; while the editor is used, that of its draft.\<close>

definition ContentWorkspaceView_shown :: "workspace_view \<Rightarrow> canvas \<Rightarrow> studio_shown" where
  "ContentWorkspaceView_shown s cv =
     \<lparr>st_error = truthy_or_none (shown_error s), st_message = truthy_or_none (wv_actionMessage s),
      st_pipeline = PromptPipelinePreview (wv_session s),
      st_scores = map_option (\<lambda>v. PerformanceScoreBadges (v_scores v)) (activeVariant (wv_session s)),
      st_document = (if editor_shown cv then parseMarketingDocument (cv_draft cv) else []),
      st_compared = fst (VariantCompareDialog s)\<rparr>"

text \<open>What a user or the world does; a text of the editor is handed on when the editor is left.\<close>

datatype studio_press =
  PressStudio workspace_action | PickSource source_type | PickProduct "Product list" jstring
| TypeLink jstring | LeaveEditor jstring
| AnswerArrives "thrown + GenerateContentResponse" | ProductArrives jstring Product
| ChannelArrives "jstring option"

definition studio_action ::
  "jstring \<Rightarrow> jstring \<Rightarrow> workspace_view \<Rightarrow> studio_press \<Rightarrow> workspace_action" where
  "studio_action uuid time s b = (case b of
     PressStudio a \<Rightarrow> a
   | PickSource kind \<Rightarrow>
       UseSession (UpdateContext time (pick_source_type kind (cs_productContext (wv_session s))))
   | PickProduct items value \<Rightarrow>
       UseSession (UpdateContext time (pick_product (picker_options items) value))
   | TypeLink value \<Rightarrow> UseSession (UpdateContext time (type_url value))
   | LeaveEditor value \<Rightarrow> UseSession (UpdateContent time value)
   | AnswerArrives answer \<Rightarrow> GenerationAnswered uuid answer
   | ProductArrives i p \<Rightarrow> ProductLoaded i p
   | ChannelArrives c \<Rightarrow> ChannelLoaded c)"

record studio_event =
  se_uuid :: jstring
  se_time :: jstring
  se_busy :: bool
  se_exportOpen :: bool
  se_press :: studio_press

definition studio_press_ok :: "workspace_view \<Rightarrow> studio_event \<Rightarrow> bool" where
  "studio_press_ok s e \<longleftrightarrow>
     fresh_id (se_uuid e) (wv_session s) \<and>
     (case se_press e of
        PressStudio a \<Rightarrow>
          a \<in> set (offered (studio_controls (se_uuid e) (se_time e) (se_busy e) (se_exportOpen e) s))
      | PickProduct items value \<Rightarrow>
          pc_sourceType (cs_productContext (wv_session s)) = SourceProduct \<and>
          value \<in> set ([] # map p_id items)
      | TypeLink _ \<Rightarrow> pc_sourceType (cs_productContext (wv_session s)) = SourceUrl
      | AnswerArrives _ \<Rightarrow> generating s
      | _ \<Rightarrow> True)"

definition studio_press_step ::
  "(jstring \<Rightarrow> jstring) \<Rightarrow> ai_server \<Rightarrow> workspace_view \<Rightarrow> studio_event \<Rightarrow> workspace_view" where
  "studio_press_step lower_case srv s e =
     workspace_step lower_case srv s (se_time e, studio_action (se_uuid e) (se_time e) s (se_press e))"

section \<open>What is offered\<close>

text \<open>An action that may be offered.\<close>

definition studio_fits :: "workspace_view \<Rightarrow> jstring \<Rightarrow> workspace_action \<Rightarrow> bool" where
  "studio_fits s uuid a = (case a of
     UseSession u \<Rightarrow> edit_update u
   | Generate _ \<Rightarrow> \<not> generating s
   | GenerationAnswered _ _ \<Rightarrow> False
   | RestorePrevious i \<Rightarrow> i = uuid
   | _ \<Rightarrow> True)"

lemma compare_controls_fit: "controls_fit (studio_fits s uuid) (snd (VariantCompareDialog s))"
  by (simp add: VariantCompareDialog_def studio_fits_def split: prod.splits option.splits bool.splits)

lemma studio_controls_fit:
  "controls_fit (studio_fits s uuid) (studio_controls uuid time busy exportOpen s)"
proof -
  have board: "controls_fit (studio_fits s uuid)
      (map (\<lambda>c. Button [] False False (UseSession (UpdateConfig time (config_patch c)))) cs)" for cs
    by (induction cs) (simp_all add: studio_fits_def edit_update_def)
  have tabs: "controls_fit (studio_fits s uuid) (map (\<lambda>variant. Button (f variant) False False
      (UseSession (Activate time (v_id variant)))) vs)" for f vs
    by (induction vs) (simp_all add: studio_fits_def edit_update_def)
  show ?thesis
    by (auto simp: studio_controls_def board VariantTabs_def tabs AiSuggestionsPanel_def MODIFIER_OPTIONS_def
        DistributionHub_def compare_controls_fit ResetStudioDialog_def Let_def studio_fits_def
        edit_update_def apply_disabled_def regenerate_disabled_def generate_disabled_def)
qed

lemma studio_pressed_ok:
  "studio_press_ok s e \<Longrightarrow>
     workspace_ok s (se_time e, studio_action (se_uuid e) (se_time e) s (se_press e))"
  using offered_fits [OF studio_controls_fit]
  by (fastforce simp: studio_press_ok_def studio_action_def workspace_ok_def studio_fits_def edit_update_def
      split: studio_press.splits workspace_action.splits session_update.splits)

interpretation pressed_studio: state_machine "studio_press_step lc srv" studio_press_ok workspace_inv for lc srv
  by unfold_locales (auto simp: studio_press_step_def intro!: workspace_step_inv studio_pressed_ok)

section \<open>One generation at a time\<close>

fun is_generate :: "ai_call \<Rightarrow> bool" where
  "is_generate (GenerateContent _) = True"
| "is_generate _ = False"

text \<open>Presses after which no answer is waited for.\<close>

definition ends_generation :: "studio_event \<Rightarrow> bool" where
  "ends_generation e = (case se_press e of
     AnswerArrives _ \<Rightarrow> True
   | PressStudio (AskReset _) \<Rightarrow> True
   | PressStudio (ConfirmReset _) \<Rightarrow> True
   | _ \<Rightarrow> False)"

definition requests :: "workspace_view \<Rightarrow> nat" where
  "requests s = length (filter is_generate (wv_calls s))"

text \<open>A request has one source, and what is put into the queue has a text.\<close>

definition call_sound :: "ai_call \<Rightarrow> bool" where
  "call_sound c = (case c of
     GenerateContent payload \<Rightarrow>
       truthy (gi_product_id payload) \<noteq> truthy (gi_url payload) \<and>
       (gi_product_id payload = None) \<noteq> (gi_url payload = None)
   | CreateItem input \<Rightarrow> (case u_content input of Given t \<Rightarrow> t \<noteq> [] | _ \<Rightarrow> False)
   | PublishItem _ \<Rightarrow> True)"

lemma effects_pending [simp]:
  "wv_pending (product_effect t s) = wv_pending s"
  "wv_pending (render_effects t old s) = wv_pending s"
  by (auto simp: product_effect_def render_effects_def Let_def split: option.splits)

lemma queue_keeps [simp]:
  "wv_pending (queueFromActive t srv status p s) = wv_pending s"
  "requests (queueFromActive t srv status p s) = requests s"
  "wv_pending (exportActive t fmt s) = wv_pending s" "wv_calls (exportActive t fmt s) = wv_calls s"
  "wv_pending (copyActive s) = wv_pending s" "wv_calls (copyActive s) = wv_calls s"
  by (auto simp: queueFromActive_def exportActive_def copyActive_def requests_def log_out_def Let_def
      split: option.splits sum.splits)

text \<open>A request adds to what is waited for, an answer and a reset take it back.\<close>

lemma counted_simps [simp]:
  "generating (s\<lparr>wv_session := x\<rparr>) = generating s" "requests (s\<lparr>wv_session := x\<rparr>) = requests s"
  "generating (s\<lparr>compareOpen := b\<rparr>) = generating s" "requests (s\<lparr>compareOpen := b\<rparr>) = requests s"
  "generating (s\<lparr>resetConfirmOpen := b\<rparr>) = generating s" "requests (s\<lparr>resetConfirmOpen := b\<rparr>) = requests s"
  "generating (s\<lparr>wv_products := ps\<rparr>) = generating s" "requests (s\<lparr>wv_products := ps\<rparr>) = requests s"
  "generating (s\<lparr>wv_channel := ch\<rparr>) = generating s" "requests (s\<lparr>wv_channel := ch\<rparr>) = requests s"
  "generating (queueFromActive t srv status p s) = generating s" "requests (queueFromActive t srv status p s) = requests s"
  "generating (exportActive t fmt s) = generating s" "requests (exportActive t fmt s) = requests s"
  "generating (copyActive s) = generating s" "requests (copyActive s) = requests s"
  by (simp_all add: generating_def) (simp_all add: requests_def)

definition ends_action :: "workspace_action \<Rightarrow> bool" where
  "ends_action a = (case a of
     GenerationAnswered _ _ \<Rightarrow> True | AskReset _ \<Rightarrow> True | ConfirmReset _ \<Rightarrow> True | _ \<Rightarrow> False)"

lemma requests_runGenerate:
  "\<not> generating s \<Longrightarrow>
     requests (runGenerate b s) \<le> requests s + (if generating (runGenerate b s) then 1 else 0)"
  by (simp add: runGenerate_def requests_def generating_def split: option.split)

lemma requests_ended [simp]:
  "requests (performReset i t s) = requests s" "requests (requestReset i t s) = requests s"
  "requests (generation_answered lc i t answer s) = requests s"
  by (auto simp: performReset_def requestReset_def generation_answered_def requests_def
      split: option.split sum.split)

lemma requests_handler:
  assumes "case a of Generate _ \<Rightarrow> \<not> generating s | _ \<Rightarrow> True"
  shows "requests (workspace_handler lc t srv s a) + (if generating s then 1 else 0)
    \<le> requests s + (if generating (workspace_handler lc t srv s a) then 1 else 0) +
       (if ends_action a then 1 else 0)"
  using assms requests_runGenerate [of s]
  by (cases a) (simp_all add: workspace_handler_def Let_def ends_action_def)

lemma studio_action_fits:
  assumes "studio_press_ok s e"
  shows "(case studio_action u t s (se_press e) of Generate _ \<Rightarrow> \<not> generating s | _ \<Rightarrow> True) \<and>
    (ends_action (studio_action u t s (se_press e)) \<longrightarrow> ends_generation e)"
proof (cases "se_press e")
  case (PressStudio a)
  then have "studio_fits s (se_uuid e) a"
    using assms offered_fits [OF studio_controls_fit] by (auto simp: studio_press_ok_def)
  then show ?thesis
    using PressStudio by (cases a) (simp_all add: studio_action_def studio_fits_def ends_action_def ends_generation_def)
qed (simp_all add: studio_action_def ends_action_def ends_generation_def)

lemma requests_step:
  assumes "studio_press_ok s e"
  shows "requests (studio_press_step lc srv s e) + (if generating s then 1 else 0)
    \<le> requests s + (if generating (studio_press_step lc srv s e) then 1 else 0) +
       (if ends_generation e then 1 else 0)"
proof -
  let ?a = "studio_action (se_uuid e) (se_time e) s (se_press e)"
  let ?h = "workspace_handler lc (se_time e) srv s ?a"
  have "requests (studio_press_step lc srv s e) = requests ?h"
    "generating (studio_press_step lc srv s e) = generating ?h"
    by (simp_all add: studio_press_step_def workspace_step_def requests_def generating_def)
  then show ?thesis
    using studio_action_fits [OF assms, of "se_uuid e" "se_time e"] requests_handler [of s ?a lc "se_time e" srv]
    by (auto split: if_splits)
qed

lemma requests_run:
  "admissible (studio_press_step lc srv) studio_press_ok s events \<Longrightarrow>
     requests (run (studio_press_step lc srv) s events) + (if generating s then 1 else 0)
     \<le> requests s + length (filter ends_generation events) +
        (if generating (run (studio_press_step lc srv) s events) then 1 else 0)"
proof (induction events arbitrary: s)
  case Nil
  then show ?case by simp
next
  case (Cons e events)
  let ?s = "studio_press_step lc srv s e"
  have "studio_press_ok s e" "admissible (studio_press_step lc srv) studio_press_ok ?s events"
    using Cons.prems by simp_all
  then show ?case
    using requests_step [of s e lc srv] Cons.IH [of ?s] by (cases "ends_generation e") simp_all
qed

lemma payload_sound: "buildGeneratePayload session = Some payload \<Longrightarrow> call_sound (GenerateContent payload)"
  by (auto simp: buildGeneratePayload_def call_sound_def Let_def truthy_def split: if_splits option.splits)

lemma calls_sound_step:
  assumes "list_all call_sound (wv_calls s)"
  shows "list_all call_sound (wv_calls (studio_press_step lc srv s e))"
proof -
  have queue: "list_all call_sound (wv_calls (queueFromActive t srv status p s))" for t status p
    using assms
    by (auto simp: queueFromActive_def log_out_def Let_def call_sound_def queue_input_def
        buildAiQueueCreateInput_def split: option.splits sum.splits)
  have gen: "list_all call_sound (wv_calls (runGenerate b s))" for b
    using assms payload_sound by (auto simp: runGenerate_def split: option.splits)
  have ended: "wv_calls (performReset i t s) = wv_calls s" "wv_calls (requestReset i t s) = wv_calls s"
    "wv_calls (generation_answered lc i t answer s) = wv_calls s" for i t answer
    by (auto simp: performReset_def requestReset_def generation_answered_def
        split: option.split sum.split)
  have "list_all call_sound (wv_calls (workspace_handler lc t srv s a))" for t a
    using assms queue gen by (cases a) (simp_all add: workspace_handler_def Let_def ended)
  then show ?thesis by (simp add: studio_press_step_def workspace_step_def)
qed

lemma calls_sound_run:
  "list_all call_sound (wv_calls s) \<Longrightarrow>
     list_all call_sound (wv_calls (run (studio_press_step lc srv) s events))"
  by (induction events arbitrary: s) (simp_all add: calls_sound_step)

lemma mounted_quiet:
  "wv_calls (mount_workspace t session) = []" "wv_pending (mount_workspace t session) = None"
  by (simp_all add: mount_workspace_def)


text \<open>The product source is chosen, a product is picked and its text asked for.\<close>

definition asking_events :: "studio_event list" where
  "asking_events =
     map (\<lambda>p. \<lparr>se_uuid = js ''u'', se_time = js ''t'', se_busy = False, se_exportOpen = False,
                se_press = p\<rparr>)
       [PickSource SourceProduct, PickProduct [sample_product (js ''a'') 2] (js ''a''), PressStudio (Generate ByGenerate)]"

lemma generate_offered:
  "\<not> generate_disabled s \<Longrightarrow>
     Generate ByGenerate \<in> set (offered (studio_controls uuid time busy exportOpen s))"
  by (simp add: studio_controls_def DistributionHub_def Let_def generate_disabled_def)

lemma context_press:
  assumes "wv_products s = Map.empty" "studio_action (se_uuid e) (se_time e) s (se_press e) =
      UseSession (UpdateContext t patch)"
  shows "let s' = studio_press_step lc srv s e in
      cs_productContext (wv_session s') = merge_context (cs_productContext (wv_session s)) (Some patch) \<and>
      cs_variants (wv_session s') = cs_variants (wv_session s) \<and> wv_pending s' = wv_pending s \<and>
      wv_products s' = Map.empty"
  using assms
  by (simp add: studio_press_step_def workspace_step_def workspace_handler_def studio_step_def
      updateProductContext_def render_effects_def product_effect_def selectedProduct_def Let_def
      split: option.split)

lemma empty_studio_simps [simp]:
  "cs_productContext (wv_session empty_studio) = default_context"
  "cs_variants (wv_session empty_studio) = []" "wv_pending empty_studio = None"
  "wv_products empty_studio = Map.empty"
  by (simp_all add: empty_studio_def mount_workspace_def product_effect_def selectedProduct_def
      createEmptySession_def default_context_def Let_def)

lemma asking_admissible:
  "admissible (studio_press_step lc srv) studio_press_ok empty_studio asking_events"
proof -
  let ?e = "\<lambda>i. asking_events ! i"
  let ?s1 = "studio_press_step lc srv empty_studio (?e 0)"
  let ?s2 = "studio_press_step lc srv ?s1 (?e 1)"
  have s1: "pc_sourceType (cs_productContext (wv_session ?s1)) = SourceProduct \<and>
      cs_variants (wv_session ?s1) = [] \<and> wv_pending ?s1 = None \<and> wv_products ?s1 = Map.empty"
    using context_press [of empty_studio "?e 0" "js ''t''" "pick_source_type SourceProduct default_context" lc srv]
    by (simp add: Let_def asking_events_def studio_action_def merge_context_def pick_source_type_def
        no_context_patch_def)
  then have s2: "pc_productId (cs_productContext (wv_session ?s2)) = Some (js ''a'') \<and>
      pc_sourceType (cs_productContext (wv_session ?s2)) = SourceProduct \<and>
      cs_variants (wv_session ?s2) = [] \<and> wv_pending ?s2 = None"
    using context_press [of ?s1 "?e 1" "js ''t''"
        "pick_product (picker_options [sample_product (js ''a'') 2]) (js ''a'')" lc srv]
    by (simp add: Let_def asking_events_def studio_action_def merge_context_def pick_product_def
        no_context_patch_def js_def)
  then have "\<not> generate_disabled ?s2"
    by (simp add: generate_disabled_def canGenerate_def generating_def js_def)
  then have "studio_press_ok ?s2 (?e 2)"
    using s2 by (simp add: asking_events_def studio_press_ok_def generate_offered fresh_id_def js_def)
  moreover have "studio_press_ok empty_studio (?e 0)"
    by (simp add: asking_events_def studio_press_ok_def fresh_id_def js_def)
  moreover have "studio_press_ok ?s1 (?e 1)"
    using s1 by (simp add: asking_events_def studio_press_ok_def fresh_id_def js_def sample_product_def)
  ultimately show ?thesis by (simp add: asking_events_def)
qed


section \<open>Five stars\<close>

text \<open>Scores as \<open>scoreContent\<close> gives them.\<close>

definition on_scale :: "PerformanceScores \<Rightarrow> bool" where
  "on_scale scores \<longleftrightarrow>
     list_all (\<lambda>metric. 0 \<le> metric scores \<and> metric scores \<le> 100) [sc_arabic, sc_marketing, sc_seo, sc_readability]"

lemma scoreContent_on_scale [simp]: "on_scale (scoreContent lc content ar)"
  by (simp add: on_scale_def scoreContent_def Let_def clampScore_def)

lemma stars_five:
  assumes "0 \<le> score" "score \<le> 100"
  shows "\<exists>filled \<le> 5. stars score = Some (replicate filled 9733 @ replicate (5 - filled) 9734)"
proof -
  have "0 \<le> math_round (of_int score / 20)" using assms(1) by (intro math_round_ge) simp
  moreover have "math_round (of_int score / 20) \<le> 5" using assms(2) by (intro math_round_le) simp
  ultimately show ?thesis
    by (intro exI [of _ "nat (math_round (of_int score / 20))"])
      (auto simp: stars_def Let_def nat_diff_distrib)
qed

definition all_on_scale :: "workspace_view \<Rightarrow> bool" where
  "all_on_scale s \<longleftrightarrow> list_all (\<lambda>v. on_scale (v_scores v)) (cs_variants (wv_session s))"

lemma session_on_scale:
  "list_all (\<lambda>v. on_scale (v_scores v)) (cs_variants session) \<Longrightarrow>
     list_all (\<lambda>v. on_scale (v_scores v)) (cs_variants (studio_step lc session u))"
  by (cases u) (auto simp: studio_step_def list_all_iff updateProductContext_def updateConfig_def
      toggleModifier_def activateVariant_def appendVariantFromResponse_def buildVariant_def
      updateActiveContent_def restoreVariant_def logDistribution_def createEmptySession_def Let_def
      dest: find_Some_prop split: option.splits)

lemma scale_of_session:
  "cs_variants (wv_session s') = cs_variants (studio_step lc (wv_session s) u) \<Longrightarrow>
     all_on_scale s \<Longrightarrow> all_on_scale s'"
  using session_on_scale by (simp add: all_on_scale_def)

lemma all_on_scale_simps [simp]:
  "all_on_scale (log_out t kind v s) = all_on_scale s"
  "all_on_scale (s\<lparr>wv_calls := c\<rparr>) = all_on_scale s"
  "all_on_scale (s\<lparr>wv_actionError := e\<rparr>) = all_on_scale s"
  "all_on_scale (s\<lparr>wv_actionMessage := m\<rparr>) = all_on_scale s"
  "all_on_scale (s\<lparr>wv_downloads := d\<rparr>) = all_on_scale s"
  by (simp_all add: all_on_scale_def log_out_def logDistribution_def)

lemma scale_step:
  assumes "all_on_scale s"
  shows "all_on_scale (workspace_step lc srv s (t, a))"
proof -
  have update: "all_on_scale (s\<lparr>wv_session := studio_step lc (wv_session s) u\<rparr>)" for u
    using assms by (rule scale_of_session [of _ lc s u, rotated]) simp
  have reset: "all_on_scale (performReset i t s)" for i
    by (simp add: all_on_scale_def performReset_def createEmptySession_def)
  have queue: "all_on_scale (queueFromActive t srv status p s)" for status p
    using assms by (simp add: queueFromActive_def Let_def split: option.split sum.split)
  have answer: "all_on_scale (generation_answered lc i t answer s)" for i answer
  proof -
    have "all_on_scale (s\<lparr>wv_session := appendVariantFromResponse lc i t d b (wv_session s)\<rparr>)" for d b
      using update [of "AppendVariant i t d b"] by (simp add: studio_step_def)
    then show ?thesis
      using assms by (simp add: generation_answered_def all_on_scale_def split: option.split sum.split)
  qed
  have restore: "all_on_scale (s\<lparr>wv_session := restorePrevious i t (wv_session s)\<rparr>)" for i
    using assms update [of "Restore i t _"]
    by (simp add: restorePrevious_def studio_step_def split: option.split nat.split)
  have same: "cs_variants (wv_session (runGenerate b s)) = cs_variants (wv_session s)"
    "cs_variants (wv_session (exportActive t fmt s)) = cs_variants (wv_session s)"
    "cs_variants (wv_session (copyActive s)) = cs_variants (wv_session s)" for b fmt
    by (simp_all add: runGenerate_def exportActive_def copyActive_def log_out_def split: option.split)
  have frame: "cs_variants (wv_session s') = cs_variants (wv_session s) \<Longrightarrow> all_on_scale s'" for s'
    using assms by (simp add: all_on_scale_def)
  have "all_on_scale (workspace_handler lc t srv s a)"
  proof (cases a)
    case (AskReset i)
    then show ?thesis
      using reset by (simp add: workspace_handler_def requestReset_def frame)
  qed (simp_all add: workspace_handler_def Let_def update reset queue answer restore frame same)
  then show ?thesis by (simp add: workspace_step_def all_on_scale_def)
qed

lemma scale_run: "all_on_scale s \<Longrightarrow> all_on_scale (run (studio_press_step lc srv) s events)"
  by (induction events arbitrary: s) (simp_all add: studio_press_step_def scale_step)

text \<open>Whatever is done in a new session of the studio, every score it shows has five stars, the filled ones
  first, and a bar as wide as the score, which never leaves its frame: the number of filled stars
  is never negative, for which \<open>String.repeat\<close> would throw.\<close>

theorem every_score_has_five_stars:
  "case st_scores (ContentWorkspaceView_shown
      (run (studio_press_step lc srv) (mount_workspace t (createEmptySession uuid time None)) events) cv) of
     None \<Rightarrow> True
   | Some badges \<Rightarrow>
       length badges = 4 \<and>
       list_all (\<lambda>(score, shown, width). width = score \<and> 0 \<le> width \<and> width \<le> 100 \<and>
         list_ex (\<lambda>filled. shown = Some (replicate filled 9733 @ replicate (5 - filled) 9734)) [0..<6])
       badges"
proof -
  let ?s = "run (studio_press_step lc srv) (mount_workspace t (createEmptySession uuid time None)) events"
  have "all_on_scale ?s"
    by (rule scale_run) (simp add: all_on_scale_def mount_workspace_def createEmptySession_def)
  then have v: "on_scale (v_scores v)" if "activeVariant (wv_session ?s) = Some v" for v
    using that by (auto simp: all_on_scale_def activeVariant_def list_all_iff dest!: find_Some_prop)
  have five: "list_ex (\<lambda>filled. stars n = Some (replicate filled 9733 @ replicate (5 - filled) 9734)) [0..<6]"
    if "0 \<le> n" "n \<le> 100" for n
    using stars_five [OF that] by (auto simp: list_ex_iff less_Suc_eq_le)
  show ?thesis
  proof (cases "activeVariant (wv_session ?s)")
    case None
    then show ?thesis by (simp add: ContentWorkspaceView_shown_def)
  next
    case (Some w)
    with v [OF this] show ?thesis
      by (simp add: ContentWorkspaceView_shown_def PerformanceScoreBadges_def on_scale_def five del: upt.simps)
  qed
qed

end
