(* ===== verification/FormControls.thy ===== *)
theory FormControls
  imports QueueScheduling DiscoveryControls
begin

text \<open>
  Two small forms under their users: the scheduling dialog of the publishing screen
  (\<open>features/queue/components/QueueSchedulingDialog.tsx\<close>) over the validation of \<open>QueueScheduling\<close>, and
  the image search of the discovery screen (\<open>features/discovery/components/ImageSearchPanel.tsx\<close>).
  When react-hook-form validates a field that is edited is its own affair; here an edit says whether
  it did.
\<close>

section \<open>QueueSchedulingDialog.tsx\<close>

datatype dialog_event =
  EditChannel jstring bool | EditTime jstring bool | Preset schedule_preset
| SubmitDialog schedule_intent | DefaultsArrive SchedulingState | CloseDialog

definition preset_hour_label :: jstring where
  "preset_hour_label =
    [1576, 1593, 1583, 32, 1587, 1575, 1593, 1577]"

definition preset_morning_label :: jstring where
  "preset_morning_label =
    [1589, 1576, 1575, 1581, 32, 1575, 1604, 1594, 1583]"

definition preset_evening_label :: jstring where
  "preset_evening_label =
    [1605, 1587, 1575, 1569, 32, 1575, 1604, 1594, 1583]"

definition publish_now_label :: jstring where
  "publish_now_label =
    [1606, 1588, 1585, 32, 1575, 1604, 1570, 1606]"

definition dialog_close_label :: jstring where
  "dialog_close_label =
    [1573, 1604, 1594, 1575, 1569]"

definition save_schedule_label :: jstring where
  "save_schedule_label =
    [1581, 1601, 1592, 32, 1575, 1604, 1580, 1583, 1608, 1604, 1577]"

definition QueueSchedulingDialog :: "bool \<Rightarrow> scheduling_form \<Rightarrow> dialog_event control list" where
  "QueueSchedulingDialog busy f =
     [Button preset_hour_label False False (Preset PresetHour),
      Button preset_morning_label False False (Preset PresetTomorrowMorning),
      Button preset_evening_label False False (Preset PresetTomorrowEvening),
      Button publish_now_label (publish_disabled busy f) busy (SubmitDialog PublishNowIntent),
      Button dialog_close_label busy False CloseDialog,
      Button save_schedule_label (schedule_disabled busy f) busy (SubmitDialog Schedule)]"

text \<open>A field with its value, and with its error when it is validated.\<close>

definition edit_channel ::
  "host \<Rightarrow> (jstring \<Rightarrow> bool) \<Rightarrow> jstring \<Rightarrow> bool \<Rightarrow> scheduling_form \<Rightarrow> scheduling_form" where
  "edit_channel h zod_uuid value validated f =
     (let v = (sf_values f)\<lparr>fv_channelId := value\<rparr> in
      f\<lparr>sf_values := v,
        sf_errors := (if validated
          then (sf_errors f)\<lparr>fe_channelId := fe_channelId (queueSchedulingSchema h zod_uuid v)\<rparr>
          else sf_errors f)\<rparr>)"

definition edit_time ::
  "host \<Rightarrow> (jstring \<Rightarrow> bool) \<Rightarrow> jstring \<Rightarrow> bool \<Rightarrow> scheduling_form \<Rightarrow> scheduling_form" where
  "edit_time h zod_uuid value validated f =
     (let v = (sf_values f)\<lparr>fv_scheduledAt := value\<rparr> in
      f\<lparr>sf_values := v,
        sf_errors := (if validated
          then (sf_errors f)\<lparr>fe_scheduledAt := fe_scheduledAt (queueSchedulingSchema h zod_uuid v)\<rparr>
          else sf_errors f)\<rparr>)"

text \<open>The form while the dialog is open, and what was handed to the screen, with the moment.\<close>

record dialog_state =
  dg_open :: bool
  dg_form :: scheduling_form
  dg_handed :: "(host \<times> submission) list"

definition open_dialog :: "SchedulingState \<Rightarrow> dialog_state" where
  "open_dialog d = \<lparr>dg_open = True, dg_form = open_form d, dg_handed = []\<rparr>"

definition dialog_step ::
  "(jstring \<Rightarrow> bool) \<Rightarrow> dialog_state \<Rightarrow> host \<times> bool \<times> dialog_event \<Rightarrow> dialog_state" where
  "dialog_step zod_uuid s e = (case e of (h, busy, event) \<Rightarrow>
     (case event of
        EditChannel value validated \<Rightarrow>
          s\<lparr>dg_form := edit_channel h zod_uuid value validated (dg_form s)\<rparr>
      | EditTime value validated \<Rightarrow> s\<lparr>dg_form := edit_time h zod_uuid value validated (dg_form s)\<rparr>
      | Preset preset \<Rightarrow> s\<lparr>dg_form := setPreset h zod_uuid preset (dg_form s)\<rparr>
      | SubmitDialog intent \<Rightarrow>
          (let (f, submitted) = submitWithIntent h zod_uuid intent (dg_form s) in
           s\<lparr>dg_form := f,
             dg_handed := dg_handed s @
               (case submitted of None \<Rightarrow> [] | Some sub \<Rightarrow> [(h, sub)])\<rparr>)
      | DefaultsArrive d \<Rightarrow> s\<lparr>dg_open := True, dg_form := open_form d\<rparr>
      | CloseDialog \<Rightarrow> s\<lparr>dg_open := False\<rparr>))"

text \<open>What can happen: a channel of the list is chosen, any text typed as the time, a button pressed;
  the screen opens the dialog, or gives it other defaults, at any time.\<close>

definition dialog_ok ::
  "Channel list \<Rightarrow> dialog_state \<Rightarrow> host \<times> bool \<times> dialog_event \<Rightarrow> bool" where
  "dialog_ok channels s e = (case e of (h, busy, event) \<Rightarrow>
     (case event of
        DefaultsArrive _ \<Rightarrow> True
      | EditChannel value _ \<Rightarrow> dg_open s \<and> value \<in> set ([] # map fst (channel_options channels))
      | EditTime _ _ \<Rightarrow> dg_open s
      | _ \<Rightarrow> dg_open s \<and> event \<in> set (offered (QueueSchedulingDialog busy (dg_form s)))))"

section \<open>ImageSearchPanel.tsx\<close>

record image_panel =
  im_url :: jstring
  im_error :: "jstring option"

text \<open>A file comes with what the reader makes of it, \<open>None\<close> when it fails; none may be chosen.\<close>

datatype image_event =
  TypeImageUrl jstring | PressImageSearch | EnterInUrl
| ChooseFile "(upload_file \<times> jstring option) option"

definition search_image_label :: jstring where
  "search_image_label =
    [1576, 1581, 1579, 32, 1576, 1575, 1604, 1589, 1608, 1585, 1577]"

definition image_search_button :: "bool \<Rightarrow> image_event control" where
  "image_search_button searching = Button search_image_label searching searching PressImageSearch"

definition handed_on ::
  "image_panel \<Rightarrow> upload_file option \<Rightarrow> jstring + ProductImageSearchRequest
     \<Rightarrow> image_panel \<times> (ProductImageSearchRequest \<times> upload_file option) option" where
  "handed_on p file r = (case r of
     Inl message \<Rightarrow> (p\<lparr>im_error := Some message\<rparr>, None)
   | Inr payload \<Rightarrow> (p\<lparr>im_error := None\<rparr>, Some (payload, file)))"

text \<open>The panel, and the search it hands on.  A reader that fails rejects a promise nobody awaits.\<close>

definition ImageSearchPanel_step ::
  "(jstring \<Rightarrow> jstring option) \<Rightarrow> bool \<Rightarrow> image_panel \<Rightarrow> image_event
     \<Rightarrow> image_panel \<times> (ProductImageSearchRequest \<times> upload_file option) option" where
  "ImageSearchPanel_step url_protocol searching p e = (case e of
     TypeImageUrl v \<Rightarrow> (p\<lparr>im_url := v\<rparr>, None)
   | PressImageSearch \<Rightarrow>
       if searching then (p, None) else handed_on p None (submitUrl url_protocol (im_url p))
   | EnterInUrl \<Rightarrow> handed_on p None (submitUrl url_protocol (im_url p))
   | ChooseFile None \<Rightarrow> (p, None)
   | ChooseFile (Some (file, data_url)) \<Rightarrow>
       if searching then (p, None)
       else (case (submitFile (or_default data_url []) file, data_url) of
               (Inr _, None) \<Rightarrow> (p\<lparr>im_error := None\<rparr>, None)
             | (r, _) \<Rightarrow> handed_on p (Some file) r))"

section \<open>What the dialog hands on\<close>

definition submission_sound :: "(jstring \<Rightarrow> bool) \<Rightarrow> host \<times> submission \<Rightarrow> bool" where
  "submission_sound zod_uuid hs = (case hs of
     (h, OnSchedule channelId scheduledAt) \<Rightarrow> zod_uuid channelId \<and>
       (case parseDateTimeLocal h scheduledAt of None \<Rightarrow> False | Some t \<Rightarrow> of_int (now h) \<le> t)
   | (h, OnPublishNow channelId) \<Rightarrow> zod_uuid channelId)"

lemma submitted_sound:
  "snd (submitWithIntent h zod_uuid intent f) = Some sub \<Longrightarrow> submission_sound zod_uuid (h, sub)"
  using submit_accepted [of h zod_uuid intent f]
  by (auto simp: submitWithIntent_def submission_sound_def Let_def split: if_splits)

lemma dialog_step_handed:
  "dg_handed (dialog_step zod_uuid s (h, busy, event)) = dg_handed s @
     (case event of
        SubmitDialog intent \<Rightarrow>
          (case snd (submitWithIntent h zod_uuid intent (dg_form s)) of
             None \<Rightarrow> [] | Some sub \<Rightarrow> [(h, sub)])
      | _ \<Rightarrow> [])"
  by (cases event) (simp_all add: dialog_step_def case_prod_beta Let_def split: option.split)

lemma dialog_step_sound:
  "list_all (submission_sound zod_uuid) (dg_handed s) \<Longrightarrow>
     list_all (submission_sound zod_uuid) (dg_handed (dialog_step zod_uuid s e))"
  using submitted_sound
  by (cases e) (auto simp: dialog_step_handed split: dialog_event.splits option.splits)

interpretation dialog: state_machine "dialog_step zod_uuid" "dialog_ok channels"
    "\<lambda>s. list_all (submission_sound zod_uuid) (dg_handed s)" for zod_uuid channels
  by unfold_locales (rule dialog_step_sound)

definition free_submit :: "host \<times> bool \<times> dialog_event \<Rightarrow> bool" where
  "free_submit e = (case e of (_, busy, SubmitDialog _) \<Rightarrow> \<not> busy | _ \<Rightarrow> False)"

lemma dialog_step_count:
  "dialog_ok channels s e \<Longrightarrow>
     length (dg_handed (dialog_step zod_uuid s e)) \<le> length (dg_handed s) + (if free_submit e then 1 else 0)"
  by (cases e) (auto simp: dialog_step_handed free_submit_def dialog_ok_def QueueSchedulingDialog_def
      publish_disabled_def schedule_disabled_def split: dialog_event.splits option.splits if_splits)

lemma dialog_run_count:
  "admissible (dialog_step zod_uuid) (dialog_ok channels) s events \<Longrightarrow>
     length (dg_handed (run (dialog_step zod_uuid) s events)) \<le>
       length (dg_handed s) + length (filter free_submit events)"
proof (induction events arbitrary: s)
  case Nil
  then show ?case by simp
next
  case (Cons e events)
  have ok: "dialog_ok channels s e"
    "admissible (dialog_step zod_uuid) (dialog_ok channels) (dialog_step zod_uuid s e) events"
    using Cons.prems by simp_all
  show ?case using dialog_step_count [OF ok(1), of zod_uuid] Cons.IH [OF ok(2)]
    by (cases "free_submit e") simp_all
qed

text \<open>However the scheduling dialog is used, with any channels on offer and any times typed, what it
  hands to the screen is valid at that moment: a channel id that is a UUID and, for scheduling, a
  date-time of the form's format that is not past; and at most one submission is handed on for each
  press of a submitting button, none of them while a change or a publication is under way.\<close>

theorem dialog_hands_on_valid_only:
  assumes "admissible (dialog_step zod_uuid) (dialog_ok channels) (open_dialog d) events"
  shows "let s = run (dialog_step zod_uuid) (open_dialog d) events
    in list_all (submission_sound zod_uuid) (dg_handed s) \<and>
       length (dg_handed s) \<le> length (filter free_submit events)"
  using dialog.run_inv [OF _ assms] dialog_run_count [OF assms]
  by (simp add: open_dialog_def Let_def)

lemma dialog_hands_on_valid_only_witness:
  "let d = \<lparr>sd_itemIds = [js ''i''], sd_channelId = js ''c'', sd_scheduledAt = []\<rparr>;
       s = run (dialog_step (\<lambda>_. True)) (open_dialog d) [(utc_host 0, False, SubmitDialog PublishNowIntent)]
   in list_all (submission_sound (\<lambda>_. True)) (dg_handed s) \<and> length (dg_handed s) \<le> 1"
proof -
  let ?d = "\<lparr>sd_itemIds = [js ''i''], sd_channelId = js ''c'', sd_scheduledAt = []\<rparr>"
  have "dialog_ok [] (open_dialog ?d) (utc_host 0, False, SubmitDialog PublishNowIntent)"
    by (simp add: dialog_ok_def open_dialog_def QueueSchedulingDialog_def open_form_def publish_disabled_def js_def)
  then show ?thesis
    using dialog_hands_on_valid_only [of "\<lambda>_. True" "[]" ?d
        "[(utc_host 0, False, SubmitDialog PublishNowIntent)]"]
    by (simp add: Let_def free_submit_def)
qed

section \<open>Two gaps of the image search\<close>

text \<open>The button waits for the search that is under way, the Enter key does not: pressing it starts
  another search whenever the address is valid.\<close>

theorem enter_does_not_wait:
  assumes "submitUrl url_protocol (im_url p) = Inr payload"
  shows "image_search_button True \<in> {c. ct_disabled c} \<and>
    ImageSearchPanel_step url_protocol True p PressImageSearch = (p, None) \<and>
    ImageSearchPanel_step url_protocol True p EnterInUrl = (p\<lparr>im_error := None\<rparr>, Some (payload, None))"
  using assms by (simp add: ImageSearchPanel_step_def handed_on_def image_search_button_def)

text \<open>A picture that cannot be read fails in silence: the panel takes its message back and searches
  for nothing.\<close>

theorem unreadable_image_is_silent:
  assumes "submitFile [] file = Inr payload"
  shows "ImageSearchPanel_step url_protocol False p (ChooseFile (Some (file, None))) =
    (p\<lparr>im_error := None\<rparr>, None)"
  using assms by (simp add: ImageSearchPanel_step_def)

end
