(* ===== verification/ApiClient.thy ===== *)
theory ApiClient
  imports Workspace ApiErrors
begin

text \<open>
  \<open>frontend/src/services/api-client.ts\<close>: the request and response
  interceptors, and the single refresh that concurrent 401 answers share.  The network
  is a step relation: requests are sent, answered or fail, and the continuations that waited for
  the refresh resume one by one.  \<open>url_pathname\<close> is the pathname of \<open>new URL\<close> and
  \<open>env_default\<close> is \<open>NEXT_PUBLIC_WORKSPACE_ID\<close>.
\<close>

section \<open>Requests\<close>

record config =
  cfg_url :: "jstring option"
  skipAuthRefresh :: bool
  authRetried :: bool
  cfg_headers :: "jstring \<rightharpoonup> jstring"

definition setHeader :: "jstring \<Rightarrow> jstring \<Rightarrow> config \<Rightarrow> config" where
  "setHeader name value c = c\<lparr>cfg_headers := (cfg_headers c)(name \<mapsto> value)\<rparr>"

definition deleteHeader :: "jstring \<Rightarrow> config \<Rightarrow> config" where
  "deleteHeader name c = c\<lparr>cfg_headers := (cfg_headers c)(name := None)\<rparr>"

text \<open>What the client is parameterised by: the URL parser and the environment's default.\<close>

record api_env =
  url_pathname :: "jstring \<Rightarrow> jstring option"
  env_workspace :: "jstring option"

definition applyWorkspaceHeader :: "api_env \<Rightarrow> browser \<Rightarrow> config \<Rightarrow> api_error + config" where
  "applyWorkspaceHeader env b c =
     (if \<not> isWorkspaceScopedPath (url_pathname env) (cfg_url c)
      then Inr (deleteHeader WORKSPACE_HEADER c)
      else (case getActiveWorkspaceId (env_workspace env) b of
              None \<Rightarrow> Inl MISSING_WORKSPACE_ERROR
            | Some workspaceId \<Rightarrow> Inr (setHeader WORKSPACE_HEADER workspaceId c)))"

definition Authorization :: jstring where
  "Authorization = js ''Authorization''"

definition bearer :: "jstring \<Rightarrow> jstring" where
  "bearer token = js ''Bearer '' @ token"

definition request_interceptor :: "api_env \<Rightarrow> browser \<Rightarrow> config \<Rightarrow> api_error + config" where
  "request_interceptor env b c =
     (let c1 = (if truthy (getAccessToken b)
                then setHeader Authorization (bearer (the (getAccessToken b))) c else c)
      in applyWorkspaceHeader env b c1)"

text \<open>\<open>/\/auth\/(login|refresh|logout)\/?$/\<close> tested against the path of the request.\<close>

definition ends_with :: "jstring \<Rightarrow> jstring \<Rightarrow> bool" where
  "ends_with suffix s \<longleftrightarrow> starts_with (rev suffix) (rev s)"

definition AUTH_SESSION_PATH :: "jstring \<Rightarrow> bool" where
  "AUTH_SESSION_PATH path \<longleftrightarrow>
     list_ex (\<lambda>op. ends_with (js ''/auth/'' @ op) path \<or> ends_with (js ''/auth/'' @ op @ js ''/'') path)
       [js ''login'', js ''refresh'', js ''logout'']"

definition isAuthSessionRequest :: "api_env \<Rightarrow> config option \<Rightarrow> bool" where
  "isAuthSessionRequest env c = (case c of
     None \<Rightarrow> False
   | Some cfg \<Rightarrow>
       skipAuthRefresh cfg \<or> AUTH_SESSION_PATH (requestPathname (url_pathname env) (cfg_url cfg)))"

section \<open>The response interceptor up to its first await\<close>

text \<open>What the interceptor does with a failed request: pass the error on, end the session, or
  wait for the refresh (its own or the one in flight).\<close>

datatype verdict = PassOn thrown | EndSession thrown | AwaitRefresh

definition response_interceptor ::
  "api_env \<Rightarrow> browser \<Rightarrow> config option \<Rightarrow> axios_error + thrown \<Rightarrow> verdict" where
  "response_interceptor env b original error = (case error of
     Inr other \<Rightarrow> PassOn other
   | Inl axios \<Rightarrow>
       (let normalized = normalizeAxiosError axios;
            status = ae_status normalized in
        if status \<noteq> 401 then PassOn (ThrownApi normalized)
        else if (case original of None \<Rightarrow> False | Some c \<Rightarrow> authRetried c)
        then EndSession (ThrownApi normalized)
        else if isAuthSessionRequest env original then PassOn (ThrownApi normalized)
        else if \<not> truthy (getRefreshToken b) then EndSession (ThrownApi normalized)
        else AwaitRefresh))"


section \<open>Concurrent requests and the shared refresh\<close>

text \<open>
  A request is on the wire, waits for the refresh, has a continuation queued after the refresh
  was settled (well or badly), or is settled.  \<open>rq_sent\<close> logs every configuration that went
  out for it.
\<close>

datatype phase = OnWire | Waiting api_error | Resuming api_error bool | Answered | Failed thrown

record request =
  rq_config :: config
  rq_phase :: phase
  rq_sent :: "config list"

text \<open>The refresh in flight: the token it posts and what the request interceptor made of it.\<close>

record refresh =
  rf_token :: jstring
  rf_config :: "api_error + config"

record api_state =
  st_browser :: browser
  inFlightRefresh :: "refresh option"
  st_refreshes :: nat
  st_requests :: "request list"
  st_redirects :: nat

definition clearSessionAndRedirect :: "api_state \<Rightarrow> api_state" where
  "clearSessionAndRedirect s =
     s\<lparr>st_browser := clear_session (st_browser s),
       st_redirects := (if has_window (st_browser s) then st_redirects s + 1
                        else st_redirects s)\<rparr>"

definition refresh_request :: config where
  "refresh_request =
     \<lparr>cfg_url = Some (js ''/auth/refresh''), skipAuthRefresh = True, authRetried = False,
      cfg_headers = Map.empty\<rparr>"

text \<open>\<open>refreshAccessToken\<close>: start \<open>performRefresh\<close> unless one is running.\<close>

definition refreshAccessToken :: "api_env \<Rightarrow> api_state \<Rightarrow> api_state" where
  "refreshAccessToken env s = (case inFlightRefresh s of
     Some _ \<Rightarrow> s
   | None \<Rightarrow>
       s\<lparr>inFlightRefresh :=
           Some \<lparr>rf_token = the (getRefreshToken (st_browser s)),
                 rf_config = request_interceptor env (st_browser s) refresh_request\<rparr>,
         st_refreshes := st_refreshes s + 1\<rparr>)"

text \<open>Putting a configuration on the wire, with what the request interceptor makes of it.\<close>

definition put_on_wire :: "api_env \<Rightarrow> browser \<Rightarrow> config \<Rightarrow> config list \<Rightarrow> request" where
  "put_on_wire env b c sent = (case request_interceptor env b c of
     Inl e \<Rightarrow> \<lparr>rq_config = c, rq_phase = Failed (ThrownApi e), rq_sent = sent\<rparr>
   | Inr c' \<Rightarrow> \<lparr>rq_config = c', rq_phase = OnWire, rq_sent = sent @ [c']\<rparr>)"

definition settle_waiters :: "bool \<Rightarrow> request list \<Rightarrow> request list" where
  "settle_waiters ok rs =
     map (\<lambda>r. case rq_phase r of Waiting e \<Rightarrow> r\<lparr>rq_phase := Resuming e ok\<rparr> | _ \<Rightarrow> r) rs"

definition finish_refresh :: "bool \<Rightarrow> api_state \<Rightarrow> api_state" where
  "finish_refresh ok s =
     s\<lparr>inFlightRefresh := None, st_requests := settle_waiters ok (st_requests s)\<rparr>"

definition set_request :: "nat \<Rightarrow> request \<Rightarrow> api_state \<Rightarrow> api_state" where
  "set_request i r s = s\<lparr>st_requests := (st_requests s)[i := r]\<rparr>"

text \<open>What can happen.  A caller's configuration never carries the retry mark.\<close>

datatype api_action =
  Send config
| AnswerOk nat
| AnswerErr nat "axios_error + thrown"
| RefreshOk jstring jstring
| RefreshErr
| Resume nat
| Page session_action

fun api_exec :: "api_env \<Rightarrow> api_state \<Rightarrow> api_action \<Rightarrow> api_state option" where
  "api_exec env s (Send c) =
     (if authRetried c then None
      else Some (s\<lparr>st_requests := st_requests s @ [put_on_wire env (st_browser s) c []]\<rparr>))"
| "api_exec env s (AnswerOk i) =
     (if i < length (st_requests s) \<and> rq_phase (st_requests s ! i) = OnWire
      then Some (set_request i ((st_requests s ! i)\<lparr>rq_phase := Answered\<rparr>) s)
      else None)"
| "api_exec env s (AnswerErr i error) =
     (if i < length (st_requests s) \<and> rq_phase (st_requests s ! i) = OnWire
      then let r = st_requests s ! i in
        (case response_interceptor env (st_browser s) (Some (rq_config r)) error of
           PassOn e \<Rightarrow> Some (set_request i (r\<lparr>rq_phase := Failed e\<rparr>) s)
         | EndSession e \<Rightarrow>
             Some (set_request i (r\<lparr>rq_phase := Failed e\<rparr>) (clearSessionAndRedirect s))
         | AwaitRefresh \<Rightarrow>
             (case error of
                Inl axios \<Rightarrow>
                  Some (set_request i (r\<lparr>rq_phase := Waiting (normalizeAxiosError axios)\<rparr>)
                          (refreshAccessToken env s))
              | Inr _ \<Rightarrow> None))
      else None)"
| "api_exec env s (RefreshOk access refresh_token) =
     (case inFlightRefresh s of
        None \<Rightarrow> None
      | Some rf \<Rightarrow>
          (case rf_config rf of
             Inl _ \<Rightarrow> None
           | Inr _ \<Rightarrow>
               (case setTokens access refresh_token (st_browser s) of
                  None \<Rightarrow> Some (finish_refresh False s)
                | Some b \<Rightarrow> Some (finish_refresh True (s\<lparr>st_browser := b\<rparr>)))))"
| "api_exec env s RefreshErr =
     (case inFlightRefresh s of None \<Rightarrow> None | Some _ \<Rightarrow> Some (finish_refresh False s))"
| "api_exec env s (Resume i) =
     (if i < length (st_requests s)
      then let r = st_requests s ! i in
        (case rq_phase r of
           Resuming e True \<Rightarrow>
             Some (set_request i
               (put_on_wire env (st_browser s) ((rq_config r)\<lparr>authRetried := True\<rparr>) (rq_sent r)) s)
         | Resuming e False \<Rightarrow>
             Some (set_request i (r\<lparr>rq_phase := Failed (ThrownApi e)\<rparr>)
               (clearSessionAndRedirect s))
         | _ \<Rightarrow> None)
      else None)"
| "api_exec env s (Page a) = Some (s\<lparr>st_browser := session_step (st_browser s) a\<rparr>)"

inductive api_reachable :: "api_env \<Rightarrow> browser \<Rightarrow> api_state \<Rightarrow> bool" for env b0 where
  start: "api_reachable env b0
     \<lparr>st_browser = b0, inFlightRefresh = None, st_refreshes = 0, st_requests = [],
      st_redirects = 0\<rparr>"
| step: "api_reachable env b0 s \<Longrightarrow> api_exec env s a = Some s' \<Longrightarrow> api_reachable env b0 s'"

section \<open>The invariant of a request\<close>

definition auth_session :: "api_env \<Rightarrow> config \<Rightarrow> bool" where
  "auth_session env c = isAuthSessionRequest env (Some c)"

definition request_inv :: "api_env \<Rightarrow> bool \<Rightarrow> request \<Rightarrow> bool" where
  "request_inv env inflight r \<longleftrightarrow>
     (auth_session env (rq_config r) \<longrightarrow> \<not> authRetried (rq_config r)) \<and>
     length (rq_sent r) \<le> (if authRetried (rq_config r) then 2 else 1) \<and>
     (case rq_phase r of
        Waiting _ \<Rightarrow> inflight \<and> \<not> authRetried (rq_config r) \<and>
          \<not> auth_session env (rq_config r)
      | Resuming _ _ \<Rightarrow> \<not> authRetried (rq_config r) \<and> \<not> auth_session env (rq_config r)
      | _ \<Rightarrow> True)"

definition past_first :: "request \<Rightarrow> bool" where
  "past_first r \<longleftrightarrow> rq_phase r \<noteq> OnWire \<or> authRetried (rq_config r)"

definition api_inv :: "api_env \<Rightarrow> api_state \<Rightarrow> bool" where
  "api_inv env s \<longleftrightarrow>
     list_all (request_inv env (inFlightRefresh s \<noteq> None)) (st_requests s) \<and>
     st_refreshes s \<le> length (filter past_first (st_requests s))"

lemma headers_keep:
  "cfg_url (setHeader n v c) = cfg_url c" "cfg_url (deleteHeader n c) = cfg_url c"
  "skipAuthRefresh (setHeader n v c) = skipAuthRefresh c"
  "skipAuthRefresh (deleteHeader n c) = skipAuthRefresh c"
  "authRetried (setHeader n v c) = authRetried c"
  "authRetried (deleteHeader n c) = authRetried c"
  by (simp_all add: setHeader_def deleteHeader_def)

lemma interceptor_keeps:
  assumes "request_interceptor env b c = Inr c'"
  shows "cfg_url c' = cfg_url c" "skipAuthRefresh c' = skipAuthRefresh c"
    "authRetried c' = authRetried c" "auth_session env c' = auth_session env c"
proof -
  show 1: "cfg_url c' = cfg_url c" and 2: "skipAuthRefresh c' = skipAuthRefresh c"
    and 3: "authRetried c' = authRetried c"
    using assms
    by (auto simp: request_interceptor_def applyWorkspaceHeader_def Let_def headers_keep
        split: if_splits option.splits)
  show "auth_session env c' = auth_session env c"
    by (simp add: auth_session_def isAuthSessionRequest_def 1 2)
qed

lemma put_on_wire_inv:
  assumes "length sent \<le> (if authRetried c then 1 else 0)"
    and "auth_session env c \<longrightarrow> \<not> authRetried c"
  shows "request_inv env fl (put_on_wire env b c sent)"
  using assms
  by (auto simp: put_on_wire_def request_inv_def interceptor_keeps split: sum.splits)

lemma request_inv_settle:
  "list_all (request_inv env fl) rs \<Longrightarrow> list_all (request_inv env False) (settle_waiters ok rs)"
  by (auto simp: list_all_iff settle_waiters_def request_inv_def split: phase.splits)

lemma past_first_settle:
  "length (filter past_first (settle_waiters ok rs)) = length (filter past_first rs)"
  by (induction rs) (auto simp: settle_waiters_def past_first_def split: phase.splits)

lemma refresh_inv_mono:
  "list_all (request_inv env fl) rs \<Longrightarrow> list_all (request_inv env True) rs"
  by (auto simp: list_all_iff request_inv_def split: phase.splits)

lemma past_first_update:
  assumes "i < length rs" "past_first (rs ! i) \<longrightarrow> past_first r"
  shows "length (filter past_first rs) \<le> length (filter past_first (rs[i := r]))"
  using assms filter_update_split [of i rs past_first r] by (auto split: if_splits)

lemma past_first_update_new:
  assumes "i < length rs" "\<not> past_first (rs ! i)" "past_first r"
  shows "Suc (length (filter past_first rs)) = length (filter past_first (rs[i := r]))"
  using assms filter_update_split [of i rs past_first r] by simp

text \<open>Settling one request, with nothing else changed but the session.\<close>

lemma api_inv_set_request:
  assumes "api_inv env s" "i < length (st_requests s)"
    and "request_inv env (inFlightRefresh s \<noteq> None) r"
    and "past_first (st_requests s ! i) \<longrightarrow> past_first r"
    and "inFlightRefresh s' = inFlightRefresh s" "st_refreshes s' = st_refreshes s"
    and "st_requests s' = st_requests s"
  shows "api_inv env (set_request i r s')"
  using assms past_first_update [OF assms(2,4)]
  by (simp add: api_inv_def set_request_def list_all_update)

lemma api_inv_nth:
  "api_inv env s \<Longrightarrow> i < length (st_requests s) \<Longrightarrow>
     request_inv env (inFlightRefresh s \<noteq> None) (st_requests s ! i)"
  by (simp add: api_inv_def list_all_length)

lemma clearSession_keeps [simp]:
  "inFlightRefresh (clearSessionAndRedirect s) = inFlightRefresh s"
  "st_refreshes (clearSessionAndRedirect s) = st_refreshes s"
  "st_requests (clearSessionAndRedirect s) = st_requests s"
  by (simp_all add: clearSessionAndRedirect_def)

lemma awaits_only_plain:
  assumes "response_interceptor env b (Some c) error = AwaitRefresh"
  shows "\<not> authRetried c" "\<not> auth_session env c"
    "\<exists>axios. error = Inl axios \<and> ae_status (normalizeAxiosError axios) = 401"
    "truthy (getRefreshToken b)"
  using assms
  by (auto simp: response_interceptor_def Let_def auth_session_def split: sum.splits if_splits)

lemma api_inv_await:
  assumes inv: "api_inv env s" and i: "i < length (st_requests s)"
    and wire: "rq_phase (st_requests s ! i) = OnWire"
    and aw: "response_interceptor env b (Some (rq_config (st_requests s ! i))) error = AwaitRefresh"
  shows "api_inv env (set_request i ((st_requests s ! i)\<lparr>rq_phase := Waiting e\<rparr>)
           (refreshAccessToken env s))"
proof -
  let ?r = "st_requests s ! i"
  let ?r' = "?r\<lparr>rq_phase := Waiting e\<rparr>"
  note plain = awaits_only_plain(1,2) [OF aw]
  have np: "\<not> past_first ?r" and p: "past_first ?r'"
    using plain wire by (simp_all add: past_first_def)
  have "request_inv env True ?r'"
    using api_inv_nth [OF inv i] plain wire by (simp add: request_inv_def)
  moreover have "list_all (request_inv env True) (st_requests s)"
    using inv refresh_inv_mono by (auto simp: api_inv_def)
  ultimately have all: "list_all (request_inv env True) ((st_requests s)[i := ?r'])"
    by (simp add: list_all_update)
  have cnt: "Suc (st_refreshes s) \<le> length (filter past_first ((st_requests s)[i := ?r']))"
    using past_first_update_new [OF i np p] inv by (simp add: api_inv_def)
  show ?thesis
    using all cnt
    by (auto simp: api_inv_def refreshAccessToken_def set_request_def split: option.splits)
qed

lemma api_inv_answer_err:
  assumes inv: "api_inv env s" and ex: "api_exec env s (AnswerErr i error) = Some s'"
  shows "api_inv env s'"
proof -
  from ex have i: "i < length (st_requests s)" and wire: "rq_phase (st_requests s ! i) = OnWire"
    by (auto split: if_splits)
  let ?r = "st_requests s ! i"
  have f: "request_inv env (inFlightRefresh s \<noteq> None) (?r\<lparr>rq_phase := Failed e\<rparr>)" for e
    using api_inv_nth [OF inv i] wire by (simp add: request_inv_def)
  have pf: "past_first ?r \<longrightarrow> past_first (?r\<lparr>rq_phase := Failed e\<rparr>)" for e
    by (simp add: past_first_def)
  show ?thesis
  proof (cases "response_interceptor env (st_browser s) (Some (rq_config ?r)) error")
    case (PassOn e)
    then show ?thesis
      using ex i wire by (auto simp: Let_def intro!: api_inv_set_request [OF inv i f pf])
  next
    case (EndSession e)
    then show ?thesis
      using ex i wire by (auto simp: Let_def intro!: api_inv_set_request [OF inv i f pf])
  next
    case AwaitRefresh
    from awaits_only_plain(3) [OF this] obtain axios where "error = Inl axios" by blast
    then show ?thesis
      using ex i wire AwaitRefresh api_inv_await [OF inv i wire AwaitRefresh]
      by (auto simp: Let_def)
  qed
qed

lemma api_inv_resume:
  assumes inv: "api_inv env s" and ex: "api_exec env s (Resume i) = Some s'"
  shows "api_inv env s'"
proof -
  from ex have i: "i < length (st_requests s)" by (auto split: if_splits)
  let ?r = "st_requests s ! i"
  from ex i obtain e ok where ph: "rq_phase ?r = Resuming e ok"
    by (auto simp: Let_def split: phase.splits)
  have ri: "\<not> authRetried (rq_config ?r)" "\<not> auth_session env (rq_config ?r)"
      "length (rq_sent ?r) \<le> 1"
    using api_inv_nth [OF inv i] ph by (auto simp: request_inv_def split: if_splits)
  have pf: "past_first ?r" using ph by (simp add: past_first_def)
  show ?thesis
  proof (cases ok)
    case True
    let ?c = "(rq_config ?r)\<lparr>authRetried := True\<rparr>"
    let ?n = "put_on_wire env (st_browser s) ?c (rq_sent ?r)"
    have "\<not> auth_session env ?c"
      using ri(2) by (simp add: auth_session_def isAuthSessionRequest_def)
    then have n: "request_inv env (inFlightRefresh s \<noteq> None) ?n"
      using ri(3) by (intro put_on_wire_inv) simp_all
    have "past_first ?n"
      by (auto simp: put_on_wire_def past_first_def interceptor_keeps(3) split: sum.splits)
    then show ?thesis
      using ex i ph True api_inv_set_request [OF inv i n] by (auto simp: Let_def)
  next
    case False
    have f: "request_inv env (inFlightRefresh s \<noteq> None) (?r\<lparr>rq_phase := Failed (ThrownApi e)\<rparr>)"
      using api_inv_nth [OF inv i] ph by (auto simp: request_inv_def split: if_splits)
    then show ?thesis
      using ex i ph False
      by (auto simp: Let_def past_first_def intro!: api_inv_set_request [OF inv i f])
  qed
qed

lemma api_exec_inv:
  assumes inv: "api_inv env s" and ex: "api_exec env s a = Some s'"
  shows "api_inv env s'"
proof (cases a)
  case (Send c)
  then have c: "\<not> authRetried c" using ex by (simp split: if_splits)
  have "request_inv env (inFlightRefresh s \<noteq> None) (put_on_wire env (st_browser s) c [])"
    using c by (intro put_on_wire_inv) simp_all
  then show ?thesis using ex inv c by (auto simp: Send api_inv_def)
next
  case (AnswerOk i)
  then have i: "i < length (st_requests s)" and wire: "rq_phase (st_requests s ! i) = OnWire"
    using ex by (auto split: if_splits)
  have "request_inv env (inFlightRefresh s \<noteq> None) ((st_requests s ! i)\<lparr>rq_phase := Answered\<rparr>)"
    using api_inv_nth [OF inv i] wire by (simp add: request_inv_def)
  then show ?thesis
    using ex i wire by (auto simp: AnswerOk past_first_def intro!: api_inv_set_request [OF inv i])
next
  case (AnswerErr i error)
  then show ?thesis using inv ex api_inv_answer_err by blast
next
  case (RefreshOk a r)
  then show ?thesis
    using ex inv
    by (auto simp: api_inv_def finish_refresh_def past_first_settle
        split: option.splits sum.splits intro: request_inv_settle)
next
  case RefreshErr
  then show ?thesis
    using ex inv
    by (auto simp: api_inv_def finish_refresh_def past_first_settle
        split: option.splits intro: request_inv_settle)
next
  case (Resume i)
  then show ?thesis using inv ex api_inv_resume by blast
next
  case (Page sa)
  then show ?thesis using ex inv by (auto simp: api_inv_def)
qed

lemma reachable_inv: "api_reachable env b s \<Longrightarrow> api_inv env s"
proof (induction rule: api_reachable.induct)
  case start
  then show ?case by (simp add: api_inv_def)
next
  case (step s a s')
  then show ?case using api_exec_inv by blast
qed

section \<open>What the client guarantees\<close>


text \<open>C5: a request that waits for the refresh never waits for nothing: while any request waits,
  a refresh is in flight, so its outcome will queue that request's continuation.\<close>

theorem api_no_stranded_waiter:
  assumes "api_reachable env b s" "r \<in> set (st_requests s)" "rq_phase r = Waiting e"
  shows "inFlightRefresh s \<noteq> None"
  using reachable_inv [OF assms(1)] assms(2,3)
  by (fastforce simp: api_inv_def list_all_iff request_inv_def)

text \<open>The work left for a request and for the whole client.\<close>

definition work :: "request \<Rightarrow> nat" where
  "work r = (case rq_phase r of
     OnWire \<Rightarrow> if authRetried (rq_config r) then 1 else 5
   | Waiting _ \<Rightarrow> 3
   | Resuming _ _ \<Rightarrow> 2
   | _ \<Rightarrow> 0)"

definition total_work :: "api_state \<Rightarrow> nat" where
  "total_work s =
     sum_list (map work (st_requests s)) + (if inFlightRefresh s = None then 0 else 1)"

text \<open>An action of the network or of the event loop, as opposed to one of the page.\<close>

fun internal :: "api_action \<Rightarrow> bool" where
  "internal (Send c) = False"
| "internal (Page a) = False"
| "internal _ = True"

lemma work_settle: "sum_list (map work (settle_waiters ok rs)) \<le> sum_list (map work rs)"
  unfolding settle_waiters_def map_map
  by (rule sum_list_mono) (auto simp: work_def split: phase.splits)

lemma work_set:
  assumes "i < length (st_requests s)" "work r < work (st_requests s ! i)"
    "inFlightRefresh s' = inFlightRefresh s" "st_requests s' = st_requests s"
  shows "total_work (set_request i r s') < total_work s"
  using assms sum_list_update_split [of i "st_requests s" work r]
  by (auto simp: total_work_def set_request_def)

lemma work_answer_err:
  assumes "api_exec env s (AnswerErr i error) = Some s'"
  shows "total_work s' < total_work s"
proof -
  from assms have i: "i < length (st_requests s)" and wire: "rq_phase (st_requests s ! i) = OnWire"
    by (auto split: if_splits)
  let ?r = "st_requests s ! i"
  have f: "work (?r\<lparr>rq_phase := Failed e\<rparr>) < work ?r" for e
    using wire by (simp add: work_def)
  show ?thesis
  proof (cases "response_interceptor env (st_browser s) (Some (rq_config ?r)) error")
    case (PassOn e)
    then show ?thesis using assms i wire f by (auto simp: Let_def intro!: work_set)
  next
    case (EndSession e)
    then show ?thesis using assms i wire f by (auto simp: Let_def intro!: work_set)
  next
    case AwaitRefresh
    from awaits_only_plain [OF this] obtain axios
      where na: "\<not> authRetried (rq_config ?r)" and "error = Inl axios" by blast
    let ?r' = "?r\<lparr>rq_phase := Waiting (normalizeAxiosError axios)\<rparr>"
    have "s' = set_request i ?r' (refreshAccessToken env s)"
      using assms i wire AwaitRefresh \<open>error = Inl axios\<close> by (simp add: Let_def)
    moreover have "work ?r = 5" "work ?r' = 3" using wire na by (simp_all add: work_def)
    moreover have "sum_list (map work ((st_requests s)[i := ?r'])) + work ?r =
        sum_list (map work (st_requests s)) + work ?r'"
      by (rule sum_list_update_split [OF i])
    ultimately show ?thesis
      by (auto simp: total_work_def refreshAccessToken_def set_request_def split: option.splits)
  qed
qed

lemma work_resume:
  assumes "api_exec env s (Resume i) = Some s'"
  shows "total_work s' < total_work s"
proof -
  from assms have i: "i < length (st_requests s)" by (auto split: if_splits)
  let ?r = "st_requests s ! i"
  from assms i obtain e ok where ph: "rq_phase ?r = Resuming e ok"
    by (auto simp: Let_def split: phase.splits)
  then have w: "work ?r = 2" by (simp add: work_def)
  have "work (put_on_wire env b ((rq_config ?r)\<lparr>authRetried := True\<rparr>) sent) \<le> 1" for b sent
    by (auto simp: put_on_wire_def work_def interceptor_keeps(3) split: sum.splits)
  then have p: "work (put_on_wire env b ((rq_config ?r)\<lparr>authRetried := True\<rparr>) sent) < work ?r"
    for b sent by (simp add: w le_imp_less_Suc numeral_2_eq_2)
  show ?thesis
    using assms i ph p w by (cases ok) (auto intro!: work_set simp: Let_def work_def)
qed

lemma work_decreases:
  assumes "api_exec env s a = Some s'" "internal a"
  shows "total_work s' < total_work s"
proof (cases a)
  case (AnswerOk i)
  then show ?thesis
    using assms by (auto simp: work_def intro!: work_set split: if_splits)
next
  case (AnswerErr i error)
  then show ?thesis using assms work_answer_err by blast
next
  case (RefreshOk x y)
  then show ?thesis
    using assms work_settle
    by (auto simp: total_work_def finish_refresh_def le_imp_less_Suc
        split: option.splits sum.splits)
next
  case RefreshErr
  then show ?thesis
    using assms work_settle
    by (auto simp: total_work_def finish_refresh_def le_imp_less_Suc split: option.splits)
next
  case (Resume i)
  then show ?thesis using assms work_resume by blast
qed (use assms in auto)

definition settled :: "request \<Rightarrow> bool" where
  "settled r \<longleftrightarrow> (case rq_phase r of Answered \<Rightarrow> True | Failed _ \<Rightarrow> True | _ \<Rightarrow> False)"

lemma unsettled_enabled:
  assumes inv: "api_inv env s" and r: "r \<in> set (st_requests s)" "\<not> settled r"
  shows "\<exists>a s'. internal a \<and> api_exec env s a = Some s'"
proof -
  from r(1) obtain i where i: "i < length (st_requests s)" "st_requests s ! i = r"
    by (auto simp: in_set_conv_nth)
  show ?thesis
  proof (cases "rq_phase r")
    case OnWire
    then have "api_exec env s (AnswerOk i) \<noteq> None" using i by simp
    then show ?thesis by (metis internal.simps(3) not_None_eq)
  next
    case (Waiting e)
    then have "inFlightRefresh s \<noteq> None"
      using api_inv_nth [OF inv i(1)] i(2) by (simp add: request_inv_def)
    then have "api_exec env s RefreshErr \<noteq> None" by auto
    then show ?thesis by (metis internal.simps(6) not_None_eq)
  next
    case (Resuming e ok)
    then have "api_exec env s (Resume i) \<noteq> None" using i by (cases ok) simp_all
    then show ?thesis by (metis internal.simps(7) not_None_eq)
  qed (use r in \<open>auto simp: settled_def\<close>)
qed

text \<open>C4: the refresh protocol cannot livelock or deadlock: from every reachable state, each
  action of the network or the event loop uses up work, at most five units per request and one
  for the refresh, and as long as a request is not settled such an action is possible.  So
  every request is answered or rejected after finitely many steps.\<close>

theorem api_requests_settle:
  assumes "api_reachable env b s"
  shows "(\<forall>a s'. internal a \<and> api_exec env s a = Some s' \<longrightarrow> total_work s' < total_work s) \<and>
    total_work s \<le> 5 * length (st_requests s) + 1 \<and>
    ((\<exists>r \<in> set (st_requests s). \<not> settled r) \<longrightarrow>
       (\<exists>a s'. internal a \<and> api_exec env s a = Some s'))"
proof (intro conjI allI impI)
  have "work r \<le> 5" for r by (simp add: work_def split: phase.splits)
  then have "sum_list (map work rs) \<le> 5 * length rs" for rs
    by (induction rs) (auto intro: add_mono)
  then show "total_work s \<le> 5 * length (st_requests s) + 1"
    by (simp add: total_work_def le_SucI)
qed (use work_decreases unsettled_enabled [OF reachable_inv [OF assms]] in blast)+

section \<open>Headers\<close>

text \<open>What the request interceptor puts into the headers.\<close>

lemma wire_headers:
  "(case request_interceptor env b c of
      Inl e \<Rightarrow> e = MISSING_WORKSPACE_ERROR \<and>
        isWorkspaceScopedPath (url_pathname env) (cfg_url c) \<and>
        getActiveWorkspaceId (env_workspace env) b = None
    | Inr c' \<Rightarrow>
        cfg_headers c' WORKSPACE_HEADER =
          (if isWorkspaceScopedPath (url_pathname env) (cfg_url c)
           then getActiveWorkspaceId (env_workspace env) b else None) \<and>
        (isWorkspaceScopedPath (url_pathname env) (cfg_url c) \<longrightarrow>
           getActiveWorkspaceId (env_workspace env) b \<noteq> None) \<and>
        cfg_headers c' Authorization =
          (case getAccessToken b of
             None \<Rightarrow> cfg_headers c Authorization
           | Some t \<Rightarrow> if t = [] then cfg_headers c Authorization else Some (bearer t)))"
proof -
  have ne: "Authorization \<noteq> WORKSPACE_HEADER" "WORKSPACE_HEADER \<noteq> Authorization"
    by (simp_all add: Authorization_def WORKSPACE_HEADER_def js_def)
  show ?thesis
    by (auto simp: request_interceptor_def applyWorkspaceHeader_def Let_def setHeader_def
        deleteHeader_def ne truthy_def split: option.splits)
qed

text \<open>What goes on the wire: a request on a tenant path carries the active workspace's id and
  is rejected with \<open>missing_workspace\<close>, without reaching the network, when there is none; a
  request on any other path never carries a workspace header, whatever its caller put there; and
  with a session the bearer token of the session replaces any older one.\<close>

theorem request_interceptor_headers:
  "(case request_interceptor env b c of
      Inl e \<Rightarrow> e = MISSING_WORKSPACE_ERROR \<and>
        isWorkspaceScopedPath (url_pathname env) (cfg_url c) \<and>
        getActiveWorkspaceId (env_workspace env) b = None
    | Inr c' \<Rightarrow>
        cfg_headers c' WORKSPACE_HEADER =
          (if isWorkspaceScopedPath (url_pathname env) (cfg_url c)
           then getActiveWorkspaceId (env_workspace env) b else None) \<and>
        (isWorkspaceScopedPath (url_pathname env) (cfg_url c) \<longrightarrow>
           getActiveWorkspaceId (env_workspace env) b \<noteq> None) \<and>
        cfg_headers c' Authorization =
          (case getAccessToken b of
             None \<Rightarrow> cfg_headers c Authorization
           | Some t \<Rightarrow> if t = [] then cfg_headers c Authorization else Some (bearer t)))"
  by (rule wire_headers)

lemma request_interceptor_headers_witness:
  "request_interceptor \<lparr>url_pathname = Some, env_workspace = None\<rparr> (fresh_browser True)
     \<lparr>cfg_url = Some (js ''/queues''), skipAuthRefresh = False, authRetried = False,
      cfg_headers = Map.empty\<rparr> = Inl MISSING_WORKSPACE_ERROR"
proof -
  let ?env = "\<lparr>url_pathname = Some, env_workspace = None\<rparr>"
  let ?c = "\<lparr>cfg_url = Some (js ''/queues''), skipAuthRefresh = False, authRetried = False,
      cfg_headers = Map.empty\<rparr>"
  have sc: "isWorkspaceScopedPath Some (Some (js ''/queues''))" by code_simp
  have "getActiveWorkspaceId None (fresh_browser True) = None" by code_simp
  with sc show ?thesis
    using request_interceptor_headers [where env = ?env and b = "fresh_browser True" and c = ?c]
    by (simp split: sum.splits)
qed

section \<open>The refused request is retried with the new token\<close>

lemma resume_put_on_wire:
  assumes "i < length (st_requests s)" "rq_phase (st_requests s ! i) = Resuming e True"
  shows "api_exec env s (Resume i) = Some (set_request i
    (put_on_wire env (st_browser s) ((rq_config (st_requests s ! i))\<lparr>authRetried := True\<rparr>)
       (rq_sent (st_requests s ! i))) s)"
  using assms by (simp add: Let_def)

text \<open>C30: when the refresh that a refused request waits for succeeds, resuming that request sends
  it again, marked as retried, with the access token the refresh returned in its
  \<open>Authorization\<close> header, unless its path needs a workspace and none is active.\<close>

theorem refused_request_retried_with_new_token:
  assumes "i < length (st_requests s)" "rq_phase (st_requests s ! i) = Waiting e"
    and "api_exec env s (RefreshOk access refresh_token) = Some s1"
    and "api_exec env s1 (Resume i) = Some s2"
    and "has_window (st_browser s)" "access \<noteq> []"
  shows "let r = st_requests s2 ! i
    in authRetried (rq_config r) \<and> getAccessToken (st_browser s2) = Some access \<and>
      getRefreshToken (st_browser s2) = Some refresh_token \<and>
      (case rq_phase r of
         OnWire \<Rightarrow> cfg_headers (last (rq_sent r)) Authorization = Some (bearer access) \<and>
           length (rq_sent r) = length (rq_sent (st_requests s ! i)) + 1
       | Failed t \<Rightarrow> t = ThrownApi MISSING_WORKSPACE_ERROR \<and>
           isWorkspaceScopedPath (url_pathname env) (cfg_url (rq_config r))
       | _ \<Rightarrow> False)"
proof -
  from assms(3,5) obtain b where b: "setTokens access refresh_token (st_browser s) = Some b"
    and s1: "s1 = finish_refresh True (s\<lparr>st_browser := b\<rparr>)"
    using setTokens_defined [of access refresh_token "st_browser s"]
    by (auto split: option.splits sum.splits)
  let ?r = "st_requests s ! i"
  have r1: "st_requests s1 ! i = ?r\<lparr>rq_phase := Resuming e True\<rparr>" "i < length (st_requests s1)"
    "st_browser s1 = b"
    using assms(1,2) s1 by (simp_all add: finish_refresh_def settle_waiters_def)
  let ?c = "(rq_config ?r)\<lparr>authRetried := True\<rparr>"
  have s2: "s2 = set_request i (put_on_wire env b ?c (rq_sent ?r)) s1"
    using assms(4) r1 resume_put_on_wire [of i s1 e env] by simp
  note tok = setTokens_reads(1,2) [OF b]
  show ?thesis
    using wire_headers [where env = env and b = b and c = ?c] tok r1(2,3) assms(6)
    by (auto simp: s2 set_request_def put_on_wire_def interceptor_keeps(3) split: sum.splits)
qed


section \<open>A run of the protocol\<close>

text \<open>One request of a signed-in page is refused, the refresh succeeds, the request is retried.\<close>

fun api_run :: "api_env \<Rightarrow> api_state \<Rightarrow> api_action list \<Rightarrow> api_state option" where
  "api_run env s [] = Some s"
| "api_run env s (a # as) = Option.bind (api_exec env s a) (\<lambda>s'. api_run env s' as)"

definition initial_api :: "browser \<Rightarrow> api_state" where
  "initial_api b =
     \<lparr>st_browser = b, inFlightRefresh = None, st_refreshes = 0, st_requests = [],
      st_redirects = 0\<rparr>"

lemma api_run_reachable:
  "api_reachable env b s \<Longrightarrow> api_run env s as = Some s' \<Longrightarrow> api_reachable env b s'"
proof (induction as arbitrary: s)
  case (Cons a as)
  then obtain s1 where "api_exec env s a = Some s1" "api_run env s1 as = Some s'"
    by (auto simp: Option.bind_eq_Some_conv)
  with Cons show ?case by (blast intro: api_reachable.step)
qed simp

definition sample_env :: api_env where
  "sample_env = \<lparr>url_pathname = Some, env_workspace = None\<rparr>"

definition sample_config :: config where
  "sample_config =
     \<lparr>cfg_url = Some (js ''/products''), skipAuthRefresh = False, authRetried = False,
      cfg_headers = Map.empty\<rparr>"

definition refused :: "axios_error + thrown" where
  "refused = Inl \<lparr>ax_response = Some (401, DetailMissing)\<rparr>"

definition signed_in :: api_state where
  "signed_in = initial_api (session_step (fresh_browser True) (SetTokens (js ''a'') (js ''r'')))"

lemma signed_in_reachable: "api_reachable sample_env (st_browser signed_in) signed_in"
  using api_reachable.start [of sample_env "st_browser signed_in"]
  by (simp add: signed_in_def initial_api_def)

definition refused_state :: api_state where
  "refused_state = the (api_run sample_env signed_in [Send sample_config, AnswerErr 0 refused])"

definition is_waiting :: "phase \<Rightarrow> bool" where
  "is_waiting p = (case p of Waiting _ \<Rightarrow> True | _ \<Rightarrow> False)"

lemma refused_run:
  "case api_run sample_env signed_in [Send sample_config, AnswerErr 0 refused] of
     None \<Rightarrow> False
   | Some s \<Rightarrow> map (is_waiting \<circ> rq_phase) (st_requests s) = [True] \<and>
       map (length \<circ> rq_sent) (st_requests s) = [1] \<and> st_refreshes s = 1"
  by code_simp

lemma refused_state_run:
  "api_run sample_env signed_in [Send sample_config, AnswerErr 0 refused] = Some refused_state"
  using refused_run unfolding refused_state_def
  by (cases "api_run sample_env signed_in [Send sample_config, AnswerErr 0 refused]")
    (simp_all only: option.case option.sel)

lemma refused_state_reachable: "api_reachable sample_env (st_browser signed_in) refused_state"
  by (rule api_run_reachable [OF signed_in_reachable refused_state_run])

lemma refused_state_facts:
  "\<exists>r e. st_requests refused_state = [r] \<and> rq_phase r = Waiting e \<and> length (rq_sent r) = 1 \<and>
     st_refreshes refused_state = 1"
  using refused_run unfolding refused_state_run option.case
  by (auto simp: is_waiting_def split: phase.splits)

lemma api_run_append:
  "api_run env s (as @ bs) = Option.bind (api_run env s as) (\<lambda>s'. api_run env s' bs)"
  by (induction as arbitrary: s) (auto split: bind_splits)


lemma api_no_stranded_waiter_witness:
  "\<exists>s. api_reachable sample_env (st_browser signed_in) s \<and> inFlightRefresh s \<noteq> None"
proof -
  obtain r e where "st_requests refused_state = [r]" "rq_phase r = Waiting e"
    using refused_state_facts by blast
  then have "inFlightRefresh refused_state \<noteq> None"
    using api_no_stranded_waiter [OF refused_state_reachable, of r e] by simp
  with refused_state_reachable show ?thesis by blast
qed

lemma api_requests_settle_witness:
  "\<exists>s. api_reachable sample_env (st_browser signed_in) s \<and> total_work s \<le> 6 \<and>
     (\<exists>a s'. internal a \<and> api_exec sample_env s a = Some s')"
proof -
  obtain r e where r: "st_requests refused_state = [r]" "rq_phase r = Waiting e"
    using refused_state_facts by blast
  then have "\<not> settled r" by (simp add: settled_def)
  then show ?thesis
    using api_requests_settle [OF refused_state_reachable] r refused_state_reachable by auto
qed

lemma refused_request_retried_with_new_token_witness:
  "case api_run sample_env refused_state [RefreshOk (js ''a2'') (js ''r2''), Resume 0] of
     None \<Rightarrow> False
   | Some s \<Rightarrow> authRetried (rq_config (st_requests s ! 0)) \<and>
       getAccessToken (st_browser s) = Some (js ''a2'')"
proof -
  obtain r e where r: "st_requests refused_state = [r]" "rq_phase r = Waiting e"
    using refused_state_facts by blast
  let ?more = "[RefreshOk (js ''a2'') (js ''r2''), Resume 0]"
  have "api_run sample_env signed_in ([Send sample_config, AnswerErr 0 refused] @ ?more) \<noteq> None"
    by code_simp
  then have "api_run sample_env refused_state ?more \<noteq> None"
    by (simp only: api_run_append refused_state_run Option.bind.simps not_False_eq_True)
  then obtain s1 s2
    where s1: "api_exec sample_env refused_state (RefreshOk (js ''a2'') (js ''r2'')) = Some s1"
    and s2: "api_exec sample_env s1 (Resume 0) = Some s2"
    by (auto simp del: api_exec.simps split: bind_splits)
  have "case api_run sample_env signed_in [Send sample_config, AnswerErr 0 refused] of
      None \<Rightarrow> False | Some s \<Rightarrow> has_window (st_browser s)" by code_simp
  then have w: "has_window (st_browser refused_state)"
    by (simp only: refused_state_run option.case)
  show ?thesis
    using refused_request_retried_with_new_token [OF _ _ s1 s2 w] r s1 s2
    by (simp add: Let_def del: api_exec.simps)
qed


end
