(* ===== verification/Forms.thy ===== *)
theory Forms
  imports QueueScheduling
begin

text \<open>
  The forms that edit one record of the server: how the entries of a 422 answer reach the fields
  (\<open>frontend/src/features/settings/lib/mapApiErrors.ts\<close>), and the submit handler, the reset effect
  and the toast that the profile form (\<open>features/auth/components/ProfileView.tsx\<close>) and the six
  forms of \<open>features/settings/components/WorkspaceSettingsView.tsx\<close> share.  Of react-hook-form:
  submitting runs the schema and keeps the first message of each field, a valid submission has no
  errors, a field is checked again on every change after a submission, and \<open>reset\<close> forgets the
  errors and the submission.
\<close>

section \<open>mapApiErrors.ts\<close>

type_synonym field_errors = "jstring \<rightharpoonup> jstring"

text \<open>\<open>item.loc.filter((part) => part !== "body").at(-1)\<close>, when it is a text.\<close>

definition error_field :: "validation_item \<Rightarrow> jstring option" where
  "error_field item =
     (let parts = filter (\<lambda>part. part \<noteq> Inl (js ''body'')) (vi_loc item) in
      if parts = [] then None
      else (case last parts of Inl name \<Rightarrow> Some name | Inr _ \<Rightarrow> None))"

fun map_errors :: "jstring list \<Rightarrow> validation_item list \<Rightarrow> bool \<times> field_errors \<Rightarrow> bool \<times> field_errors" where
  "map_errors allowed [] s = s"
| "map_errors allowed (item # items) (mapped, errors) =
     (case error_field item of
        Some name \<Rightarrow>
          if name \<in> set allowed
          then map_errors allowed items (True, errors(name \<mapsto> vi_msg item))
          else map_errors allowed items (mapped, errors)
      | None \<Rightarrow> map_errors allowed items (mapped, errors))"

definition applyApiFieldErrors :: "thrown \<Rightarrow> jstring list \<Rightarrow> field_errors \<Rightarrow> bool \<times> field_errors" where
  "applyApiFieldErrors error allowedFields errors = (case error of
     ThrownApi e \<Rightarrow>
       (case ae_validation e of
          None \<Rightarrow> (False, errors)
        | Some items \<Rightarrow> map_errors allowedFields items (False, errors))
   | _ \<Rightarrow> (False, errors))"

lemma map_errors_result:
  "fst (map_errors allowed items s) \<longleftrightarrow>
     fst s \<or> list_ex (\<lambda>item. case error_field item of None \<Rightarrow> False | Some n \<Rightarrow> n \<in> set allowed) items"
  by (induction allowed items s rule: map_errors.induct) (auto split: option.splits)

lemma map_errors_keeps:
  "n \<notin> set allowed \<Longrightarrow> snd (map_errors allowed items s) n = snd s n"
  by (induction allowed items s rule: map_errors.induct) (auto split: option.splits)

lemma map_errors_some:
  assumes "fst (map_errors allowed items (False, Map.empty))"
  shows "\<exists>n \<in> set allowed. snd (map_errors allowed items (False, Map.empty)) n \<noteq> None"
proof -
  have grows: "snd s n \<noteq> None \<Longrightarrow> snd (map_errors al items s) n \<noteq> None" for n al and s items
    by (induction al items s rule: map_errors.induct) (auto split: option.splits)
  have "fst (map_errors allowed items s) \<Longrightarrow> \<not> fst s \<Longrightarrow>
      \<exists>n \<in> set allowed. snd (map_errors allowed items s) n \<noteq> None" for s items
  proof (induction allowed items s rule: map_errors.induct)
    case (2 allowed item items mapped errors)
    show ?case
    proof (cases "\<exists>n \<in> set allowed. error_field item = Some n")
      case True
      then obtain n where n: "n \<in> set allowed" "error_field item = Some n" by auto
      with grows [where n = n and s = "(True, errors(n \<mapsto> vi_msg item))" and items = items and al = allowed] show ?thesis
        by auto
    next
      case False
      with 2 show ?thesis by (auto split: option.splits)
    qed
  qed simp
  from this [OF assms] show ?thesis by simp
qed

section \<open>A form\<close>

datatype toast_tone = SuccessTone | ErrorTone

record ('d, 'v, 'p) form_spec =
  sp_defaults :: "'d \<Rightarrow> 'v"
  sp_schema :: "'v \<Rightarrow> (jstring \<times> jstring) list"
  sp_patch :: "'v \<Rightarrow> 'p"
  sp_fields :: "jstring list"
  sp_saved :: jstring
  sp_failed :: jstring

record ('d, 'v, 'p) form_view =
  fm_data :: 'd
  fm_values :: 'v
  fm_errors :: field_errors
  fm_submitted :: bool
  fm_toast :: "(jstring \<times> toast_tone) option"
  fm_sent :: "'p list"

definition open_view :: "('d, 'v, 'p) form_spec \<Rightarrow> 'd \<Rightarrow> ('d, 'v, 'p) form_view" where
  "open_view spec d =
     \<lparr>fm_data = d, fm_values = sp_defaults spec d, fm_errors = Map.empty, fm_submitted = False,
      fm_toast = None, fm_sent = []\<rparr>"

text \<open>The effect that resets the form runs when the data is another object; equal data is shared.\<close>

definition data_arrived ::
  "('d, 'v, 'p) form_spec \<Rightarrow> 'd \<Rightarrow> ('d, 'v, 'p) form_view \<Rightarrow> ('d, 'v, 'p) form_view" where
  "data_arrived spec d s =
     (if d = fm_data s then s
      else s\<lparr>fm_data := d, fm_values := sp_defaults spec d, fm_errors := Map.empty,
             fm_submitted := False\<rparr>)"

definition edit_field ::
  "('d, 'v, 'p) form_spec \<Rightarrow> jstring \<Rightarrow> ('v \<Rightarrow> 'v) \<Rightarrow> ('d, 'v, 'p) form_view \<Rightarrow> ('d, 'v, 'p) form_view" where
  "edit_field spec name f s =
     (let v = f (fm_values s) in
      s\<lparr>fm_values := v,
        fm_errors := (if fm_submitted s
                      then (fm_errors s)(name := map_of (sp_schema spec v) name)
                      else fm_errors s)\<rparr>)"

text \<open>The callbacks of the call.\<close>

definition save_failed ::
  "('d, 'v, 'p) form_spec \<Rightarrow> thrown \<Rightarrow> ('d, 'v, 'p) form_view \<Rightarrow> ('d, 'v, 'p) form_view" where
  "save_failed spec error s =
     (let (mapped, errors) = applyApiFieldErrors error (sp_fields spec) (fm_errors s) in
      if mapped then s\<lparr>fm_errors := errors\<rparr>
      else s\<lparr>fm_toast := Some (getApiErrorMessage error (sp_failed spec), ErrorTone)\<rparr>)"

definition save_succeeded ::
  "('d, 'v, 'p) form_spec \<Rightarrow> 'd \<Rightarrow> ('d, 'v, 'p) form_view \<Rightarrow> ('d, 'v, 'p) form_view" where
  "save_succeeded spec d s =
     (data_arrived spec d s)\<lparr>fm_toast := Some (sp_saved spec, SuccessTone)\<rparr>"

definition submit ::
  "('d, 'v, 'p) form_spec \<Rightarrow> ('p list \<Rightarrow> 'p \<Rightarrow> thrown + 'd) \<Rightarrow> ('d, 'v, 'p) form_view
     \<Rightarrow> ('d, 'v, 'p) form_view" where
  "submit spec server s =
     (let issues = sp_schema spec (fm_values s) in
      if issues \<noteq> [] then s\<lparr>fm_errors := map_of issues, fm_submitted := True\<rparr>
      else (let p = sp_patch spec (fm_values s);
                s0 = s\<lparr>fm_errors := Map.empty, fm_submitted := True, fm_sent := fm_sent s @ [p]\<rparr>
            in (case server (fm_sent s) p of
                  Inl error \<Rightarrow> save_failed spec error s0
                | Inr d \<Rightarrow> save_succeeded spec d s0)))"

definition dismiss_toast :: "('d, 'v, 'p) form_view \<Rightarrow> ('d, 'v, 'p) form_view" where
  "dismiss_toast s = s\<lparr>fm_toast := None\<rparr>"

datatype ('d, 'v) form_action = DataArrived 'd | EditField jstring "'v \<Rightarrow> 'v" | Submit | DismissToast

definition form_step ::
  "('d, 'v, 'p) form_spec \<Rightarrow> ('p list \<Rightarrow> 'p \<Rightarrow> thrown + 'd) \<Rightarrow> ('d, 'v, 'p) form_view
     \<Rightarrow> ('d, 'v) form_action \<Rightarrow> ('d, 'v, 'p) form_view" where
  "form_step spec server s a = (case a of
     DataArrived d \<Rightarrow> data_arrived spec d s
   | EditField name f \<Rightarrow> edit_field spec name f s
   | Submit \<Rightarrow> submit spec server s
   | DismissToast \<Rightarrow> dismiss_toast s)"

section \<open>What every form does\<close>

text \<open>Everything sent passed the schema, and as long as nothing was submitted no error is shown.\<close>

definition form_inv :: "('d, 'v, 'p) form_spec \<Rightarrow> ('d, 'v, 'p) form_view \<Rightarrow> bool" where
  "form_inv spec s \<longleftrightarrow>
     list_all (\<lambda>p. \<exists>v. sp_schema spec v = [] \<and> p = sp_patch spec v) (fm_sent s) \<and>
     (\<not> fm_submitted s \<longrightarrow> fm_errors s = Map.empty)"

lemma save_failed_keeps:
  "fm_sent (save_failed spec e s) = fm_sent s" "fm_submitted (save_failed spec e s) = fm_submitted s"
  "fm_data (save_failed spec e s) = fm_data s" "fm_values (save_failed spec e s) = fm_values s"
  by (simp_all add: save_failed_def split: prod.splits)

lemma save_succeeded_inv: "form_inv spec s \<Longrightarrow> form_inv spec (save_succeeded spec d s)"
  by (simp add: form_inv_def save_succeeded_def data_arrived_def)

lemma form_step_inv: "form_inv spec s \<Longrightarrow> form_inv spec (form_step spec server s a)"
  by (cases a)
    (auto simp: form_step_def form_inv_def data_arrived_def edit_field_def submit_def Let_def
      save_failed_keeps save_succeeded_def dismiss_toast_def split: sum.splits)

interpretation forms: state_machine "form_step spec server" "\<lambda>_ _. True" "form_inv spec"
  for spec server
  by unfold_locales (rule form_step_inv)

lemma open_view_inv: "form_inv spec (open_view spec d)"
  by (simp add: form_inv_def open_view_def)

text \<open>A refusal is never silent: it is shown at a field of the form or in a toast.\<close>

definition refusal_shown :: "('d, 'v, 'p) form_spec \<Rightarrow> ('d, 'v, 'p) form_view \<Rightarrow> bool" where
  "refusal_shown spec s \<longleftrightarrow>
     list_ex (\<lambda>n. fm_errors s n \<noteq> None) (sp_fields spec) \<or>
     (case fm_toast s of Some (m, ErrorTone) \<Rightarrow> m \<noteq> [] | _ \<Rightarrow> False)"

lemma save_failed_shown:
  assumes "sp_failed spec \<noteq> []" "fm_errors s = Map.empty"
  shows "refusal_shown spec (save_failed spec e s)"
proof (cases "fst (applyApiFieldErrors e (sp_fields spec) (fm_errors s))")
  case True
  then obtain api items where "e = ThrownApi api" "ae_validation api = Some items"
      "fst (map_errors (sp_fields spec) items (False, Map.empty))"
    using assms(2) by (auto simp: applyApiFieldErrors_def split: thrown.splits option.splits)
  moreover from this obtain n where "n \<in> set (sp_fields spec)"
      "snd (map_errors (sp_fields spec) items (False, Map.empty)) n \<noteq> None"
    using map_errors_some by blast
  ultimately show ?thesis
    using assms(2)
    by (auto simp: refusal_shown_def save_failed_def applyApiFieldErrors_def list_ex_iff
        intro!: bexI [of _ n] split: prod.splits)
next
  case False
  with getApiErrorMessage_nonempty [OF assms(1), of e] show ?thesis
    by (auto simp: refusal_shown_def save_failed_def split: prod.splits)
qed

text \<open>A form over a record that is saved in place: \<open>patched\<close> is the record with the keys of a request
  replaced, \<open>canon\<close> is what becomes of values on their way to the server, and \<open>clean\<close> says of which
  records the form shows the true values.\<close>

locale saving_form =
  fixes spec :: "('d, 'v, 'p) form_spec"
    and patched :: "'p \<Rightarrow> 'd \<Rightarrow> 'd"
    and canon :: "'v \<Rightarrow> 'v"
    and clean :: "'d \<Rightarrow> bool"
  assumes saved_values: "sp_schema spec v = [] \<Longrightarrow> sp_defaults spec (patched (sp_patch spec v) d) = canon v"
    and clean_saved: "clean d \<Longrightarrow> patched (sp_patch spec (sp_defaults spec d)) d = d"
    and clean_valid: "clean d \<Longrightarrow> sp_schema spec (sp_defaults spec d) = []"
begin

text \<open>A server that stores what it is sent and answers with the record.\<close>

lemma submit_saves:
  assumes "sp_schema spec (fm_values s) = []"
    and "server (fm_sent s) (sp_patch spec (fm_values s)) =
      Inr (patched (sp_patch spec (fm_values s)) (fm_data s))"
  shows "fm_data (submit spec server s) = patched (sp_patch spec (fm_values s)) (fm_data s)"
    and "fm_errors (submit spec server s) = Map.empty"
    and "fm_toast (submit spec server s) = Some (sp_saved spec, SuccessTone)"
    and "fm_values (submit spec server s) =
      (if patched (sp_patch spec (fm_values s)) (fm_data s) = fm_data s then fm_values s
       else canon (fm_values s))"
  using assms saved_values [OF assms(1)]
  by (simp_all add: submit_def Let_def save_succeeded_def data_arrived_def)

text \<open>Saving a form nobody touched changes nothing.\<close>

lemma untouched_save:
  assumes "clean d" "server [] (sp_patch spec (sp_defaults spec d)) =
      Inr (patched (sp_patch spec (sp_defaults spec d)) d)"
  shows "fm_data (submit spec server (open_view spec d)) = d"
    and "fm_values (submit spec server (open_view spec d)) = sp_defaults spec d"
  using submit_saves [of "open_view spec d" server] assms clean_saved [OF assms(1)]
    clean_valid [OF assms(1)]
  by (simp_all add: open_view_def)

end

end
