(* ===== verification/Auth.thy ===== *)
theory Auth
  imports Forms DiscoveryData AiSession
begin

text \<open>
  Signing in and out: \<open>frontend/src/features/auth\<close> (types, requests, hooks, \<open>LoginForm\<close>,
  \<open>AuthGuard\<close>, \<open>ProfileView\<close>) and the middleware \<open>frontend/src/middleware.ts\<close>, over the session
  store of \<open>Session\<close> and \<open>Workspace\<close>.  The server's answers are arguments.  \<open>zod_email\<close> is zod's check of
  an address.
\<close>

section \<open>types/api.ts, auth.api.ts\<close>

datatype UserRole = AdminRole | UserRole

record User =
  us_id :: jstring
  us_email :: jstring
  us_full_name :: jstring
  us_role :: UserRole
  us_is_active :: bool
  us_created_at :: jstring
  us_updated_at :: jstring
  us_default_workspace_id :: "jstring option"

record LoginInput =
  li_email :: jstring
  li_password :: jstring

record profile_input =
  pi_full_name :: jstring
  pi_email :: jstring

datatype auth_body =
  NoBody | FormBody "(jstring \<times> jstring) list" | TokenBody jstring | ProfileBody profile_input

record auth_request =
  ar_path :: jstring
  ar_body :: auth_body
  ar_skipAuthRefresh :: bool

definition login_request :: "LoginInput \<Rightarrow> auth_request" where
  "login_request i =
     \<lparr>ar_path = js ''/auth/login'',
      ar_body = FormBody [(js ''username'', li_email i), (js ''password'', li_password i)],
      ar_skipAuthRefresh = True\<rparr>"

definition refreshSession_request :: "jstring \<Rightarrow> auth_request" where
  "refreshSession_request token =
     \<lparr>ar_path = js ''/auth/refresh'', ar_body = TokenBody token, ar_skipAuthRefresh = True\<rparr>"

definition logout_request :: "jstring \<Rightarrow> auth_request" where
  "logout_request token =
     \<lparr>ar_path = js ''/auth/logout'', ar_body = TokenBody token, ar_skipAuthRefresh = True\<rparr>"

definition me_request :: auth_request where
  "me_request = \<lparr>ar_path = js ''/auth/me'', ar_body = NoBody, ar_skipAuthRefresh = False\<rparr>"

definition update_me_request :: "profile_input \<Rightarrow> auth_request" where
  "update_me_request i =
     \<lparr>ar_path = js ''/auth/me'', ar_body = ProfileBody i, ar_skipAuthRefresh = False\<rparr>"

section \<open>useAuth.ts\<close>

text \<open>The page: the browser's storage, the query cache of which only the user is looked at, the routes
  navigated to and the requests made.\<close>

record auth_page =
  ap_browser :: browser
  ap_me :: "User option"
  ap_me_stale :: bool
  ap_routes :: "jstring list"
  ap_calls :: "auth_request list"

definition getCurrentUser_done :: "User \<Rightarrow> browser \<Rightarrow> browser" where
  "getCurrentUser_done u b = applyDefaultWorkspaceFromUser (us_default_workspace_id u) b"

text \<open>The query function applies the workspace again.\<close>

definition useCurrentUser_done :: "User \<Rightarrow> auth_page \<Rightarrow> auth_page" where
  "useCurrentUser_done u s =
     s\<lparr>ap_browser := applyDefaultWorkspaceFromUser (us_default_workspace_id u)
                      (getCurrentUser_done u (ap_browser s)),
       ap_me := Some u, ap_me_stale := False, ap_calls := ap_calls s @ [me_request]\<rparr>"

definition login_target :: "jstring option \<Rightarrow> jstring" where
  "login_target next_param = (case next_param of
     Some n \<Rightarrow> if starts_with (js ''/'') n \<and> \<not> starts_with (js ''//'') n then n else js ''/dashboard''
   | None \<Rightarrow> js ''/dashboard'')"

text \<open>\<open>onSuccess\<close>; storing the tokens needs a window.\<close>

definition useLogin_success :: "jstring option \<Rightarrow> jstring \<Rightarrow> jstring \<Rightarrow> auth_page \<Rightarrow> auth_page" where
  "useLogin_success next_param access_token refresh_token s =
     (case setTokens access_token refresh_token (ap_browser s) of
        None \<Rightarrow> s
      | Some b \<Rightarrow>
          s\<lparr>ap_browser := b, ap_me_stale := True, ap_routes := ap_routes s @ [login_target next_param]\<rparr>)"

definition useLogin ::
  "jstring option \<Rightarrow> LoginInput \<Rightarrow> thrown + jstring \<times> jstring \<Rightarrow> auth_page \<Rightarrow> auth_page" where
  "useLogin next_param i answer s =
     (let s0 = s\<lparr>ap_calls := ap_calls s @ [login_request i]\<rparr> in
      (case answer of
         Inl _ \<Rightarrow> s0
       | Inr (access_token, refresh_token) \<Rightarrow> useLogin_success next_param access_token refresh_token s0))"

definition finish_logout :: "auth_page \<Rightarrow> auth_page" where
  "finish_logout s =
     s\<lparr>ap_browser := clear_session (ap_browser s), ap_me := None, ap_me_stale := False,
       ap_routes := ap_routes s @ [js ''/login'']\<rparr>"

text \<open>The page after a sign-out and the answer of its call, if it makes one.\<close>

definition useLogout :: "thrown option \<Rightarrow> auth_page \<Rightarrow> auth_page" where
  "useLogout answer s =
     (if \<not> truthy (getRefreshToken (ap_browser s)) then finish_logout s
      else finish_logout (s\<lparr>ap_calls := ap_calls s @
             [logout_request (the (getRefreshToken (ap_browser s)))]\<rparr>))"

definition useUpdateProfile_success :: "User \<Rightarrow> auth_page \<Rightarrow> auth_page" where
  "useUpdateProfile_success u s =
     s\<lparr>ap_browser := applyDefaultWorkspaceFromUser (us_default_workspace_id u) (ap_browser s),
       ap_me := Some u, ap_me_stale := False\<rparr>"

section \<open>LoginForm\<close>

definition bad_email_text :: jstring where
  "bad_email_text =
    [1571, 1583, 1582, 1604, 32, 1576, 1585, 1610, 1583, 1611, 1575, 32, 1573, 1604, 1603,
     1578, 1585, 1608, 1606, 1610, 1611, 1575, 32, 1589, 1581, 1610, 1581, 1611, 1575]"

definition password_required_text :: jstring where
  "password_required_text =
    [1603, 1604, 1605, 1577, 32, 1575, 1604, 1605, 1585, 1608, 1585, 32, 1605, 1591, 1604,
     1608, 1576, 1577]"

definition loginSchema :: "(jstring \<Rightarrow> bool) \<Rightarrow> LoginInput \<Rightarrow> (jstring \<times> jstring) list" where
  "loginSchema zod_email v =
     (if zod_email (li_email v) then [] else [(js ''email'', bad_email_text)]) @
     (if length (li_password v) < 1 then [(js ''password'', password_required_text)] else [])"

text \<open>Submitting: the messages at the fields, or the call.  A refusal is shown with its own message.\<close>

definition LoginForm_submit ::
  "(jstring \<Rightarrow> bool) \<Rightarrow> jstring option \<Rightarrow> LoginInput \<Rightarrow> thrown + jstring \<times> jstring \<Rightarrow> auth_page
     \<Rightarrow> field_errors \<times> jstring option \<times> auth_page" where
  "LoginForm_submit zod_email next_param v answer s =
     (if loginSchema zod_email v \<noteq> [] then (map_of (loginSchema zod_email v), None, s)
      else (Map.empty, (case answer of Inl e \<Rightarrow> Some (thrown_message e) | Inr _ \<Rightarrow> None),
            useLogin next_param v answer s))"

section \<open>middleware.ts\<close>

definition PUBLIC_ROUTES :: "jstring list" where
  "PUBLIC_ROUTES = [js ''/login'']"

text \<open>\<open>Some next\<close> is the redirect to the sign-in page that carries the path.\<close>

definition middleware :: "browser \<Rightarrow> jstring \<Rightarrow> jstring option" where
  "middleware b pathname =
     (let signedIn = (cookies b SESSION_COOKIE \<noteq> None) in
      if \<not> signedIn \<and> pathname \<notin> set PUBLIC_ROUTES then Some pathname else None)"

section \<open>AuthGuard\<close>

text \<open>What the user query reports.\<close>

datatype user_report = UserPending | UserFailed | UserHere

record guard =
  gd_hasToken :: "bool option"
  gd_user :: user_report
  gd_routes :: "jstring list"

definition mounted_guard :: guard where
  "mounted_guard = \<lparr>gd_hasToken = None, gd_user = UserPending, gd_routes = []\<rparr>"

definition guard_effect :: "guard \<Rightarrow> guard" where
  "guard_effect g =
     (if gd_hasToken g = Some False \<or> gd_user g = UserFailed
      then g\<lparr>gd_routes := gd_routes g @ [js ''/login'']\<rparr> else g)"

text \<open>The effect of the mount reads the token; a report of the query runs the other effect when it
  changes whether the query failed.  The query is only enabled with a token.\<close>

datatype guard_action = GuardMounted | UserReported user_report

definition guard_step :: "browser \<Rightarrow> guard \<Rightarrow> guard_action \<Rightarrow> guard" where
  "guard_step b g a = (case a of
     GuardMounted \<Rightarrow> guard_effect (g\<lparr>gd_hasToken := Some (truthy (getAccessToken b))\<rparr>)
   | UserReported r \<Rightarrow>
       if gd_hasToken g \<noteq> Some True then g
       else (let g1 = g\<lparr>gd_user := r\<rparr> in
             if (r = UserFailed) = (gd_user g = UserFailed) then g1 else guard_effect g1))"

definition guard_shows_children :: "guard \<Rightarrow> bool" where
  "guard_shows_children g \<longleftrightarrow> gd_hasToken g = Some True \<and> gd_user g = UserHere"

section \<open>ProfileView\<close>

definition full_name_label :: jstring where
  "full_name_label =
    [1575, 1604, 1575, 1587, 1605, 32, 1575, 1604, 1603, 1575, 1605, 1604]"

definition email_label :: jstring where
  "email_label =
    [1575, 1604, 1576, 1585, 1610, 1583, 32, 1575, 1604, 1573, 1604, 1603, 1578, 1585, 1608,
     1606, 1610]"

definition bad_profile_email_text :: jstring where
  "bad_profile_email_text =
    [1571, 1583, 1582, 1604, 32, 1576, 1585, 1610, 1583, 1575, 1611, 32, 1573, 1604, 1603,
     1578, 1585, 1608, 1606, 1610, 1575, 1611, 32, 1589, 1575, 1604, 1581, 1575, 1611]"

definition profile_saved_text :: jstring where
  "profile_saved_text =
    [1578, 1605, 32, 1581, 1601, 1592, 32, 1575, 1604, 1605, 1604, 1601, 32, 1575, 1604,
     1588, 1582, 1589, 1610, 46]"

definition profile_failed_text :: jstring where
  "profile_failed_text =
    [1578, 1593, 1584, 1585, 32, 1581, 1601, 1592, 32, 1575, 1604, 1605, 1604, 1601, 32,
     1575, 1604, 1588, 1582, 1589, 1610, 46]"

definition profileSchema :: "(jstring \<Rightarrow> bool) \<Rightarrow> profile_input \<Rightarrow> (jstring \<times> jstring) list" where
  "profileSchema zod_email v =
     (if length (pi_full_name v) < 1
      then [(js ''full_name'', requiredField full_name_label False)] else []) @
     (if length (pi_email v) < 1 then [(js ''email'', requiredField email_label False)]
      else if \<not> zod_email (pi_email v) then [(js ''email'', bad_profile_email_text)] else [])"

definition profile_form :: "(jstring \<Rightarrow> bool) \<Rightarrow> (profile_input, profile_input, profile_input) form_spec" where
  "profile_form zod_email =
     \<lparr>sp_defaults = (\<lambda>d. d), sp_schema = profileSchema zod_email, sp_patch = (\<lambda>v. v),
      sp_fields = [js ''full_name'', js ''email''],
      sp_saved = profile_saved_text, sp_failed = profile_failed_text\<rparr>"

definition profile_of :: "User \<Rightarrow> profile_input" where
  "profile_of u = \<lparr>pi_full_name = us_full_name u, pi_email = us_email u\<rparr>"

datatype profile_body = ProfileLoading | ProfileError | ProfileShown profile_input UserRole bool

definition profile_view :: "thrown option \<Rightarrow> User option \<Rightarrow> profile_body" where
  "profile_view failure data = (case data of
     Some u \<Rightarrow> (case failure of
       Some _ \<Rightarrow> ProfileError
     | None \<Rightarrow> ProfileShown (profile_of u) (us_role u) (us_is_active u))
   | None \<Rightarrow> (case failure of Some _ \<Rightarrow> ProfileError | None \<Rightarrow> ProfileLoading))"

interpretation profile_form: saving_form "profile_form zod_email" "\<lambda>p d. p" "\<lambda>v. v"
  "\<lambda>d. profileSchema zod_email d = []" for zod_email
  by unfold_locales (simp_all add: profile_form_def)


section \<open>Where a sign-in leads\<close>

text \<open>How a browser reads a relative address (the URL standard, for \<open>https\<close>): tabs and line feeds are
  dropped, and two leading slashes, of either kind, start the name of another host.\<close>

definition is_slash :: "nat \<Rightarrow> bool" where
  "is_slash c \<longleftrightarrow> c = 47 \<or> c = 92"

definition leaves_site :: "jstring \<Rightarrow> bool" where
  "leaves_site href = (case filter (\<lambda>c. c \<notin> {9, 10, 13}) href of
     c # d # _ \<Rightarrow> is_slash c \<and> is_slash d
   | _ \<Rightarrow> False)"

text \<open>The address a sign-in leads to always starts with one slash and not with two, so it stays on the
  site if its text has no backslash, tab or line break; but the check of the parameter does not look
  for those, and an address like \<open>/\evil\<close> passes it and leads to another host.\<close>

theorem login_target_checks_slashes_only:
  "starts_with (js ''/'') (login_target n) \<and> \<not> starts_with (js ''//'') (login_target n) \<and>
   (if list_ex (\<lambda>c. c \<in> {9, 10, 13, 92}) (login_target n) then True
    else \<not> leaves_site (login_target n)) \<and>
   login_target (Some (47 # 92 # host)) = 47 # 92 # host \<and> leaves_site (47 # 92 # host)"
proof -
  have dash: "js ''/dashboard'' = [47, 100, 97, 115, 104, 98, 111, 97, 114, 100]" by (simp add: js_def)
  have one: "starts_with (js ''/'') (login_target n)" "\<not> starts_with (js ''//'') (login_target n)"
    by (simp_all add: login_target_def dash split: option.splits) (simp_all add: js_def)
  have "\<not> leaves_site t" if "starts_with (js ''/'') t" "\<not> starts_with (js ''//'') t"
    "list_all (\<lambda>c. c \<notin> {9, 10, 13, 92}) t" for t
  proof -
    from that(3) have "filter (\<lambda>c. c \<notin> {9, 10, 13}) t = t"
      by (auto simp: filter_id_conv list_all_iff)
    with that show ?thesis
      by (cases t; cases "tl t") (auto simp: leaves_site_def is_slash_def js_def)
  qed
  from this [OF one] one show ?thesis
    by (auto simp: list_ex_iff list_all_iff login_target_def leaves_site_def is_slash_def js_def)
qed

text \<open>C14: signing in leads back: the middleware sends a visitor without a session from a page to the sign-in
  page with the page's path, and a sign-in there stores the tokens, marks the browser as signed in,
  goes to that path and is let through to it and to every other page; signing out with or without
  an answer of the server ends with no token, no workspace, no marker and no user, at the sign-in page,
  and every other page leads back there.\<close>

theorem sign_in_and_out:
  assumes "has_window (ap_browser s)" "cookies (ap_browser s) SESSION_COOKIE = None"
    and "starts_with (js ''/'') path" "\<not> starts_with (js ''//'') path" "path \<notin> set PUBLIC_ROUTES"
  shows "let asked = middleware (ap_browser s) path;
             inside = useLogin asked i (Inr (access_token, refresh_token)) s;
             outside = useLogout answer inside
    in asked = Some path \<and>
       ap_routes inside = ap_routes s @ [path] \<and> ap_calls inside = ap_calls s @ [login_request i] \<and>
       getAccessToken (ap_browser inside) = Some access_token \<and>
       getRefreshToken (ap_browser inside) = Some refresh_token \<and>
       middleware (ap_browser inside) visit = None \<and>
       getAccessToken (ap_browser outside) = None \<and> getRefreshToken (ap_browser outside) = None \<and>
       session_getActiveWorkspaceId (ap_browser outside) = None \<and> ap_me outside = None \<and>
       ap_routes outside = ap_routes s @ [path, js ''/login''] \<and>
       ap_calls outside = ap_calls inside @
         (if refresh_token = [] then [] else [logout_request refresh_token]) \<and>
       middleware (ap_browser outside) visit = (if visit \<in> set PUBLIC_ROUTES then None else Some visit)"
proof -
  obtain b where b: "setTokens access_token refresh_token (ap_browser s) = Some b"
    using setTokens_defined [of access_token refresh_token "ap_browser s"] assms(1) by auto
  have window: "has_window b"
    using b assms(1) by (auto simp: session_writes split: if_splits)
  have cookie: "cookies b SESSION_COOKIE \<noteq> None"
    using b by (auto simp: session_writes SESSION_COOKIE_def split: if_splits)
  have reads: "getAccessToken b = Some access_token" "getRefreshToken b = Some refresh_token"
    using setTokens_reads [OF b] by simp_all
  have gone: "cookies (clear_session b) SESSION_COOKIE = None"
    using window by (simp add: session_writes SESSION_COOKIE_def)
  show ?thesis
    using assms b cookie window gone
    by (simp add: Let_def middleware_def useLogin_def useLogin_success_def login_target_def
        useLogout_def finish_logout_def reads clear_session_reads truthy_def)
qed

text \<open>The guard renders the page's content only for a user that was loaded with a token of the session:
  without one it never does, whatever the query reports, and sends the visitor to the sign-in
  page as soon as it is mounted.\<close>

theorem guard_needs_token:
  assumes "getAccessToken b = None"
  shows "let g = run (guard_step b) mounted_guard (GuardMounted # reports)
    in \<not> guard_shows_children g \<and> js ''/login'' \<in> set (gd_routes g)"
proof -
  have "gd_hasToken (run (guard_step b) g as) = Some False \<and> js ''/login'' \<in> set (gd_routes (run (guard_step b) g as))"
    if "gd_hasToken g = Some False" "js ''/login'' \<in> set (gd_routes g)" for g as
    using that
    by (induction as arbitrary: g)
      (auto simp: guard_step_def guard_effect_def assms split: guard_action.splits)
  then show ?thesis
    by (simp add: Let_def guard_step_def guard_effect_def assms guard_shows_children_def)
qed

section \<open>What a sign-out leaves behind\<close>

definition CONTENT_STORAGE_KEY :: jstring where
  "CONTENT_STORAGE_KEY = js ''affiliate_content_session_v1''"

text \<open>A sign-out leaves the work of the user in the tab: the stored texts of the content studio and
  the stored search with its results and imported products are not cleared, and are what the next user
  who signs in there finds.\<close>

theorem sign_out_keeps_stored_work:
  "getItem CONTENT_STORAGE_KEY (ap_browser (useLogout answer s)) =
     getItem CONTENT_STORAGE_KEY (ap_browser s) \<and>
   getItem DISCOVERY_STORAGE_KEY (ap_browser (useLogout answer s)) =
     getItem DISCOVERY_STORAGE_KEY (ap_browser s)"
  by (simp_all add: useLogout_def finish_logout_def clear_session_def notifyWorkspaceListeners_def
      getItem_def CONTENT_STORAGE_KEY_def DISCOVERY_STORAGE_KEY_def ACCESS_TOKEN_KEY_def
      REFRESH_TOKEN_KEY_def ACTIVE_WORKSPACE_KEY_def js_def)

text \<open>Loading the user twice in a row, as the query function does, is loading it once.\<close>

lemma workspace_applied_once:
  assumes "has_window b"
  shows "getActiveWorkspaceId env (ap_browser (useCurrentUser_done u (s\<lparr>ap_browser := b\<rparr>))) =
    nullish (normalizeWorkspaceId (us_default_workspace_id u)) (getActiveWorkspaceId env b)"
proof -
  have "has_window (applyDefaultWorkspaceFromUser d b)" for d
    using assms by (simp add: applyDefaultWorkspaceFromUser_def set_keeps_window split: option.splits)
  then show ?thesis
    using assms
    by (simp add: useCurrentUser_done_def getCurrentUser_done_def active_workspace_after_set(4)
        nullish_def split: option.splits)
qed

section \<open>Examples\<close>

definition signed_out_page :: auth_page where
  "signed_out_page =
     \<lparr>ap_browser = fresh_browser True, ap_me = None, ap_me_stale = False, ap_routes = [], ap_calls = []\<rparr>"

lemma sign_in_and_out_witness:
  "middleware (ap_browser (useLogin (Some (js ''/queue'')) \<lparr>li_email = [], li_password = []\<rparr>
     (Inr (js ''a'', js ''r'')) signed_out_page)) (js ''/queue'') = None"
proof -
  have "has_window (ap_browser signed_out_page)" "cookies (ap_browser signed_out_page) SESSION_COOKIE = None"
    by (simp_all add: signed_out_page_def fresh_browser_def)
  moreover have "starts_with (js ''/'') (js ''/queue'')" "\<not> starts_with (js ''//'') (js ''/queue'')"
    "js ''/queue'' \<notin> set PUBLIC_ROUTES"
    by (simp_all add: js_def PUBLIC_ROUTES_def)
  ultimately show ?thesis
    using sign_in_and_out [of signed_out_page "js ''/queue''" "\<lparr>li_email = [], li_password = []\<rparr>"
        "js ''a''" "js ''r''" None "js ''/queue''"]
    by (auto simp: Let_def)
qed

lemma guard_needs_token_witness:
  "\<not> guard_shows_children (run (guard_step (fresh_browser True)) mounted_guard [GuardMounted, UserReported UserHere])"
  using guard_needs_token [of "fresh_browser True" "[UserReported UserHere]"]
  by (simp add: Let_def fresh_browser_def getAccessToken_def getItem_def)

end
