(* ===== verification/Settings.thy ===== *)
theory Settings
  imports Forms
begin

text \<open>
  The settings of a workspace: \<open>frontend/src/features/settings\<close> (types, schemas, hooks, the badges of
  the connections and the six forms of \<open>components/WorkspaceSettingsView.tsx\<close>).  The handler, effect
  and toast of the forms are those of \<open>Forms\<close>.  \<open>zod_uuid\<close> is zod's check of a UUID, \<open>upper_case\<close> is
  \<open>toUpperCase\<close>; where a schema gives no message of its own the form shows zod's (\<open>zod_text\<close>).
\<close>

section \<open>types/api.ts\<close>

datatype SettingsSection =
  GeneralSection | AliExpressSection | AiSection | TelegramSection | DiscoverySection
| SchedulingSection

record ProviderConnectionStatus =
  pc_aliexpress :: bool
  pc_telegram_bot :: bool
  pc_openai :: bool
  pc_gemini :: bool
  pc_image_search :: bool

record WorkspaceSettings =
  ws_workspace_id :: jstring
  ws_can_edit :: bool
  ws_timezone :: jstring
  ws_ui_language :: jstring
  ws_target_currency :: jstring
  ws_ship_to_country :: jstring
  ws_target_language :: jstring
  ws_ai_provider :: jstring
  ws_content_type :: jstring
  ws_tone :: jstring
  ws_content_language :: jstring
  ws_content_length :: jstring
  ws_discovery_mode :: jstring
  ws_page_size :: jsnum
  ws_telegram_channel :: "jstring option"
  ws_connections :: ProviderConnectionStatus
  ws_created_at :: "jstring option"
  ws_updated_at :: "jstring option"

text \<open>A patch: keys that are absent are not sent; the channel may be sent as \<open>null\<close>.\<close>

record WorkspaceSettingsPatch =
  wp_timezone :: "jstring field"
  wp_ui_language :: "jstring field"
  wp_target_currency :: "jstring field"
  wp_ship_to_country :: "jstring field"
  wp_target_language :: "jstring field"
  wp_ai_provider :: "jstring field"
  wp_content_type :: "jstring field"
  wp_tone :: "jstring field"
  wp_content_language :: "jstring field"
  wp_content_length :: "jstring field"
  wp_discovery_mode :: "jstring field"
  wp_page_size :: "jsnum field"
  wp_telegram_channel :: "jstring field"

definition empty_patch :: WorkspaceSettingsPatch where
  "empty_patch =
     \<lparr>wp_timezone = Absent, wp_ui_language = Absent, wp_target_currency = Absent,
      wp_ship_to_country = Absent, wp_target_language = Absent, wp_ai_provider = Absent,
      wp_content_type = Absent, wp_tone = Absent, wp_content_language = Absent,
      wp_content_length = Absent, wp_discovery_mode = Absent, wp_page_size = Absent,
      wp_telegram_channel = Absent\<rparr>"

section \<open>schemas.ts\<close>

definition TIMEZONES :: "jstring list" where
  "TIMEZONES =
     map js [''UTC'', ''Asia/Jerusalem'', ''Asia/Riyadh'', ''Asia/Dubai'', ''Africa/Cairo'',
             ''Europe/London'', ''Europe/Paris'', ''Europe/Berlin'', ''America/New_York'',
             ''America/Los_Angeles'']"

definition UI_LANGUAGES :: "jstring list" where
  "UI_LANGUAGES = map js [''ar'', ''en'']"

definition AI_PROVIDERS :: "jstring list" where
  "AI_PROVIDERS = map js [''openai'', ''gemini'']"

definition CONTENT_TYPES :: "jstring list" where
  "CONTENT_TYPES =
     map js [''social'', ''description'', ''telegram'', ''facebook'', ''blog'', ''email'']"

definition TONE_PROFILES :: "jstring list" where
  "TONE_PROFILES =
     map js [''professional'', ''friendly'', ''luxury'', ''technical'', ''urgent'', ''minimal'',
             ''persuasive'', ''funny'']"

definition CONTENT_LANGUAGES :: "jstring list" where
  "CONTENT_LANGUAGES = map js [''ar'', ''en'', ''fr'', ''de'']"

definition CONTENT_LENGTHS :: "jstring list" where
  "CONTENT_LENGTHS = map js [''short'', ''medium'', ''long'']"

definition DISCOVERY_MODES :: "jstring list" where
  "DISCOVERY_MODES =
     map js [''general'', ''hot'', ''deals'', ''trending'', ''category'', ''recommended'']"

definition timezone_label :: jstring where
  "timezone_label =
    [1575, 1604, 1605, 1606, 1591, 1602, 1577, 32, 1575, 1604, 1586, 1605, 1606, 1610, 1577]"

definition currency_label :: jstring where
  "currency_label =
    [1575, 1604, 1593, 1605, 1604, 1577]"

definition bad_currency_text :: jstring where
  "bad_currency_text =
    [1571, 1583, 1582, 1604, 32, 1585, 1605, 1586, 32, 1593, 1605, 1604, 1577, 32, 1605,
     1606, 32, 1579, 1604, 1575, 1579, 1577, 32, 1571, 1581, 1585, 1601]"

definition country_label :: jstring where
  "country_label =
    [1576, 1604, 1583, 32, 1575, 1604, 1588, 1581, 1606]"

definition bad_country_text :: jstring where
  "bad_country_text =
    [1571, 1583, 1582, 1604, 32, 1585, 1605, 1586, 32, 1576, 1604, 1583, 32, 1605, 1606, 32,
     1581, 1585, 1601, 1610, 1606]"

definition display_language_label :: jstring where
  "display_language_label =
    [1604, 1594, 1577, 32, 1575, 1604, 1593, 1585, 1590]"

definition channel_ref_label :: jstring where
  "channel_ref_label =
    [1605, 1593, 1585, 1617, 1601, 32, 1575, 1604, 1602, 1606, 1575, 1577]"

definition one_of :: "jstring list \<Rightarrow> jstring \<Rightarrow> jstring \<Rightarrow> jstring \<Rightarrow> (jstring \<times> jstring) list" where
  "one_of allowed message name v = (if v \<in> set allowed then [] else [(name, message)])"

record WorkspaceGeneralValues =
  gv_timezone :: jstring
  gv_ui_language :: jstring

definition workspaceGeneralSchema :: "jstring \<Rightarrow> WorkspaceGeneralValues \<Rightarrow> (jstring \<times> jstring) list" where
  "workspaceGeneralSchema zod_text v =
     one_of TIMEZONES (requiredField timezone_label True) (js ''timezone'') (gv_timezone v) @
     one_of UI_LANGUAGES zod_text (js ''ui_language'') (gv_ui_language v)"

record AliExpressDisplayValues =
  av_currency :: jstring
  av_country :: jstring
  av_language :: jstring

text \<open>A chain of checks on a text: its length, then its letters, each adding its message.\<close>

definition letters_issues ::
  "nat \<Rightarrow> jstring \<Rightarrow> jstring \<Rightarrow> jstring \<Rightarrow> jstring \<Rightarrow> jstring list" where
  "letters_issues n required zod_text bad v =
     (if length v < n then [required] else []) @ (if length v > n then [zod_text] else []) @
     (if length v = n \<and> list_all is_alpha v then [] else [bad])"

definition aliexpressDisplaySchema :: "jstring \<Rightarrow> AliExpressDisplayValues \<Rightarrow> (jstring \<times> jstring) list" where
  "aliexpressDisplaySchema zod_text v =
     map (Pair (js ''aliexpress_target_currency''))
       (letters_issues 3 (requiredField currency_label False) zod_text bad_currency_text (av_currency v)) @
     map (Pair (js ''aliexpress_ship_to_country''))
       (letters_issues 2 (requiredField country_label False) zod_text bad_country_text (av_country v)) @
     map (Pair (js ''aliexpress_target_language''))
       ((if length (av_language v) < 2 then [requiredField display_language_label True] else []) @
        (if length (av_language v) > 8 then [zod_text] else []))"

record AiDefaultsValues =
  dv_ai_provider :: jstring
  dv_content_type :: jstring
  dv_tone :: jstring
  dv_content_language :: jstring
  dv_content_length :: jstring

definition aiDefaultsSchema :: "jstring \<Rightarrow> AiDefaultsValues \<Rightarrow> (jstring \<times> jstring) list" where
  "aiDefaultsSchema zod_text v =
     one_of AI_PROVIDERS zod_text (js ''default_ai_provider'') (dv_ai_provider v) @
     one_of CONTENT_TYPES zod_text (js ''default_content_type'') (dv_content_type v) @
     one_of TONE_PROFILES zod_text (js ''default_tone'') (dv_tone v) @
     one_of CONTENT_LANGUAGES zod_text (js ''default_content_language'') (dv_content_language v) @
     one_of CONTENT_LENGTHS zod_text (js ''default_content_length'') (dv_content_length v)"

definition telegramDefaultsSchema :: "(jstring \<Rightarrow> bool) \<Rightarrow> jstring \<Rightarrow> (jstring \<times> jstring) list" where
  "telegramDefaultsSchema zod_uuid v =
     (if v = [] \<or> zod_uuid v then []
      else [(js ''default_telegram_channel_id'', invalidUuid channel_ref_label)])"

record DiscoveryDefaultsValues =
  dd_mode :: jstring
  dd_page_size :: jsnum

definition page_size_ok :: "jsnum \<Rightarrow> bool" where
  "page_size_ok n = (case n of Num q \<Rightarrow> q = of_int \<lfloor>q\<rfloor> \<and> 1 \<le> q \<and> q \<le> 50 | _ \<Rightarrow> False)"

definition discoveryDefaultsSchema :: "jstring \<Rightarrow> DiscoveryDefaultsValues \<Rightarrow> (jstring \<times> jstring) list" where
  "discoveryDefaultsSchema zod_text v =
     one_of DISCOVERY_MODES zod_text (js ''discovery_default_mode'') (dd_mode v) @
     (if page_size_ok (dd_page_size v) then [] else [(js ''discovery_page_size'', zod_text)])"

definition schedulingDefaultsSchema :: "jstring \<Rightarrow> (jstring \<times> jstring) list" where
  "schedulingDefaultsSchema v =
     one_of TIMEZONES (requiredField timezone_label True) (js ''timezone'') v"

section \<open>The forms\<close>

definition settings_saved_text :: jstring where
  "settings_saved_text =
    [1578, 1605, 32, 1581, 1601, 1592, 32, 1575, 1604, 1573, 1593, 1583, 1575, 1583, 1575,
     1578, 46]"

definition settings_failed_text :: jstring where
  "settings_failed_text =
    [1578, 1593, 1584, 1585, 32, 1581, 1601, 1592, 32, 1575, 1604, 1573, 1593, 1583, 1575,
     1583, 1575, 1578, 46]"

definition coerceTimezone :: "jstring \<Rightarrow> jstring" where
  "coerceTimezone v = (if v \<in> set TIMEZONES then v else js ''UTC'')"

type_synonym 'v settings_form = "(WorkspaceSettings, 'v, WorkspaceSettingsPatch) form_spec"

definition GeneralForm :: "jstring \<Rightarrow> WorkspaceGeneralValues settings_form" where
  "GeneralForm zod_text =
     \<lparr>sp_defaults = (\<lambda>d. \<lparr>gv_timezone = coerceTimezone (ws_timezone d), gv_ui_language = ws_ui_language d\<rparr>),
      sp_schema = workspaceGeneralSchema zod_text,
      sp_patch = (\<lambda>v. empty_patch\<lparr>wp_timezone := Given (gv_timezone v),
                                  wp_ui_language := Given (gv_ui_language v)\<rparr>),
      sp_fields = map js [''timezone'', ''ui_language''],
      sp_saved = settings_saved_text, sp_failed = settings_failed_text\<rparr>"

definition AliExpressForm ::
  "(jstring \<Rightarrow> jstring) \<Rightarrow> jstring \<Rightarrow> AliExpressDisplayValues settings_form" where
  "AliExpressForm upper_case zod_text =
     \<lparr>sp_defaults = (\<lambda>d. \<lparr>av_currency = ws_target_currency d, av_country = ws_ship_to_country d,
                          av_language = ws_target_language d\<rparr>),
      sp_schema = aliexpressDisplaySchema zod_text,
      sp_patch = (\<lambda>v. empty_patch\<lparr>wp_target_currency := Given (upper_case (av_currency v)),
                                  wp_ship_to_country := Given (upper_case (av_country v)),
                                  wp_target_language := Given (upper_case (av_language v))\<rparr>),
      sp_fields = map js [''aliexpress_target_currency'', ''aliexpress_ship_to_country'',
                          ''aliexpress_target_language''],
      sp_saved = settings_saved_text, sp_failed = settings_failed_text\<rparr>"

definition AiForm :: "jstring \<Rightarrow> AiDefaultsValues settings_form" where
  "AiForm zod_text =
     \<lparr>sp_defaults = (\<lambda>d. \<lparr>dv_ai_provider = ws_ai_provider d, dv_content_type = ws_content_type d,
                          dv_tone = ws_tone d, dv_content_language = ws_content_language d,
                          dv_content_length = ws_content_length d\<rparr>),
      sp_schema = aiDefaultsSchema zod_text,
      sp_patch = (\<lambda>v. empty_patch\<lparr>wp_ai_provider := Given (dv_ai_provider v),
                                  wp_content_type := Given (dv_content_type v),
                                  wp_tone := Given (dv_tone v),
                                  wp_content_language := Given (dv_content_language v),
                                  wp_content_length := Given (dv_content_length v)\<rparr>),
      sp_fields = map js [''default_ai_provider'', ''default_content_type'', ''default_tone'',
                          ''default_content_language'', ''default_content_length''],
      sp_saved = settings_saved_text, sp_failed = settings_failed_text\<rparr>"

definition TelegramForm :: "(jstring \<Rightarrow> bool) \<Rightarrow> jstring settings_form" where
  "TelegramForm zod_uuid =
     \<lparr>sp_defaults = (\<lambda>d. or_default (ws_telegram_channel d) []),
      sp_schema = telegramDefaultsSchema zod_uuid,
      sp_patch = (\<lambda>v. empty_patch\<lparr>wp_telegram_channel := (if v = [] then NullValue else Given v)\<rparr>),
      sp_fields = [js ''default_telegram_channel_id''],
      sp_saved = settings_saved_text, sp_failed = settings_failed_text\<rparr>"

definition DiscoveryForm :: "jstring \<Rightarrow> DiscoveryDefaultsValues settings_form" where
  "DiscoveryForm zod_text =
     \<lparr>sp_defaults = (\<lambda>d. \<lparr>dd_mode = ws_discovery_mode d, dd_page_size = ws_page_size d\<rparr>),
      sp_schema = discoveryDefaultsSchema zod_text,
      sp_patch = (\<lambda>v. empty_patch\<lparr>wp_discovery_mode := Given (dd_mode v),
                                  wp_page_size := Given (dd_page_size v)\<rparr>),
      sp_fields = map js [''discovery_default_mode'', ''discovery_page_size''],
      sp_saved = settings_saved_text, sp_failed = settings_failed_text\<rparr>"

definition SchedulingForm :: "jstring settings_form" where
  "SchedulingForm =
     \<lparr>sp_defaults = (\<lambda>d. coerceTimezone (ws_timezone d)), sp_schema = schedulingDefaultsSchema,
      sp_patch = (\<lambda>v. empty_patch\<lparr>wp_timezone := Given v\<rparr>), sp_fields = [js ''timezone''],
      sp_saved = settings_saved_text, sp_failed = settings_failed_text\<rparr>"


text \<open>Controls and submit button are disabled for members that may not edit.\<close>

definition settings_step ::
  "'v settings_form \<Rightarrow> (WorkspaceSettingsPatch list \<Rightarrow> WorkspaceSettingsPatch \<Rightarrow> thrown + WorkspaceSettings)
     \<Rightarrow> (WorkspaceSettings, 'v, WorkspaceSettingsPatch) form_view
     \<Rightarrow> (WorkspaceSettings, 'v) form_action \<Rightarrow> (WorkspaceSettings, 'v, WorkspaceSettingsPatch) form_view" where
  "settings_step spec server s a = (case a of
     EditField _ _ \<Rightarrow> if ws_can_edit (fm_data s) then form_step spec server s a else s
   | Submit \<Rightarrow> if ws_can_edit (fm_data s) then form_step spec server s a else s
   | _ \<Rightarrow> form_step spec server s a)"

section \<open>What the forms show\<close>

text \<open>A field: its label, its error, whether it is disabled, and its control with the options to choose
  from or the bounds of what can be typed.\<close>

datatype settings_control =
  Choice "(jstring \<times> jstring) list" | TextControl nat | NumberControl nat nat

record field_shown =
  fs_label :: jstring
  fs_error :: "jstring option"
  fs_disabled :: bool
  fs_control :: settings_control

definition Field :: "jstring \<Rightarrow> jstring option \<Rightarrow> bool \<Rightarrow> settings_control \<Rightarrow> field_shown" where
  "Field label error disabled c =
     \<lparr>fs_label = label, fs_error = (if truthy error then error else None), fs_disabled = disabled,
      fs_control = c\<rparr>"

definition plain_options :: "jstring list \<Rightarrow> settings_control" where
  "plain_options vs = Choice (map (\<lambda>v. (v, v)) vs)"

definition ui_language_label :: jstring where
  "ui_language_label =
    [1604, 1594, 1577, 32, 1575, 1604, 1608, 1575, 1580, 1607, 1577]"

definition arabic_name :: jstring where
  "arabic_name =
    [1575, 1604, 1593, 1585, 1576, 1610, 1577]"

definition GeneralForm_fields :: "WorkspaceSettings \<Rightarrow> field_errors \<Rightarrow> field_shown list" where
  "GeneralForm_fields d errors =
     [Field timezone_label (errors (js ''timezone'')) (\<not> ws_can_edit d) (plain_options TIMEZONES),
      Field ui_language_label (errors (js ''ui_language'')) (\<not> ws_can_edit d)
        (Choice (map (\<lambda>v. (v, if v = js ''ar'' then arabic_name else js ''English'')) UI_LANGUAGES))]"

definition target_currency_label :: jstring where
  "target_currency_label =
    [1575, 1604, 1593, 1605, 1604, 1577, 32, 1575, 1604, 1605, 1587, 1578, 1607, 1583, 1601,
     1577]"

definition AliExpressForm_fields :: "WorkspaceSettings \<Rightarrow> field_errors \<Rightarrow> field_shown list" where
  "AliExpressForm_fields d errors =
     [Field target_currency_label (errors (js ''aliexpress_target_currency'')) (\<not> ws_can_edit d)
        (TextControl 3),
      Field country_label (errors (js ''aliexpress_ship_to_country'')) (\<not> ws_can_edit d) (TextControl 2),
      Field display_language_label (errors (js ''aliexpress_target_language'')) (\<not> ws_can_edit d)
        (TextControl 8)]"

definition provider_label :: jstring where
  "provider_label =
    [1575, 1604, 1605, 1586, 1608, 1617, 1583, 32, 1575, 1604, 1575, 1601, 1578, 1585, 1575,
     1590, 1610]"

definition content_type_label :: jstring where
  "content_type_label =
    [1606, 1608, 1593, 32, 1575, 1604, 1605, 1581, 1578, 1608, 1609]"

definition tone_label :: jstring where
  "tone_label =
    [1575, 1604, 1606, 1576, 1585, 1577]"

definition content_language_label :: jstring where
  "content_language_label =
    [1604, 1594, 1577, 32, 1575, 1604, 1605, 1581, 1578, 1608, 1609]"

definition content_length_label :: jstring where
  "content_length_label =
    [1575, 1604, 1591, 1608, 1604]"

definition AiForm_fields :: "WorkspaceSettings \<Rightarrow> field_errors \<Rightarrow> field_shown list" where
  "AiForm_fields d errors =
     [Field provider_label (errors (js ''default_ai_provider'')) (\<not> ws_can_edit d)
        (Choice (map (\<lambda>v. (v, if v = js ''openai'' then js ''OpenAI'' else js ''Gemini'')) AI_PROVIDERS)),
      Field content_type_label (errors (js ''default_content_type'')) (\<not> ws_can_edit d)
        (plain_options CONTENT_TYPES),
      Field tone_label (errors (js ''default_tone'')) (\<not> ws_can_edit d) (plain_options TONE_PROFILES),
      Field content_language_label (errors (js ''default_content_language'')) (\<not> ws_can_edit d)
        (plain_options CONTENT_LANGUAGES),
      Field content_length_label (errors (js ''default_content_length'')) (\<not> ws_can_edit d)
        (plain_options CONTENT_LENGTHS)]"

definition default_channel_label :: jstring where
  "default_channel_label =
    [1575, 1604, 1602, 1606, 1575, 1577, 32, 1575, 1604, 1575, 1601, 1578, 1585, 1575, 1590,
     1610, 1577]"

definition no_default_channel_text :: jstring where
  "no_default_channel_text =
    [1576, 1583, 1608, 1606, 32, 1602, 1606, 1575, 1577, 32, 1575, 1601, 1578, 1585, 1575,
     1590, 1610, 1577]"

definition channel_name :: "Channel \<Rightarrow> jstring" where
  "channel_name c =
     (if truthy (ch_title c) then the (ch_title c)
      else if truthy (ch_username c) then the (ch_username c) else telegram_channel_id c)"

definition TelegramForm_fields ::
  "Channel list option \<Rightarrow> WorkspaceSettings \<Rightarrow> field_errors \<Rightarrow> field_shown list" where
  "TelegramForm_fields channels d errors =
     [Field default_channel_label (errors (js ''default_telegram_channel_id'')) (\<not> ws_can_edit d)
        (Choice (([], no_default_channel_text) #
           map (\<lambda>c. (ch_id c, channel_name c)) (or_default channels [])))]"

definition default_mode_label :: jstring where
  "default_mode_label =
    [1608, 1590, 1593, 32, 1575, 1604, 1575, 1603, 1578, 1588, 1575, 1601, 32, 1575, 1604,
     1575, 1601, 1578, 1585, 1575, 1590, 1610]"

definition recommendations_name :: jstring where
  "recommendations_name =
    [1575, 1604, 1578, 1608, 1589, 1610, 1575, 1578]"

definition page_size_label :: jstring where
  "page_size_label =
    [1593, 1583, 1583, 32, 1575, 1604, 1606, 1578, 1575, 1574, 1580, 32, 1601, 1610, 32,
     1575, 1604, 1589, 1601, 1581, 1577]"

definition DiscoveryForm_fields :: "WorkspaceSettings \<Rightarrow> field_errors \<Rightarrow> field_shown list" where
  "DiscoveryForm_fields d errors =
     [Field default_mode_label (errors (js ''discovery_default_mode'')) (\<not> ws_can_edit d)
        (Choice (map (\<lambda>v. (v, if v = js ''recommended'' then recommendations_name else v)) DISCOVERY_MODES)),
      Field page_size_label (errors (js ''discovery_page_size'')) (\<not> ws_can_edit d) (NumberControl 1 50)]"

definition schedule_zone_label :: jstring where
  "schedule_zone_label =
    [1605, 1606, 1591, 1602, 1577, 32, 1608, 1602, 1578, 32, 1575, 1604, 1580, 1583, 1608,
     1604, 1577]"

definition SchedulingForm_fields :: "WorkspaceSettings \<Rightarrow> field_errors \<Rightarrow> field_shown list" where
  "SchedulingForm_fields d errors =
     [Field schedule_zone_label (errors (js ''timezone'')) (\<not> ws_can_edit d) (plain_options TIMEZONES)]"

text \<open>The submit button, and the hint next to it.\<close>

definition read_only_text :: jstring where
  "read_only_text =
    [1575, 1604, 1578, 1593, 1583, 1610, 1604, 32, 1605, 1578, 1575, 1581, 32, 1604, 1605,
     1575, 1604, 1603, 32, 1605, 1587, 1575, 1581, 1577, 32, 1575, 1604, 1593, 1605, 1604,
     32, 1571, 1608, 32, 1581, 1587, 1575, 1576, 32, 1575, 1604, 1605, 1587, 1572, 1608,
     1604, 32, 1601, 1602, 1591, 46]"

definition SubmitRow :: "bool \<Rightarrow> bool \<times> jstring option" where
  "SubmitRow canEdit = (\<not> canEdit, if canEdit then None else Some read_only_text)"

text \<open>The badges of the connections: what is connected, for the connections of the section.\<close>

definition telegram_bot_name :: jstring where
  "telegram_bot_name =
    [1576, 1608, 1578, 32, 84, 101, 108, 101, 103, 114, 97, 109]"

definition image_search_name :: jstring where
  "image_search_name =
    [1575, 1604, 1576, 1581, 1579, 32, 1576, 1575, 1604, 1589, 1608, 1585, 1577]"

definition connected_text :: jstring where
  "connected_text =
    [1605, 1578, 1589, 1604]"

definition not_connected_text :: jstring where
  "not_connected_text =
    [1594, 1610, 1585, 32, 1605, 1578, 1589, 1604]"

definition section_connections ::
  "SettingsSection \<Rightarrow> (jstring \<times> (ProviderConnectionStatus \<Rightarrow> bool)) list" where
  "section_connections section = (case section of
     AliExpressSection \<Rightarrow> [(js ''AliExpress'', pc_aliexpress), (image_search_name, pc_image_search)]
   | AiSection \<Rightarrow> [(js ''OpenAI'', pc_openai), (js ''Gemini'', pc_gemini)]
   | TelegramSection \<Rightarrow> [(telegram_bot_name, pc_telegram_bot)]
   | DiscoverySection \<Rightarrow> [(js ''AliExpress'', pc_aliexpress), (image_search_name, pc_image_search)]
   | _ \<Rightarrow> [])"

definition ConnectionStatusBadges ::
  "SettingsSection \<Rightarrow> ProviderConnectionStatus \<Rightarrow> (jstring \<times> bool) list" where
  "ConnectionStatusBadges section connections =
     map (\<lambda>(name, connected).
            (name @ js '': '' @ (if connected connections then connected_text else not_connected_text),
             connected connections))
       (section_connections section)"

definition services_ready_text :: jstring where
  "services_ready_text =
    [1575, 1604, 1582, 1583, 1605, 1575, 1578, 32, 1575, 1604, 1571, 1587, 1575, 1587, 1610,
     1577, 32, 1580, 1575, 1607, 1586, 1577]"

definition services_not_ready_text :: jstring where
  "services_not_ready_text =
    [1575, 1604, 1582, 1583, 1605, 1575, 1578, 32, 1575, 1604, 1571, 1587, 1575, 1587, 1610,
     1577, 32, 1594, 1610, 1585, 32, 1580, 1575, 1607, 1586, 1577]"

definition section_ready_badge :: "SettingsSection \<Rightarrow> bool option \<Rightarrow> (jstring \<times> bool) option" where
  "section_ready_badge section readiness =
     (if section \<in> {GeneralSection, AliExpressSection, AiSection, TelegramSection}
      then map_option (\<lambda>ready. (if ready then services_ready_text else services_not_ready_text, ready)) readiness
      else None)"

text \<open>The body of the page; the query reports a failure, data, or nothing yet.\<close>

datatype settings_body =
  NoActiveWorkspace | SettingsLoading | SettingsError jstring | SettingsCard WorkspaceSettings

definition settings_load_failed_text :: jstring where
  "settings_load_failed_text =
    [1578, 1593, 1584, 1585, 32, 1578, 1581, 1605, 1610, 1604, 32, 1575, 1604, 1573, 1593,
     1583, 1575, 1583, 1575, 1578, 46]"

definition WorkspaceSettingsView ::
  "jstring option \<Rightarrow> thrown option \<Rightarrow> WorkspaceSettings option \<Rightarrow> settings_body" where
  "WorkspaceSettingsView workspaceId failure data =
     (if \<not> truthy workspaceId then NoActiveWorkspace
      else (case failure of
        Some e \<Rightarrow> SettingsError (getApiErrorMessage e settings_load_failed_text)
      | None \<Rightarrow> (case data of None \<Rightarrow> SettingsLoading | Some d \<Rightarrow> SettingsCard d)))"

section \<open>useWorkspaceSettings.ts\<close>

definition workspaceSettingsKey :: "jstring \<Rightarrow> query_key" where
  "workspaceSettingsKey workspaceId = workspaceScopedQueryKey (js ''workspace-settings'') workspaceId []"

text \<open>The key of the query and whether it is enabled.\<close>

definition useWorkspaceSettings :: "jstring option \<Rightarrow> query_key \<times> bool" where
  "useWorkspaceSettings workspaceId =
     (if truthy workspaceId then (workspaceSettingsKey (the workspaceId), True)
      else ([KeyText (js ''workspace-settings''), KeyText (js ''none'')], False))"

definition setQueryData :: "query_key \<Rightarrow> 'd \<Rightarrow> 'd query_cache \<Rightarrow> 'd query_cache" where
  "setQueryData key d c = (key, d) # filter (\<lambda>(k, _). k \<noteq> key) c"

definition usePatchWorkspaceSettings_success ::
  "jstring option \<Rightarrow> 'd \<Rightarrow> 'd query_cache \<Rightarrow> 'd query_cache" where
  "usePatchWorkspaceSettings_success workspaceId d c =
     (if truthy workspaceId then setQueryData (workspaceSettingsKey (the workspaceId)) d c else c)"

section \<open>SettingsLayout\<close>

definition nav_general :: jstring where
  "nav_general =
    [1593, 1575, 1605]"

definition nav_ai :: jstring where
  "nav_ai =
    [1605, 1586, 1608, 1617, 1583, 1608, 32, 1575, 1604, 1584, 1603, 1575, 1569]"

definition nav_discovery :: jstring where
  "nav_discovery =
    [1575, 1604, 1575, 1603, 1578, 1588, 1575, 1601]"

definition nav_scheduling :: jstring where
  "nav_scheduling =
    [1575, 1604, 1580, 1583, 1608, 1604, 1577]"

definition settings_items :: "(jstring \<times> jstring) list" where
  "settings_items =
     [(nav_general, js ''/settings/general''), (js ''AliExpress'', js ''/settings/aliexpress''),
      (nav_ai, js ''/settings/ai''), (js ''Telegram'', js ''/settings/telegram''),
      (nav_discovery, js ''/settings/discovery''), (nav_scheduling, js ''/settings/scheduling'')]"

definition SettingsLayout_links :: "jstring \<Rightarrow> (jstring \<times> jstring \<times> bool) list" where
  "SettingsLayout_links pathname = map (\<lambda>(label, href). (label, href, pathname = href)) settings_items"


section \<open>What saving does\<close>

text \<open>The settings with the keys of a patch replaced, which is what the server stores and answers with.\<close>

definition put :: "'a field \<Rightarrow> 'a \<Rightarrow> 'a" where
  "put f old = (case f of Given v \<Rightarrow> v | _ \<Rightarrow> old)"

definition put_nullable :: "'a field \<Rightarrow> 'a option \<Rightarrow> 'a option" where
  "put_nullable f old = (case f of Given v \<Rightarrow> Some v | NullValue \<Rightarrow> None | Absent \<Rightarrow> old)"

definition patched :: "WorkspaceSettingsPatch \<Rightarrow> WorkspaceSettings \<Rightarrow> WorkspaceSettings" where
  "patched p d =
     d\<lparr>ws_timezone := put (wp_timezone p) (ws_timezone d),
       ws_ui_language := put (wp_ui_language p) (ws_ui_language d),
       ws_target_currency := put (wp_target_currency p) (ws_target_currency d),
       ws_ship_to_country := put (wp_ship_to_country p) (ws_ship_to_country d),
       ws_target_language := put (wp_target_language p) (ws_target_language d),
       ws_ai_provider := put (wp_ai_provider p) (ws_ai_provider d),
       ws_content_type := put (wp_content_type p) (ws_content_type d),
       ws_tone := put (wp_tone p) (ws_tone d),
       ws_content_language := put (wp_content_language p) (ws_content_language d),
       ws_content_length := put (wp_content_length p) (ws_content_length d),
       ws_discovery_mode := put (wp_discovery_mode p) (ws_discovery_mode d),
       ws_page_size := put (wp_page_size p) (ws_page_size d),
       ws_telegram_channel := put_nullable (wp_telegram_channel p) (ws_telegram_channel d)\<rparr>"

definition storing ::
  "WorkspaceSettings \<Rightarrow> WorkspaceSettingsPatch list \<Rightarrow> WorkspaceSettingsPatch \<Rightarrow> thrown + WorkspaceSettings" where
  "storing d sent p = Inr (patched p (foldl (\<lambda>d' q. patched q d') d sent))"

lemma put_simps [simp]:
  "put (Given v) old = v" "put Absent old = old" "put_nullable (Given v) old' = Some v"
  "put_nullable Absent old' = old'" "put_nullable NullValue old' = None"
  by (simp_all add: put_def put_nullable_def)

lemmas form_defs =
  GeneralForm_def AliExpressForm_def AiForm_def TelegramForm_def DiscoveryForm_def SchedulingForm_def

lemma coerce_known [simp]: "v \<in> set TIMEZONES \<Longrightarrow> coerceTimezone v = v"
  by (simp add: coerceTimezone_def)

lemma coerced_known: "coerceTimezone v \<in> set TIMEZONES"
  by (simp add: coerceTimezone_def TIMEZONES_def)

lemma one_of_Nil [simp]: "one_of allowed message name v = [] \<longleftrightarrow> v \<in> set allowed"
  by (simp add: one_of_def)

lemma schema_valid:
  "workspaceGeneralSchema z gv = [] \<longleftrightarrow> gv_timezone gv \<in> set TIMEZONES \<and> gv_ui_language gv \<in> set UI_LANGUAGES"
  "schedulingDefaultsSchema t = [] \<longleftrightarrow> t \<in> set TIMEZONES"
  by (simp_all add: workspaceGeneralSchema_def schedulingDefaultsSchema_def)

interpretation general_form: saving_form "GeneralForm z" patched "\<lambda>v. v"
  "\<lambda>d. ws_timezone d \<in> set TIMEZONES \<and> ws_ui_language d \<in> set UI_LANGUAGES" for z
  by unfold_locales (simp_all add: GeneralForm_def patched_def empty_patch_def schema_valid)

interpretation aliexpress_form: saving_form "AliExpressForm upper_case z" patched
  "\<lambda>v. v\<lparr>av_currency := upper_case (av_currency v), av_country := upper_case (av_country v),
         av_language := upper_case (av_language v)\<rparr>"
  "\<lambda>d. upper_case (ws_target_currency d) = ws_target_currency d \<and>
       upper_case (ws_ship_to_country d) = ws_ship_to_country d \<and>
       upper_case (ws_target_language d) = ws_target_language d \<and>
       aliexpressDisplaySchema z (sp_defaults (AliExpressForm upper_case z) d) = []" for upper_case z
  by unfold_locales (simp_all add: AliExpressForm_def patched_def empty_patch_def)

interpretation ai_form: saving_form "AiForm z" patched "\<lambda>v. v"
  "\<lambda>d. aiDefaultsSchema z (sp_defaults (AiForm z) d) = []" for z
  by unfold_locales (simp_all add: AiForm_def patched_def empty_patch_def)

interpretation telegram_form: saving_form "TelegramForm zod_uuid" patched "\<lambda>v. v"
  "\<lambda>d. ws_telegram_channel d \<noteq> Some [] \<and>
       telegramDefaultsSchema zod_uuid (or_default (ws_telegram_channel d) []) = []" for zod_uuid
proof (unfold_locales, goal_cases)
  case (1 v d)
  show ?case by (simp add: TelegramForm_def patched_def empty_patch_def or_default_def)
next
  case (2 d)
  then show ?case
    by (cases "ws_telegram_channel d") (simp_all add: TelegramForm_def patched_def empty_patch_def)
qed (simp add: TelegramForm_def)

interpretation discovery_form: saving_form "DiscoveryForm z" patched "\<lambda>v. v"
  "\<lambda>d. discoveryDefaultsSchema z (sp_defaults (DiscoveryForm z) d) = []" for z
  by unfold_locales (simp_all add: DiscoveryForm_def patched_def empty_patch_def)

interpretation scheduling_form: saving_form SchedulingForm patched "\<lambda>v. v"
  "\<lambda>d. ws_timezone d \<in> set TIMEZONES"
  by unfold_locales (simp_all add: SchedulingForm_def patched_def empty_patch_def schema_valid)


definition section_patches ::
  "(jstring \<Rightarrow> jstring) \<Rightarrow> WorkspaceGeneralValues \<Rightarrow> AliExpressDisplayValues \<Rightarrow> AiDefaultsValues
     \<Rightarrow> jstring \<Rightarrow> DiscoveryDefaultsValues \<Rightarrow> WorkspaceSettingsPatch list" where
  "section_patches upper_case g a i t e =
     [sp_patch (GeneralForm []) g, sp_patch (AliExpressForm upper_case []) a, sp_patch (AiForm []) i,
      sp_patch (TelegramForm (\<lambda>_. True)) t, sp_patch (DiscoveryForm []) e]"

lemma section_patches_commute:
  assumes "p \<in> set (section_patches upper_case g a i t e)" "q \<in> set (section_patches upper_case g a i t e)"
  shows "patched p (patched q d) = patched q (patched p d)"
  using assms by (auto simp: section_patches_def form_defs patched_def empty_patch_def)

text \<open>The forms of different sections do not interfere: saving two of them in one order or the other
  gives the same settings, whatever their values; only the general and the scheduling form edit the
  same key.\<close>

theorem settings_sections_independent:
  "let ps = section_patches upper_case g a i t e
   in if j < length ps \<and> k < length ps
      then patched (ps ! j) (patched (ps ! k) d) = patched (ps ! k) (patched (ps ! j) d) else True"
  using section_patches_commute [OF nth_mem nth_mem] by (simp add: Let_def)

text \<open>Saving the general settings can change the time zone behind the user's back: for a workspace whose
  time zone is not in the form's list, saving a change of the language alone stores UTC.\<close>

theorem general_save_overwrites_timezone:
  assumes "ws_timezone d \<notin> set TIMEZONES" "lang \<in> set UI_LANGUAGES" "ws_can_edit d"
  shows "let spec = GeneralForm z;
             s = run (settings_step spec (storing d)) (open_view spec d)
                   [EditField (js ''ui_language'') (\<lambda>v. v\<lparr>gv_ui_language := lang\<rparr>), Submit]
    in ws_timezone (fm_data s) = js ''UTC'' \<and> ws_ui_language (fm_data s) = lang \<and>
       fm_toast s = Some (settings_saved_text, SuccessTone)"
proof -
  have utc: "js ''UTC'' \<in> set TIMEZONES" by (simp add: TIMEZONES_def)
  have other: "js ''UTC'' \<noteq> ws_timezone d" using assms(1) utc by auto
  show ?thesis
    using assms utc other
    by (auto simp: Let_def settings_step_def form_step_def edit_field_def submit_def open_view_def
        GeneralForm_def schema_valid coerceTimezone_def storing_def patched_def empty_patch_def
        save_succeeded_def data_arrived_def dest: arg_cong [where f = ws_timezone])
qed

definition read_only :: "(WorkspaceSettings, 'v) form_action \<Rightarrow> bool" where
  "read_only a = (case a of DataArrived d \<Rightarrow> \<not> ws_can_edit d | _ \<Rightarrow> True)"

definition unedited :: "'v settings_form \<Rightarrow> (WorkspaceSettings, 'v, WorkspaceSettingsPatch) form_view \<Rightarrow> bool" where
  "unedited spec s \<longleftrightarrow>
     \<not> ws_can_edit (fm_data s) \<and> fm_sent s = [] \<and> fm_values s = sp_defaults spec (fm_data s)"

lemma unedited_step: "unedited spec s \<Longrightarrow> read_only a \<Longrightarrow> unedited spec (settings_step spec server s a)"
  by (cases a)
    (auto simp: unedited_def read_only_def settings_step_def form_step_def data_arrived_def dismiss_toast_def)

interpretation read_only_form: state_machine "settings_step spec server" "\<lambda>_. read_only" "unedited spec"
  for spec server
  by unfold_locales (rule unedited_step)

text \<open>Members that may not edit send nothing: as long as the settings that arrive say so, no use of a
  form makes a request or changes a value, whatever the form.\<close>

theorem read_only_settings_send_nothing:
  assumes "\<not> ws_can_edit d" "list_all read_only actions"
  shows "let s = run (settings_step spec server) (open_view spec d) actions
    in fm_sent s = [] \<and> fm_values s = sp_defaults spec (fm_data s) \<and> fst (SubmitRow (ws_can_edit (fm_data s)))"
proof -
  have "unedited spec (open_view spec d)"
    using assms(1) by (simp add: unedited_def open_view_def)
  then have "unedited spec (run (settings_step spec server) (open_view spec d) actions)"
    using assms(2) by (intro read_only_form.run_inv) (simp_all add: admissible_always)
  then show ?thesis by (simp add: Let_def unedited_def SubmitRow_def)
qed

text \<open>C25: a refused save is never silent: whatever the server answers, the form shows a message at one of its
  own fields or in the toast, keeps what was typed and what was stored, and has sent exactly one request.\<close>

theorem refused_save_is_shown:
  assumes "sp_schema spec (fm_values s) = []" "sp_failed spec \<noteq> []"
    and "server (fm_sent s) (sp_patch spec (fm_values s)) = Inl error"
  shows "let s' = submit spec server s
    in refusal_shown spec s' \<and> fm_values s' = fm_values s \<and> fm_data s' = fm_data s \<and>
       fm_sent s' = fm_sent s @ [sp_patch spec (fm_values s)]"
  using assms
  by (simp add: Let_def submit_def save_failed_keeps save_failed_shown)

section \<open>Examples\<close>

definition sample_settings :: WorkspaceSettings where
  "sample_settings =
     \<lparr>ws_workspace_id = js ''w'', ws_can_edit = True, ws_timezone = js ''Asia/Tokyo'',
      ws_ui_language = js ''ar'', ws_target_currency = js ''USD'', ws_ship_to_country = js ''US'',
      ws_target_language = js ''EN'', ws_ai_provider = js ''openai'', ws_content_type = js ''social'',
      ws_tone = js ''friendly'', ws_content_language = js ''ar'', ws_content_length = js ''short'',
      ws_discovery_mode = js ''hot'', ws_page_size = Num 20, ws_telegram_channel = None,
      ws_connections = \<lparr>pc_aliexpress = True, pc_telegram_bot = True, pc_openai = True,
                        pc_gemini = False, pc_image_search = False\<rparr>,
      ws_created_at = None, ws_updated_at = None\<rparr>"


lemma general_save_overwrites_timezone_witness:
  "let spec = GeneralForm [];
       s = run (settings_step spec (storing sample_settings)) (open_view spec sample_settings)
             [EditField (js ''ui_language'') (\<lambda>v. v\<lparr>gv_ui_language := js ''en''\<rparr>), Submit]
   in ws_timezone (fm_data s) = js ''UTC''"
proof -
  have "ws_timezone sample_settings \<notin> set TIMEZONES" "js ''en'' \<in> set UI_LANGUAGES"
    "ws_can_edit sample_settings"
    by (simp_all add: sample_settings_def TIMEZONES_def UI_LANGUAGES_def js_def)
  from general_save_overwrites_timezone [OF this, of "[]"] show ?thesis by (simp only: Let_def)
qed

lemma read_only_settings_send_nothing_witness:
  "fm_sent (run (settings_step SchedulingForm (storing sample_settings))
     (open_view SchedulingForm (sample_settings\<lparr>ws_can_edit := False\<rparr>))
     [EditField (js ''timezone'') (\<lambda>_. js ''UTC''), Submit]) = []"
  using read_only_settings_send_nothing [of "sample_settings\<lparr>ws_can_edit := False\<rparr>"
      "[EditField (js ''timezone'') (\<lambda>_. js ''UTC''), Submit]" SchedulingForm "storing sample_settings"]
  by (simp only: Let_def) (simp add: read_only_def)

lemma refused_save_is_shown_witness:
  "refusal_shown SchedulingForm
     (submit SchedulingForm (\<lambda>_ _. Inl ThrownOther) (open_view SchedulingForm sample_settings))"
proof -
  have "sp_schema SchedulingForm (fm_values (open_view SchedulingForm sample_settings)) = []"
    "sp_failed (SchedulingForm) \<noteq> []"
    by (simp_all add: SchedulingForm_def open_view_def schema_valid coerced_known settings_failed_text_def)
  from refused_save_is_shown [OF this, of "\<lambda>_ _. Inl ThrownOther" ThrownOther]
  show ?thesis by (simp only: Let_def)
qed

end
