(* ===== verification/Channels.thy ===== *)
theory Channels
  imports Settings CallLoops Widgets
begin

text \<open>
  The channels screen: \<open>frontend/src/features/channels\<close> (types, requests, hooks and
  \<open>components/ChannelsView.tsx\<close>), with the Telegram channels of a workspace and its Facebook pages.
  Every mutation keeps its last call and how it ended, as the hooks report it; the server's answers are
  a parameter that may depend on every call made before, and a call is answered before the next action.
\<close>

section \<open>types/api.ts, channels.api.ts\<close>

datatype page_validation = PageUnknown | PageValid | PageInvalid

record FacebookPage =
  fp_id :: jstring
  fp_workspace_id :: jstring
  fp_facebook_page_id :: jstring
  fp_page_name :: jstring
  fp_token_expires_at :: "jstring option"
  fp_is_active :: bool
  fp_validation_status :: page_validation
  fp_last_validated_at :: "jstring option"
  fp_last_error :: "jstring option"
  fp_has_access_token :: bool
  fp_created_at :: jstring
  fp_updated_at :: jstring

record ChannelCreate =
  cc_telegram_channel_id :: jstring
  cc_title :: "jstring option"
  cc_is_active :: bool

record FacebookPageCreate =
  fc_facebook_page_id :: jstring
  fc_access_token :: jstring

record page_update =
  pu_access_token :: "jstring option"
  pu_is_active :: "bool option"

datatype channel_call =
  CreateChannel ChannelCreate
| UpdateChannel jstring bool
| RefreshPermissions jstring
| CreatePage FacebookPageCreate
| ValidatePage jstring
| UpdatePage jstring page_update
| DeletePage jstring

text \<open>Method and path of a call.\<close>

definition call_path :: "channel_call \<Rightarrow> jstring \<times> jstring" where
  "call_path c = (case c of
     CreateChannel _ \<Rightarrow> (js ''POST'', js ''/channels'')
   | UpdateChannel i _ \<Rightarrow> (js ''PUT'', js ''/channels/'' @ i)
   | RefreshPermissions i \<Rightarrow> (js ''POST'', js ''/channels/'' @ i @ js ''/refresh-permissions'')
   | CreatePage _ \<Rightarrow> (js ''POST'', js ''/facebook/pages'')
   | ValidatePage i \<Rightarrow> (js ''POST'', js ''/facebook/pages/'' @ i @ js ''/validate'')
   | UpdatePage i _ \<Rightarrow> (js ''PATCH'', js ''/facebook/pages/'' @ i)
   | DeletePage i \<Rightarrow> (js ''DELETE'', js ''/facebook/pages/'' @ i))"

section \<open>useChannels.ts\<close>

definition channelKey :: "jstring \<Rightarrow> query_key" where
  "channelKey workspaceId = workspaceScopedQueryKey (js ''channels'') workspaceId []"

definition facebookPageKey :: "jstring \<Rightarrow> query_key" where
  "facebookPageKey workspaceId = workspaceScopedQueryKey (js ''facebook'') workspaceId []"

definition useChannels :: "jstring option \<Rightarrow> query_key \<times> bool" where
  "useChannels workspaceId =
     (if truthy workspaceId then (channelKey (the workspaceId), True)
      else ([KeyText (js ''channels''), KeyText (js ''none'')], False))"

definition useFacebookPages :: "jstring option \<Rightarrow> query_key \<times> bool" where
  "useFacebookPages workspaceId =
     (if truthy workspaceId then (facebookPageKey (the workspaceId), True)
      else ([KeyText (js ''facebook''), KeyText (js ''none'')], False))"

fun touches_pages :: "channel_call \<Rightarrow> bool" where
  "touches_pages (CreatePage _) = True"
| "touches_pages (ValidatePage _) = True"
| "touches_pages (UpdatePage _ _) = True"
| "touches_pages (DeletePage _) = True"
| "touches_pages _ = False"

text \<open>\<open>onSuccess\<close> of the mutations: the keys that are invalidated.\<close>

definition invalidated_keys :: "jstring option \<Rightarrow> channel_call \<Rightarrow> query_key list" where
  "invalidated_keys workspaceId c =
     (if \<not> truthy workspaceId then []
      else if touches_pages c then [facebookPageKey (the workspaceId)]
      else [channelKey (the workspaceId)])"

section \<open>State\<close>

text \<open>What a mutation hook reports: its last call and how that ended.\<close>

record mutation =
  mu_call :: "channel_call option"
  mu_error :: "thrown option"

definition fresh_mutation :: mutation where
  "fresh_mutation = \<lparr>mu_call = None, mu_error = None\<rparr>"

record channel_form =
  cf_telegram_channel_id :: jstring
  cf_title :: jstring

record channels_view =
  cv_workspace :: "jstring option"
  cv_channels :: "Channel list"
  cv_pages :: "FacebookPage list"
  cv_defaultChannel :: "jstring option"
  cv_form :: channel_form
  cv_form_errors :: field_errors
  cv_create :: mutation
  cv_update :: mutation
  cv_refresh :: mutation
  cv_createPage :: mutation
  cv_validatePage :: mutation
  cv_updatePage :: mutation
  cv_deletePage :: mutation
  facebookPageId :: jstring
  facebookToken :: jstring
  replacementToken :: "jstring \<rightharpoonup> jstring"
  cv_calls :: "channel_call list"
  cv_invalidated :: "query_key list"

type_synonym channel_server = "channel_call list \<Rightarrow> channel_call \<Rightarrow> thrown option"

section \<open>ChannelsView\<close>

definition channel_id_required_text :: jstring where
  "channel_id_required_text =
    [1605, 1593, 1585, 1617, 1601, 32, 1575, 1604, 1602, 1606, 1575, 1577, 32, 1605, 1591,
     1604, 1608, 1576]"

definition channelSchema :: "jstring \<Rightarrow> channel_form \<Rightarrow> (jstring \<times> jstring) list" where
  "channelSchema zod_text v =
     (if length (cf_telegram_channel_id v) < 1
      then [(js ''telegram_channel_id'', channel_id_required_text)] else []) @
     (if length (cf_telegram_channel_id v) > 64 then [(js ''telegram_channel_id'', zod_text)] else []) @
     (if length (cf_title v) > 255 then [(js ''title'', zod_text)] else [])"

text \<open>A call: it is logged and answered; a success invalidates its list.  The second component is the
  new report of the hook.\<close>

definition mutate ::
  "channel_server \<Rightarrow> channel_call \<Rightarrow> channels_view \<Rightarrow> channels_view \<times> mutation" where
  "mutate srv c s =
     (let answer = srv (cv_calls s) c;
          s0 = s\<lparr>cv_calls := cv_calls s @ [c]\<rparr>
      in (case answer of
            None \<Rightarrow> s0\<lparr>cv_invalidated := cv_invalidated s @ invalidated_keys (cv_workspace s) c\<rparr>
          | Some _ \<Rightarrow> s0,
          \<lparr>mu_call = Some c, mu_error = answer\<rparr>))"

definition empty_form :: channel_form where
  "empty_form = \<lparr>cf_telegram_channel_id = [], cf_title = []\<rparr>"

definition addChannel :: "channel_server \<Rightarrow> jstring \<Rightarrow> channels_view \<Rightarrow> channels_view" where
  "addChannel srv zod_text s =
     (let issues = channelSchema zod_text (cv_form s) in
      if issues \<noteq> [] then s\<lparr>cv_form_errors := map_of issues\<rparr>
      else (let (s1, m) = mutate srv (CreateChannel
                   \<lparr>cc_telegram_channel_id = cf_telegram_channel_id (cv_form s),
                    cc_title = Some (cf_title (cv_form s)), cc_is_active = True\<rparr>)
                   (s\<lparr>cv_form_errors := Map.empty\<rparr>);
                s2 = s1\<lparr>cv_create := m\<rparr>
            in if mu_error m = None then s2\<lparr>cv_form := empty_form\<rparr> else s2))"

definition refreshChannel :: "channel_server \<Rightarrow> jstring \<Rightarrow> channels_view \<Rightarrow> channels_view" where
  "refreshChannel srv i s =
     (let (s1, m) = mutate srv (RefreshPermissions i) s in s1\<lparr>cv_refresh := m\<rparr>)"

definition toggleChannel :: "channel_server \<Rightarrow> Channel \<Rightarrow> channels_view \<Rightarrow> channels_view" where
  "toggleChannel srv c s =
     (let (s1, m) = mutate srv (UpdateChannel (ch_id c) (\<not> is_active c)) s in s1\<lparr>cv_update := m\<rparr>)"

text \<open>The form of a page does not submit while one of its required inputs is empty.\<close>

definition addPage :: "channel_server \<Rightarrow> channels_view \<Rightarrow> channels_view" where
  "addPage srv s =
     (if facebookPageId s = [] \<or> facebookToken s = [] then s
      else (let (s1, m) = mutate srv (CreatePage
                   \<lparr>fc_facebook_page_id = facebookPageId s, fc_access_token = facebookToken s\<rparr>) s;
                s2 = s1\<lparr>cv_createPage := m\<rparr>
            in if mu_error m = None then s2\<lparr>facebookPageId := [], facebookToken := []\<rparr> else s2))"

definition typeToken :: "jstring \<Rightarrow> jstring \<Rightarrow> channels_view \<Rightarrow> channels_view" where
  "typeToken i t s = s\<lparr>replacementToken := (replacementToken s)(i \<mapsto> t)\<rparr>"

text \<open>One button: with a token typed it replaces the token, else it turns the page on or off.\<close>

definition updatePageButton :: "channel_server \<Rightarrow> FacebookPage \<Rightarrow> channels_view \<Rightarrow> channels_view" where
  "updatePageButton srv p s =
     (let token = replacementToken s (fp_id p) in
      if truthy token
      then (let (s1, m) = mutate srv (UpdatePage (fp_id p)
                   \<lparr>pu_access_token = token, pu_is_active = None\<rparr>) s;
                s2 = s1\<lparr>cv_updatePage := m\<rparr>
            in if mu_error m = None
               then s2\<lparr>replacementToken := (replacementToken s2)(fp_id p \<mapsto> [])\<rparr> else s2)
      else (let (s1, m) = mutate srv (UpdatePage (fp_id p)
                   \<lparr>pu_access_token = None, pu_is_active = Some (\<not> fp_is_active p)\<rparr>) s
            in s1\<lparr>cv_updatePage := m\<rparr>))"

definition validatePage :: "channel_server \<Rightarrow> jstring \<Rightarrow> channels_view \<Rightarrow> channels_view" where
  "validatePage srv i s =
     (let (s1, m) = mutate srv (ValidatePage i) s in s1\<lparr>cv_validatePage := m\<rparr>)"

definition deletePage :: "channel_server \<Rightarrow> bool \<Rightarrow> jstring \<Rightarrow> channels_view \<Rightarrow> channels_view" where
  "deletePage srv confirmed i s =
     (if confirmed
      then (let (s1, m) = mutate srv (DeletePage i) s in s1\<lparr>cv_deletePage := m\<rparr>) else s)"

section \<open>What is shown\<close>

definition perm_unknown :: jstring where
  "perm_unknown =
    [1594, 1610, 1585, 32, 1605, 1593, 1585, 1608, 1601]"

definition perm_pending :: jstring where
  "perm_pending =
    [1602, 1610, 1583, 32, 1575, 1604, 1601, 1581, 1589]"

definition perm_granted :: jstring where
  "perm_granted =
    [1605, 1605, 1606, 1608, 1581, 1577]"

definition perm_partial :: jstring where
  "perm_partial =
    [1580, 1586, 1574, 1610, 1577]"

definition perm_denied :: jstring where
  "perm_denied =
    [1605, 1585, 1601, 1608, 1590, 1577]"

fun permissionLabels :: "bot_permission \<Rightarrow> jstring" where
  "permissionLabels PermUnknown = perm_unknown"
| "permissionLabels PermPending = perm_pending"
| "permissionLabels PermGranted = perm_granted"
| "permissionLabels PermPartial = perm_partial"
| "permissionLabels PermDenied = perm_denied"


definition channel_active_text :: jstring where
  "channel_active_text =
    [1606, 1588, 1591, 1577]"

definition channel_inactive_text :: jstring where
  "channel_inactive_text =
    [1594, 1610, 1585, 32, 1606, 1588, 1591, 1577]"

definition permissions_prefix :: jstring where
  "permissions_prefix =
    [1575, 1604, 1589, 1604, 1575, 1581, 1610, 1575, 1578, 58, 32]"

definition default_badge_text :: jstring where
  "default_badge_text =
    [1575, 1604, 1575, 1601, 1578, 1585, 1575, 1590, 1610, 1577]"

definition activate_channel_step :: jstring where
  "activate_channel_step =
    [1601, 1593, 1617, 1604, 32, 1575, 1604, 1602, 1606, 1575, 1577, 46]"

definition grant_channel_step :: jstring where
  "grant_channel_step =
    [1575, 1605, 1606, 1581, 32, 1575, 1604, 1576, 1608, 1578, 32, 1589, 1604, 1575, 1581,
     1610, 1577, 32, 1573, 1585, 1587, 1575, 1604, 32, 1575, 1604, 1585, 1587, 1575, 1574,
     1604, 46]"

definition choose_default_step :: jstring where
  "choose_default_step =
    [1575, 1582, 1578, 1585, 1607, 1575, 32, 1603, 1602, 1606, 1575, 1577, 32, 1575, 1601,
     1578, 1585, 1575, 1590, 1610, 1577, 32, 1605, 1606, 32, 1573, 1593, 1583, 1575, 1583,
     1575, 1578, 32, 84, 101, 108, 101, 103, 114, 97, 109, 46]"

definition permissions_refreshed_text :: jstring where
  "permissions_refreshed_text =
    [1578, 1605, 32, 1578, 1581, 1583, 1610, 1579, 32, 1589, 1604, 1575, 1581, 1610, 1575,
     1578, 32, 1575, 1604, 1602, 1606, 1575, 1577, 46]"

definition permissions_failed_text :: jstring where
  "permissions_failed_text =
    [1578, 1593, 1584, 1585, 32, 1601, 1581, 1589, 32, 1589, 1604, 1575, 1581, 1610, 1575,
     1578, 32, 1575, 1604, 1602, 1606, 1575, 1577, 46]"

definition ready_to_publish_text :: jstring where
  "ready_to_publish_text =
    [1580, 1575, 1607, 1586, 1577, 32, 1604, 1604, 1606, 1588, 1585]"

definition needs_setup_text :: jstring where
  "needs_setup_text =
    [1578, 1581, 1578, 1575, 1580, 32, 1573, 1604, 1609, 32, 1573, 1593, 1583, 1575, 1583]"

definition deactivate_text :: jstring where
  "deactivate_text =
    [1578, 1593, 1591, 1610, 1604]"

definition activate_text :: jstring where
  "activate_text =
    [1578, 1601, 1593, 1610, 1604]"

record channel_card =
  cd_badges :: "(jstring \<times> badge_tone) list"
  cd_title :: jstring
  cd_setup :: "(jstring list \<times> jstring option) option"
  cd_notice :: "(jstring \<times> badge_tone) option"
  cd_footer :: jstring
  cd_toggle :: jstring

definition canPublish :: "Channel \<Rightarrow> bool" where
  "canPublish c \<longleftrightarrow> is_active c \<and> can_post_messages c"

definition needsSetup :: "jstring option \<Rightarrow> Channel \<Rightarrow> bool" where
  "needsSetup default_id c \<longleftrightarrow> \<not> is_active c \<or> \<not> canPublish c \<or> default_id \<noteq> Some (ch_id c)"

definition setup_steps :: "jstring option \<Rightarrow> Channel \<Rightarrow> jstring list" where
  "setup_steps default_id c =
     (if is_active c then [] else [activate_channel_step]) @
     (if can_post_messages c then [] else [grant_channel_step]) @
     (if default_id = Some (ch_id c) then [] else [choose_default_step])"

definition refresh_notice :: "mutation \<Rightarrow> jstring \<Rightarrow> (jstring \<times> badge_tone) option" where
  "refresh_notice m i =
     (if mu_call m \<noteq> Some (RefreshPermissions i) then None
      else (case mu_error m of
              None \<Rightarrow> Some (permissions_refreshed_text, BadgeSuccess)
            | Some e \<Rightarrow> Some (getApiErrorMessage e permissions_failed_text, BadgeError)))"

definition channel_card_of :: "jstring option \<Rightarrow> mutation \<Rightarrow> Channel \<Rightarrow> channel_card" where
  "channel_card_of default_id refresh c =
     \<lparr>cd_badges =
        [if is_active c then (channel_active_text, BadgeSuccess) else (channel_inactive_text, BadgeWarning),
         (permissions_prefix @ permissionLabels (bot_permission_status c),
          case bot_permission_status c of
            PermGranted \<Rightarrow> BadgeSuccess | PermDenied \<Rightarrow> BadgeError | _ \<Rightarrow> BadgeWarning)] @
        (if default_id = Some (ch_id c) then [(default_badge_text, BadgeInfo)] else []),
      cd_title = channel_name c,
      cd_setup = (if needsSetup default_id c
                  then Some (setup_steps default_id c,
                             if truthy (permission_detail c) then permission_detail c else None)
                  else None),
      cd_notice = refresh_notice refresh (ch_id c),
      cd_footer = (if canPublish c then ready_to_publish_text else needs_setup_text),
      cd_toggle = (if is_active c then deactivate_text else activate_text)\<rparr>"

definition page_valid_text :: jstring where
  "page_valid_text =
    [1589, 1575, 1604, 1581, 1577]"

definition page_invalid_text :: jstring where
  "page_invalid_text =
    [1578, 1581, 1578, 1575, 1580, 32, 1573, 1604, 1609, 32, 1578, 1581, 1602, 1602]"

definition page_unverified_text :: jstring where
  "page_unverified_text =
    [1594, 1610, 1585, 32, 1605, 1578, 1581, 1602, 1602, 1577]"

definition replace_token_text :: jstring where
  "replace_token_text =
    [1575, 1587, 1578, 1576, 1583, 1575, 1604, 32, 1575, 1604, 1585, 1605, 1586]"

record page_card =
  pg_badges :: "(jstring \<times> badge_tone) list"
  pg_error :: "jstring option"
  pg_token :: jstring
  pg_button :: jstring

definition page_card_of :: "(jstring \<rightharpoonup> jstring) \<Rightarrow> FacebookPage \<Rightarrow> page_card" where
  "page_card_of tokens p =
     \<lparr>pg_badges =
        [case fp_validation_status p of
           PageValid \<Rightarrow> (page_valid_text, BadgeSuccess)
         | PageInvalid \<Rightarrow> (page_invalid_text, BadgeError)
         | PageUnknown \<Rightarrow> (page_unverified_text, BadgeWarning),
         if fp_is_active p then (channel_active_text, BadgeSuccess)
         else (channel_inactive_text, BadgeWarning)],
      pg_error = (if truthy (fp_last_error p) then fp_last_error p else None),
      pg_token = or_default (tokens (fp_id p)) [],
      pg_button = (if truthy (tokens (fp_id p)) then replace_token_text
                   else if fp_is_active p then deactivate_text else activate_text)\<rparr>"

definition channel_add_failed_text :: jstring where
  "channel_add_failed_text =
    [1578, 1593, 1584, 1585, 32, 1573, 1590, 1575, 1601, 1577, 32, 1575, 1604, 1602, 1606,
     1575, 1577, 46]"

definition page_add_failed_text :: jstring where
  "page_add_failed_text =
    [1578, 1593, 1584, 1585, 32, 1575, 1604, 1578, 1581, 1602, 1602, 32, 1605, 1606, 32,
     1589, 1601, 1581, 1577, 32, 70, 97, 99, 101, 98, 111, 111, 107, 46]"

record channels_shown =
  sh_errors :: field_errors
  sh_channel_error :: "jstring option"
  sh_cards :: "channel_card list"
  sh_page_error :: "jstring option"
  sh_pages :: "page_card list"

text \<open>What the loaded screen shows of its state, but for the spinners.\<close>

definition ChannelsView_shown :: "channels_view \<Rightarrow> channels_shown" where
  "ChannelsView_shown s =
     \<lparr>sh_errors = cv_form_errors s,
      sh_channel_error =
        map_option (\<lambda>e. getApiErrorMessage e channel_add_failed_text) (mu_error (cv_create s)),
      sh_cards = map (channel_card_of (cv_defaultChannel s) (cv_refresh s)) (cv_channels s),
      sh_page_error =
        map_option (\<lambda>e. getApiErrorMessage e page_add_failed_text) (mu_error (cv_createPage s)),
      sh_pages = map (page_card_of (replacementToken s)) (cv_pages s)\<rparr>"

section \<open>The screen as a machine\<close>

datatype channels_action =
  ChannelsArrived "Channel list" | PagesArrived "FacebookPage list" | DefaultArrived "jstring option"
| TypeChannel channel_form | AddChannel | RefreshChannel jstring | ToggleChannel Channel
| TypePageId jstring | TypePageToken jstring | AddPage
| TypeReplacement jstring jstring | PageButton FacebookPage | CheckPage jstring | RemovePage bool jstring

definition channels_step ::
  "channel_server \<Rightarrow> jstring \<Rightarrow> channels_view \<Rightarrow> channels_action \<Rightarrow> channels_view" where
  "channels_step srv zod_text s a = (case a of
     ChannelsArrived cs \<Rightarrow> s\<lparr>cv_channels := cs\<rparr>
   | PagesArrived ps \<Rightarrow> s\<lparr>cv_pages := ps\<rparr>
   | DefaultArrived d \<Rightarrow> s\<lparr>cv_defaultChannel := d\<rparr>
   | TypeChannel f \<Rightarrow> s\<lparr>cv_form := f\<rparr>
   | AddChannel \<Rightarrow> addChannel srv zod_text s
   | RefreshChannel i \<Rightarrow> refreshChannel srv i s
   | ToggleChannel c \<Rightarrow> toggleChannel srv c s
   | TypePageId t \<Rightarrow> s\<lparr>facebookPageId := t\<rparr>
   | TypePageToken t \<Rightarrow> s\<lparr>facebookToken := t\<rparr>
   | AddPage \<Rightarrow> addPage srv s
   | TypeReplacement i t \<Rightarrow> typeToken i t s
   | PageButton p \<Rightarrow> updatePageButton srv p s
   | CheckPage i \<Rightarrow> validatePage srv i s
   | RemovePage confirmed i \<Rightarrow> deletePage srv confirmed i s)"

definition fresh_channels :: "jstring option \<Rightarrow> channels_view" where
  "fresh_channels w =
     \<lparr>cv_workspace = w, cv_channels = [], cv_pages = [], cv_defaultChannel = None,
      cv_form = empty_form, cv_form_errors = Map.empty, cv_create = fresh_mutation,
      cv_update = fresh_mutation, cv_refresh = fresh_mutation, cv_createPage = fresh_mutation,
      cv_validatePage = fresh_mutation, cv_updatePage = fresh_mutation,
      cv_deletePage = fresh_mutation, facebookPageId = [], facebookToken = [],
      replacementToken = Map.empty, cv_calls = [], cv_invalidated = []\<rparr>"


section \<open>Readiness\<close>

text \<open>A card asks for exactly what is missing: there is a setup box just when the channel is inactive,
  may not be posted to or is not the default, and it lists one step for each of these; and the
  scheduling form offers exactly the channels whose card says that they are ready to publish.\<close>

theorem channel_cards_tell_readiness:
  "(cd_setup (channel_card_of d m c) = None \<longleftrightarrow>
      is_active c \<and> can_post_messages c \<and> d = Some (ch_id c)) \<and>
   length (setup_steps d c) = length (filter (\<lambda>b. \<not> b) [is_active c, can_post_messages c, d = Some (ch_id c)]) \<and>
   map fst (channel_options cs) =
     map ch_id (filter (\<lambda>c. cd_footer (channel_card_of d m c) = ready_to_publish_text) cs)"
proof -
  have "cd_footer (channel_card_of d m c) = ready_to_publish_text \<longleftrightarrow> is_active c \<and> can_post_messages c" for c
    by (simp add: channel_card_of_def canPublish_def ready_to_publish_text_def needs_setup_text_def)
  then show ?thesis
    by (simp add: channel_options_def comp_def)
       (auto simp: channel_card_of_def needsSetup_def canPublish_def setup_steps_def)
qed

section \<open>Calls\<close>

lemma mutate_result:
  "mutate srv c s = (s1, m) \<Longrightarrow>
     mu_call m = Some c \<and> mu_error m = srv (cv_calls s) c \<and>
     s1 = s\<lparr>cv_calls := cv_calls s @ [c],
            cv_invalidated := cv_invalidated s @
              (if mu_error m = None then invalidated_keys (cv_workspace s) c else [])\<rparr>"
  by (auto simp: mutate_def Let_def split: option.splits)

lemmas channel_handlers =
  addChannel_def refreshChannel_def toggleChannel_def addPage_def updatePageButton_def
  validatePage_def deletePage_def typeToken_def

text \<open>What a call may be: new channels passed the form, new pages have an id and a token, an update of a
  page changes its token or its state and never both.\<close>

fun call_ok :: "channel_call \<Rightarrow> bool" where
  "call_ok (CreateChannel c) \<longleftrightarrow>
     1 \<le> length (cc_telegram_channel_id c) \<and> length (cc_telegram_channel_id c) \<le> 64 \<and>
     length (or_default (cc_title c) []) \<le> 255 \<and> cc_is_active c"
| "call_ok (CreatePage c) \<longleftrightarrow> fc_facebook_page_id c \<noteq> [] \<and> fc_access_token c \<noteq> []"
| "call_ok (UpdatePage i u) \<longleftrightarrow> truthy (pu_access_token u) \<noteq> (pu_is_active u \<noteq> None)"
| "call_ok _ \<longleftrightarrow> True"

text \<open>The lists to be refetched are those of the calls that succeeded, in order.\<close>

fun refetched :: "channel_server \<Rightarrow> jstring option \<Rightarrow> channel_call list \<Rightarrow> channel_call list \<Rightarrow> query_key list" where
  "refetched srv w past [] = []"
| "refetched srv w past (c # cs) =
     (if srv past c = None then invalidated_keys w c else []) @ refetched srv w (past @ [c]) cs"

lemma refetched_append:
  "refetched srv w past (cs @ ds) = refetched srv w past cs @ refetched srv w (past @ cs) ds"
  by (induction cs arbitrary: past) auto

definition channels_inv :: "channel_server \<Rightarrow> jstring option \<Rightarrow> channels_view \<Rightarrow> bool" where
  "channels_inv srv w s \<longleftrightarrow>
     cv_workspace s = w \<and> list_all call_ok (cv_calls s) \<and>
     cv_invalidated s = refetched srv w [] (cv_calls s)"

lemma mutate_inv:
  assumes "mutate srv c s = (s1, m)" "channels_inv srv w s" "call_ok c"
  shows "channels_inv srv w s1"
  using mutate_result [OF assms(1)] assms(2,3)
  by (auto simp: channels_inv_def refetched_append)

lemma channels_inv_updates [simp]:
  "channels_inv srv w (s\<lparr>cv_form := x0\<rparr>) = channels_inv srv w s"
  "channels_inv srv w (s\<lparr>cv_form_errors := x1\<rparr>) = channels_inv srv w s"
  "channels_inv srv w (s\<lparr>cv_create := x2\<rparr>) = channels_inv srv w s"
  "channels_inv srv w (s\<lparr>cv_update := x3\<rparr>) = channels_inv srv w s"
  "channels_inv srv w (s\<lparr>cv_refresh := x4\<rparr>) = channels_inv srv w s"
  "channels_inv srv w (s\<lparr>cv_createPage := x5\<rparr>) = channels_inv srv w s"
  "channels_inv srv w (s\<lparr>cv_validatePage := x6\<rparr>) = channels_inv srv w s"
  "channels_inv srv w (s\<lparr>cv_updatePage := x7\<rparr>) = channels_inv srv w s"
  "channels_inv srv w (s\<lparr>cv_deletePage := x8\<rparr>) = channels_inv srv w s"
  "channels_inv srv w (s\<lparr>facebookPageId := x9\<rparr>) = channels_inv srv w s"
  "channels_inv srv w (s\<lparr>facebookToken := x10\<rparr>) = channels_inv srv w s"
  "channels_inv srv w (s\<lparr>replacementToken := x11\<rparr>) = channels_inv srv w s"
  "channels_inv srv w (s\<lparr>cv_channels := x12\<rparr>) = channels_inv srv w s"
  "channels_inv srv w (s\<lparr>cv_pages := x13\<rparr>) = channels_inv srv w s"
  "channels_inv srv w (s\<lparr>cv_defaultChannel := x14\<rparr>) = channels_inv srv w s"
  by (simp_all add: channels_inv_def)

lemma schema_ok:
  assumes "channelSchema z f = []"
  shows "call_ok (CreateChannel \<lparr>cc_telegram_channel_id = cf_telegram_channel_id f,
    cc_title = Some (cf_title f), cc_is_active = True\<rparr>)"
  using assms by (auto simp: channelSchema_def Suc_le_eq split: if_splits)

lemma handlers_keep:
  assumes "channels_inv srv w s"
  shows "channels_inv srv w (addChannel srv z s)" "channels_inv srv w (refreshChannel srv i s)"
    "channels_inv srv w (toggleChannel srv c s)" "channels_inv srv w (addPage srv s)"
    "channels_inv srv w (updatePageButton srv p s)" "channels_inv srv w (validatePage srv i s)"
    "channels_inv srv w (deletePage srv b i s)"
proof -
  have frame: "channels_inv srv w (s\<lparr>cv_form_errors := Map.empty\<rparr>)"
    using assms by simp
  note keep = mutate_inv [OF _ assms] mutate_inv [OF _ frame]
  show "channels_inv srv w (addChannel srv z s)"
    using assms keep(2) [OF _ schema_ok]
    by (auto simp: addChannel_def Let_def  split: prod.splits)
  show "channels_inv srv w (addPage srv s)"
    using assms keep(1)
    by (auto simp: addPage_def Let_def  split: prod.splits)
  show "channels_inv srv w (updatePageButton srv p s)"
    using keep(1) by (auto simp: updatePageButton_def Let_def  split: prod.splits)
  show "channels_inv srv w (refreshChannel srv i s)" "channels_inv srv w (toggleChannel srv c s)"
    "channels_inv srv w (validatePage srv i s)" "channels_inv srv w (deletePage srv b i s)"
    using assms keep(1)
    by (auto simp: refreshChannel_def toggleChannel_def validatePage_def deletePage_def
         split: prod.splits)
qed

lemma channels_step_inv: "channels_inv srv w s \<Longrightarrow> channels_inv srv w (channels_step srv z s a)"
  by (cases a) (simp_all add: channels_step_def handlers_keep typeToken_def)

interpretation channels_machine: state_machine "channels_step srv z" "\<lambda>_ _. True" "channels_inv srv w"
  for srv z w
  by unfold_locales (rule channels_step_inv)


text \<open>A token is gone from the page as soon as it was taken: after a page was added both inputs are
  empty, after a token was replaced its input is, and only then; the button of a page never does
  two things at once.\<close>

theorem page_tokens_cleared:
  "let s1 = addPage srv s;
       c = CreatePage \<lparr>fc_facebook_page_id = facebookPageId s, fc_access_token = facebookToken s\<rparr>;
       s2 = updatePageButton srv p s;
       token = replacementToken s (fp_id p);
       u = UpdatePage (fp_id p) \<lparr>pu_access_token = token, pu_is_active = None\<rparr>
   in (if facebookPageId s = [] \<or> facebookToken s = [] then s1 = s
       else cv_calls s1 = cv_calls s @ [c] \<and>
         facebookToken s1 = (if srv (cv_calls s) c = None then [] else facebookToken s)) \<and>
      (if truthy token
       then cv_calls s2 = cv_calls s @ [u] \<and>
         replacementToken s2 (fp_id p) = (if srv (cv_calls s) u = None then Some [] else token)
       else cv_calls s2 = cv_calls s @
           [UpdatePage (fp_id p) \<lparr>pu_access_token = None, pu_is_active = Some (\<not> fp_is_active p)\<rparr>] \<and>
         replacementToken s2 = replacementToken s)"
  by (auto simp: Let_def addPage_def updatePageButton_def dest!: mutate_result split: prod.splits)

section \<open>Refusals\<close>

text \<open>Five of the screen's calls fail in silence: when the server refuses to turn a channel on or off,
  or to check, change or delete a page, the screen shows exactly what it showed before.\<close>

theorem refused_calls_not_shown:
  assumes "\<And>c. srv (cv_calls s) c = Some e" "\<not> truthy (replacementToken s (fp_id p))"
  shows "ChannelsView_shown (toggleChannel srv c s) = ChannelsView_shown s \<and>
    ChannelsView_shown (validatePage srv i s) = ChannelsView_shown s \<and>
    ChannelsView_shown (updatePageButton srv p s) = ChannelsView_shown s \<and>
    ChannelsView_shown (deletePage srv True i s) = ChannelsView_shown s \<and>
    length (cv_calls (deletePage srv True i s)) = length (cv_calls s) + 1"
  using assms
  by (auto simp: channel_handlers Let_def ChannelsView_shown_def mutate_def)

lemma refused_calls_not_shown_witness:
  "ChannelsView_shown (deletePage (\<lambda>_ _. Some ThrownOther) True (js ''p'') (fresh_channels None)) =
     ChannelsView_shown (fresh_channels None)"
  using refused_calls_not_shown [of "\<lambda>_ _. Some ThrownOther" "fresh_channels None" ThrownOther
      "undefined\<lparr>fp_id := []\<rparr>"]
  by (simp add: fresh_channels_def)

end
