(* ===== verification/Requests.thy ===== *)
theory Requests
  imports ApiClient Auth Channels ContentWorkspace DiscoveryScreen
begin

text \<open>
  Every call the frontend makes to its backend (\<open>features/*/api/*.api.ts\<close>), the queries that keep
  their answers (\<open>features/*/hooks\<close>), and what the interceptor of \<open>ApiClient\<close> makes of them.  The
  origin of \<open>NEXT_PUBLIC_API_URL\<close> and the pathname of \<open>new URL\<close> are parameters; how an object
  appears as a part of a query key is one too.
\<close>

section \<open>The calls\<close>

record ProductListParams =
  pq_title :: "jstring option"
  pq_status :: "ProductStatus option"
  pq_skip :: "nat option"
  pq_limit :: "nat option"

datatype api_call =
  GetQueue "QueueStatus option" nat nat | GetQueueItem jstring | GetQueuePublishAttempts jstring
| CreateQueueItem QueueUpdate | PublishQueueItem jstring | UpdateQueueItem jstring QueueUpdate
| DeleteQueueItem jstring
| GetProducts ProductListParams | GetProduct jstring | PatchProduct jstring ProductStatus
| RemoveProduct jstring
| AskContent GenerateContentInput
| DiscoverProducts DiscoveryParams | SearchProductsByImage ProductImageSearchRequest
| ImportOne jstring | ImportBatch "jstring list"
| GetChannels | GetFacebookPages | ChannelCall channel_call
| GetWorkspaceSettings | PatchWorkspaceSettings WorkspaceSettingsPatch
| GetDashboardOverview | GetCategories | GetPlatformReadiness
| Login LoginInput | RefreshSession jstring | Logout jstring | GetCurrentUser
| UpdateCurrentUser profile_input

datatype request_params =
  NoParams | QueueParams "QueueStatus option" nat nat | ProductParams ProductListParams
| SearchParams discovery_request

datatype request_body =
  EmptyBody | QueueBody QueueUpdate | ProductBody ProductStatus | ContentBody GenerateContentInput
| ImageBody ProductImageSearchRequest | IdBody jstring | IdsBody "jstring list"
| ChannelBody channel_call | SettingsBody WorkspaceSettingsPatch | AuthBody auth_body

record api_request =
  re_method :: jstring
  re_url :: jstring
  re_params :: request_params
  re_body :: request_body
  re_skip :: bool
  re_headers :: "jstring \<rightharpoonup> jstring"

definition plain_request :: "jstring \<Rightarrow> jstring \<Rightarrow> request_params \<Rightarrow> request_body \<Rightarrow> api_request" where
  "plain_request verb url params body =
     \<lparr>re_method = verb, re_url = url, re_params = params, re_body = body, re_skip = False,
      re_headers = Map.empty\<rparr>"

definition auth_call :: "jstring \<Rightarrow> auth_request \<Rightarrow> api_request" where
  "auth_call verb r =
     (plain_request verb (ar_path r) NoParams (if ar_body r = NoBody then EmptyBody else AuthBody (ar_body r)))
       \<lparr>re_skip := ar_skipAuthRefresh r\<rparr>"

definition readiness_url :: "jstring \<Rightarrow> jstring" where
  "readiness_url origin = origin @ js ''/ready''"

definition channel_body :: "channel_call \<Rightarrow> request_body" where
  "channel_body c = (case c of
     RefreshPermissions _ \<Rightarrow> EmptyBody | ValidatePage _ \<Rightarrow> EmptyBody | DeletePage _ \<Rightarrow> EmptyBody
   | _ \<Rightarrow> ChannelBody c)"

text \<open>\<open>None\<close> where the function throws before it makes a request.\<close>

definition discovery_api_request :: "DiscoveryParams \<Rightarrow> api_request option" where
  "discovery_api_request p = (case discoverProducts p of
     None \<Rightarrow> None
   | Some q \<Rightarrow> Some (plain_request (js ''GET'')
       (case q of Recommendations _ \<Rightarrow> js ''/products/recommendations'' | Discover path _ \<Rightarrow> path)
       (SearchParams q) EmptyBody))"

definition getQueue_request :: "QueueStatus option \<Rightarrow> nat \<Rightarrow> nat \<Rightarrow> api_request" where
  "getQueue_request status limit skip =
     plain_request (js ''GET'') (js ''/queues'') (QueueParams status limit skip) EmptyBody"

definition getQueueItem_request :: "jstring \<Rightarrow> api_request" where
  "getQueueItem_request i =
     plain_request (js ''GET'') (js ''/queues/'' @ i) NoParams EmptyBody"

definition getQueuePublishAttempts_request :: "jstring \<Rightarrow> api_request" where
  "getQueuePublishAttempts_request i =
     plain_request (js ''GET'') (js ''/queues/'' @ i @ js ''/attempts'') NoParams EmptyBody"

definition createQueueItem_request :: "QueueUpdate \<Rightarrow> api_request" where
  "createQueueItem_request input =
     plain_request (js ''POST'') (js ''/queues'') NoParams (QueueBody input)"

definition publishQueueItem_request :: "jstring \<Rightarrow> api_request" where
  "publishQueueItem_request i =
     plain_request (js ''POST'') (js ''/queues/'' @ i @ js ''/publish'') NoParams EmptyBody"

definition updateQueueItem_request :: "jstring \<Rightarrow> QueueUpdate \<Rightarrow> api_request" where
  "updateQueueItem_request i input =
     plain_request (js ''PATCH'') (js ''/queues/'' @ i) NoParams (QueueBody input)"

definition deleteQueueItem_request :: "jstring \<Rightarrow> api_request" where
  "deleteQueueItem_request i =
     plain_request (js ''DELETE'') (js ''/queues/'' @ i) NoParams EmptyBody"

definition getProducts_request :: "ProductListParams \<Rightarrow> api_request" where
  "getProducts_request params =
     plain_request (js ''GET'') (js ''/products'') (ProductParams params) EmptyBody"

definition getProduct_request :: "jstring \<Rightarrow> api_request" where
  "getProduct_request i =
     plain_request (js ''GET'') (js ''/products/'' @ i) NoParams EmptyBody"

definition updateProduct_request :: "jstring \<Rightarrow> ProductStatus \<Rightarrow> api_request" where
  "updateProduct_request i status =
     plain_request (js ''PATCH'') (js ''/products/'' @ i) NoParams (ProductBody status)"

definition deleteProduct_request :: "jstring \<Rightarrow> api_request" where
  "deleteProduct_request i =
     plain_request (js ''DELETE'') (js ''/products/'' @ i) NoParams EmptyBody"

definition generateContent_request :: "GenerateContentInput \<Rightarrow> api_request" where
  "generateContent_request input =
     plain_request (js ''POST'') (js ''/ai-content/generate'') NoParams (ContentBody input)"

definition searchProductsByImage_request :: "ProductImageSearchRequest \<Rightarrow> api_request" where
  "searchProductsByImage_request payload =
     plain_request (js ''POST'') (js ''/products/search/image'') NoParams (ImageBody payload)"

definition importProduct_request :: "jstring \<Rightarrow> api_request" where
  "importProduct_request i =
     plain_request (js ''POST'') (js ''/products/import'') NoParams (IdBody i)"

definition importProductsBatch_request :: "jstring list \<Rightarrow> api_request" where
  "importProductsBatch_request is =
     plain_request (js ''POST'') (js ''/products/import/batch'') NoParams (IdsBody is)"

definition getChannels_request :: "api_request" where
  "getChannels_request = plain_request (js ''GET'') (js ''/channels'') NoParams EmptyBody"

definition getFacebookPages_request :: "api_request" where
  "getFacebookPages_request = plain_request (js ''GET'') (js ''/facebook/pages'') NoParams EmptyBody"

definition channel_request :: "channel_call \<Rightarrow> api_request" where
  "channel_request c =
     (case call_path c of (verb, url) \<Rightarrow> plain_request verb url NoParams (channel_body c))"

definition getWorkspaceSettings_request :: "api_request" where
  "getWorkspaceSettings_request = plain_request (js ''GET'') (js ''/workspace-settings'') NoParams EmptyBody"

definition patchWorkspaceSettings_request :: "WorkspaceSettingsPatch \<Rightarrow> api_request" where
  "patchWorkspaceSettings_request input =
     plain_request (js ''PATCH'') (js ''/workspace-settings'') NoParams (SettingsBody input)"

definition getDashboardOverview_request :: "api_request" where
  "getDashboardOverview_request = plain_request (js ''GET'') (js ''/dashboard'') NoParams EmptyBody"

definition getCategories_request :: "api_request" where
  "getCategories_request = plain_request (js ''GET'') (js ''/aliexpress/categories'') NoParams EmptyBody"

definition getPlatformReadiness_request :: "jstring \<Rightarrow> api_request" where
  "getPlatformReadiness_request origin =
     plain_request (js ''GET'') (readiness_url origin) NoParams EmptyBody"

text \<open>Every call with the request its function makes.\<close>

definition request_of :: "jstring \<Rightarrow> api_call \<Rightarrow> api_request option" where
  "request_of origin c = (case c of
     GetQueue status limit skip \<Rightarrow> Some (getQueue_request status limit skip)
   | GetQueueItem i \<Rightarrow> Some (getQueueItem_request i)
   | GetQueuePublishAttempts i \<Rightarrow> Some (getQueuePublishAttempts_request i)
   | CreateQueueItem input \<Rightarrow> Some (createQueueItem_request input)
   | PublishQueueItem i \<Rightarrow> Some (publishQueueItem_request i)
   | UpdateQueueItem i input \<Rightarrow> Some (updateQueueItem_request i input)
   | DeleteQueueItem i \<Rightarrow> Some (deleteQueueItem_request i)
   | GetProducts params \<Rightarrow> Some (getProducts_request params)
   | GetProduct i \<Rightarrow> Some (getProduct_request i)
   | PatchProduct i status \<Rightarrow> Some (updateProduct_request i status)
   | RemoveProduct i \<Rightarrow> Some (deleteProduct_request i)
   | AskContent input \<Rightarrow> Some (generateContent_request input)
   | DiscoverProducts params \<Rightarrow> discovery_api_request params
   | SearchProductsByImage payload \<Rightarrow> Some (searchProductsByImage_request payload)
   | ImportOne i \<Rightarrow> Some (importProduct_request i)
   | ImportBatch is \<Rightarrow> Some (importProductsBatch_request is)
   | GetChannels \<Rightarrow> Some getChannels_request
   | GetFacebookPages \<Rightarrow> Some getFacebookPages_request
   | ChannelCall c \<Rightarrow> Some (channel_request c)
   | GetWorkspaceSettings \<Rightarrow> Some getWorkspaceSettings_request
   | PatchWorkspaceSettings input \<Rightarrow> Some (patchWorkspaceSettings_request input)
   | GetDashboardOverview \<Rightarrow> Some getDashboardOverview_request
   | GetCategories \<Rightarrow> Some getCategories_request
   | GetPlatformReadiness \<Rightarrow> Some (getPlatformReadiness_request origin)
   | Login input \<Rightarrow>
       Some ((auth_call (js ''POST'') (login_request input))
         \<lparr>re_headers := [js ''Content-Type'' \<mapsto> js ''application/x-www-form-urlencoded'']\<rparr>)
   | RefreshSession token \<Rightarrow> Some (auth_call (js ''POST'') (refreshSession_request token))
   | Logout token \<Rightarrow> Some (auth_call (js ''POST'') (logout_request token))
   | GetCurrentUser \<Rightarrow> Some (auth_call (js ''GET'') me_request)
   | UpdateCurrentUser input \<Rightarrow> Some (auth_call (js ''PATCH'') (update_me_request input)))"

lemmas request_defs =
  request_of_def getQueue_request_def getQueueItem_request_def
  getQueuePublishAttempts_request_def createQueueItem_request_def publishQueueItem_request_def
  updateQueueItem_request_def deleteQueueItem_request_def getProducts_request_def
  getProduct_request_def updateProduct_request_def deleteProduct_request_def
  generateContent_request_def searchProductsByImage_request_def importProduct_request_def
  importProductsBatch_request_def getChannels_request_def getFacebookPages_request_def
  channel_request_def getWorkspaceSettings_request_def patchWorkspaceSettings_request_def
  getDashboardOverview_request_def getCategories_request_def getPlatformReadiness_request_def
  plain_request_def

text \<open>The configuration the interceptors see.\<close>

definition config_of :: "api_request \<Rightarrow> config" where
  "config_of r =
     \<lparr>cfg_url = Some (re_url r), skipAuthRefresh = re_skip r, authRetried = False,
      cfg_headers = re_headers r\<rparr>"

section \<open>The queries\<close>

record query_keys =
  kt_products :: "ProductListParams \<Rightarrow> key_part"
  kt_search :: "DiscoveryParams \<Rightarrow> key_part"
  kt_image :: "ProductImageSearchKey \<Rightarrow> key_part"
  kt_status :: "QueueStatus option \<Rightarrow> key_part"
  kt_number :: "nat \<Rightarrow> key_part"

datatype hook_query =
  QueueList "QueueStatus option" nat nat | QueueAttempts "jstring option" bool
| ProductsList ProductListParams | ProductDetail jstring
| DiscoverySearch "DiscoveryParams option" bool | ImageSearch "ProductImageSearchKey option" bool
| ChannelsList | PagesList | SettingsQuery | DashboardQuery
| CategoriesQuery | ReadinessQuery | MeQuery bool

definition dashboardKey :: "jstring \<Rightarrow> query_key" where
  "dashboardKey workspaceId = workspaceScopedQueryKey (js ''dashboard'') workspaceId []"

definition useDashboard :: "jstring option \<Rightarrow> query_key \<times> bool" where
  "useDashboard workspaceId =
     (if truthy workspaceId then (dashboardKey (the workspaceId), True)
      else ([KeyText (js ''dashboard''), KeyText (js ''none'')], False))"

definition useQueue_query ::
  "query_keys \<Rightarrow> jstring option \<Rightarrow> QueueStatus option \<Rightarrow> nat \<Rightarrow> nat \<Rightarrow> query_key \<times> bool" where
  "useQueue_query ks workspaceId status limit skip =
     (let rest = [kt_status ks status, kt_number ks limit, kt_number ks skip] in
      if truthy workspaceId then (queueKey (the workspaceId) @ rest, True)
      else ([KeyText (js ''queue''), KeyText (js ''none'')] @ rest, False))"

definition useQueuePublishAttempts_query ::
  "jstring option \<Rightarrow> jstring option \<Rightarrow> bool \<Rightarrow> query_key \<times> bool" where
  "useQueuePublishAttempts_query workspaceId queueId on =
     (if truthy workspaceId \<and> truthy queueId
      then queueAttemptsKey (the workspaceId) (the queueId)
      else [KeyText (js ''queue''), KeyText (or_default workspaceId (js ''none'')),
            KeyText (js ''attempts''), KeyText (or_default queueId (js ''idle''))],
      on \<and> truthy queueId \<and> truthy workspaceId)"

definition useImageSearch_enabled ::
  "(jstring \<rightharpoonup> jstring) \<Rightarrow> ProductImageSearchKey option \<Rightarrow> bool \<Rightarrow> bool" where
  "useImageSearch_enabled bodies input on \<longleftrightarrow> on \<and>
     (case input of
        None \<Rightarrow> False
      | Some i \<Rightarrow>
          if ik_source i = FromUrl then truthy (ik_image_url i)
          else truthy (ik_fingerprint i) \<and> truthy (bodies (the (ik_fingerprint i))))"

text \<open>The key of a query and whether it is enabled.\<close>

definition hook_key ::
  "query_keys \<Rightarrow> (jstring \<rightharpoonup> jstring) \<Rightarrow> jstring option \<Rightarrow> hook_query \<Rightarrow> query_key \<times> bool" where
  "hook_key ks bodies workspaceId q = (case q of
     QueueList status limit skip \<Rightarrow> useQueue_query ks workspaceId status limit skip
   | QueueAttempts i on \<Rightarrow> useQueuePublishAttempts_query workspaceId i on
   | ProductsList params \<Rightarrow>
       ([KeyText (js ''products''), KeyText (js ''list''), kt_products ks params], True)
   | ProductDetail i \<Rightarrow> ([KeyText (js ''products''), KeyText (js ''detail''), KeyText i], i \<noteq> [])
   | DiscoverySearch params on \<Rightarrow>
       ([KeyText (js ''discovery''), case params of None \<Rightarrow> KeyNull | Some p \<Rightarrow> kt_search ks p],
        on \<and> params \<noteq> None)
   | ImageSearch input on \<Rightarrow>
       (KeyText (js ''product-image-search'') #
          (case input of None \<Rightarrow> [] | Some i \<Rightarrow> [kt_image ks i]),
        useImageSearch_enabled bodies input on)
   | ChannelsList \<Rightarrow> useChannels workspaceId
   | PagesList \<Rightarrow> useFacebookPages workspaceId
   | SettingsQuery \<Rightarrow> useWorkspaceSettings workspaceId
   | DashboardQuery \<Rightarrow> useDashboard workspaceId
   | CategoriesQuery \<Rightarrow> ([KeyText (js ''categories'')], True)
   | ReadinessQuery \<Rightarrow> ([KeyText (js ''readiness'')], True)
   | MeQuery on \<Rightarrow> ([KeyText (js ''auth''), KeyText (js ''me'')], on))"

text \<open>The call an enabled query makes.\<close>

definition hook_call :: "(jstring \<rightharpoonup> jstring) \<Rightarrow> hook_query \<Rightarrow> api_call option" where
  "hook_call bodies q = (case q of
     QueueList status limit skip \<Rightarrow> Some (GetQueue status limit skip)
   | QueueAttempts i _ \<Rightarrow> map_option GetQueuePublishAttempts i
   | ProductsList params \<Rightarrow> Some (GetProducts params)
   | ProductDetail i \<Rightarrow> Some (GetProduct i)
   | DiscoverySearch params _ \<Rightarrow> map_option DiscoverProducts params
   | ImageSearch input _ \<Rightarrow>
       map_option (\<lambda>i. SearchProductsByImage (toImageSearchRequest bodies i)) input
   | ChannelsList \<Rightarrow> Some GetChannels
   | PagesList \<Rightarrow> Some GetFacebookPages
   | SettingsQuery \<Rightarrow> Some GetWorkspaceSettings
   | DashboardQuery \<Rightarrow> Some GetDashboardOverview
   | CategoriesQuery \<Rightarrow> Some GetCategories
   | ReadinessQuery \<Rightarrow> Some GetPlatformReadiness
   | MeQuery _ \<Rightarrow> Some GetCurrentUser)"

section \<open>The mutations\<close>

text \<open>The keys \<open>onSuccess\<close> of a mutation invalidates; \<open>invalidateQueries\<close> takes every key that starts with
  one of them.\<close>

definition useCreateQueueItem_keys :: "jstring option \<Rightarrow> query_key list" where
  "useCreateQueueItem_keys workspaceId =
     (if truthy workspaceId then [queueKey (the workspaceId)] else [])"

definition usePublishQueueItem_keys :: "jstring option \<Rightarrow> jstring \<Rightarrow> query_key list" where
  "usePublishQueueItem_keys workspaceId i =
     (if \<not> truthy workspaceId then []
      else [queueKey (the workspaceId), queueAttemptsKey (the workspaceId) i])"

definition useUpdateQueueItem_keys :: "jstring option \<Rightarrow> query_key list" where
  "useUpdateQueueItem_keys workspaceId =
     (if truthy workspaceId then [queueKey (the workspaceId)] else [])"

definition useDeleteQueueItem_keys :: "jstring option \<Rightarrow> query_key list" where
  "useDeleteQueueItem_keys workspaceId =
     (if truthy workspaceId then [queueKey (the workspaceId)] else [])"

definition mutation_invalidates :: "jstring option \<Rightarrow> api_call \<Rightarrow> query_key list" where
  "mutation_invalidates workspaceId c = (case c of
     CreateQueueItem _ \<Rightarrow> useCreateQueueItem_keys workspaceId
   | PublishQueueItem i \<Rightarrow> usePublishQueueItem_keys workspaceId i
   | UpdateQueueItem _ _ \<Rightarrow> useUpdateQueueItem_keys workspaceId
   | DeleteQueueItem _ \<Rightarrow> useDeleteQueueItem_keys workspaceId
   | PatchProduct _ _ \<Rightarrow> [products_key]
   | RemoveProduct _ \<Rightarrow> [products_key]
   | ImportOne _ \<Rightarrow> [products_key]
   | ImportBatch _ \<Rightarrow> [products_key]
   | ChannelCall cc \<Rightarrow> invalidated_keys workspaceId cc
   | _ \<Rightarrow> [])"

section \<open>Which calls are about a workspace\<close>

text \<open>The data that belong to a workspace; products, the catalogue and the account do not.\<close>

fun needs_workspace :: "api_call \<Rightarrow> bool" where
  "needs_workspace (GetQueue _ _ _) = True"
| "needs_workspace (GetQueueItem _) = True"
| "needs_workspace (GetQueuePublishAttempts _) = True"
| "needs_workspace (CreateQueueItem _) = True"
| "needs_workspace (PublishQueueItem _) = True"
| "needs_workspace (UpdateQueueItem _ _) = True"
| "needs_workspace (DeleteQueueItem _) = True"
| "needs_workspace GetChannels = True"
| "needs_workspace GetFacebookPages = True"
| "needs_workspace (ChannelCall _) = True"
| "needs_workspace GetWorkspaceSettings = True"
| "needs_workspace (PatchWorkspaceSettings _) = True"
| "needs_workspace GetDashboardOverview = True"
| "needs_workspace _ = False"

text \<open>The first segment of the path.\<close>

definition collection :: "api_call \<Rightarrow> jstring" where
  "collection c = (case c of
     GetQueue _ _ _ \<Rightarrow> js ''queues'' | GetQueueItem _ \<Rightarrow> js ''queues''
   | GetQueuePublishAttempts _ \<Rightarrow> js ''queues'' | CreateQueueItem _ \<Rightarrow> js ''queues''
   | PublishQueueItem _ \<Rightarrow> js ''queues'' | UpdateQueueItem _ _ \<Rightarrow> js ''queues''
   | DeleteQueueItem _ \<Rightarrow> js ''queues''
   | AskContent _ \<Rightarrow> js ''ai-content'' | GetChannels \<Rightarrow> js ''channels''
   | GetFacebookPages \<Rightarrow> js ''facebook''
   | ChannelCall cc \<Rightarrow> if touches_pages cc then js ''facebook'' else js ''channels''
   | GetWorkspaceSettings \<Rightarrow> js ''workspace-settings''
   | PatchWorkspaceSettings _ \<Rightarrow> js ''workspace-settings''
   | GetDashboardOverview \<Rightarrow> js ''dashboard'' | GetCategories \<Rightarrow> js ''aliexpress''
   | GetPlatformReadiness \<Rightarrow> js ''ready''
   | Login _ \<Rightarrow> js ''auth'' | RefreshSession _ \<Rightarrow> js ''auth'' | Logout _ \<Rightarrow> js ''auth''
   | GetCurrentUser \<Rightarrow> js ''auth'' | UpdateCurrentUser _ \<Rightarrow> js ''auth''
   | _ \<Rightarrow> js ''products'')"

text \<open>What \<open>new URL\<close> makes of the address: the path itself; \<open>/ready\<close> comes with its origin.\<close>

definition path_of :: "api_call \<Rightarrow> api_request \<Rightarrow> jstring" where
  "path_of c r = (if c = GetPlatformReadiness then js ''/ready'' else re_url r)"

definition whole_segment :: "jstring \<Rightarrow> jstring \<Rightarrow> bool" where
  "whole_segment seg path \<longleftrightarrow> path = 47 # seg \<or> starts_with (47 # seg @ [47]) path"

lemma request_segment: "request_of origin c = Some r \<Longrightarrow> whole_segment (collection c) (path_of c r)"
proof (cases c)
  case (DiscoverProducts p)
  then show "request_of origin c = Some r \<Longrightarrow> ?thesis"
    by (auto simp: request_defs discovery_api_request_def discoverProducts_def discover_path_def
        plain_request_def collection_def path_of_def recommend_request_def Let_def js_def whole_segment_def
        split: option.splits discovery_request.splits if_splits)
next
  case (ChannelCall cc)
  then show "request_of origin c = Some r \<Longrightarrow> ?thesis"
    by (cases cc) (auto simp: request_defs call_path_def collection_def path_of_def
        js_def whole_segment_def)
qed (auto simp: request_defs auth_call_def login_request_def refreshSession_request_def
      logout_request_def me_request_def update_me_request_def collection_def path_of_def js_def
      whole_segment_def)

lemma collection_plain: "47 \<notin> set (collection c)" "collection c \<noteq> []" "collection c \<noteq> js ''api''"
  "last (collection c) \<noteq> 47"
  by (cases c; simp add: collection_def js_def)+

lemma needs_iff_collection: "needs_workspace c \<longleftrightarrow> collection c \<in> set tenant_segments"
  by (cases c) (simp_all add: collection_def tenant_segments_def js_def)

text \<open>Stripping slashes at the end leaves the first segment alone.\<close>

lemma strip_keeps_segment:
  assumes "whole_segment seg path" "seg \<noteq> []" "last seg \<noteq> 47"
  shows "whole_segment seg (strip_trailing_slashes path)"
proof -
  have seg_kept: "rev (dropWhile (\<lambda>c. c = 47) (rev (47 # seg))) = 47 # seg"
    using assms(2,3) by (cases seg rule: rev_cases) simp_all
  obtain rest where "path = 47 # seg @ rest" and r: "rest = [] \<or> (\<exists>t. rest = 47 # t)"
    using assms(1) by (auto simp: whole_segment_def starts_with_iff)
  then have p: "rev path = rev rest @ rev (47 # seg)" by simp
  show ?thesis
  proof (cases "\<forall>c \<in> set rest. c = 47")
    case True
    have "dropWhile (\<lambda>c. c = 47) (rev rest @ rev (47 # seg)) = dropWhile (\<lambda>c. c = 47) (rev (47 # seg))"
      by (rule dropWhile_append2) (use True in simp)
    then have "strip_trailing_slashes path = 47 # seg"
      using seg_kept by (simp only: strip_trailing_slashes_def p)
    then show ?thesis by (simp add: whole_segment_def)
  next
    case False
    then obtain x where "x \<in> set (rev rest)" "x \<noteq> 47" by auto
    then have "dropWhile (\<lambda>c. c = 47) (rev rest @ rev (47 # seg)) =
        dropWhile (\<lambda>c. c = 47) (rev rest) @ rev (47 # seg)"
      by (rule dropWhile_append1)
    then have "strip_trailing_slashes path = 47 # seg @ rev (dropWhile (\<lambda>c. c = 47) (rev rest))"
      by (simp add: strip_trailing_slashes_def p)
    moreover define kept where "kept = rev (dropWhile (\<lambda>c. c = 47) (rev rest))"
    ultimately have strip: "strip_trailing_slashes path = 47 # seg @ kept" by simp
    have kept: "rest = kept @ rev (takeWhile (\<lambda>c. c = 47) (rev rest))"
      unfolding kept_def by (simp flip: rev_append)
    have "kept \<noteq> []" using False by (auto simp: kept_def)
    then obtain k where "kept = 47 # k" using r False kept by (cases kept) auto
    then show ?thesis unfolding strip by (simp add: whole_segment_def starts_with_iff)
  qed
qed

lemma not_api:
  assumes "whole_segment seg path" "47 \<notin> set seg" "seg \<noteq> js ''api''"
  shows "api_relative path = path"
proof -
  have "first_segment path = Some seg"
    using assms(1) prefix_iff_first_segment [OF assms(2)] by (simp add: whole_segment_def)
  moreover have "first_segment path = Some (js ''api'')" if "starts_with (js ''/api/v1/'') path"
    using that by (auto simp: first_segment_def starts_with_iff js_def split_on_append)
  ultimately show ?thesis using assms(3) by (auto simp: api_relative_def)
qed

text \<open>A request is on a tenant path exactly when its data belong to a workspace.\<close>

lemma scoped_iff_needs:
  assumes "request_of origin c = Some r" "parse_url (re_url r) = Some (path_of c r)"
  shows "isWorkspaceScopedPath parse_url (Some (re_url r)) \<longleftrightarrow> needs_workspace c"
proof -
  let ?p = "strip_trailing_slashes (path_of c r)"
  have seg: "whole_segment (collection c) ?p"
    using strip_keeps_segment [OF request_segment [OF assms(1)]] collection_plain by blast
  then have "?p \<noteq> []" by (auto simp: whole_segment_def)
  moreover have "re_url r \<noteq> []"
    using request_segment [OF assms(1)] assms(1)
    by (auto simp: path_of_def whole_segment_def request_defs readiness_url_def js_def
        split: if_splits)
  ultimately have path: "requestPathname parse_url (Some (re_url r)) = ?p"
    using assms(2) by (simp add: requestPathname_def Let_def)
  have "first_segment (api_relative ?p) = Some (collection c)"
    using seg collection_plain prefix_iff_first_segment [of "collection c" ?p]
    by (simp add: not_api whole_segment_def)
  then show ?thesis
    by (auto simp: workspace_scoped_iff_first_segment path needs_iff_collection)
qed

text \<open>C7: every call of the frontend carries the workspace it is about, and no other call carries one:
  a call for the queue, the channels, the pages, the settings or the dashboard leaves with the id
  of the active workspace, or is refused before it is sent when there is none; a call for products,
  texts, the catalogue or the account never names a workspace; the address is kept, and with a
  session every call carries its token.\<close>

theorem calls_carry_their_workspace:
  assumes "request_of origin c = Some r" "url_pathname env (re_url r) = Some (path_of c r)"
  shows "case request_interceptor env b (config_of r) of
      Inl e \<Rightarrow> e = MISSING_WORKSPACE_ERROR \<and> needs_workspace c \<and>
        getActiveWorkspaceId (env_workspace env) b = None
    | Inr sent \<Rightarrow> cfg_url sent = Some (re_url r) \<and>
        cfg_headers sent WORKSPACE_HEADER =
          (if needs_workspace c then getActiveWorkspaceId (env_workspace env) b else None) \<and>
        needs_workspace c \<le> (getActiveWorkspaceId (env_workspace env) b \<noteq> None) \<and>
        cfg_headers sent Authorization =
          (if truthy (getAccessToken b) then Some (bearer (the (getAccessToken b))) else None)"
proof -
  have "cfg_headers (config_of r) Authorization = None"
    using assms(1) by (auto simp: request_defs config_of_def auth_call_def discovery_api_request_def
        Authorization_def js_def split: api_call.splits option.splits prod.splits)
  moreover have "cfg_url sent = cfg_url (config_of r)"
    if "request_interceptor env b (config_of r) = Inr sent" for sent
    using that by (auto simp: request_interceptor_def applyWorkspaceHeader_def setHeader_def deleteHeader_def
        Let_def split: if_splits option.splits)
  ultimately show ?thesis
    using wire_headers [where env = env and b = b and c = "config_of r"] scoped_iff_needs [of origin c r "url_pathname env", OF assms]
    by (auto simp: config_of_def truthy_def split: sum.splits option.splits if_splits)
qed

lemma calls_carry_their_workspace_witness:
  "request_interceptor \<lparr>url_pathname = Some, env_workspace = None\<rparr> (fresh_browser True)
     (config_of (plain_request (js ''POST'') (js ''/queues/7/publish'') NoParams EmptyBody))
     = Inl MISSING_WORKSPACE_ERROR"
proof -
  let ?env = "\<lparr>url_pathname = Some, env_workspace = None\<rparr>"
  let ?r = "plain_request (js ''POST'') (js ''/queues/7/publish'') NoParams EmptyBody"
  have r: "request_of [] (PublishQueueItem (js ''7'')) = Some ?r"
    by (simp add: request_defs js_def)
  have none: "getActiveWorkspaceId None (fresh_browser True) = None" by code_simp
  show ?thesis
    using calls_carry_their_workspace [where origin = "[]" and c = "PublishQueueItem (js ''7'')" and r = ?r and env = ?env and b = "fresh_browser True"] r
    by (auto simp: path_of_def none plain_request_def split: sum.splits)
qed

section \<open>The cache and the header agree\<close>

lemmas hook_key_defs =
  hook_key_def useQueue_query_def useQueuePublishAttempts_query_def useChannels_def useFacebookPages_def
  useWorkspaceSettings_def useDashboard_def queueKey_def queueAttemptsKey_def channelKey_def
  facebookPageKey_def workspaceSettingsKey_def dashboardKey_def workspaceScopedQueryKey_def Let_def

text \<open>C31: the two lists of \<open>lib/workspace.ts\<close>, of tenant paths and of tenant query keys, agree on every
  query of the frontend: its answer is dropped from the cache when the workspace changes exactly
  when its request carries the workspace; such a query only runs while there is an active
  workspace, and is then kept under that workspace's id.\<close>

theorem purged_iff_sent_with_workspace:
  assumes "hook_call bodies q = Some c" "request_of origin c = Some r"
    and "parse_url (re_url r) = Some (path_of c r)"
  shows "let (key, enabled) = hook_key ks bodies workspaceId q in
      isWorkspaceScopedQueryKey key = isWorkspaceScopedPath parse_url (Some (re_url r)) \<and>
      (enabled \<and> isWorkspaceScopedQueryKey key) \<le>
        (truthy workspaceId \<and> key_of_workspace workspaceId key)"
proof -
  show ?thesis
    unfolding scoped_iff_needs [of origin c r parse_url, OF assms(2,3)]
    using assms(1)
    by (cases q) (auto simp: hook_key_defs hook_call_def isWorkspaceScopedQueryKey_def
        key_of_workspace_def WORKSPACE_SCOPED_QUERY_ROOTS_def js_def truthy_def split: option.splits)
qed

lemma purged_iff_sent_with_workspace_witness:
  "isWorkspaceScopedQueryKey (fst (useDashboard (Some (js ''w'')))) =
     isWorkspaceScopedPath Some (Some (js ''/dashboard''))"
  using purged_iff_sent_with_workspace [of Map.empty DashboardQuery GetDashboardOverview "[]"
      "plain_request (js ''GET'') (js ''/dashboard'') NoParams EmptyBody" Some _ "Some (js ''w'')"]
  by (simp add: hook_call_def request_defs hook_key_def path_of_def Let_def
      split: prod.splits)

section \<open>What a mutation changes is asked for again\<close>

text \<open>The queries that show what a call changed.\<close>

definition rereads :: "api_call \<Rightarrow> hook_query \<Rightarrow> bool" where
  "rereads c q = (case c of
     CreateQueueItem _ \<Rightarrow> (case q of QueueList _ _ _ \<Rightarrow> True | _ \<Rightarrow> False)
   | PublishQueueItem _ \<Rightarrow> (case q of QueueList _ _ _ \<Rightarrow> True | QueueAttempts _ _ \<Rightarrow> True | _ \<Rightarrow> False)
   | UpdateQueueItem _ _ \<Rightarrow> (case q of QueueList _ _ _ \<Rightarrow> True | _ \<Rightarrow> False)
   | DeleteQueueItem _ \<Rightarrow> (case q of QueueList _ _ _ \<Rightarrow> True | QueueAttempts _ _ \<Rightarrow> True | _ \<Rightarrow> False)
   | PatchProduct _ _ \<Rightarrow> (case q of ProductsList _ \<Rightarrow> True | ProductDetail _ \<Rightarrow> True | _ \<Rightarrow> False)
   | RemoveProduct _ \<Rightarrow> (case q of ProductsList _ \<Rightarrow> True | ProductDetail _ \<Rightarrow> True | _ \<Rightarrow> False)
   | ImportOne _ \<Rightarrow> (case q of ProductsList _ \<Rightarrow> True | _ \<Rightarrow> False)
   | ImportBatch _ \<Rightarrow> (case q of ProductsList _ \<Rightarrow> True | _ \<Rightarrow> False)
   | ChannelCall cc \<Rightarrow> q = (if touches_pages cc then PagesList else ChannelsList)
   | _ \<Rightarrow> False)"

lemmas mutation_defs =
  mutation_invalidates_def useCreateQueueItem_keys_def usePublishQueueItem_keys_def
  useUpdateQueueItem_keys_def useDeleteQueueItem_keys_def invalidated_keys_def products_key_def



text \<open>The dashboard is not among them: no call invalidates its counters, which stay as they are until
  they are old enough to be asked for again.\<close>

theorem dashboard_is_never_invalidated:
  "list_all (\<lambda>key. \<not> starts_with key (dashboardKey w)) (mutation_invalidates workspaceId c)"
  by (cases c) (auto simp: hook_key_defs mutation_defs js_def)

end
