(* ===== verification/Shell.thy ===== *)
theory Shell
  imports Requests QueueStream
begin

text \<open>
  What is around the screens: the navigation and the menus of \<open>components/layout/AppShell.tsx\<close>, the
  dashboard (\<open>features/dashboard\<close>), the page of one product, the states that stand for a body
  (\<open>components/common/states.tsx\<close>), the toolbar two screens share
  (\<open>components/common/WorkspaceResultsToolbar.tsx\<close>), the chip of a filter, the badge of the event
  stream and the counters of the queue.  Writing numbers, amounts and dates is a parameter; a date
  that cannot be read, or an amount in no currency, throws, and the view is \<open>None\<close>.
\<close>

section \<open>AppShell.tsx\<close>

definition nav_dashboard :: jstring where
  "nav_dashboard =
    [1604, 1608, 1581, 1577, 32, 1575, 1604, 1578, 1581, 1603, 1605]"

definition nav_products :: jstring where
  "nav_products =
    [1575, 1604, 1605, 1606, 1578, 1580, 1575, 1578]"

definition nav_discovery :: jstring where
  "nav_discovery =
    [1575, 1604, 1575, 1603, 1578, 1588, 1575, 1601]"

definition nav_ai :: jstring where
  "nav_ai =
    [1605, 1581, 1578, 1608, 1609, 32, 1575, 1604, 1578, 1587, 1608, 1610, 1602]"

definition nav_queue :: jstring where
  "nav_queue =
    [1602, 1575, 1574, 1605, 1577, 32, 1575, 1604, 1606, 1588, 1585]"

definition nav_channels :: jstring where
  "nav_channels =
    [1575, 1604, 1602, 1606, 1608, 1575, 1578]"

definition nav_settings :: jstring where
  "nav_settings =
    [1575, 1604, 1573, 1593, 1583, 1575, 1583, 1575, 1578]"

definition navigation :: "(jstring \<times> jstring) list" where
  "navigation =
     [(nav_dashboard, js ''/dashboard''), (nav_products, js ''/products''),
      (nav_discovery, js ''/discovery''), (nav_ai, js ''/ai''), (nav_queue, js ''/queue''),
      (nav_channels, js ''/channels''), (nav_settings, js ''/settings'')]"

definition link_active :: "jstring \<Rightarrow> jstring \<Rightarrow> bool" where
  "link_active pathname href \<longleftrightarrow> pathname = href \<or> starts_with (href @ js ''/'') pathname"

text \<open>Address, text (or title) and whether the link is marked.\<close>

record nav_link =
  nl_href :: jstring
  nl_text :: "jstring option"
  nl_title :: "jstring option"
  nl_active :: bool

definition Navigation :: "jstring \<Rightarrow> bool \<Rightarrow> nav_link list" where
  "Navigation pathname collapsed =
     map (\<lambda>(label, href).
       \<lparr>nl_href = href, nl_text = (if collapsed then None else Some label),
        nl_title = (if collapsed then Some label else None), nl_active = link_active pathname href\<rparr>)
       navigation"

record shell_state =
  sh_collapsed :: bool
  sh_mobileOpen :: bool
  sh_userOpen :: bool
  sh_dark :: bool
  sh_page :: auth_page

datatype shell_action =
  ToggleSidebar | OpenMobile | CloseMobile | FollowMobileLink jstring | FollowLink jstring
| ToggleTheme | ToggleUser | OpenProfile | PressLogout "thrown option"

definition go_to :: "jstring \<Rightarrow> shell_state \<Rightarrow> shell_state" where
  "go_to path s = s\<lparr>sh_page := (sh_page s)\<lparr>ap_routes := ap_routes (sh_page s) @ [path]\<rparr>\<rparr>"

text \<open>Signing out leaves the menu open: the page is left.\<close>

definition shell_step :: "shell_state \<Rightarrow> shell_action \<Rightarrow> shell_state" where
  "shell_step s a = (case a of
     ToggleSidebar \<Rightarrow> s\<lparr>sh_collapsed := \<not> sh_collapsed s\<rparr>
   | OpenMobile \<Rightarrow> s\<lparr>sh_mobileOpen := True\<rparr>
   | CloseMobile \<Rightarrow> s\<lparr>sh_mobileOpen := False\<rparr>
   | FollowMobileLink href \<Rightarrow> go_to href (s\<lparr>sh_mobileOpen := False\<rparr>)
   | FollowLink href \<Rightarrow> go_to href s
   | ToggleTheme \<Rightarrow> s\<lparr>sh_dark := \<not> sh_dark s\<rparr>
   | ToggleUser \<Rightarrow> s\<lparr>sh_userOpen := \<not> sh_userOpen s\<rparr>
   | OpenProfile \<Rightarrow> go_to (js ''/profile'') (s\<lparr>sh_userOpen := False\<rparr>)
   | PressLogout answer \<Rightarrow> s\<lparr>sh_page := useLogout answer (sh_page s)\<rparr>)"

definition initial_fallback :: jstring where
  "initial_fallback =
    [1605]"

definition account_label :: jstring where
  "account_label =
    [1575, 1604, 1581, 1587, 1575, 1576]"

text \<open>The letter and the name on the account button; a name may be empty.\<close>

definition account_button :: "shell_state \<Rightarrow> jstring \<times> jstring" where
  "account_button s = (case ap_me (sh_page s) of
     None \<Rightarrow> (initial_fallback, account_label)
   | Some u \<Rightarrow> (take 1 (us_full_name u), us_full_name u))"

text \<open>What the shell offers beside the links of the side bar.\<close>

definition shell_offers :: "shell_state \<Rightarrow> shell_action list" where
  "shell_offers s =
     map (FollowLink \<circ> snd) navigation @ [ToggleSidebar, OpenMobile, ToggleTheme, ToggleUser] @
     (if sh_mobileOpen s then CloseMobile # map (FollowMobileLink \<circ> snd) navigation else []) @
     (if sh_userOpen s then [OpenProfile, PressLogout None] else [])"

section \<open>states.tsx\<close>

definition no_workspace_title :: jstring where
  "no_workspace_title =
    [1604, 1575, 32, 1578, 1608, 1580, 1583, 32, 1605, 1587, 1575, 1581, 1577, 32, 1593,
     1605, 1604, 32, 1606, 1588, 1591, 1577]"

definition load_failed_text :: jstring where
  "load_failed_text =
    [1578, 1593, 1584, 1585, 32, 1578, 1581, 1605, 1610, 1604, 32, 1575, 1604, 1576, 1610,
     1575, 1606, 1575, 1578, 46]"

definition retry_label :: jstring where
  "retry_label =
    [1573, 1593, 1575, 1583, 1577, 32, 1575, 1604, 1605, 1581, 1575, 1608, 1604, 1577]"

definition ErrorState :: "jstring option \<Rightarrow> 'a option \<Rightarrow> jstring \<times> 'a control list" where
  "ErrorState message onRetry =
     (or_default message load_failed_text,
      case onRetry of None \<Rightarrow> [] | Some a \<Rightarrow> [Button retry_label False False a])"

definition LoadingState :: "nat option \<Rightarrow> nat" where
  "LoadingState rows = or_default rows 4"

section \<open>DashboardView.tsx\<close>

record recent_activity =
  ra_resource_type :: jstring
  ra_resource_id :: jstring
  ra_title :: jstring
  ra_status :: jstring

record DashboardOverview =
  do_products_total :: jsnum
  do_queue_total :: jsnum
  do_queue_by_status :: "QueueStatus \<Rightarrow> jsnum option"
  do_channels_active :: jsnum
  do_recent_activity :: "recent_activity list"
  do_generated_at :: jstring

record dashboard_shown =
  db_stats :: "(jstring \<times> jsnum option) list"
  db_links :: "jstring list"
  db_activity :: "(jstring \<times> jstring) list option"
  db_checked :: jstring

datatype dashboard_body =
  DashboardNoWorkspace jstring | DashboardLoading nat | DashboardFailed "jstring \<times> unit control list"
| DashboardShown dashboard_shown

definition stat_products :: jstring where
  "stat_products =
    [1575, 1604, 1605, 1606, 1578, 1580, 1575, 1578]"

definition stat_queue :: jstring where
  "stat_queue =
    [1602, 1575, 1574, 1605, 1577, 32, 1575, 1604, 1606, 1588, 1585]"

definition stat_published :: jstring where
  "stat_published =
    [1578, 1605, 32, 1575, 1604, 1606, 1588, 1585]"

definition stat_failed :: jstring where
  "stat_failed =
    [1601, 1588, 1604, 32, 1575, 1604, 1606, 1588, 1585]"

definition stat_channels :: jstring where
  "stat_channels =
    [1575, 1604, 1602, 1606, 1608, 1575, 1578, 32, 1575, 1604, 1606, 1588, 1591, 1577]"

definition dashboard_stats :: "DashboardOverview \<Rightarrow> (jstring \<times> jsnum option) list" where
  "dashboard_stats d =
     [(stat_products, Some (do_products_total d)), (stat_queue, Some (do_queue_total d)),
      (stat_published, do_queue_by_status d Published),
      (stat_failed, Some (or_default (do_queue_by_status d StatusFailed) (Num 0))),
      (stat_channels, Some (do_channels_active d))]"

definition dashboard_failed_text :: jstring where
  "dashboard_failed_text =
    [1578, 1593, 1584, 1585, 32, 1578, 1581, 1605, 1610, 1604, 32, 1604, 1608, 1581, 1577,
     32, 1575, 1604, 1578, 1581, 1603, 1605, 46]"

text \<open>The outer \<open>None\<close> is the exception of a date that cannot be read.\<close>

definition DashboardView ::
  "(jstring \<Rightarrow> jstring option) \<Rightarrow> jstring option \<Rightarrow> thrown option \<Rightarrow> DashboardOverview option
     \<Rightarrow> dashboard_body option" where
  "DashboardView format_date workspaceId error data =
     (if \<not> truthy workspaceId then Some (DashboardNoWorkspace no_workspace_title)
      else (case error of
        Some e \<Rightarrow>
          Some (DashboardFailed (ErrorState (Some (getApiErrorMessage e dashboard_failed_text)) (Some ())))
      | None \<Rightarrow>
          (case data of
             None \<Rightarrow> Some (DashboardLoading (LoadingState (Some 6)))
           | Some d \<Rightarrow>
               map_option (\<lambda>checked. DashboardShown
                 \<lparr>db_stats = dashboard_stats d,
                  db_links = [js ''/discovery'', js ''/ai'', js ''/queue''],
                  db_activity = (if do_recent_activity d = [] then None
                    else Some (map (\<lambda>item. (ra_title item, ra_status item)) (do_recent_activity d))),
                  db_checked = checked\<rparr>) (format_date (do_generated_at d)))))"

section \<open>ProductDetailView.tsx\<close>

record product_page =
  pp_title :: jstring
  pp_identifier :: jstring
  pp_generate_link :: jstring
  pp_image :: jstring
  pp_price :: jstring
  pp_badge :: "badge_tone \<times> jstring"
  pp_figures :: "jsnum list"
  pp_description :: jstring
  pp_link :: jstring

datatype product_detail_body =
  DetailLoading nat | DetailFailed "jstring \<times> unit control list" | DetailShown product_page

definition product_failed_text :: jstring where
  "product_failed_text =
    [1578, 1593, 1584, 1585, 32, 1578, 1581, 1605, 1610, 1604, 32, 1575, 1604, 1605, 1606,
     1578, 1580, 46]"

definition no_description_text :: jstring where
  "no_description_text =
    [1604, 1575, 32, 1610, 1578, 1608, 1601, 1585, 32, 1608, 1589, 1601, 46]"

definition product_identifier :: jstring where
  "product_identifier =
    [1605, 1593, 1585, 1617, 1601, 32, 1575, 1604, 1605, 1606, 1578, 1580, 58, 32]"

text \<open>The outer \<open>None\<close> is the exception of an unknown currency.\<close>

definition ProductDetailView ::
  "(jsnum \<Rightarrow> jstring \<Rightarrow> jstring option) \<Rightarrow> bool \<Rightarrow> Product option \<Rightarrow> product_detail_body option" where
  "ProductDetailView format_money isError data =
     (if isError then Some (DetailFailed (ErrorState (Some product_failed_text) (Some ())))
      else (case data of
        None \<Rightarrow> Some (DetailLoading (LoadingState (Some 6)))
      | Some p \<Rightarrow>
          map_option (\<lambda>price. DetailShown
            \<lparr>pp_title = p_title p,
             pp_identifier = product_identifier @ or_default (p_aliexpress_product_id p) (p_id p),
             pp_generate_link = js ''/ai?product='' @ p_id p, pp_image = p_image_url p,
             pp_price = price,
             pp_badge = (if p_status p = PActive then BadgeSuccess else BadgeNeutral,
                         product_status_text (p_status p)),
             pp_figures = [p_rating p, p_sales p, p_score p],
             pp_description = (if truthy (p_description p) then the (p_description p)
                               else no_description_text),
             pp_link = or_default (p_affiliate_url p) (p_product_url p)\<rparr>)
            (format_money (p_price p) (p_currency p))))"

section \<open>WorkspaceResultsToolbar.tsx\<close>

text \<open>An input of choices: its value, its options and what a choice does.\<close>

record ('v, 'a) toolbar_choice =
  tc_value :: 'v
  tc_options :: "('v \<times> jstring) list"
  tc_onChange :: "'v \<Rightarrow> 'a"

record ('s, 'd, 'a) results_toolbar =
  rt_search :: jstring
  rt_sort :: "('s, 'a) toolbar_choice option"
  rt_density :: "('d, 'a) toolbar_choice option"
  rt_pageSize :: "(nat, 'a) toolbar_choice option"
  rt_refreshing :: bool
  rt_onRefresh :: 'a

definition choice_controls :: "('v, 'a) toolbar_choice option \<Rightarrow> 'a control list" where
  "choice_controls c = (case c of
     None \<Rightarrow> []
   | Some choice \<Rightarrow>
       map (\<lambda>(v, label). Button label False False (tc_onChange choice v)) (tc_options choice))"

definition refresh_results_label :: jstring where
  "refresh_results_label =
    [1578, 1581, 1583, 1610, 1579, 32, 1575, 1604, 1606, 1578, 1575, 1574, 1580]"

text \<open>The search box takes any text; refreshing is not offered while it runs.\<close>

definition WorkspaceResultsToolbar :: "('s, 'd, 'a) results_toolbar \<Rightarrow> 'a control list" where
  "WorkspaceResultsToolbar t =
     choice_controls (rt_sort t) @ choice_controls (rt_density t) @ choice_controls (rt_pageSize t) @
     [Button refresh_results_label False (rt_refreshing t) (rt_onRefresh t)]"

section \<open>DiscoveryFilterChip.tsx\<close>

datatype chip_event = PressChip | PressDone | ChipWindow window_event

definition chip_step :: "bool \<Rightarrow> chip_event \<Rightarrow> bool" where
  "chip_step is_open e = (case e of
     PressChip \<Rightarrow> \<not> is_open
   | PressDone \<Rightarrow> False
   | ChipWindow w \<Rightarrow> if Popover_closes is_open w then False else is_open)"

section \<open>QueueRealtimeStatusBadge.tsx, QueueOperationalStats.tsx\<close>

text \<open>The text of the badge and its tone; its longer description is left out.\<close>

definition live_label :: jstring where
  "live_label =
    [1605, 1576, 1575, 1588, 1585]"

definition connecting_label :: jstring where
  "connecting_label =
    [1580, 1575, 1585, 1610, 32, 1575, 1604, 1575, 1578, 1589, 1575, 1604, 8230]"

definition offline_label :: jstring where
  "offline_label =
    [1594, 1610, 1585, 32, 1605, 1578, 1589, 1604]"

definition stopped_label :: jstring where
  "stopped_label =
    [1575, 1604, 1576, 1579, 32, 1605, 1578, 1608, 1602, 1601]"

fun STATUS_UI :: "QueueEventStreamStatus \<Rightarrow> jstring \<times> badge_tone" where
  "STATUS_UI Connected = (live_label, BadgeSuccess)"
| "STATUS_UI Connecting = (connecting_label, BadgeInfo)"
| "STATUS_UI Disconnected = (offline_label, BadgeWarning)"
| "STATUS_UI StreamError = (stopped_label, BadgeError)"

record operational_stats =
  os_queued :: nat
  os_scheduled :: nat
  os_publishing :: nat
  os_publishedToday :: nat
  os_failedToday :: nat

definition count_queued :: jstring where
  "count_queued =
    [1601, 1610, 32, 1575, 1604, 1575, 1606, 1578, 1592, 1575, 1585]"

definition count_scheduled :: jstring where
  "count_scheduled =
    [1605, 1580, 1583, 1608, 1604]"

definition count_publishing :: jstring where
  "count_publishing =
    [1602, 1610, 1583, 32, 1575, 1604, 1606, 1588, 1585]"

definition count_published :: jstring where
  "count_published =
    [1606, 1615, 1588, 1585, 32, 1575, 1604, 1610, 1608, 1605]"

definition count_failed :: jstring where
  "count_failed =
    [1601, 1588, 1604, 32, 1575, 1604, 1610, 1608, 1605]"

definition QueueOperationalStats :: "(nat \<Rightarrow> jstring) \<Rightarrow> operational_stats \<Rightarrow> (jstring \<times> jstring) list" where
  "QueueOperationalStats arabic st =
     [(count_queued, arabic (os_queued st)), (count_scheduled, arabic (os_scheduled st)),
      (count_publishing, arabic (os_publishing st)), (count_published, arabic (os_publishedToday st)),
      (count_failed, arabic (os_failedToday st))]"

section \<open>The marked link\<close>

lemma nav_segments: "map snd navigation = map ((#) 47)
    [js ''dashboard'', js ''products'', js ''discovery'', js ''ai'', js ''queue'', js ''channels'',
     js ''settings'']"
  by (simp add: navigation_def js_def)

lemma active_iff_first_segment:
  "47 \<notin> set seg \<Longrightarrow> link_active pathname (47 # seg) \<longleftrightarrow> first_segment pathname = Some seg"
  using prefix_iff_first_segment [of seg pathname] by (simp add: link_active_def js_def)

text \<open>The navigation marks the part of the program the page belongs to, and no other: the marked
  link is the one whose address is the first segment of the path, so that a page below it, such
  as the page of one product, keeps the mark, while \<open>/queue-archive\<close> or a page that has no link,
  such as the profile, marks nothing; at most one link is marked, in both widths of the side bar.\<close>

theorem marked_link_is_first_segment:
  "map nl_href (filter nl_active (Navigation pathname collapsed)) =
     (case first_segment pathname of
        None \<Rightarrow> []
      | Some seg \<Rightarrow> filter (\<lambda>href. href = 47 # seg) (map snd navigation)) \<and>
   length (filter nl_active (Navigation pathname collapsed)) \<le> 1"
proof -
  have seg: "link_active pathname href \<longleftrightarrow> first_segment pathname = Some (tl href)"
    if "href \<in> set (map snd navigation)" for href
    using that active_iff_first_segment [of "tl href" pathname]
    by (auto simp: navigation_def js_def)
  have marked: "map nl_href (filter nl_active (Navigation pathname collapsed)) =
      filter (link_active pathname) (map snd navigation)"
    by (simp add: Navigation_def filter_map comp_def case_prod_beta)
  have hd: "(Some seg = Some (tl href)) = (href = 47 # seg)" if "href \<in> set (map snd navigation)" for href seg
    using that by (auto simp: navigation_def js_def)
  have "filter (link_active pathname) (map snd navigation) =
      filter (\<lambda>href. first_segment pathname = Some (tl href)) (map snd navigation)"
    by (rule filter_cong) (auto simp: seg)
  also have "\<dots> = (case first_segment pathname of
        None \<Rightarrow> [] | Some seg \<Rightarrow> filter (\<lambda>href. href = 47 # seg) (map snd navigation))"
    by (cases "first_segment pathname") (simp_all only: option.case hd cong: filter_cong, simp)
  finally have eq: "filter (link_active pathname) (map snd navigation) =
      (case first_segment pathname of
        None \<Rightarrow> [] | Some seg \<Rightarrow> filter (\<lambda>href. href = 47 # seg) (map snd navigation))" .
  have once: "distinct hs \<Longrightarrow> length (filter (\<lambda>href. href = h) hs) \<le> 1" for h and hs :: "jstring list"
    by (induction hs) (auto simp: filter_empty_conv intro: le_SucI)
  have "distinct (map snd navigation)" by (simp add: navigation_def js_def)
  then have "length (filter (\<lambda>href. href = h) (map snd navigation)) \<le> 1" for h by (rule once)
  then have "length (map nl_href (filter nl_active (Navigation pathname collapsed))) \<le> 1"
    unfolding marked eq by (cases "first_segment pathname") simp_all
  then have "length (filter nl_active (Navigation pathname collapsed)) \<le> 1" by (simp only: length_map)
  with marked eq show ?thesis by simp
qed

lemma followed_link_is_marked:
  "href \<in> set (map snd navigation) \<Longrightarrow> link_active (last (ap_routes (sh_page (shell_step s (FollowLink href))))) href"
  by (simp add: shell_step_def go_to_def link_active_def)

end
