(* ===== verification/Spec2Isabelle.thy ===== *)
theory Spec2Isabelle
  imports QueueControls DiscoveryControls StudioControls FormControls Shell
begin

text \<open>
  A verification library for the frontend of an affiliate platform: the TypeScript code under
  \<open>src/frontend/src\<close>, which lets the members of a workspace collect products, generate marketing
  texts for them, and publish these to their channels through a queue the backend works off.

  \<^bold>\<open>The parts of the program and their theories.\<close>  The order is that of the imports.

  \<^item> \<open>JsPrelude\<close>, \<open>JsNumber\<close>, \<open>Utf8\<close>, \<open>Host\<close>, \<open>IsoDate\<close>: what the code uses of its
    language and platform.  A string is the list of its UTF-16 code units, a number is \<open>NaN\<close>, an
    infinity or an exact rational (rounding of binary64 is not modelled), an object is a record, a
    key that may be left out is a \<open>field\<close>, and a map whose order matters is the list of its
    entries.  \<open>Host\<close> is the clock, the time zone and the parser of dates; \<open>IsoDate\<close> writes dates
    (\<open>toISOString\<close>, \<open>toDateTimeLocal\<close>), and its lemmas show that the parser reads them back.
  \<^item> \<open>Reducers\<close>: the interfaces that components share, as locales: \<open>state_machine\<close> (guarded actions
    that keep an invariant), \<open>growing_log\<close>, \<open>chunked_reader\<close> and \<open>piped_reader\<close> (a reader that is
    fed a stream in pieces), \<open>row_selection\<close>; \<open>keyed_comparator\<close> (sorting with a comparator) is in
    \<open>JsNumber\<close>.  Each is interpreted on the model's own functions where these are defined.
    \<open>CallLoops\<close> is the loop of awaited calls inside a \<open>try\<close>, which the screens share.
  \<^item> \<open>Session\<close>, \<open>Workspace\<close> (\<open>services/session.ts\<close>, \<open>lib/workspace.ts\<close>,
    \<open>lib/workspace-query-sync.tsx\<close>): tokens and active workspace in the session storage, the marker
    cookie, which paths and cache keys belong to a workspace, and the purge of the cache when the
    workspace changes.
  \<^item> \<open>ApiErrors\<close>, \<open>ApiClient\<close> (\<open>services/api-client.ts\<close>): the errors calls are rejected with, and the
    interceptors with the single refresh of the tokens that all refused requests share.  The
    network is a list of actions in any order: requests are sent, answered, refused or cut, and
    continuations resume one at a time, so every interleaving is covered.
  \<^item> \<open>SseParser\<close>, \<open>SseMessages\<close>, \<open>SseClient\<close> (\<open>features/queue/lib/sse-client.ts\<close>): the stream of
    realtime events, from bytes in arbitrary chunks over lines and messages to the loop that
    reconnects.  What the world does is a script with one entry per attempt, what the client does
    is a trace of effects.
  \<^item> \<open>QueueModel\<close>, \<open>QueueRealtime\<close>, \<open>QueueStream\<close>, \<open>QueueHooks\<close>, \<open>QueueTable\<close>
    (\<open>features/queue/types\<close>, \<open>lib\<close> and \<open>hooks\<close>): queue items and their health, the mapping of events
    to query keys and its debounced invalidator, the polling that stands in for the stream, the
    bounded pool that fetches summaries, publishing a batch, and the table with its filters, order,
    pages and selection.
  \<^item> \<open>QueueScreen\<close>, \<open>QueueScheduling\<close> (\<open>features/queue/components/QueueView.tsx\<close>,
    \<open>QueueSchedulingDialog.tsx\<close>, \<open>lib/schemas.ts\<close>): every handler and effect of the publishing
    screen and the scheduling form with its validation.
  \<^item> \<open>ProductData\<close>, \<open>ProductScreen\<close> (\<open>features/products\<close>, \<open>lib/product-score.ts\<close>): products and
    their normal form, the score bands, the CSV export, and the inventory screen.
  \<^item> \<open>AiDocument\<close>, \<open>AiScores\<close>, \<open>AiSession\<close>, \<open>AiQueue\<close>, \<open>ContentWorkspace\<close> (\<open>features/ai\<close>): the
    marketing text as a document, its scores, the content session with its variants and history,
    what is sent to the queue or exported, and the studio's screen.
  \<^item> \<open>DiscoveryData\<close>, \<open>DiscoveryScreen\<close> (\<open>features/discovery\<close>): search requests and their
    filters, the stored search session, how results are sorted, selected and imported, and the
    screen around them.
  \<^item> \<open>Forms\<close>, \<open>Auth\<close>, \<open>Settings\<close>, \<open>Channels\<close> (\<open>features/auth\<close>, \<open>middleware.ts\<close>,
    \<open>features/settings\<close>, \<open>features/channels\<close>): the life of a validated form (typed, submitted, saved
    or refused) as a locale, and its instances: the login form and the guards of the routes, the
    forms of the workspace settings with the patches they send, and the screen that connects
    channels and pages.

  \<^item> \<open>Widgets\<close>, \<open>QueueControls\<close>, \<open>ProductControls\<close>, \<open>DiscoveryControls\<close>, \<open>StudioControls\<close>,
    \<open>FormControls\<close> (\<open>components/ui\<close>, \<open>components/common\<close>, and the tables, drawers, toolbars, menus,
    bars and small forms of the four screens): what a screen shows of its state, and which actions
    its controls offer; \<open>press_step\<close>, \<open>products_press\<close>, \<open>discovery_press_step\<close>, \<open>studio_press_step\<close>
    and \<open>dialog_step\<close> let a user take only these, so that the guards of the view and the handlers
    are proved together.
  \<^item> \<open>Requests\<close>, \<open>Shell\<close> (\<open>features/*/api\<close>, the queries of \<open>features/*/hooks\<close>,
    \<open>components/layout\<close>, \<open>features/dashboard\<close>): every call with the request it makes and every query
    with its key and what a mutation invalidates, on which the interceptor of \<open>ApiClient\<close> and the
    purge of \<open>Workspace\<close> are compared;
    the navigation, the dashboard and the page of one product.

  \<^bold>\<open>States and operations.\<close>  The state of a component is a record with a field for each piece of
  state the code keeps (\<open>useState\<close>, refs, storage, the query cache as far as it is read), and
  every function, hook or handler is a definition of the same name; names that would clash have a
  prefix or a longer name, which the comment or the manifest explains.  The calls a handler makes
  to the API are appended to a list in the state.  What the server answers is a parameter: a
  function of all calls made before and of the call, or an action of its own where an answer may
  come at any time (\<open>ApiClient\<close>, \<open>SseClient\<close>, the pool of \<open>QueueHooks\<close>, the generation of
  \<open>ContentWorkspace\<close>).  The handlers of a screen run to their end before the next action of that
  screen, so that a user who acts while a handler awaits an answer is not modelled; the effects of
  React run after the action whose render made them due.

  \<^bold>\<open>What is proved.\<close>  Invariants of every state machine under any sequence of actions (tokens and
  cookie, tenant isolation of the cache, requests and refreshes, the invalidator, selections of the
  tables, the content session, the three screens); safety and liveness of the refresh protocol and
  of the reconnecting client; that the byte stream is read the same however it is cut and that
  every event of the server arrives once and in order; round trips (documents, dates of the
  scheduling form, CSV, exported pages, stored sessions, UTF-8); what happens when a loop of calls
  is refused half-way; bounds of delays, intervals and scores; the behaviour of each pure function;
  with the views, what a user can bring about at all: which items the calls to the server name, who
  can change products, that one text is asked for at a time, and when a screen cannot be rendered;
  and, over all calls and queries, that the header, the query keys and the invalidations agree on
  what belongs to a workspace.  Some theorems show behaviour that is hardly meant: deletions that
  cannot be retried, retries that create items twice, a comparison of a variant with itself, a text
  that is queued with the link of another product, an emptied page that hides the inventory, filters
  that are never sent.

  \<^bold>\<open>Bounds.\<close>  Loops are structural recursions or have a measure (the scanning loops of \<open>SseParser\<close>);
  there is no fuel: the runs of \<open>ApiClient\<close>, the pool and the client are indexed by the finite list
  of what the world does, and \<open>api_requests_settle\<close> gives the measure by which pending work ends.

  \<^bold>\<open>Parameters.\<close>  \<open>url_pathname\<close> (the URL constructor), \<open>json_parse\<close> and \<open>json_stringify\<close>,
  \<open>lower_case\<close>, \<open>parse_other\<close> (dates in no standard format), \<open>zod_uuid\<close>, \<open>num_text\<close> (\<open>String\<close> of a
  number), \<open>ar\<close> (\<open>toLocaleString\<close>), \<open>encode\<close> (\<open>encodeURIComponent\<close>), random numbers and UUIDs, and
  the servers.  A theorem that needs a law of one of them states it as a hypothesis, and its
  witness instantiates the parameter.

  \<^bold>\<open>Not modelled.\<close>  The backend (Python) but for the frames of its event stream; React, axios,
  TanStack Query, zod and react-hook-form beyond what the code asks of them; styles, icons and
  fixed headings; the pages of Next.js that only hand on their parameters; the rounding of
  floating-point numbers and the formatting of numbers and dates in a locale.
\<close>

end
